(* ===== verification/Prelude.thy ===== *)
theory Prelude
  imports Main "HOL-Library.Word" "HOL-Library.Signed_Division" "HOL-Library.Sublist"
begin

text \<open>
  The vocabulary every component of the gateway shares: instants and durations at Go's
  widths, UUIDs, the error values, and the functions of the Go packages \<open>strconv\<close>
  and \<open>strings\<close> the sources call. A Go \<open>string\<close> is a list of bytes
  (\<open>char\<close>), so lengths and slices count bytes as the code does. A Go slice is
  \<open>'a list option\<close> where the code tells \<open>nil\<close> from empty, else a list.
\<close>

named_theorems go_defs \<open>definitions of small wrappers, unfolded by the component proofs\<close>

section \<open>Machine integers\<close>

definition int64 :: "int \<Rightarrow> int" where
  "int64 x = signed_take_bit 63 x"

definition int32 :: "int \<Rightarrow> int" where
  "int32 x = signed_take_bit 31 x"

abbreviation min_int64 :: int where "min_int64 \<equiv> - 9223372036854775808"
abbreviation max_int64 :: int where "max_int64 \<equiv> 9223372036854775807"

lemma int64_id: "min_int64 \<le> x \<Longrightarrow> x \<le> max_int64 \<Longrightarrow> int64 x = x"
  unfolding int64_def by (rule signed_take_bit_int_eq_self) simp_all

lemma int64_range: "min_int64 \<le> int64 x \<and> int64 x \<le> max_int64"
  unfolding int64_def
  using signed_take_bit_int_greater_eq_minus_exp [of 63 x] signed_take_bit_int_less_exp [of 63 x]
  by simp

lemma int32_id: "- 2147483648 \<le> x \<Longrightarrow> x < 2147483648 \<Longrightarrow> int32 x = x"
  unfolding int32_def by (rule signed_take_bit_int_eq_self) simp_all

section \<open>Identifiers, instants, durations\<close>

type_synonym uuid = "128 word"

definition uuid_Nil :: uuid where "uuid_Nil = 0"

text \<open>An instant is the number of nanoseconds since the Unix epoch; a
  \<open>time.Duration\<close> is an \<open>int64\<close> of nanoseconds.\<close>

type_synonym time = int
type_synonym duration = int

abbreviation Millisecond :: duration where "Millisecond \<equiv> 1000000"
abbreviation Second :: duration where "Second \<equiv> 1000000000"
abbreviation Minute :: duration where "Minute \<equiv> 60000000000"
abbreviation Hour :: duration where "Hour \<equiv> 3600000000000"

text \<open>The zero \<open>time.Time\<close>: 1 January of year 1.\<close>

definition zero_time :: time where "zero_time = - 62135596800 * Second"

text \<open>\<open>Time.Sub\<close> saturates at the ends of \<open>int64\<close>.\<close>

definition time_Sub :: "time \<Rightarrow> time \<Rightarrow> duration" where
  "time_Sub t u = max min_int64 (min max_int64 (t - u))"

definition time_Add :: "time \<Rightarrow> duration \<Rightarrow> time" where [go_defs]:
  "time_Add t d = t + d"

lemma time_Sub_exact: "min_int64 \<le> t - u \<Longrightarrow> t - u \<le> max_int64 \<Longrightarrow> time_Sub t u = t - u"
  by (simp add: time_Sub_def)

lemma time_Sub_self [simp]: "time_Sub t t = 0"
  by (simp add: time_Sub_def)

lemma time_Sub_nonneg: "u \<le> t \<Longrightarrow> 0 \<le> time_Sub t u"
  by (simp add: time_Sub_def)

lemma time_Sub_le: "u \<le> t \<Longrightarrow> time_Sub t u \<le> t - u"
  by (simp add: time_Sub_def)

lemma time_Sub_range: "min_int64 \<le> time_Sub t u \<and> time_Sub t u \<le> max_int64"
  by (simp add: time_Sub_def)

text \<open>
  The process clock. \<open>time.Now\<close> reads are numbered: the \<open>n\<close>-th read of the run
  returns \<open>now_at n\<close>, an arbitrary function, so two reads in one request may differ.
\<close>

record env =
  now_at :: "nat \<Rightarrow> time"
  ticks :: nat

definition time_Now :: "env \<Rightarrow> time \<times> env" where
  "time_Now e = (now_at e (ticks e), e\<lparr>ticks := Suc (ticks e)\<rparr>)"

lemma time_Now_now_at [simp]: "now_at (snd (time_Now e)) = now_at e"
  by (simp add: time_Now_def)

section \<open>Errors of the database layer\<close>

datatype db_error =
    ErrNoRows                       \<comment> \<open>\<open>sql.ErrNoRows\<close>\<close>
  | UniqueViolation
  | ForeignKeyViolation
  | CheckViolation
  | InvalidText                     \<comment> \<open>text or JSON the server does not accept\<close>
  | ConnError                       \<comment> \<open>the connection failed or the deadline passed\<close>

section \<open>Decimal numerals: \<open>strconv.Itoa\<close> and \<open>strconv.Atoi\<close>\<close>

fun show_nat :: "nat \<Rightarrow> string" where
  "show_nat n = (if n < 10 then [char_of (48 + n)] else show_nat (n div 10) @ [char_of (48 + n mod 10)])"

declare show_nat.simps [simp del]

definition Itoa :: "int \<Rightarrow> string" where
  "Itoa i = (if i < 0 then CHR ''-'' # show_nat (nat (- i)) else show_nat (nat i))"

definition is_digit :: "char \<Rightarrow> bool" where
  "is_digit c \<longleftrightarrow> 48 \<le> (of_char c :: nat) \<and> (of_char c :: nat) \<le> 57"

definition digit_val :: "char \<Rightarrow> nat" where
  "digit_val c = of_char c - 48"

definition digits_val :: "string \<Rightarrow> nat" where
  "digits_val s = foldl (\<lambda>n c. 10 * n + digit_val c) 0 s"

text \<open>\<open>Atoi\<close>: an optional sign, at least one decimal digit, nothing else, and a value
  that fits \<open>int64\<close>; anything else is an error.\<close>

definition parse_digits :: "string \<Rightarrow> int option" where
  "parse_digits s = (if s \<noteq> [] \<and> list_all is_digit s then Some (int (digits_val s)) else None)"

definition in_int64 :: "int \<Rightarrow> int option" where
  "in_int64 i = (if min_int64 \<le> i \<and> i \<le> max_int64 then Some i else None)"

definition Atoi :: "string \<Rightarrow> int option" where
  "Atoi s = (case s of
      [] \<Rightarrow> None
    | c # cs \<Rightarrow>
        if c = CHR ''-'' then Option.bind (parse_digits cs) (\<lambda>i. in_int64 (- i))
        else if c = CHR ''+'' then Option.bind (parse_digits cs) in_int64
        else Option.bind (parse_digits s) in_int64)"

lemma of_char_digit: "(d::nat) < 10 \<Longrightarrow> (of_char (char_of (48 + d) :: char) :: nat) = 48 + d"
  by (simp add: of_char_of)

lemma is_digit_char [simp]: "(d::nat) < 10 \<Longrightarrow> is_digit (char_of (48 + d))"
  by (simp add: is_digit_def of_char_digit)

lemma digit_val_char [simp]: "(d::nat) < 10 \<Longrightarrow> digit_val (char_of (48 + d)) = d"
  by (simp add: digit_val_def of_char_digit)

lemma digits_val_snoc [simp]: "digits_val (s @ [c]) = 10 * digits_val s + digit_val c"
  by (simp add: digits_val_def)

lemma show_nat_nonempty [simp]: "show_nat n \<noteq> []"
  by (subst show_nat.simps) simp

lemma show_nat_digits: "list_all is_digit (show_nat n)"
proof (induction n rule: show_nat.induct)
  case (1 n)
  then show ?case by (subst show_nat.simps) simp
qed

lemma digits_val_show_nat: "digits_val (show_nat n) = n"
proof (induction n rule: show_nat.induct)
  case (1 n)
  show ?case
  proof (cases "n < 10")
    case True
    then show ?thesis by (subst show_nat.simps) (simp add: digits_val_def)
  next
    case False
    with "1" show ?thesis by (subst show_nat.simps) simp
  qed
qed

lemma parse_digits_show_nat [simp]: "parse_digits (show_nat n) = Some (int n)"
  by (simp add: parse_digits_def show_nat_digits digits_val_show_nat)

lemma show_nat_hd: "is_digit (hd (show_nat n))"
  using show_nat_digits [of n] show_nat_nonempty [of n]
  by (cases "show_nat n") simp_all

lemma Atoi_Itoa_in: "in_int64 i = Some i \<Longrightarrow> Atoi (Itoa i) = Some i"
proof (cases "i < 0")
  case True
  assume "in_int64 i = Some i"
  with True show ?thesis by (simp add: Atoi_def Itoa_def)
next
  case False
  assume i: "in_int64 i = Some i"
  obtain c cs where s: "show_nat (nat i) = c # cs"
    using show_nat_nonempty [of "nat i"] by (cases "show_nat (nat i)") auto
  have "is_digit c" using show_nat_hd [of "nat i"] s by simp
  then have "c \<noteq> CHR ''-''" "c \<noteq> CHR ''+''" by (auto simp: is_digit_def)
  moreover have "parse_digits (c # cs) = Some i"
    using parse_digits_show_nat [of "nat i"] False by (simp add: s)
  ultimately show ?thesis using False i by (simp add: Atoi_def Itoa_def s)
qed

section \<open>Byte strings: the functions of \<open>strings\<close> the code uses\<close>

definition CutPrefix :: "string \<Rightarrow> string \<Rightarrow> string \<times> bool" where
  "CutPrefix s p = (if prefix p s then (drop (length p) s, True) else (s, False))"

fun Contains :: "string \<Rightarrow> string \<Rightarrow> bool" where
  "Contains s p = (prefix p s \<or> (case s of [] \<Rightarrow> False | _ # t \<Rightarrow> Contains t p))"

declare Contains.simps [simp del]

lemma Contains_Nil [simp]: "Contains [] p \<longleftrightarrow> p = []"
  by (subst Contains.simps) simp

lemma Contains_Cons [simp]: "Contains (c # s) p \<longleftrightarrow> prefix p (c # s) \<or> Contains s p"
  by (subst Contains.simps) simp

lemma Contains_iff: "Contains s p \<longleftrightarrow> (\<exists>u v. s = u @ p @ v)"
proof (induction s)
  case Nil
  then show ?case by simp
next
  case (Cons c s)
  have "(\<exists>u v. c # s = u @ p @ v) \<longleftrightarrow> prefix p (c # s) \<or> (\<exists>u v. s = u @ p @ v)"
    (is "?l \<longleftrightarrow> ?r")
  proof
    assume ?l
    then obtain u v where "c # s = u @ p @ v" by blast
    then show ?r by (cases u) (auto simp: prefix_def)
  next
    assume ?r
    then show ?l
    proof
      assume "prefix p (c # s)"
      then obtain v where "c # s = [] @ p @ v" by (auto simp: prefix_def)
      then show ?l by blast
    next
      assume "\<exists>u v. s = u @ p @ v"
      then obtain u v where "s = u @ p @ v" by blast
      then have "c # s = (c # u) @ p @ v" by simp
      then show ?l by blast
    qed
  qed
  with Cons show ?case by simp
qed

fun IndexByte :: "string \<Rightarrow> char \<Rightarrow> nat option" where
  "IndexByte [] c = None"
| "IndexByte (x # xs) c = (if x = c then Some 0 else map_option Suc (IndexByte xs c))"

definition HasSuffix :: "string \<Rightarrow> string \<Rightarrow> bool" where
  "HasSuffix s p \<longleftrightarrow> suffix p s"

lemma IndexByte_None: "IndexByte s c = None \<longleftrightarrow> c \<notin> set s"
  by (induction s) auto

lemma IndexByte_Some:
  "IndexByte s c = Some i \<Longrightarrow> i < length s \<and> s ! i = c \<and> c \<notin> set (take i s)"
  by (induction s arbitrary: i) (auto split: if_splits)

text \<open>
  \<open>strings.ToLower\<close> takes a byte-wise path when every byte is ASCII; otherwise it maps
  \<open>unicode.ToLower\<close> over the runes, which needs the Unicode tables. Those tables are the
  parameter \<open>uni\<close>.
\<close>

definition is_ascii :: "string \<Rightarrow> bool" where
  "is_ascii s \<longleftrightarrow> list_all (\<lambda>c. (of_char c :: nat) < 128) s"

definition lower_byte :: "char \<Rightarrow> char" where
  "lower_byte c = (if 65 \<le> (of_char c :: nat) \<and> (of_char c :: nat) \<le> 90 then char_of (of_char c + 32 :: nat) else c)"

definition ToLower :: "(string \<Rightarrow> string) \<Rightarrow> string \<Rightarrow> string" where
  "ToLower uni s = (if is_ascii s then map lower_byte s else uni s)"

text \<open>
  \<open>strings.TrimSpace\<close>: the white space runes of \<open>unicode.IsSpace\<close> in UTF-8.
\<close>

definition space_seqs :: "string list" where
  "space_seqs =
     [[CHR 0x09], [CHR 0x0A], [CHR 0x0B], [CHR 0x0C], [CHR 0x0D], [CHR 0x20],
      [CHR 0xC2, CHR 0x85], [CHR 0xC2, CHR 0xA0], [CHR 0xE1, CHR 0x9A, CHR 0x80],
      [CHR 0xE2, CHR 0x80, CHR 0x80], [CHR 0xE2, CHR 0x80, CHR 0x81], [CHR 0xE2, CHR 0x80, CHR 0x82],
      [CHR 0xE2, CHR 0x80, CHR 0x83], [CHR 0xE2, CHR 0x80, CHR 0x84], [CHR 0xE2, CHR 0x80, CHR 0x85],
      [CHR 0xE2, CHR 0x80, CHR 0x86], [CHR 0xE2, CHR 0x80, CHR 0x87], [CHR 0xE2, CHR 0x80, CHR 0x88],
      [CHR 0xE2, CHR 0x80, CHR 0x89], [CHR 0xE2, CHR 0x80, CHR 0x8A], [CHR 0xE2, CHR 0x80, CHR 0xA8],
      [CHR 0xE2, CHR 0x80, CHR 0xA9], [CHR 0xE2, CHR 0x80, CHR 0xAF], [CHR 0xE2, CHR 0x81, CHR 0x9F],
      [CHR 0xE3, CHR 0x80, CHR 0x80]]"

lemma space_seqs_nonempty: "w \<in> set space_seqs \<Longrightarrow> w \<noteq> []"
  by (auto simp: space_seqs_def)

function trim_left :: "string list \<Rightarrow> string \<Rightarrow> string" where
  "trim_left ws s =
     (case find (\<lambda>w. w \<noteq> [] \<and> prefix w s) ws of
        None \<Rightarrow> s
      | Some w \<Rightarrow> trim_left ws (drop (length w) s))"
  by pat_completeness auto
termination
proof (relation "measure (\<lambda>(ws, s). length s)")
  fix ws s w
  assume "find (\<lambda>w. w \<noteq> [] \<and> prefix w s) ws = Some w"
  then have "w \<noteq> []" "prefix w s" by (auto simp: find_Some_iff)
  then show "((ws, drop (length w) s), (ws, s)) \<in> measure (\<lambda>(ws, s). length s)"
    by (cases w; cases s) auto
qed simp

declare trim_left.simps [simp del]

definition TrimSpace :: "string \<Rightarrow> string" where
  "TrimSpace s = rev (trim_left (map rev space_seqs) (rev (trim_left space_seqs s)))"

end
