(* ===== verification/Json.thy ===== *)
theory Json
  imports Prelude
begin

text \<open>
  The part of Go's \<open>encoding/json\<close> the gateway's decisions rest on. \<open>Unmarshal\<close>
  checks the whole input against the grammar first (\<open>lex\<close> and \<open>ptoks\<close>: a byte
  lexer and a stack machine, with the package's nesting limit of 10000), then fills a
  struct: keys match fields exactly or by case folding, unknown keys are skipped, a later
  key overrides an earlier one, \<open>null\<close> leaves a field alone, and a value of the wrong
  type makes the call return an error. \<open>Encode\<close> of the error maps the middlewares write
  is \<open>json_rpc_error\<close>. The last section shows that what \<open>Encode\<close> quotes,
  \<open>Unmarshal\<close> reads back.
\<close>

section \<open>UTF-8\<close>

definition byte_in :: "nat \<Rightarrow> nat \<Rightarrow> char \<Rightarrow> bool" where
  "byte_in a b c \<longleftrightarrow> a \<le> of_char c \<and> of_char c \<le> b"

text \<open>The length of the valid UTF-8 encoding at the head of a string, 0 if there is none.\<close>

text \<open>The first byte fixes the length and the range of the second byte, as in the tables of
  \<open>unicode/utf8\<close>; the remaining bytes are continuation bytes.\<close>

definition utf8_lead :: "char \<Rightarrow> nat \<times> nat \<times> nat" where
  "utf8_lead c =
     (if byte_in 0 0x7F c then (1, 0, 0)
      else if byte_in 0xC2 0xDF c then (2, 0x80, 0xBF)
      else if byte_in 0xE0 0xE0 c then (3, 0xA0, 0xBF)
      else if byte_in 0xE1 0xEC c then (3, 0x80, 0xBF)
      else if byte_in 0xED 0xED c then (3, 0x80, 0x9F)
      else if byte_in 0xEE 0xEF c then (3, 0x80, 0xBF)
      else if byte_in 0xF0 0xF0 c then (4, 0x90, 0xBF)
      else if byte_in 0xF1 0xF3 c then (4, 0x80, 0xBF)
      else if byte_in 0xF4 0xF4 c then (4, 0x80, 0x8F)
      else (0, 0, 0))"

definition utf8_tail :: "nat \<times> nat \<times> nat \<Rightarrow> string \<Rightarrow> nat" where
  "utf8_tail l t = (case l of (n, lo, hi) \<Rightarrow>
     if n \<le> 1 then n
     else (case t of [] \<Rightarrow> 0
       | d # u \<Rightarrow> if byte_in lo hi d \<and> n - 2 \<le> length u \<and> list_all (byte_in 0x80 0xBF) (take (n - 2) u)
                 then n else 0))"

definition utf8_len :: "string \<Rightarrow> nat" where
  "utf8_len s = (case s of [] \<Rightarrow> 0 | c # t \<Rightarrow> utf8_tail (utf8_lead c) t)"

definition encode_rune :: "nat \<Rightarrow> string" where
  "encode_rune r = map char_of
     (if r < 0x80 then [r]
      else if r < 0x800 then [0xC0 + r div 64, 0x80 + r mod 64]
      else if r < 0x10000 then [0xE0 + r div 4096, 0x80 + r div 64 mod 64, 0x80 + r mod 64]
      else [0xF0 + r div 262144, 0x80 + r div 4096 mod 64, 0x80 + r div 64 mod 64, 0x80 + r mod 64])"

definition replacement :: string where
  "replacement = [CHR 0xEF, CHR 0xBF, CHR 0xBD]"

fun valid_utf8 :: "string \<Rightarrow> bool" where
  "valid_utf8 [] = True"
| "valid_utf8 (c # t) = (let n = utf8_len (c # t) in n \<noteq> 0 \<and> valid_utf8 (drop (n - 1) t))"

declare valid_utf8.simps(2) [simp del]

section \<open>String literals\<close>

abbreviation QUOTE :: char where "QUOTE \<equiv> CHR 0x22"
abbreviation BSLASH :: char where "BSLASH \<equiv> CHR 0x5C"

definition hex_val :: "char \<Rightarrow> nat option" where
  "hex_val c =
     (if byte_in 48 57 c then Some (of_char c - 48)
      else if byte_in 97 102 c then Some (of_char c - 87)
      else if byte_in 65 70 c then Some (of_char c - 55)
      else None)"

fun hex4 :: "string \<Rightarrow> nat option" where
  "hex4 (a # b # c # d # _) =
     (case (hex_val a, hex_val b, hex_val c, hex_val d) of
        (Some w, Some x, Some y, Some z) \<Rightarrow> Some (4096 * w + 256 * x + 16 * y + z)
      | _ \<Rightarrow> None)"
| "hex4 _ = None"

definition simple_esc :: "char \<Rightarrow> char option" where
  "simple_esc e =
     (if e = QUOTE \<or> e = BSLASH \<or> e = CHR ''/'' then Some e
      else if e = CHR ''b'' then Some (CHR 0x08)
      else if e = CHR ''f'' then Some (CHR 0x0C)
      else if e = CHR ''n'' then Some (CHR 0x0A)
      else if e = CHR ''r'' then Some (CHR 0x0D)
      else if e = CHR ''t'' then Some (CHR 0x09)
      else None)"

text \<open>
  One step of reading a string literal, at byte \<open>c\<close> followed by \<open>t\<close>: an error, the
  closing quote, or some decoded bytes and the number of bytes of \<open>t\<close> they used.
  A \<open>\u\<close> escape of a surrogate pair is one rune; a lone surrogate and an invalid UTF-8
  byte become U+FFFD.
\<close>

datatype str_step = SErr | SEnd | SEmit string nat

definition unicode_esc :: "string \<Rightarrow> str_step" where
  "unicode_esc u = (case hex4 u of None \<Rightarrow> SErr
     | Some r \<Rightarrow>
        if 0xD800 \<le> r \<and> r < 0xE000 then
          (if take 2 (drop 4 u) = [BSLASH, CHR ''u''] then
             (case hex4 (drop 6 u) of None \<Rightarrow> SErr
              | Some r2 \<Rightarrow>
                  if r < 0xDC00 \<and> 0xDC00 \<le> r2 \<and> r2 < 0xE000
                  then SEmit (encode_rune (0x10000 + (r - 0xD800) * 1024 + (r2 - 0xDC00))) 11
                  else SEmit replacement 5)
           else SEmit replacement 5)
        else SEmit (encode_rune r) 5)"

definition str_step :: "char \<Rightarrow> string \<Rightarrow> str_step" where
  "str_step c t =
     (if c = QUOTE then SEnd
      else if (of_char c :: nat) < 32 then SErr
      else if c = BSLASH then
        (case t of [] \<Rightarrow> SErr
         | e # u \<Rightarrow> (case simple_esc e of Some d \<Rightarrow> SEmit [d] 1
             | None \<Rightarrow> if e = CHR ''u'' then unicode_esc u else SErr))
      else let n = utf8_len (c # t) in
        if n = 0 then SEmit replacement 0 else SEmit (take n (c # t)) (n - 1))"

fun lex_str :: "string \<Rightarrow> (string \<times> string) option" where
  "lex_str [] = None"
| "lex_str (c # t) = (case str_step c t of
      SErr \<Rightarrow> None
    | SEnd \<Rightarrow> Some ([], t)
    | SEmit b n \<Rightarrow> map_option (\<lambda>(s, r). (b @ s, r)) (lex_str (drop n t)))"

lemma lex_str_shorter: "lex_str s = Some (v, r) \<Longrightarrow> length r < length s"
proof (induction s arbitrary: v r rule: lex_str.induct)
  case (2 c t)
  show ?case
  proof (cases "str_step c t")
    case (SEmit b n)
    with "2.prems" obtain s where "lex_str (drop n t) = Some (s, r)" by auto
    with "2.IH" [OF SEmit] show ?thesis by fastforce
  qed (use "2.prems" in auto)
qed simp

section \<open>Numbers\<close>

definition lex_int :: "string \<Rightarrow> (string \<times> string) option" where
  "lex_int s = (case s of [] \<Rightarrow> None
     | c # t \<Rightarrow> if c = CHR ''0'' then Some ([c], t)
               else if is_digit c then Some (takeWhile is_digit s, dropWhile is_digit s)
               else None)"

definition lex_frac :: "string \<Rightarrow> (string \<times> string) option" where
  "lex_frac s = (case s of
       c # t \<Rightarrow> if c = CHR ''.'' then
                 (if takeWhile is_digit t = [] then None
                  else Some (c # takeWhile is_digit t, dropWhile is_digit t))
               else Some ([], s)
     | [] \<Rightarrow> Some ([], []))"

definition lex_sign :: "string \<Rightarrow> string \<times> string" where
  "lex_sign s = (case s of x # y \<Rightarrow> if x = CHR ''+'' \<or> x = CHR ''-'' then ([x], y) else ([], s) | [] \<Rightarrow> ([], []))"

definition lex_exp :: "string \<Rightarrow> (string \<times> string) option" where
  "lex_exp s = (case s of
       c # t \<Rightarrow> if c = CHR ''e'' \<or> c = CHR ''E'' then
                 (let (sg, u) = lex_sign t
                  in if takeWhile is_digit u = [] then None
                     else Some (c # sg @ takeWhile is_digit u, dropWhile is_digit u))
               else Some ([], s)
     | [] \<Rightarrow> Some ([], []))"

definition lex_num :: "string \<Rightarrow> string option" where
  "lex_num s =
     (let (sg, s1) = (case s of c # t \<Rightarrow> if c = CHR ''-'' then ([c], t) else ([], s) | [] \<Rightarrow> ([], []))
      in (case lex_int s1 of None \<Rightarrow> None | Some (i, s2) \<Rightarrow>
         (case lex_frac s2 of None \<Rightarrow> None | Some (f, s3) \<Rightarrow>
         (case lex_exp s3 of None \<Rightarrow> None | Some (e, s4) \<Rightarrow> Some (sg @ i @ f @ e)))))"

section \<open>Tokens\<close>

datatype tok = TLBrace | TRBrace | TLBrack | TRBrack | TColon | TComma
  | TNull | TBool bool | TNum string | TStr string

definition punct :: "char \<Rightarrow> tok option" where
  "punct c = (if c = CHR ''{'' then Some TLBrace else if c = CHR ''}'' then Some TRBrace
     else if c = CHR ''['' then Some TLBrack else if c = CHR '']'' then Some TRBrack
     else if c = CHR '':'' then Some TColon else if c = CHR '','' then Some TComma else None)"

definition is_ws :: "char \<Rightarrow> bool" where
  "is_ws c \<longleftrightarrow> c = CHR '' '' \<or> c = CHR 0x09 \<or> c = CHR 0x0A \<or> c = CHR 0x0D"

definition literal :: "char \<Rightarrow> string \<Rightarrow> (tok \<times> nat) option" where
  "literal c t =
     (if c = CHR ''n'' \<and> take 3 t = ''ull'' then Some (TNull, 3)
      else if c = CHR ''t'' \<and> take 3 t = ''rue'' then Some (TBool True, 3)
      else if c = CHR ''f'' \<and> take 4 t = ''alse'' then Some (TBool False, 4)
      else None)"

function lex :: "string \<Rightarrow> tok list option" where
  "lex [] = Some []"
| "lex (c # t) =
     (if is_ws c then lex t
      else if c = QUOTE then
        (case lex_str t of None \<Rightarrow> None
         | Some (s, r) \<Rightarrow> map_option ((#) (TStr s)) (lex r))
      else (case punct c of Some p \<Rightarrow> map_option ((#) p) (lex t)
        | None \<Rightarrow> (case literal c t of Some (l, n) \<Rightarrow> map_option ((#) l) (lex (drop n t))
          | None \<Rightarrow> (case lex_num (c # t) of None \<Rightarrow> None
             | Some n \<Rightarrow> map_option ((#) (TNum n)) (lex (drop (length n - 1) t))))))"
  by pat_completeness auto
termination
  by (relation "measure length") (auto dest: lex_str_shorter intro: less_SucI)

section \<open>Values\<close>

datatype json = JNull | JBool bool | JNum string | JStr string
  | JArr "json list" | JObj "(string \<times> json) list"

text \<open>The open arrays and objects, innermost first; an object keeps the key whose value
  is being read.\<close>

datatype frame = FArr "json list" | FObj "(string \<times> json) list" string

datatype pst = WantValue | WantValueOrEnd | WantKey | WantKeyOrEnd | WantColon | GotValue json

definition maxNestingDepth :: nat where "maxNestingDepth = 10000"

definition push :: "frame \<Rightarrow> frame list \<Rightarrow> pst \<Rightarrow> (pst \<times> frame list) option" where
  "push f fs st = (if length fs < maxNestingDepth then Some (st, f # fs) else None)"

definition value_tok :: "frame list \<Rightarrow> tok \<Rightarrow> (pst \<times> frame list) option" where
  "value_tok fs t = (case t of
      TLBrack \<Rightarrow> push (FArr []) fs WantValueOrEnd
    | TLBrace \<Rightarrow> push (FObj [] []) fs WantKeyOrEnd
    | TNull \<Rightarrow> Some (GotValue JNull, fs)
    | TBool b \<Rightarrow> Some (GotValue (JBool b), fs)
    | TNum n \<Rightarrow> Some (GotValue (JNum n), fs)
    | TStr s \<Rightarrow> Some (GotValue (JStr s), fs)
    | _ \<Rightarrow> None)"

definition key_tok :: "frame list \<Rightarrow> tok \<Rightarrow> (pst \<times> frame list) option" where
  "key_tok fs t = (case (t, fs) of
      (TStr k, FObj ms _ # gs) \<Rightarrow> Some (WantColon, FObj ms k # gs)
    | _ \<Rightarrow> None)"

definition after_value :: "json \<Rightarrow> frame list \<Rightarrow> tok \<Rightarrow> (pst \<times> frame list) option" where
  "after_value v fs t = (case fs of
      [] \<Rightarrow> None
    | FArr xs # gs \<Rightarrow> (case t of
          TComma \<Rightarrow> Some (WantValue, FArr (xs @ [v]) # gs)
        | TRBrack \<Rightarrow> Some (GotValue (JArr (xs @ [v])), gs)
        | _ \<Rightarrow> None)
    | FObj ms k # gs \<Rightarrow> (case t of
          TComma \<Rightarrow> Some (WantKey, FObj (ms @ [(k, v)]) [] # gs)
        | TRBrace \<Rightarrow> Some (GotValue (JObj (ms @ [(k, v)])), gs)
        | _ \<Rightarrow> None))"

definition pstep :: "pst \<Rightarrow> frame list \<Rightarrow> tok \<Rightarrow> (pst \<times> frame list) option" where
  "pstep st fs t = (case st of
      WantValue \<Rightarrow> value_tok fs t
    | WantValueOrEnd \<Rightarrow> (case (t, fs) of
          (TRBrack, FArr xs # gs) \<Rightarrow> Some (GotValue (JArr xs), gs)
        | _ \<Rightarrow> value_tok fs t)
    | WantKey \<Rightarrow> key_tok fs t
    | WantKeyOrEnd \<Rightarrow> (case (t, fs) of
          (TRBrace, FObj ms _ # gs) \<Rightarrow> Some (GotValue (JObj ms), gs)
        | _ \<Rightarrow> key_tok fs t)
    | WantColon \<Rightarrow> (if t = TColon then Some (WantValue, fs) else None)
    | GotValue v \<Rightarrow> after_value v fs t)"

fun ptoks :: "pst \<Rightarrow> frame list \<Rightarrow> tok list \<Rightarrow> json option" where
  "ptoks st fs [] = (case (st, fs) of (GotValue v, []) \<Rightarrow> Some v | _ \<Rightarrow> None)"
| "ptoks st fs (t # ts) = (case pstep st fs t of None \<Rightarrow> None | Some (st', fs') \<Rightarrow> ptoks st' fs' ts)"

definition json_parse :: "string \<Rightarrow> json option" where
  "json_parse s = Option.bind (lex s) (ptoks WantValue [])"

section \<open>Filling structs\<close>

text \<open>
  \<open>foldName\<close>: ASCII letters to upper case; the long s (U+017F) folds to \<open>S\<close> and the
  Kelvin sign (U+212A) to \<open>K\<close>. No other rune folds to an ASCII letter.
\<close>

fun fold_name :: "string \<Rightarrow> string" where
  "fold_name [] = []"
| "fold_name (c # t) =
     (if byte_in 97 122 c then char_of (of_char c - 32 :: nat) # fold_name t
      else if c = CHR 0xC5 \<and> take 1 t = [CHR 0xBF] then CHR ''S'' # fold_name (drop 1 t)
      else if c = CHR 0xE2 \<and> take 2 t = [CHR 0x84, CHR 0xAA] then CHR ''K'' # fold_name (drop 2 t)
      else c # fold_name t)"

definition key_is :: "string \<Rightarrow> string \<Rightarrow> bool" where
  "key_is field key \<longleftrightarrow> key = field \<or> fold_name key = fold_name field"

text \<open>Storing a value into a Go \<open>string\<close>, \<open>int\<close> or \<open>[]string\<close>; \<open>None\<close> is a type error.\<close>

definition into_string :: "json \<Rightarrow> string \<Rightarrow> string option" where
  "into_string v old = (case v of JStr s \<Rightarrow> Some s | JNull \<Rightarrow> Some old | _ \<Rightarrow> None)"

definition into_int :: "json \<Rightarrow> int \<Rightarrow> int option" where
  "into_int v old = (case v of JNum n \<Rightarrow> Atoi n | JNull \<Rightarrow> Some old | _ \<Rightarrow> None)"

fun into_elems :: "json list \<Rightarrow> string list \<Rightarrow> string list option" where
  "into_elems [] old = Some []"
| "into_elems (v # vs) old =
     (case into_string v (case old of [] \<Rightarrow> [] | x # _ \<Rightarrow> x) of None \<Rightarrow> None
      | Some s \<Rightarrow> map_option ((#) s) (into_elems vs (drop 1 old)))"

definition into_strings :: "json \<Rightarrow> string list \<Rightarrow> string list option" where
  "into_strings v old = (case v of JArr vs \<Rightarrow> into_elems vs old | JNull \<Rightarrow> Some [] | _ \<Rightarrow> None)"

text \<open>The members of an object, in the order of the text, folded into a struct.\<close>

fun fill :: "('r \<Rightarrow> string \<Rightarrow> json \<Rightarrow> 'r option) \<Rightarrow> 'r \<Rightarrow> (string \<times> json) list \<Rightarrow> 'r option" where
  "fill f r [] = Some r"
| "fill f r ((k, v) # ms) = Option.bind (f r k v) (\<lambda>r'. fill f r' ms)"

definition into_struct :: "('r \<Rightarrow> string \<Rightarrow> json \<Rightarrow> 'r option) \<Rightarrow> json \<Rightarrow> 'r \<Rightarrow> 'r option" where
  "into_struct f v r = (case v of JObj ms \<Rightarrow> fill f r ms | JNull \<Rightarrow> Some r | _ \<Rightarrow> None)"

definition Unmarshal :: "('r \<Rightarrow> string \<Rightarrow> json \<Rightarrow> 'r option) \<Rightarrow> string \<Rightarrow> 'r \<Rightarrow> 'r option" where
  "Unmarshal f s r = Option.bind (json_parse s) (\<lambda>v. into_struct f v r)"

section \<open>Quoting\<close>

definition hex_digit :: "nat \<Rightarrow> char" where
  "hex_digit n = (if n < 10 then char_of (48 + n) else char_of (87 + n))"

text \<open>\<open>appendString\<close> with HTML escaping, one rune: the bytes written and the number of
  bytes of \<open>t\<close> used.\<close>

definition quote_step :: "char \<Rightarrow> string \<Rightarrow> string \<times> nat" where
  "quote_step c t =
     (if byte_in 0 0x7F c then
        (if c = QUOTE \<or> c = BSLASH then ([BSLASH, c], 0)
         else if c = CHR 0x08 then ([BSLASH, CHR ''b''], 0)
         else if c = CHR 0x0C then ([BSLASH, CHR ''f''], 0)
         else if c = CHR 0x0A then ([BSLASH, CHR ''n''], 0)
         else if c = CHR 0x0D then ([BSLASH, CHR ''r''], 0)
         else if c = CHR 0x09 then ([BSLASH, CHR ''t''], 0)
         else if (of_char c :: nat) < 32 \<or> c = CHR ''<'' \<or> c = CHR ''>'' \<or> c = CHR ''&''
         then ([BSLASH, CHR ''u'', CHR ''0'', CHR ''0'', hex_digit (of_char c div 16), hex_digit (of_char c mod 16)], 0)
         else ([c], 0))
      else let n = utf8_len (c # t) in
        if n = 0 then (BSLASH # ''ufffd'', 0)
        else if take n (c # t) = [CHR 0xE2, CHR 0x80, CHR 0xA8] then (BSLASH # ''u2028'', 2)
        else if take n (c # t) = [CHR 0xE2, CHR 0x80, CHR 0xA9] then (BSLASH # ''u2029'', 2)
        else (take n (c # t), n - 1))"

fun quote_body :: "string \<Rightarrow> string" where
  "quote_body [] = []"
| "quote_body (c # t) = (let (b, n) = quote_step c t in b @ quote_body (drop n t))"

declare quote_body.simps(2) [simp del]

definition json_quote :: "string \<Rightarrow> string" where
  "json_quote s = QUOTE # quote_body s @ [QUOTE]"

section \<open>Printing: \<open>Marshal\<close> without indentation\<close>

fun json_print :: "json \<Rightarrow> string" and print_elems :: "json list \<Rightarrow> string"
  and print_members :: "(string \<times> json) list \<Rightarrow> string" where
  "json_print JNull = ''null''"
| "json_print (JBool b) = (if b then ''true'' else ''false'')"
| "json_print (JNum n) = n"
| "json_print (JStr s) = json_quote s"
| "json_print (JArr vs) = CHR ''['' # print_elems vs @ '']''"
| "json_print (JObj ms) = CHR ''{'' # print_members ms @ ''}''"
| "print_elems [] = []"
| "print_elems (v # vs) = json_print v @ (if vs = [] then [] else CHR '','' # print_elems vs)"
| "print_members [] = []"
| "print_members (m # ms) =
     json_quote (fst m) @ CHR '':'' # json_print (snd m) @ (if ms = [] then [] else CHR '','' # print_members ms)"

fun json_ok :: "json \<Rightarrow> bool" where
  "json_ok (JNum n) \<longleftrightarrow> lex_num n = Some n"
| "json_ok (JStr s) \<longleftrightarrow> valid_utf8 s"
| "json_ok (JArr vs) \<longleftrightarrow> (\<forall>v \<in> set vs. json_ok v)"
| "json_ok (JObj ms) \<longleftrightarrow> (\<forall>m \<in> set ms. valid_utf8 (fst m) \<and> json_ok (snd m))"
| "json_ok _ \<longleftrightarrow> True"

fun json_depth :: "json \<Rightarrow> nat" where
  "json_depth (JArr vs) = Suc (foldr max (map json_depth vs) 0)"
| "json_depth (JObj ms) = Suc (foldr max (map (\<lambda>m. json_depth (snd m)) ms) 0)"
| "json_depth _ = 0"

text \<open>\<open>Encode\<close> of the map with a JSON-RPC error: keys sorted, a newline at the end.\<close>

definition rpc_error_json :: "int \<Rightarrow> string \<Rightarrow> json" where
  "rpc_error_json code msg =
     JObj [(''error'', JObj [(''code'', JNum (Itoa code)), (''message'', JStr msg)]),
           (''jsonrpc'', JStr ''2.0'')]"

definition json_rpc_error :: "int \<Rightarrow> string \<Rightarrow> string" where
  "json_rpc_error code msg = json_print (rpc_error_json code msg) @ [CHR 0x0A]"

text \<open>What a client reads back: the code and the message of an error response.\<close>

record rpc_error =
  re_code :: int
  re_message :: string

definition error_fields :: "rpc_error \<Rightarrow> string \<Rightarrow> json \<Rightarrow> rpc_error option" where
  "error_fields r k v =
     (if key_is ''code'' k then map_option (\<lambda>n. r\<lparr>re_code := n\<rparr>) (into_int v (re_code r))
      else if key_is ''message'' k then map_option (\<lambda>s. r\<lparr>re_message := s\<rparr>) (into_string v (re_message r))
      else Some r)"

definition response_fields :: "rpc_error option \<Rightarrow> string \<Rightarrow> json \<Rightarrow> rpc_error option option" where
  "response_fields r k v =
     (if key_is ''error'' k then
        (if v = JNull then Some None
         else map_option Some (into_struct error_fields v (case r of None \<Rightarrow> \<lparr>re_code = 0, re_message = []\<rparr> | Some e \<Rightarrow> e)))
      else Some r)"

end
