(* ===== verification/Store.thy ===== *)
theory Store
  imports Json
begin

text \<open>
  The database the gateway, the dashboard and the key generator share: the tables of
  \<open>migrations/*.sql\<close> as lists of rows in insertion order, and one definition per query of
  \<open>internal/store/queries.sql.go\<close>. A statement returns its result (an error or the rows
  of its \<open>RETURNING\<close> or \<open>SELECT\<close> clause) and the new database; a failing statement
  leaves the database as it was. What the server chooses is an argument: the row's UUID
  (\<open>gen_random_uuid()\<close>) and the instant of \<open>NOW()\<close>. A statement whose connection
  fails is modelled by \<open>with_conn\<close>. Text must be valid UTF-8 without NUL, as PostgreSQL
  requires of a UTF-8 database; JSONB input goes through the parameter \<open>jsonb\<close>, the
  server's normalisation, \<open>None\<close> when it rejects the text. Rows that compare equal under
  an \<open>ORDER BY\<close> keep insertion order here (SQL leaves it open), and days start at UTC
  midnight (the session's time zone).
\<close>

section \<open>Rows\<close>

record ApiKey =
  ak_ID :: uuid
  ak_Name :: string
  ak_KeyHash :: string
  ak_KeyPrefix :: string
  ak_ExpiresAt :: "time option"
  ak_Active :: bool
  ak_CreatedAt :: time
  ak_UpdatedAt :: time

record ApiKeyRole =
  akr_ApiKeyID :: uuid
  akr_RoleID :: uuid
  akr_AssignedAt :: time

record AuditLog =
  al_ID :: uuid
  al_ApiKeyID :: uuid
  al_Action :: string
  al_Resource :: string
  al_StatusCode :: int
  al_LatencyMs :: int
  al_Ip :: string
  al_CreatedAt :: time
  al_RequestBody :: string
  al_ResponseBody :: string
  al_ToolName :: string

record Permission =
  pm_ID :: uuid
  pm_RoleID :: uuid
  pm_Resource :: string
  pm_Action :: string

record Policy =
  po_ID :: uuid
  po_Name :: string
  po_PolicyType :: string
  po_Enabled :: bool
  po_Config :: string
  po_CreatedAt :: time
  po_UpdatedAt :: time

record RateLimit =
  rl_ID :: uuid
  rl_ApiKeyID :: uuid
  rl_RequestsPerMin :: int
  rl_RequestsPerHour :: int
  rl_RequestsPerDay :: int
  rl_BurstSize :: int

record Role =
  ro_ID :: uuid
  ro_Name :: string
  ro_Description :: string
  ro_CreatedAt :: time

record database =
  api_keys :: "ApiKey list"
  roles :: "Role list"
  permissions :: "Permission list"
  api_key_roles :: "ApiKeyRole list"
  rate_limits :: "RateLimit list"
  audit_logs :: "AuditLog list"
  policies :: "Policy list"

definition empty_db :: database where
  "empty_db = \<lparr>api_keys = [], roles = [], permissions = [], api_key_roles = [], rate_limits = [],
     audit_logs = [], policies = []\<rparr>"

type_synonym 'a stmt_result = "(db_error + 'a) \<times> database"

text \<open>PostgreSQL text: valid in the server's encoding and without a NUL byte.\<close>

definition text_ok :: "string \<Rightarrow> bool" where
  "text_ok s \<longleftrightarrow> valid_utf8 s \<and> CHR 0x00 \<notin> set s"

definition with_conn :: "bool \<Rightarrow> (database \<Rightarrow> 'a stmt_result) \<Rightarrow> database \<Rightarrow> 'a stmt_result" where
  "with_conn up q db = (if up then q db else (Inl ConnError, db))"

section \<open>API keys\<close>

record CreateAPIKeyParams =
  cak_Name :: string
  cak_KeyHash :: string
  cak_KeyPrefix :: string
  cak_ExpiresAt :: "time option"

definition CreateAPIKey :: "uuid \<Rightarrow> time \<Rightarrow> CreateAPIKeyParams \<Rightarrow> database \<Rightarrow> ApiKey stmt_result" where
  "CreateAPIKey gen now arg db =
     (if \<not> (text_ok (cak_Name arg) \<and> text_ok (cak_KeyHash arg) \<and> text_ok (cak_KeyPrefix arg)) then (Inl InvalidText, db)
      else if gen \<in> ak_ID ` set (api_keys db) \<or> cak_KeyHash arg \<in> ak_KeyHash ` set (api_keys db)
      then (Inl UniqueViolation, db)
      else let row = \<lparr>ak_ID = gen, ak_Name = cak_Name arg, ak_KeyHash = cak_KeyHash arg,
             ak_KeyPrefix = cak_KeyPrefix arg, ak_ExpiresAt = cak_ExpiresAt arg, ak_Active = True,
             ak_CreatedAt = now, ak_UpdatedAt = now\<rparr>
           in (Inr row, db\<lparr>api_keys := api_keys db @ [row]\<rparr>))"

definition GetAPIKeyByHash :: "string \<Rightarrow> database \<Rightarrow> db_error + ApiKey" where
  "GetAPIKeyByHash h db =
     (if \<not> text_ok h then Inl InvalidText
      else case find (\<lambda>k. ak_KeyHash k = h) (api_keys db) of None \<Rightarrow> Inl ErrNoRows | Some k \<Rightarrow> Inr k)"

definition RevokeAPIKey :: "time \<Rightarrow> uuid \<Rightarrow> database \<Rightarrow> unit stmt_result" where
  "RevokeAPIKey now i db = (Inr (), db\<lparr>api_keys :=
     map (\<lambda>k. if ak_ID k = i then k\<lparr>ak_Active := False, ak_UpdatedAt := now\<rparr> else k) (api_keys db)\<rparr>)"

text \<open>\<open>audit_logs.api_key_id\<close> references \<open>api_keys\<close> without a cascade; the role
  assignments and the rate limit of the key go with it.\<close>

definition DeleteAPIKey :: "uuid \<Rightarrow> database \<Rightarrow> unit stmt_result" where
  "DeleteAPIKey i db =
     (if i \<in> ak_ID ` set (api_keys db) \<and> i \<in> al_ApiKeyID ` set (audit_logs db)
      then (Inl ForeignKeyViolation, db)
      else (Inr (), db\<lparr>api_keys := filter (\<lambda>k. ak_ID k \<noteq> i) (api_keys db),
              api_key_roles := filter (\<lambda>r. akr_ApiKeyID r \<noteq> i) (api_key_roles db),
              rate_limits := filter (\<lambda>r. rl_ApiKeyID r \<noteq> i) (rate_limits db)\<rparr>))"

text \<open>\<open>ListAPIKeysRow\<close> leaves the hash out.\<close>

record ListAPIKeysRow =
  lk_ID :: uuid
  lk_Name :: string
  lk_KeyPrefix :: string
  lk_ExpiresAt :: "time option"
  lk_Active :: bool
  lk_CreatedAt :: time
  lk_UpdatedAt :: time

definition ListAPIKeys :: "database \<Rightarrow> ListAPIKeysRow list" where
  "ListAPIKeys db = map (\<lambda>k. \<lparr>lk_ID = ak_ID k, lk_Name = ak_Name k, lk_KeyPrefix = ak_KeyPrefix k,
      lk_ExpiresAt = ak_ExpiresAt k, lk_Active = ak_Active k, lk_CreatedAt = ak_CreatedAt k,
      lk_UpdatedAt = ak_UpdatedAt k\<rparr>)
    (sort_key (\<lambda>k. - ak_CreatedAt k) (api_keys db))"

definition CountActiveKeys :: "database \<Rightarrow> int" where
  "CountActiveKeys db = int (length (filter ak_Active (api_keys db)))"

section \<open>Roles and permissions\<close>

record CreateRoleParams =
  cr_Name :: string
  cr_Description :: string

definition CreateRole :: "uuid \<Rightarrow> time \<Rightarrow> CreateRoleParams \<Rightarrow> database \<Rightarrow> Role stmt_result" where
  "CreateRole gen now arg db =
     (if \<not> (text_ok (cr_Name arg) \<and> text_ok (cr_Description arg)) then (Inl InvalidText, db)
      else if gen \<in> ro_ID ` set (roles db) \<or> cr_Name arg \<in> ro_Name ` set (roles db)
      then (Inl UniqueViolation, db)
      else let row = \<lparr>ro_ID = gen, ro_Name = cr_Name arg, ro_Description = cr_Description arg, ro_CreatedAt = now\<rparr>
           in (Inr row, db\<lparr>roles := roles db @ [row]\<rparr>))"

definition DeleteRole :: "uuid \<Rightarrow> database \<Rightarrow> unit stmt_result" where
  "DeleteRole i db = (Inr (), db\<lparr>roles := filter (\<lambda>r. ro_ID r \<noteq> i) (roles db),
     permissions := filter (\<lambda>p. pm_RoleID p \<noteq> i) (permissions db),
     api_key_roles := filter (\<lambda>r. akr_RoleID r \<noteq> i) (api_key_roles db)\<rparr>)"

definition GetRoleByName :: "string \<Rightarrow> database \<Rightarrow> db_error + Role" where
  "GetRoleByName n db =
     (if \<not> text_ok n then Inl InvalidText
      else case find (\<lambda>r. ro_Name r = n) (roles db) of None \<Rightarrow> Inl ErrNoRows | Some r \<Rightarrow> Inr r)"

definition ListRoles :: "database \<Rightarrow> Role list" where
  "ListRoles db = sort_key ro_CreatedAt (roles db)"

record AddPermissionParams =
  ap_RoleID :: uuid
  ap_Resource :: string
  ap_Action :: string

definition AddPermission :: "uuid \<Rightarrow> AddPermissionParams \<Rightarrow> database \<Rightarrow> Permission stmt_result" where
  "AddPermission gen arg db =
     (if \<not> (text_ok (ap_Resource arg) \<and> text_ok (ap_Action arg)) then (Inl InvalidText, db)
      else if gen \<in> pm_ID ` set (permissions db) \<or>
        (ap_RoleID arg, ap_Resource arg, ap_Action arg) \<in> (\<lambda>p. (pm_RoleID p, pm_Resource p, pm_Action p)) ` set (permissions db)
      then (Inl UniqueViolation, db)
      else if ap_RoleID arg \<notin> ro_ID ` set (roles db) then (Inl ForeignKeyViolation, db)
      else let row = \<lparr>pm_ID = gen, pm_RoleID = ap_RoleID arg, pm_Resource = ap_Resource arg, pm_Action = ap_Action arg\<rparr>
           in (Inr row, db\<lparr>permissions := permissions db @ [row]\<rparr>))"

definition DeletePermission :: "uuid \<Rightarrow> database \<Rightarrow> unit stmt_result" where
  "DeletePermission i db = (Inr (), db\<lparr>permissions := filter (\<lambda>p. pm_ID p \<noteq> i) (permissions db)\<rparr>)"

definition ListPermissionsByRole :: "uuid \<Rightarrow> database \<Rightarrow> Permission list" where
  "ListPermissionsByRole i db = filter (\<lambda>p. pm_RoleID p = i) (permissions db)"

record AssignRoleToKeyParams =
  ar_ApiKeyID :: uuid
  ar_RoleID :: uuid

definition AssignRoleToKey :: "time \<Rightarrow> AssignRoleToKeyParams \<Rightarrow> database \<Rightarrow> unit stmt_result" where
  "AssignRoleToKey now arg db =
     (if (ar_ApiKeyID arg, ar_RoleID arg) \<in> (\<lambda>r. (akr_ApiKeyID r, akr_RoleID r)) ` set (api_key_roles db)
      then (Inr (), db)
      else if ar_ApiKeyID arg \<notin> ak_ID ` set (api_keys db) \<or> ar_RoleID arg \<notin> ro_ID ` set (roles db)
      then (Inl ForeignKeyViolation, db)
      else (Inr (), db\<lparr>api_key_roles := api_key_roles db @
              [\<lparr>akr_ApiKeyID = ar_ApiKeyID arg, akr_RoleID = ar_RoleID arg, akr_AssignedAt = now\<rparr>]\<rparr>))"

definition RemoveRoleFromKey :: "AssignRoleToKeyParams \<Rightarrow> database \<Rightarrow> unit stmt_result" where
  "RemoveRoleFromKey arg db = (Inr (), db\<lparr>api_key_roles :=
     filter (\<lambda>r. \<not> (akr_ApiKeyID r = ar_ApiKeyID arg \<and> akr_RoleID r = ar_RoleID arg)) (api_key_roles db)\<rparr>)"

definition ListRolesForKey :: "uuid \<Rightarrow> database \<Rightarrow> Role list" where
  "ListRolesForKey i db =
     [r. r \<leftarrow> roles db, a \<leftarrow> api_key_roles db, akr_RoleID a = ro_ID r \<and> akr_ApiKeyID a = i]"

record PermissionRow =
  pr_Resource :: string
  pr_Action :: string

text \<open>The generated Go declares \<open>var items []Row\<close> and appends, so no rows is the nil slice.\<close>

definition scan_rows :: "'a list \<Rightarrow> 'a list option" where
  "scan_rows rows = (if rows = [] then None else Some rows)"

definition GetPermissionsByKeyID :: "uuid \<Rightarrow> database \<Rightarrow> PermissionRow list option" where
  "GetPermissionsByKeyID i db = scan_rows
     [\<lparr>pr_Resource = pm_Resource p, pr_Action = pm_Action p\<rparr>.
        p \<leftarrow> permissions db, a \<leftarrow> api_key_roles db, akr_RoleID a = pm_RoleID p \<and> akr_ApiKeyID a = i]"

section \<open>Rate limits\<close>

record RateLimitRow =
  rr_ID :: uuid
  rr_ApiKeyID :: uuid
  rr_RequestsPerMin :: int
  rr_BurstSize :: int

definition rate_limit_row :: "RateLimit \<Rightarrow> RateLimitRow" where
  "rate_limit_row r = \<lparr>rr_ID = rl_ID r, rr_ApiKeyID = rl_ApiKeyID r,
     rr_RequestsPerMin = rl_RequestsPerMin r, rr_BurstSize = rl_BurstSize r\<rparr>"

definition GetRateLimitByKeyID :: "uuid \<Rightarrow> database \<Rightarrow> db_error + RateLimitRow" where
  "GetRateLimitByKeyID i db = (case find (\<lambda>r. rl_ApiKeyID r = i) (rate_limits db) of
     None \<Rightarrow> Inl ErrNoRows | Some r \<Rightarrow> Inr (rate_limit_row r))"

record UpsertRateLimitParams =
  ur_ApiKeyID :: uuid
  ur_RequestsPerMin :: int
  ur_BurstSize :: int

definition UpsertRateLimit :: "uuid \<Rightarrow> UpsertRateLimitParams \<Rightarrow> database \<Rightarrow> RateLimitRow stmt_result" where
  "UpsertRateLimit gen arg db =
     (case find (\<lambda>r. rl_ApiKeyID r = ur_ApiKeyID arg) (rate_limits db) of
        Some r \<Rightarrow>
          let upd = (\<lambda>r. r\<lparr>rl_RequestsPerMin := int32 (ur_RequestsPerMin arg), rl_BurstSize := int32 (ur_BurstSize arg)\<rparr>)
          in (Inr (rate_limit_row (upd r)), db\<lparr>rate_limits :=
                map (\<lambda>r. if rl_ApiKeyID r = ur_ApiKeyID arg then upd r else r) (rate_limits db)\<rparr>)
      | None \<Rightarrow>
          if gen \<in> rl_ID ` set (rate_limits db) then (Inl UniqueViolation, db)
          else if ur_ApiKeyID arg \<notin> ak_ID ` set (api_keys db) then (Inl ForeignKeyViolation, db)
          else let row = \<lparr>rl_ID = gen, rl_ApiKeyID = ur_ApiKeyID arg, rl_RequestsPerMin = int32 (ur_RequestsPerMin arg),
                 rl_RequestsPerHour = 1000, rl_RequestsPerDay = 10000, rl_BurstSize = int32 (ur_BurstSize arg)\<rparr>
               in (Inr (rate_limit_row row), db\<lparr>rate_limits := rate_limits db @ [row]\<rparr>))"

section \<open>The audit log\<close>

record InsertAuditLogParams =
  ia_ApiKeyID :: uuid
  ia_Action :: string
  ia_Resource :: string
  ia_StatusCode :: int
  ia_LatencyMs :: int
  ia_Ip :: string
  ia_RequestBody :: string
  ia_ResponseBody :: string
  ia_ToolName :: string

definition audit_row :: "uuid \<Rightarrow> time \<Rightarrow> InsertAuditLogParams \<Rightarrow> AuditLog" where
  "audit_row gen now arg = \<lparr>al_ID = gen, al_ApiKeyID = ia_ApiKeyID arg, al_Action = ia_Action arg,
     al_Resource = ia_Resource arg, al_StatusCode = ia_StatusCode arg, al_LatencyMs = ia_LatencyMs arg,
     al_Ip = ia_Ip arg, al_CreatedAt = now, al_RequestBody = ia_RequestBody arg,
     al_ResponseBody = ia_ResponseBody arg, al_ToolName = ia_ToolName arg\<rparr>"

definition InsertAuditLog :: "uuid \<Rightarrow> time \<Rightarrow> InsertAuditLogParams \<Rightarrow> database \<Rightarrow> unit stmt_result" where
  "InsertAuditLog gen now arg db =
     (if \<not> (text_ok (ia_Action arg) \<and> text_ok (ia_Resource arg) \<and> text_ok (ia_Ip arg) \<and>
            text_ok (ia_RequestBody arg) \<and> text_ok (ia_ResponseBody arg) \<and> text_ok (ia_ToolName arg))
      then (Inl InvalidText, db)
      else if gen \<in> al_ID ` set (audit_logs db) then (Inl UniqueViolation, db)
      else if ia_ApiKeyID arg \<notin> ak_ID ` set (api_keys db) then (Inl ForeignKeyViolation, db)
      else (Inr (), db\<lparr>audit_logs := audit_logs db @ [audit_row gen now arg]\<rparr>))"

text \<open>\<open>sqlc.narg\<close> filters: an absent argument (\<open>None\<close>) does not filter.\<close>

record ListAuditLogsParams =
  la_ApiKeyID :: "uuid option"
  la_ToolName :: "string option"
  la_StatusCode :: "int option"
  la_StartTime :: "time option"
  la_EndTime :: "time option"
  la_PageLimit :: int

definition narg :: "'a option \<Rightarrow> ('a \<Rightarrow> bool) \<Rightarrow> bool" where
  "narg a p = (case a of None \<Rightarrow> True | Some x \<Rightarrow> p x)"

definition audit_match :: "ListAuditLogsParams \<Rightarrow> AuditLog \<Rightarrow> bool" where
  "audit_match arg l \<longleftrightarrow>
     narg (la_ApiKeyID arg) (\<lambda>x. al_ApiKeyID l = x) \<and>
     narg (la_ToolName arg) (\<lambda>x. al_ToolName l = x) \<and>
     narg (la_StatusCode arg) (\<lambda>x. al_StatusCode l = x) \<and>
     narg (la_StartTime arg) (\<lambda>x. x \<le> al_CreatedAt l) \<and>
     narg (la_EndTime arg) (\<lambda>x. al_CreatedAt l \<le> x)"

definition ListAuditLogs :: "ListAuditLogsParams \<Rightarrow> database \<Rightarrow> db_error + AuditLog list" where
  "ListAuditLogs arg db =
     (if \<not> narg (la_ToolName arg) text_ok then Inl InvalidText
      else if la_PageLimit arg < 0 then Inl CheckViolation
      else Inr (take (nat (la_PageLimit arg))
             (sort_key (\<lambda>l. - al_CreatedAt l) (filter (audit_match arg) (audit_logs db)))))"

definition current_date :: "time \<Rightarrow> time" where
  "current_date now = now - now mod (24 * Hour)"

definition CountRequestsToday :: "time \<Rightarrow> database \<Rightarrow> int" where
  "CountRequestsToday now db = int (length (filter (\<lambda>l. current_date now \<le> al_CreatedAt l) (audit_logs db)))"

definition CountErrorsToday :: "time \<Rightarrow> database \<Rightarrow> int" where
  "CountErrorsToday now db =
     int (length (filter (\<lambda>l. current_date now \<le> al_CreatedAt l \<and> 400 \<le> al_StatusCode l) (audit_logs db)))"

text \<open>Seconds since the epoch of the hour an instant falls in.\<close>

definition hour_epoch :: "time \<Rightarrow> int" where
  "hour_epoch t = (t div Hour) * 3600"

definition CountRequestsByHour :: "time \<Rightarrow> database \<Rightarrow> (int \<times> int) list" where
  "CountRequestsByHour now db =
     (let hs = map (\<lambda>l. hour_epoch (al_CreatedAt l)) (filter (\<lambda>l. now - 24 * Hour \<le> al_CreatedAt l) (audit_logs db))
      in map (\<lambda>h. (h, int (count_list hs h))) (sort (remdups hs)))"

section \<open>Policies\<close>

definition policy_types :: "string list" where
  "policy_types = [''time_based'', ''content'', ''rate_of_change'']"

record CreatePolicyParams =
  cp_Name :: string
  cp_PolicyType :: string
  cp_Enabled :: bool
  cp_Config :: string

definition CreatePolicy :: "(string \<Rightarrow> string option) \<Rightarrow> uuid \<Rightarrow> time \<Rightarrow> CreatePolicyParams \<Rightarrow> database \<Rightarrow> Policy stmt_result" where
  "CreatePolicy jsonb gen now arg db =
     (if \<not> (text_ok (cp_Name arg) \<and> text_ok (cp_PolicyType arg)) then (Inl InvalidText, db)
      else case jsonb (cp_Config arg) of None \<Rightarrow> (Inl InvalidText, db)
      | Some cfg \<Rightarrow>
        if cp_PolicyType arg \<notin> set policy_types then (Inl CheckViolation, db)
        else if gen \<in> po_ID ` set (policies db) then (Inl UniqueViolation, db)
        else let row = \<lparr>po_ID = gen, po_Name = cp_Name arg, po_PolicyType = cp_PolicyType arg,
               po_Enabled = cp_Enabled arg, po_Config = cfg, po_CreatedAt = now, po_UpdatedAt = now\<rparr>
             in (Inr row, db\<lparr>policies := policies db @ [row]\<rparr>))"

definition GetPolicy :: "uuid \<Rightarrow> database \<Rightarrow> db_error + Policy" where
  "GetPolicy i db = (case find (\<lambda>p. po_ID p = i) (policies db) of None \<Rightarrow> Inl ErrNoRows | Some p \<Rightarrow> Inr p)"

definition ListPolicies :: "database \<Rightarrow> Policy list" where
  "ListPolicies db = sort_key (\<lambda>p. - po_CreatedAt p) (policies db)"

definition ListEnabledPolicies :: "database \<Rightarrow> Policy list option" where
  "ListEnabledPolicies db = scan_rows (sort_key po_CreatedAt (filter po_Enabled (policies db)))"

definition TogglePolicy :: "time \<Rightarrow> uuid \<Rightarrow> database \<Rightarrow> unit stmt_result" where
  "TogglePolicy now i db = (Inr (), db\<lparr>policies :=
     map (\<lambda>p. if po_ID p = i then p\<lparr>po_Enabled := \<not> po_Enabled p, po_UpdatedAt := now\<rparr> else p) (policies db)\<rparr>)"

definition DeletePolicy :: "uuid \<Rightarrow> database \<Rightarrow> unit stmt_result" where
  "DeletePolicy i db = (Inr (), db\<lparr>policies := filter (\<lambda>p. po_ID p \<noteq> i) (policies db)\<rparr>)"

record UpdatePolicyParams =
  up_ID :: uuid
  up_Name :: string
  up_PolicyType :: string
  up_Enabled :: bool
  up_Config :: string

definition UpdatePolicy :: "(string \<Rightarrow> string option) \<Rightarrow> time \<Rightarrow> UpdatePolicyParams \<Rightarrow> database \<Rightarrow> Policy stmt_result" where
  "UpdatePolicy jsonb now arg db =
     (if \<not> (text_ok (up_Name arg) \<and> text_ok (up_PolicyType arg)) then (Inl InvalidText, db)
      else case jsonb (up_Config arg) of None \<Rightarrow> (Inl InvalidText, db)
      | Some cfg \<Rightarrow>
        (case find (\<lambda>p. po_ID p = up_ID arg) (policies db) of None \<Rightarrow> (Inl ErrNoRows, db)
         | Some p \<Rightarrow>
           if up_PolicyType arg \<notin> set policy_types then (Inl CheckViolation, db)
           else let upd = (\<lambda>p. p\<lparr>po_Name := up_Name arg, po_PolicyType := up_PolicyType arg,
                    po_Enabled := up_Enabled arg, po_Config := cfg, po_UpdatedAt := now\<rparr>)
                in (Inr (upd p), db\<lparr>policies := map (\<lambda>q. if po_ID q = up_ID arg then upd q else q) (policies db)\<rparr>)))"

end
