(* ===== verification/Http.thy ===== *)
theory Http
  imports Store
begin

text \<open>
  The interface of \<open>net/http\<close> as the gateway uses it, and \<open>internal/middleware\<close>. A
  request is a record (its context values, the authenticated key and the request id, are
  fields; \<open>r.WithContext\<close> is a field update). A handler gets a request and the state of
  the process and yields the new state, the calls it made on its \<open>ResponseWriter\<close> in
  order, and whether it returned or panicked. A wrapped \<open>ResponseWriter\<close> is a fold over
  the calls that pass through it. A middleware maps handlers to handlers.
\<close>

section \<open>Requests\<close>

text \<open>A body delivers its bytes and then either ends or fails with an error.\<close>

record body =
  bd_data :: string
  bd_fails :: bool

record request =
  rq_Method :: string
  rq_Path :: string
  rq_RawQuery :: string
  rq_Header :: "string \<Rightarrow> string list"    \<comment> \<open>by canonical name\<close>
  rq_Body :: "body option"                 \<comment> \<open>\<open>None\<close> is a nil \<open>Body\<close>\<close>
  rq_RemoteAddr :: string
  rq_TLS :: bool
  rq_APIKey :: "ApiKey option"             \<comment> \<open>\<open>APIKeyContextKey\<close>\<close>
  rq_RequestID :: "string option"          \<comment> \<open>\<open>RequestIDKey\<close>\<close>

definition header_Get :: "request \<Rightarrow> string \<Rightarrow> string" where
  "header_Get r k = (case rq_Header r k of [] \<Rightarrow> [] | v # _ \<Rightarrow> v)"

text \<open>\<open>io.ReadAll(io.LimitReader(r.Body, limit))\<close>, close, and a new reader over what was
  read. When reading fails the old body stays, closed, so a later read fails.\<close>

definition read_limited :: "nat \<Rightarrow> request \<Rightarrow> string \<times> request" where
  "read_limited limit r = (case rq_Body r of
      None \<Rightarrow> ([], r)
    | Some b \<Rightarrow>
        if bd_fails b \<and> length (bd_data b) < limit
        then ([], r\<lparr>rq_Body := Some \<lparr>bd_data = [], bd_fails = True\<rparr>\<rparr>)
        else (take limit (bd_data b), r\<lparr>rq_Body := Some \<lparr>bd_data = take limit (bd_data b), bd_fails = False\<rparr>\<rparr>))"

section \<open>Responses\<close>

datatype ev = SetHeader string string | DelHeader string | WriteHeader int | Write string

record response =
  rp_header :: "string \<Rightarrow> string option"   \<comment> \<open>the live header map\<close>
  rp_status :: "int option"                 \<comment> \<open>\<open>None\<close> until the header is written\<close>
  rp_sent :: "string \<Rightarrow> string option"     \<comment> \<open>the header as it was then\<close>
  rp_body :: string

definition fresh_response :: response where
  "fresh_response = \<lparr>rp_header = (\<lambda>_. None), rp_status = None, rp_sent = (\<lambda>_. None), rp_body = []\<rparr>"

text \<open>The server's writer: the first final status counts, informational ones pass, a write
  without a status means 200, and 1xx, 204 and 304 have no body.\<close>

definition write_header :: "int \<Rightarrow> response \<Rightarrow> response" where
  "write_header c p =
     (if rp_status p \<noteq> None \<or> (100 \<le> c \<and> c \<le> 199 \<and> c \<noteq> 101) then p
      else p\<lparr>rp_status := Some c, rp_sent := rp_header p\<rparr>)"

definition body_allowed :: "int \<Rightarrow> bool" where
  "body_allowed c \<longleftrightarrow> \<not> (100 \<le> c \<and> c \<le> 199) \<and> c \<noteq> 204 \<and> c \<noteq> 304"

fun apply_ev :: "response \<Rightarrow> ev \<Rightarrow> response" where
  "apply_ev p (SetHeader k v) = p\<lparr>rp_header := (rp_header p)(k \<mapsto> v)\<rparr>"
| "apply_ev p (DelHeader k) = p\<lparr>rp_header := (rp_header p)(k := None)\<rparr>"
| "apply_ev p (WriteHeader c) = write_header c p"
| "apply_ev p (Write s) =
     (let q = write_header 200 p
      in if body_allowed (the (rp_status q)) then q\<lparr>rp_body := rp_body q @ s\<rparr> else q)"

definition respond :: "ev list \<Rightarrow> response" where
  "respond es = (let p = foldl apply_ev fresh_response es
     in (case rp_status p of None \<Rightarrow> write_header 200 p | Some _ \<Rightarrow> p))"

definition final_status :: "ev list \<Rightarrow> int" where
  "final_status es = the (rp_status (respond es))"

text \<open>\<open>http.Error\<close>.\<close>

definition http_Error :: "string \<Rightarrow> int \<Rightarrow> ev list" where
  "http_Error msg code =
     [DelHeader ''Content-Length'', SetHeader ''Content-Type'' ''text/plain; charset=utf-8'',
      SetHeader ''X-Content-Type-Options'' ''nosniff'', WriteHeader code, Write (msg @ [CHR 0x0A])]"

text \<open>The denial every guard of the gateway writes.\<close>

definition deny_json :: "int \<Rightarrow> int \<Rightarrow> string \<Rightarrow> ev list" where
  "deny_json status code msg =
     [SetHeader ''Content-Type'' ''application/json'', WriteHeader status, Write (json_rpc_error code msg)]"

section \<open>Handlers and middlewares\<close>

datatype fin = Returned | Panicked

type_synonym 's handler = "request \<Rightarrow> 's \<Rightarrow> 's \<times> ev list \<times> fin"

type_synonym 's middleware = "'s handler \<Rightarrow> 's handler"

definition Chain :: "'s handler \<Rightarrow> 's middleware list \<Rightarrow> 's handler" where
  "Chain h mws = foldr (\<lambda>mw h. mw h) mws h"

definition maxRequestIDLen :: nat where "maxRequestIDLen = 128"

text \<open>\<open>new_id\<close> is \<open>uuid.NewString\<close>.\<close>

definition RequestID :: "('s \<Rightarrow> string \<times> 's) \<Rightarrow> 's middleware" where
  "RequestID new_id next r s =
     (let h = header_Get r ''X-Request-Id'';
          (i, s) = (if h = [] \<or> maxRequestIDLen < length h then new_id s else (h, s));
          (s, es, f) = next (r\<lparr>rq_RequestID := Some i\<rparr>) s
      in (s, SetHeader ''X-Request-Id'' i # es, f))"

text \<open>\<open>statusWriter\<close> keeps the last status passed to \<open>WriteHeader\<close>, 200 at first.\<close>

definition statusWriter_WriteHeader :: "int \<Rightarrow> ev \<Rightarrow> int" where
  "statusWriter_WriteHeader st e = (case e of WriteHeader c \<Rightarrow> c | _ \<Rightarrow> st)"

definition statusWriter_status :: "ev list \<Rightarrow> int" where
  "statusWriter_status es = foldl statusWriter_WriteHeader 200 es"

record log_entry =
  lg_method :: string
  lg_path :: string
  lg_status :: int
  lg_duration_ms :: int
  lg_request_id :: "string option"

text \<open>\<open>now\<close> is \<open>time.Now\<close>, \<open>emit\<close> the call of \<open>slog.Info\<close>. A panic in \<open>next\<close>
  passes through before the entry is written.\<close>

definition Logger :: "('s \<Rightarrow> time \<times> 's) \<Rightarrow> (log_entry \<Rightarrow> 's \<Rightarrow> 's) \<Rightarrow> 's middleware" where
  "Logger now emit next r s =
     (let (start, s) = now s; (s, es, f) = next r s
      in (case f of Panicked \<Rightarrow> (s, es, Panicked)
          | Returned \<Rightarrow>
              (let (t, s) = now s
               in (emit \<lparr>lg_method = rq_Method r, lg_path = rq_Path r, lg_status = statusWriter_status es,
                     lg_duration_ms = time_Sub t start sdiv Millisecond, lg_request_id = rq_RequestID r\<rparr> s,
                   es, Returned))))"

definition Recoverer :: "'s middleware" where
  "Recoverer next r s =
     (let (s, es, f) = next r s
      in (case f of Panicked \<Rightarrow> (s, es @ http_Error ''internal server error'' 500, Returned)
          | Returned \<Rightarrow> (s, es, Returned)))"

section \<open>Facts about responses\<close>

lemma write_header_status [simp]: "rp_status (write_header c p) = (if rp_status p \<noteq> None \<or> (100 \<le> c \<and> c \<le> 199 \<and> c \<noteq> 101) then rp_status p else Some c)"
  by (simp add: write_header_def)

lemma apply_ev_status_Some: "rp_status p = Some c \<Longrightarrow> rp_status (apply_ev p e) = Some c"
  by (cases e) (simp_all add: Let_def)

lemma apply_evs_status_Some: "rp_status p = Some c \<Longrightarrow> rp_status (foldl apply_ev p es) = Some c"
  by (induction es arbitrary: p) (simp_all add: apply_ev_status_Some)

lemma respond_deny:
  assumes "400 \<le> st"
  shows "rp_status (respond (deny_json st code msg)) = Some st"
    and "rp_body (respond (deny_json st code msg)) = json_rpc_error code msg"
    and "rp_sent (respond (deny_json st code msg)) ''Content-Type'' = Some ''application/json''"
  using assms by (simp_all add: respond_def deny_json_def fresh_response_def write_header_def body_allowed_def)

lemma final_status_deny [simp]: "400 \<le> st \<Longrightarrow> final_status (deny_json st code msg) = st"
  by (simp add: final_status_def respond_deny)

lemma statusWriter_deny [simp]: "statusWriter_status (deny_json st code msg) = st"
  by (simp add: statusWriter_status_def deny_json_def statusWriter_WriteHeader_def)

lemma Chain_Nil [simp]: "Chain h [] = h"
  by (simp add: Chain_def)

lemma Chain_Cons [simp]: "Chain h (mw # mws) = mw (Chain h mws)"
  by (simp add: Chain_def)

lemma Chain_append: "Chain h (mws @ mws') = Chain (Chain h mws') mws"
  by (simp add: Chain_def)

lemma read_limited_length: "length (fst (read_limited n r)) \<le> n"
  by (simp add: read_limited_def split: option.splits)

text \<open>Reading again with the same limit gives the same bytes and leaves the body alone.\<close>

lemma read_limited_twice:
  assumes "\<And>b. rq_Body r = Some b \<Longrightarrow> \<not> bd_fails b"
  shows "read_limited n (snd (read_limited n r)) = read_limited n r"
  using assms by (simp add: read_limited_def split: option.splits)

lemma read_limited_frame:
  "rq_APIKey (snd (read_limited n r)) = rq_APIKey r"
  "rq_Header (snd (read_limited n r)) = rq_Header r"
  "rq_Method (snd (read_limited n r)) = rq_Method r"
  "rq_Path (snd (read_limited n r)) = rq_Path r"
  "rq_RawQuery (snd (read_limited n r)) = rq_RawQuery r"
  "rq_RemoteAddr (snd (read_limited n r)) = rq_RemoteAddr r"
  "rq_RequestID (snd (read_limited n r)) = rq_RequestID r"
  by (simp_all add: read_limited_def split: option.splits)

end
