(* ===== verification/Web.thy ===== *)
theory Web
  imports Http
begin

text \<open>
  What the dashboard takes from \<open>net/http\<close> and \<open>net/url\<close>: the \<open>Cookie\<close> and
  \<open>Set-Cookie\<close> headers, query strings and form bodies, redirects. The last section shows
  that a cookie the server sets comes back, and that an encoded query decodes to what was
  encoded. Bodies of type \<open>multipart/form-data\<close> are the argument \<open>multipart\<close>.
\<close>

section \<open>Cutting and trimming\<close>

definition cut_at :: "char \<Rightarrow> string \<Rightarrow> string \<times> string" where
  "cut_at c s = (takeWhile (\<lambda>x. x \<noteq> c) s, drop 1 (dropWhile (\<lambda>x. x \<noteq> c) s))"

fun split_on :: "char \<Rightarrow> string \<Rightarrow> string list" where
  "split_on c [] = [[]]"
| "split_on c (x # s) = (if x = c then [] # split_on c s
     else (case split_on c s of [] \<Rightarrow> [[x]] | p # ps \<Rightarrow> (x # p) # ps))"

definition trim_char :: "char \<Rightarrow> bool" where
  "trim_char c \<longleftrightarrow> c \<in> set [CHR 0x20, CHR 0x09, CHR 0x0A, CHR 0x0D]"

text \<open>\<open>textproto.TrimString\<close>.\<close>

definition TrimString :: "string \<Rightarrow> string" where
  "TrimString s = rev (dropWhile trim_char (rev (dropWhile trim_char s)))"

section \<open>Cookies\<close>

definition cookie_byte :: "char \<Rightarrow> bool" where
  "cookie_byte c \<longleftrightarrow> byte_in 0x20 0x7E c \<and> c \<noteq> CHR 0x22 \<and> c \<noteq> CHR '';'' \<and> c \<noteq> CHR 0x5C"

definition parseCookieValue :: "string \<Rightarrow> string option" where
  "parseCookieValue raw =
     (let v = (if 1 < length raw \<and> hd raw = CHR 0x22 \<and> last raw = CHR 0x22 then butlast (tl raw) else raw)
      in if list_all cookie_byte v then Some v else None)"

definition cookie_part :: "string \<Rightarrow> string \<Rightarrow> string option" where
  "cookie_part n part =
     (let (name, v) = cut_at (CHR ''='') (TrimString part)
      in if TrimString name = n then parseCookieValue v else None)"

text \<open>\<open>r.Cookie(n)\<close> for a name that is not empty: the first cookie of that name with a
  valid value. A request with more than 3000 cookies counts as having none.\<close>

definition cookie_count :: "request \<Rightarrow> nat" where
  "cookie_count r = sum_list (map (\<lambda>line. count_list line (CHR '';'') + 1) (rq_Header r ''Cookie''))"

definition request_Cookie :: "request \<Rightarrow> string \<Rightarrow> string option" where
  "request_Cookie r n =
     (if 3000 < cookie_count r then None else case List.map_filter (cookie_part n) (concat (map (\<lambda>line. split_on (CHR '';'') (TrimString line)) (rq_Header r ''Cookie''))) of
        [] \<Rightarrow> None | v # _ \<Rightarrow> Some v)"

record cookie =
  ck_Name :: string
  ck_Value :: string
  ck_Path :: string
  ck_MaxAge :: int
  ck_HttpOnly :: bool
  ck_Secure :: bool
  ck_Lax :: bool

definition sanitizeCookieValue :: "string \<Rightarrow> string" where
  "sanitizeCookieValue v =
     (let w = filter cookie_byte v
      in if CHR '' '' \<in> set w \<or> CHR '','' \<in> set w then CHR 0x22 # w @ [CHR 0x22] else w)"

text \<open>\<open>Cookie.String\<close>; \<open>MaxAge\<close> 0 writes no attribute, a negative one \<open>Max-Age=0\<close>.\<close>

definition cookie_String :: "cookie \<Rightarrow> string" where
  "cookie_String c = ck_Name c @ ''='' @ sanitizeCookieValue (ck_Value c) @
     (if ck_Path c = [] then [] else ''; Path='' @ ck_Path c) @
     (if 0 < ck_MaxAge c then ''; Max-Age='' @ Itoa (ck_MaxAge c)
      else if ck_MaxAge c < 0 then ''; Max-Age=0'' else []) @
     (if ck_HttpOnly c then ''; HttpOnly'' else []) @
     (if ck_Secure c then ''; Secure'' else []) @
     (if ck_Lax c then ''; SameSite=Lax'' else [])"

text \<open>\<open>http.SetCookie\<close> adds the header; the dashboard sets at most one per response.\<close>

definition SetCookie :: "cookie \<Rightarrow> ev list" where
  "SetCookie c = [SetHeader ''Set-Cookie'' (cookie_String c)]"

section \<open>Query strings and forms\<close>

text \<open>\<open>url.QueryUnescape\<close>: \<open>%\<close> with two hexadecimal digits is a byte, \<open>+\<close> a space.\<close>

fun QueryUnescape :: "string \<Rightarrow> string option" where
  "QueryUnescape [] = Some []"
| "QueryUnescape (c # s) =
     (if c = CHR ''%'' then
        (case s of
           a # b # t \<Rightarrow> (case (hex_val a, hex_val b) of
               (Some x, Some y) \<Rightarrow> map_option ((#) (char_of (16 * x + y))) (QueryUnescape t)
             | _ \<Rightarrow> None)
         | _ \<Rightarrow> None)
      else map_option ((#) (if c = CHR ''+'' then CHR '' '' else c)) (QueryUnescape s))"

definition query_pair :: "string \<Rightarrow> (string \<times> string) option" where
  "query_pair part =
     (if CHR '';'' \<in> set part \<or> part = [] then None
      else (let (k, v) = cut_at (CHR ''='') part
        in (case (QueryUnescape k, QueryUnescape v) of (Some k, Some v) \<Rightarrow> Some (k, v) | _ \<Rightarrow> None)))"

text \<open>\<open>url.ParseQuery\<close>: malformed settings are left out (the error is not looked at), and
  more than 10000 settings give none.\<close>

definition ParseQuery :: "string \<Rightarrow> (string \<times> string) list" where
  "ParseQuery q = (let parts = split_on (CHR ''&'') q in
     if 10000 < length parts then [] else List.map_filter query_pair parts)"

definition values_Get :: "(string \<times> string) list \<Rightarrow> string \<Rightarrow> string" where
  "values_Get vs k = (case map_of vs k of None \<Rightarrow> [] | Some v \<Rightarrow> v)"

definition maxFormSize :: nat where "maxFormSize = 10485760"

definition is_urlencoded :: "string \<Rightarrow> bool" where
  "is_urlencoded ct \<longleftrightarrow>
     map lower_byte (TrimString (fst (cut_at (CHR '';'') ct))) = ''application/x-www-form-urlencoded''"

definition post_values :: "request \<Rightarrow> (string \<times> string) list" where
  "post_values r =
     (if rq_Method r \<notin> set [''POST'', ''PUT'', ''PATCH''] \<or> \<not> is_urlencoded (header_Get r ''Content-Type'') then []
      else (case rq_Body r of None \<Rightarrow> []
        | Some b \<Rightarrow> if bd_fails b \<or> maxFormSize < length (bd_data b) then [] else ParseQuery (bd_data b)))"

text \<open>\<open>r.FormValue(k)\<close>: the body's values come before those of the URL.\<close>

definition FormValue :: "(request \<Rightarrow> (string \<times> string) list) \<Rightarrow> request \<Rightarrow> string \<Rightarrow> string" where
  "FormValue multipart r k = values_Get (post_values r @ ParseQuery (rq_RawQuery r) @ multipart r) k"

definition query_Get :: "request \<Rightarrow> string \<Rightarrow> string" where
  "query_Get r k = values_Get (ParseQuery (rq_RawQuery r)) k"

section \<open>Redirects\<close>

text \<open>\<open>http.Redirect\<close> to an absolute path that is already clean, with no content type set.\<close>

definition http_Redirect :: "request \<Rightarrow> string \<Rightarrow> ev list" where
  "http_Redirect r url =
     [SetHeader ''Location'' url] @
     (if rq_Method r \<in> set [''GET'', ''HEAD''] then [SetHeader ''Content-Type'' ''text/html; charset=utf-8''] else []) @
     [WriteHeader 303] @
     (if rq_Method r = ''GET'' then [Write (''<a href='' @ [CHR 0x22] @ url @ [CHR 0x22] @ ''>See Other</a>.'' @ [CHR 0x0A, CHR 0x0A])] else [])"

section \<open>Facts\<close>

lemma split_on_nonempty [simp]: "split_on c s \<noteq> []"
  by (induction s) (auto split: list.splits)

lemma split_on_notin: "c \<notin> set s \<Longrightarrow> split_on c s = [s]"
  by (induction s) auto

lemma split_on_append: "c \<notin> set s \<Longrightarrow> split_on c (s @ c # t) = s # split_on c t"
  by (induction s) auto

lemma cut_at_append: "c \<notin> set s \<Longrightarrow> cut_at c (s @ c # t) = (s, t)"
  unfolding cut_at_def by (induction s) auto

lemma cut_at_notin: "c \<notin> set s \<Longrightarrow> cut_at c s = (s, [])"
  unfolding cut_at_def by (induction s) auto

lemma TrimString_id:
  assumes "s \<noteq> []" and "\<not> trim_char (hd s)" and "\<not> trim_char (last s)"
  shows "TrimString s = s"
proof -
  have "dropWhile trim_char s = s" using assms by (cases s) auto
  moreover have "dropWhile trim_char (rev s) = rev s"
    using assms by (cases s rule: rev_cases) auto
  ultimately show ?thesis by (simp add: TrimString_def)
qed

text \<open>The bytes of a token: those a cookie value holds without quotes.\<close>

definition token_byte :: "char \<Rightarrow> bool" where
  "token_byte c \<longleftrightarrow> cookie_byte c \<and> c \<noteq> CHR '' '' \<and> c \<noteq> CHR '',''"

lemma sanitize_token: "list_all token_byte v \<Longrightarrow> sanitizeCookieValue v = v"
proof -
  assume v: "list_all token_byte v"
  then have "filter cookie_byte v = v" by (induction v) (auto simp: token_byte_def)
  moreover have "CHR '' '' \<notin> set v" "CHR '','' \<notin> set v" using v by (auto simp: list_all_iff token_byte_def)
  ultimately show ?thesis by (simp add: sanitizeCookieValue_def)
qed

lemma trim_char_token: "token_byte c \<Longrightarrow> \<not> trim_char c"
proof
  assume c: "token_byte c" and "trim_char c"
  then consider "c = CHR 0x20" | "c = CHR 0x09" | "c = CHR 0x0A" | "c = CHR 0x0D" by (auto simp: trim_char_def)
  then show False using c by cases (simp_all add: token_byte_def cookie_byte_def byte_in_def)
qed

text \<open>A cookie that a client sends as \<open>name=value\<close> is read back.\<close>

lemma request_Cookie_sent:
  assumes "rq_Header r ''Cookie'' = [n @ ''='' @ v]" and "n \<noteq> []" and "list_all token_byte n" and "CHR ''='' \<notin> set n"
    and "list_all token_byte v"
  shows "request_Cookie r n = Some v"
proof -
  let ?line = "n @ CHR ''='' # v"
  have semi: "CHR '';'' \<notin> set ?line"
    using assms(3,5) by (auto simp: list_all_iff token_byte_def cookie_byte_def)
  have hd: "\<not> trim_char (hd ?line)" and hdn: "\<not> trim_char (hd n)" and ln: "\<not> trim_char (last n)"
    using assms(2,3) by (auto simp: list_all_iff trim_char_token)
  have lst: "\<not> trim_char (last ?line)"
  proof (cases "v = []")
    case True
    then show ?thesis by (simp add: trim_char_def)
  next
    case False
    with assms(5) show ?thesis by (auto simp: list_all_iff trim_char_token)
  qed
  have t: "TrimString ?line = ?line" using hd lst by (intro TrimString_id) auto
  have tn: "TrimString n = n" using assms(2) hdn ln by (intro TrimString_id)
  have c: "list_all cookie_byte v" using assms(5) by (auto simp: list_all_iff token_byte_def)
  then have "\<not> (1 < length v \<and> hd v = CHR 0x22 \<and> last v = CHR 0x22)"
    by (cases v) (auto simp: cookie_byte_def)
  with c have "parseCookieValue v = Some v" by (auto simp: parseCookieValue_def Let_def)
  then have "cookie_part n ?line = Some v"
    using cut_at_append [OF assms(4), of v] by (simp add: cookie_part_def t tn)
  moreover have "cookie_count r = 1"
    using semi by (simp add: cookie_count_def assms(1) count_list_0_iff)
  ultimately show ?thesis
    by (simp add: request_Cookie_def assms(1) t split_on_notin [OF semi] List.map_filter_simps)
qed

text \<open>Bytes that stand for themselves in a query.\<close>

definition query_plain :: "char \<Rightarrow> bool" where
  "query_plain c \<longleftrightarrow> c \<notin> set [CHR ''%'', CHR ''+'', CHR ''&'', CHR '';'', CHR ''='']"

lemma QueryUnescape_plain: "list_all query_plain s \<Longrightarrow> QueryUnescape s = Some s"
  by (induction s) (auto simp: query_plain_def)

definition query_ok :: "string \<times> string \<Rightarrow> bool" where
  "query_ok kv \<longleftrightarrow> fst kv \<noteq> [] \<and> list_all query_plain (fst kv) \<and> list_all query_plain (snd kv)"

fun query_text :: "(string \<times> string) list \<Rightarrow> string" where
  "query_text [] = []"
| "query_text [(k, v)] = k @ ''='' @ v"
| "query_text ((k, v) # kvs) = k @ ''='' @ v @ ''&'' @ query_text kvs"

lemma query_pair_plain:
  assumes "query_ok (k, v)"
  shows "query_pair (k @ ''='' @ v) = Some (k, v)" and "CHR ''&'' \<notin> set (k @ ''='' @ v)"
proof -
  have eq: "CHR ''='' \<notin> set k" and semi: "CHR '';'' \<notin> set (k @ CHR ''='' # v)"
    using assms by (auto simp: query_ok_def list_all_iff query_plain_def)
  show "query_pair (k @ ''='' @ v) = Some (k, v)"
    using semi assms by (simp add: query_pair_def cut_at_append [OF eq] QueryUnescape_plain query_ok_def)
  show "CHR ''&'' \<notin> set (k @ ''='' @ v)"
    using assms by (auto simp: query_ok_def list_all_iff query_plain_def)
qed

lemma split_query:
  "list_all query_ok kvs \<Longrightarrow> kvs \<noteq> [] \<Longrightarrow> split_on (CHR ''&'') (query_text kvs) = map (\<lambda>(k, v). k @ ''='' @ v) kvs"
proof (induction kvs rule: query_text.induct)
  case (2 k v)
  then show ?case using query_pair_plain(2) [of k v] by (simp add: split_on_notin)
next
  case (3 k v kv kvs)
  have "query_ok (k, v)" using 3(2) by simp
  from query_pair_plain(2) [OF this] show ?case
    using 3 split_on_append [of "CHR ''&''" "k @ ''='' @ v" "query_text (kv # kvs)"] by simp
qed simp

lemma ParseQuery_text:
  assumes "list_all query_ok kvs" and "kvs \<noteq> []" and "length kvs \<le> 10000"
  shows "ParseQuery (query_text kvs) = kvs"
proof -
  have "List.map_filter query_pair (map (\<lambda>(k, v). k @ ''='' @ v) kvs) = kvs"
    using assms(1) by (induction kvs) (auto simp: List.map_filter_simps query_pair_plain(1) [simplified])
  then show ?thesis using assms by (simp add: ParseQuery_def split_query)
qed

lemma ParseQuery_Nil [simp]: "ParseQuery [] = []"
  by (simp add: ParseQuery_def List.map_filter_simps query_pair_def)

end
