(* ===== verification/Clock.thy ===== *)
theory Clock
  imports Prelude
begin

text \<open>
  \<open>Time.Format\<close>: a layout is the list of its elements (\<open>2006\<close>, \<open>01\<close>, \<open>02\<close>, \<open>15\<close>, \<open>04\<close>, \<open>05\<close>,
  \<open>Z07:00\<close> and the text between them). The offset of the time zone in seconds east of UTC is
  a function of the instant, an argument wherever the zone is not UTC.
\<close>

section \<open>The calendar\<close>

text \<open>Year, month and day of a day number, counted from 1 January 1970, in years that begin in March.\<close>

definition civil_date :: "int \<Rightarrow> int \<times> int \<times> int" where
  "civil_date days =
     (let z = days + 719468; era = z div 146097; doe = z mod 146097;
          yoe = (doe - doe div 1460 + doe div 36524 - doe div 146096) div 365;
          doy = doe - (365 * yoe + yoe div 4 - yoe div 100);
          mp = (5 * doy + 2) div 153; m = (if mp < 10 then mp + 3 else mp - 9)
      in (yoe + era * 400 + (if m \<le> 2 then 1 else 0), m, doy - (153 * mp + 2) div 5 + 1))"

lemma civil_dates:
  "civil_date 0 = (1970, 1, 1)" "civil_date (- 1) = (1969, 12, 31)" "civil_date 11016 = (2000, 2, 29)"
  "civil_date 20512 = (2026, 2, 28)" "civil_date 20513 = (2026, 3, 1)"
  by code_simp+

section \<open>Layouts\<close>

datatype layout = LYear | LMonth | LDay | LHour | LMin | LSec | LZone | LText string

definition pad_int :: "nat \<Rightarrow> int \<Rightarrow> string" where
  "pad_int w i = (if i < 0 then ''-'' else []) @ (let x = show_nat (nat \<bar>i\<bar>) in replicate (w - length x) (CHR ''0'') @ x)"

definition zone_text :: "int \<Rightarrow> string" where
  "zone_text off = (let z = off sdiv 60 in if off = 0 then ''Z''
     else (if z < 0 then ''-'' else ''+'') @ pad_int 2 (\<bar>z\<bar> div 60) @ '':'' @ pad_int 2 (\<bar>z\<bar> mod 60))"

definition Format :: "(time \<Rightarrow> int) \<Rightarrow> layout list \<Rightarrow> time \<Rightarrow> string" where
  "Format loc ls t =
     (let secs = t div Second + loc t; (y, m, d) = civil_date (secs div 86400)
      in concat (map (\<lambda>l. case l of
           LYear \<Rightarrow> pad_int 4 y | LMonth \<Rightarrow> pad_int 2 m | LDay \<Rightarrow> pad_int 2 d
         | LHour \<Rightarrow> pad_int 2 (secs div 3600 mod 24) | LMin \<Rightarrow> pad_int 2 (secs div 60 mod 60) | LSec \<Rightarrow> pad_int 2 (secs mod 60)
         | LZone \<Rightarrow> zone_text (loc t) | LText s \<Rightarrow> s) ls))"

text \<open>The layouts of the sources.\<close>

definition RFC3339 :: "layout list" where
  "RFC3339 = [LYear, LText ''-'', LMonth, LText ''-'', LDay, LText ''T'', LHour, LText '':'', LMin, LText '':'', LSec, LZone]"

definition date_minutes :: "layout list" where
  "date_minutes = [LYear, LText ''-'', LMonth, LText ''-'', LDay, LText '' '', LHour, LText '':'', LMin]"

definition day_seconds :: "layout list" where
  "day_seconds = [LMonth, LText ''-'', LDay, LText '' '', LHour, LText '':'', LMin, LText '':'', LSec]"

lemma Format_examples:
  "Format (\<lambda>_. 0) RFC3339 (1772280245 * Second) = ''2026-02-28T12:04:05Z''"
  "Format (\<lambda>_. - 19800) RFC3339 (1772280245 * Second) = ''2026-02-28T06:34:05-05:30''"
  by code_simp+

end
