(* ===== verification/Views.thy ===== *)
theory Views
  imports Web Clock
begin

text \<open>
  The templates of \<open>internal/dashboard\<close> (\<open>*_templ.go\<close>), one definition per component. A
  component writes a list of chunks: a static fragment, named by its file and its number in
  the generated code, a text node (through \<open>templ.EscapeString\<close>), an attribute value
  (through \<open>templ.ResolveAttributeValue\<close>), a list of class names, a URL, or bytes written
  as they are. The runtime of \<open>templ\<close>, the text of the fragments, \<open>uuid.String\<close> and
  the offset of the time zone the driver gives its instants are the record \<open>view_lib\<close>.
  Writing to the buffer does not fail here.
\<close>

section \<open>Chunks\<close>

datatype tmpl = TAudit | THome | TKeys | TLayout | TPolicies | TRoles

datatype chunk = Frag tmpl nat | Text string | Attr string | Classes "(string \<times> bool) list" | Url string | Raw string

type_synonym view = "chunk list"

record view_lib =
  vl_frag :: "tmpl \<Rightarrow> nat \<Rightarrow> string"
  vl_escape :: "string \<Rightarrow> string"
  vl_attr :: "string \<Rightarrow> string"
  vl_url :: "string \<Rightarrow> string"
  vl_classes :: "(string \<times> bool) list \<Rightarrow> string"
  vl_uuid :: "uuid \<Rightarrow> string"
  vl_loc :: "time \<Rightarrow> int"

primrec chunk_html :: "view_lib \<Rightarrow> chunk \<Rightarrow> string" where
  "chunk_html L (Frag f n) = vl_frag L f n"
| "chunk_html L (Text s) = vl_escape L s"
| "chunk_html L (Attr s) = vl_attr L s"
| "chunk_html L (Classes cs) = vl_attr L (vl_classes L cs)"
| "chunk_html L (Url s) = vl_url L s"
| "chunk_html L (Raw s) = s"

definition html :: "view_lib \<Rightarrow> view \<Rightarrow> string" where
  "html L v = concat (map (chunk_html L) v)"

section \<open>\<open>layout_templ.go\<close>\<close>

definition sidebarLink :: "string \<Rightarrow> string \<Rightarrow> bool \<Rightarrow> view \<Rightarrow> view" where
  "sidebarLink href i isActive children =
     (if isActive then [Frag TLayout 11, Url href, Frag TLayout 12] @ children @ [Frag TLayout 13]
      else [Frag TLayout 14, Url href, Frag TLayout 15] @ children @ [Frag TLayout 16])"

definition Layout :: "string \<Rightarrow> string \<Rightarrow> view \<Rightarrow> view" where
  "Layout title active children =
     [Frag TLayout 1, Text title, Frag TLayout 2] @
     sidebarLink ''/dashboard'' ''dashboard'' (active = ''dashboard'') [Frag TLayout 3] @
     sidebarLink ''/dashboard/audit'' ''audit'' (active = ''audit'') [Frag TLayout 4] @
     [Frag TLayout 5] @
     sidebarLink ''/dashboard/keys'' ''keys'' (active = ''keys'') [Frag TLayout 6] @
     sidebarLink ''/dashboard/roles'' ''roles'' (active = ''roles'') [Frag TLayout 7] @
     sidebarLink ''/dashboard/policies'' ''policies'' (active = ''policies'') [Frag TLayout 8] @
     [Frag TLayout 9] @ children @ [Frag TLayout 10]"

definition LoginPage :: "string \<Rightarrow> view" where
  "LoginPage errMsg = [Frag TLayout 17] @
     (if errMsg \<noteq> [] then [Frag TLayout 18, Text errMsg, Frag TLayout 19] else []) @ [Frag TLayout 20]"

section \<open>\<open>home_templ.go\<close>\<close>

record Stats =
  st_RequestsToday :: int
  st_ActiveKeys :: int
  st_ErrorsToday :: int
  st_ErrorRate :: string

definition iconBg :: "string \<Rightarrow> string" where
  "iconBg color =
     (if color = ''indigo'' then ''w-9 h-9 rounded-lg bg-indigo-50 dark:bg-indigo-500/10 text-indigo-600 dark:text-indigo-400 flex items-center justify-center''
      else if color = ''emerald'' then ''w-9 h-9 rounded-lg bg-emerald-50 dark:bg-emerald-500/10 text-emerald-600 dark:text-emerald-400 flex items-center justify-center''
      else if color = ''rose'' then ''w-9 h-9 rounded-lg bg-rose-50 dark:bg-rose-500/10 text-rose-600 dark:text-rose-400 flex items-center justify-center''
      else if color = ''amber'' then ''w-9 h-9 rounded-lg bg-amber-50 dark:bg-amber-500/10 text-amber-600 dark:text-amber-400 flex items-center justify-center''
      else ''w-9 h-9 rounded-lg bg-gray-50 dark:bg-gray-800 text-gray-600 dark:text-gray-400 flex items-center justify-center'')"

definition statCard :: "string \<Rightarrow> string \<Rightarrow> string \<Rightarrow> view \<Rightarrow> view" where
  "statCard label val color children =
     [Frag THome 7, Text label, Frag THome 8, Frag THome 9, Classes [(iconBg color, True)], Frag THome 10] @
     children @ [Frag THome 11, Text val, Frag THome 12]"

definition StatsCards :: "Stats \<Rightarrow> view" where
  "StatsCards s =
     statCard ''Requests Today'' (Itoa (st_RequestsToday s)) ''indigo'' [Frag THome 3] @
     statCard ''Active API Keys'' (Itoa (st_ActiveKeys s)) ''emerald'' [Frag THome 4] @
     statCard ''Errors Today'' (Itoa (st_ErrorsToday s)) ''rose'' [Frag THome 5] @
     statCard ''Error Rate'' (st_ErrorRate s) ''amber'' [Frag THome 6]"

definition HomePage :: "Stats \<Rightarrow> view" where
  "HomePage s = Layout ''Dashboard'' ''dashboard'' ([Frag THome 1] @ StatsCards s @ [Frag THome 2])"

text \<open>A range loop with its index over components.\<close>

definition view_rows :: "(nat \<Rightarrow> 'a \<Rightarrow> view) \<Rightarrow> 'a list \<Rightarrow> view" where
  "view_rows f xs = concat (map (\<lambda>(i, x). f i x) (enumerate 0 xs))"

definition striped :: "nat \<Rightarrow> chunk" where
  "striped i = Classes [(''transition-colors hover:bg-gray-50 dark:hover:bg-gray-800/50'', True),
     (''bg-gray-50/50 dark:bg-gray-800/20'', i mod 2 = 1)]"

section \<open>\<open>keys_templ.go\<close>\<close>

definition NewKeyBanner :: "string \<Rightarrow> view" where
  "NewKeyBanner plaintext = [Frag TKeys 21, Text plaintext, Frag TKeys 22]"

text \<open>The badge reads the clock for an active key with an expiry.\<close>

definition keyStatusBadge :: "ListAPIKeysRow \<Rightarrow> env \<Rightarrow> view \<times> env" where
  "keyStatusBadge k e =
     (if \<not> lk_Active k then ([Frag TKeys 18], e)
      else (case lk_ExpiresAt k of None \<Rightarrow> ([Frag TKeys 20], e)
        | Some t \<Rightarrow> (let (now, e) = time_Now e in (if t < now then [Frag TKeys 19] else [Frag TKeys 20], e))))"

definition keyRow :: "view_lib \<Rightarrow> ListAPIKeysRow \<Rightarrow> nat \<Rightarrow> env \<Rightarrow> view \<times> env" where
  "keyRow L k i e =
     (let (badge, e) = keyStatusBadge k e
      in ([Frag TKeys 6, striped i, Frag TKeys 7, Text (lk_Name k), Frag TKeys 8, Text (lk_KeyPrefix k), Frag TKeys 9] @
          badge @ [Frag TKeys 10] @
          (case lk_ExpiresAt k of Some t \<Rightarrow> [Text (Format (vl_loc L) date_minutes t)] | None \<Rightarrow> [Frag TKeys 11]) @
          [Frag TKeys 12, Text (Format (vl_loc L) date_minutes (lk_CreatedAt k)), Frag TKeys 13] @
          (if lk_Active k then [Frag TKeys 14, Attr (''/dashboard/keys/'' @ vl_uuid L (lk_ID k) @ ''/revoke''), Frag TKeys 15] else []) @
          [Frag TKeys 16, Attr (''/dashboard/keys/'' @ vl_uuid L (lk_ID k)), Frag TKeys 17], e))"

fun keyRows :: "view_lib \<Rightarrow> ListAPIKeysRow list \<Rightarrow> nat \<Rightarrow> env \<Rightarrow> view \<times> env" where
  "keyRows L [] i e = ([], e)"
| "keyRows L (k # ks) i e = (let (v, e) = keyRow L k i e; (vs, e) = keyRows L ks (Suc i) e in (v @ vs, e))"

definition KeysTable :: "view_lib \<Rightarrow> ListAPIKeysRow list \<Rightarrow> env \<Rightarrow> view \<times> env" where
  "KeysTable L keys e =
     (let (rows, e) = keyRows L keys 0 e
      in ([Frag TKeys 3] @ rows @ (if keys = [] then [Frag TKeys 4] else []) @ [Frag TKeys 5], e))"

definition KeysPage :: "view_lib \<Rightarrow> ListAPIKeysRow list \<Rightarrow> env \<Rightarrow> view \<times> env" where
  "KeysPage L keys e =
     (let (v, e) = KeysTable L keys e
      in (Layout ''API Keys'' ''keys'' ([Frag TKeys 1] @ v @ [Frag TKeys 2]), e))"

section \<open>\<open>audit_templ.go\<close>\<close>

record AuditFilter =
  af_ToolName :: string
  af_StatusCode :: string
  af_Page :: int
  af_HasMore :: bool

definition auditPageURL :: "AuditFilter \<Rightarrow> int \<Rightarrow> string" where
  "auditPageURL f page = ''/dashboard/audit/results?page='' @ Itoa page @
     (if af_ToolName f \<noteq> [] then ''&tool_name='' @ af_ToolName f else []) @
     (if af_StatusCode f \<noteq> [] then ''&status_code='' @ af_StatusCode f else [])"

definition statusBadge :: "int \<Rightarrow> view" where
  "statusBadge code =
     (if code < 300 then [Frag TAudit 23, Text (Itoa code), Frag TAudit 24]
      else if code < 400 then [Frag TAudit 25, Text (Itoa code), Frag TAudit 26]
      else [Frag TAudit 27, Text (Itoa code), Frag TAudit 28])"

definition auditRow :: "view_lib \<Rightarrow> nat \<Rightarrow> AuditLog \<Rightarrow> view" where
  "auditRow L i l =
     [Frag TAudit 14, striped i, Frag TAudit 15, Text (Format (vl_loc L) day_seconds (al_CreatedAt l)), Frag TAudit 16] @
     (if al_ToolName l \<noteq> [] then [Text (al_ToolName l)] else [Frag TAudit 17]) @
     [Frag TAudit 18] @ statusBadge (al_StatusCode l) @
     [Frag TAudit 19, Text (Itoa (al_LatencyMs l) @ ''ms''), Frag TAudit 20, Text (al_Ip l), Frag TAudit 21,
      Text (al_Action l), Frag TAudit 22]"

text \<open>The page arithmetic is on Go's 64-bit \<open>int\<close>.\<close>

definition AuditResults :: "view_lib \<Rightarrow> AuditLog list \<Rightarrow> AuditFilter \<Rightarrow> view" where
  "AuditResults L logs f =
     [Frag TAudit 5] @ view_rows (auditRow L) logs @ (if logs = [] then [Frag TAudit 6] else []) @
     [Frag TAudit 7, Text (Itoa (af_Page f)), Frag TAudit 8] @
     (if 1 < af_Page f then [Frag TAudit 9, Attr (auditPageURL f (int64 (af_Page f - 1))), Frag TAudit 10] else []) @
     (if af_HasMore f then [Frag TAudit 11, Attr (auditPageURL f (int64 (af_Page f + 1))), Frag TAudit 12] else []) @
     [Frag TAudit 13]"

definition AuditPage :: "view_lib \<Rightarrow> AuditLog list \<Rightarrow> AuditFilter \<Rightarrow> view" where
  "AuditPage L logs f = Layout ''Audit Logs'' ''audit''
     ([Frag TAudit 1, Attr (af_ToolName f), Frag TAudit 2, Attr (af_StatusCode f), Frag TAudit 3] @
      AuditResults L logs f @ [Frag TAudit 4])"

section \<open>\<open>roles_templ.go\<close>\<close>

record RoleWithPerms =
  rp_Role :: Role
  rp_Permissions :: "Permission list"

definition permTag :: "view_lib \<Rightarrow> Permission \<Rightarrow> view" where
  "permTag L p = [Frag TRoles 18, Text (pm_Resource p), Frag TRoles 19, Text (pm_Action p), Frag TRoles 20,
     Attr (''/dashboard/permissions/'' @ vl_uuid L (pm_ID p)), Frag TRoles 21]"

definition roleCard :: "view_lib \<Rightarrow> RoleWithPerms \<Rightarrow> view" where
  "roleCard L rp =
     (let r = rp_Role rp; base = ''/dashboard/roles/'' @ vl_uuid L (ro_ID r)
      in [Frag TRoles 6, Text (ro_Name r), Frag TRoles 7] @
         (if ro_Description r \<noteq> [] then [Frag TRoles 8, Text (ro_Description r), Frag TRoles 9] else []) @
         [Frag TRoles 10, Attr base, Frag TRoles 11,
          Attr (''Delete role '' @ [CHR 0x27] @ ro_Name r @ [CHR 0x27] @ '' and all its permissions?''), Frag TRoles 12,
          Attr (base @ ''/permissions''), Frag TRoles 13] @
         (if rp_Permissions rp \<noteq> []
          then [Frag TRoles 14] @ concat (map (permTag L) (rp_Permissions rp)) @ [Frag TRoles 15]
          else [Frag TRoles 16]) @ [Frag TRoles 17])"

definition RolesList :: "view_lib \<Rightarrow> RoleWithPerms list \<Rightarrow> view" where
  "RolesList L rs = [Frag TRoles 3] @ concat (map (roleCard L) rs) @
     (if rs = [] then [Frag TRoles 4] else []) @ [Frag TRoles 5]"

definition RolesPage :: "view_lib \<Rightarrow> RoleWithPerms list \<Rightarrow> view" where
  "RolesPage L rs = Layout ''Roles & Permissions'' ''roles'' ([Frag TRoles 1] @ RolesList L rs @ [Frag TRoles 2])"

section \<open>\<open>policies_templ.go\<close>\<close>

definition policyTypeIcon :: "string \<Rightarrow> view" where
  "policyTypeIcon t =
     (if t = ''time_based'' then [Frag TPolicies 20]
      else if t = ''content'' then [Frag TPolicies 21]
      else if t = ''rate_of_change'' then [Frag TPolicies 22]
      else [Frag TPolicies 23])"

definition policyTypeBadge :: "string \<Rightarrow> view" where
  "policyTypeBadge t =
     (if t = ''time_based'' then [Frag TPolicies 24]
      else if t = ''content'' then [Frag TPolicies 25]
      else if t = ''rate_of_change'' then [Frag TPolicies 26]
      else [Frag TPolicies 27, Text t, Frag TPolicies 28])"

definition policyCard :: "view_lib \<Rightarrow> Policy \<Rightarrow> view" where
  "policyCard L p =
     (let base = ''/dashboard/policies/'' @ vl_uuid L (po_ID p)
      in [Frag TPolicies 7] @ policyTypeIcon (po_PolicyType p) @ [Frag TPolicies 8, Text (po_Name p), Frag TPolicies 9] @
         policyTypeBadge (po_PolicyType p) @ (if po_Enabled p then [Frag TPolicies 10] else [Frag TPolicies 11]) @
         [Frag TPolicies 12, Attr (base @ ''/toggle''), Frag TPolicies 13] @
         (if po_Enabled p then [Frag TPolicies 14] else [Frag TPolicies 15]) @
         [Frag TPolicies 16, Attr base, Frag TPolicies 17,
          Attr (''Delete policy '' @ [CHR 0x27] @ po_Name p @ [CHR 0x27] @ ''?''), Frag TPolicies 18,
          Text (po_Config p), Frag TPolicies 19])"

definition PoliciesList :: "view_lib \<Rightarrow> Policy list \<Rightarrow> view" where
  "PoliciesList L ps = [Frag TPolicies 4] @ concat (map (policyCard L) ps) @
     (if ps = [] then [Frag TPolicies 5] else []) @ [Frag TPolicies 6]"

definition config_placeholder :: string where
  "config_placeholder = ''{'' @ [QUOTE] @ ''block_start_hour'' @ [QUOTE] @ '': 22, '' @ [QUOTE] @ ''block_end_hour'' @ [QUOTE] @
     '': 6, '' @ [QUOTE] @ ''timezone'' @ [QUOTE] @ '': '' @ [QUOTE] @ ''UTC'' @ [QUOTE] @ ''}''"

definition PoliciesPage :: "view_lib \<Rightarrow> Policy list \<Rightarrow> view" where
  "PoliciesPage L ps = Layout ''Policies'' ''policies''
     ([Frag TPolicies 1, Attr config_placeholder, Frag TPolicies 2] @ PoliciesList L ps @ [Frag TPolicies 3])"

end
