(* ===== verification/Sha256.thy ===== *)
theory Sha256
  imports Prelude
begin

text \<open>
  SHA-256 (FIPS 180-4) on byte strings, as \<open>crypto/sha256.Sum256\<close> computes it, and
  \<open>encoding/hex\<close>. The digest is eight 32-bit words, 32 bytes in big-endian order.
\<close>

unbundle bit_operations_syntax

type_synonym u32 = "32 word"

definition sha_K :: "u32 list" where
  "sha_K = [
    1116352408, 1899447441, 3049323471, 3921009573, 961987163, 1508970993, 2453635748, 2870763221,
    3624381080, 310598401, 607225278, 1426881987, 1925078388, 2162078206, 2614888103, 3248222580,
    3835390401, 4022224774, 264347078, 604807628, 770255983, 1249150122, 1555081692, 1996064986,
    2554220882, 2821834349, 2952996808, 3210313671, 3336571891, 3584528711, 113926993, 338241895,
    666307205, 773529912, 1294757372, 1396182291, 1695183700, 1986661051, 2177026350, 2456956037,
    2730485921, 2820302411, 3259730800, 3345764771, 3516065817, 3600352804, 4094571909, 275423344,
    430227734, 506948616, 659060556, 883997877, 958139571, 1322822218, 1537002063, 1747873779,
    1955562222, 2024104815, 2227730452, 2361852424, 2428436474, 2756734187, 3204031479, 3329325298]"

definition sha_H0 :: "u32 list" where
  "sha_H0 = [
    1779033703, 3144134277, 1013904242, 2773480762, 1359893119, 2600822924, 528734635, 1541459225]"

definition rotr :: "nat \<Rightarrow> u32 \<Rightarrow> u32" where
  "rotr n x = drop_bit n x OR push_bit (32 - n) x"

definition sha_Ch :: "u32 \<Rightarrow> u32 \<Rightarrow> u32 \<Rightarrow> u32" where
  "sha_Ch x y z = (x AND y) XOR (NOT x AND z)"

definition sha_Maj :: "u32 \<Rightarrow> u32 \<Rightarrow> u32 \<Rightarrow> u32" where
  "sha_Maj x y z = (x AND y) XOR (x AND z) XOR (y AND z)"

definition big_S0 :: "u32 \<Rightarrow> u32" where "big_S0 x = rotr 2 x XOR rotr 13 x XOR rotr 22 x"
definition big_S1 :: "u32 \<Rightarrow> u32" where "big_S1 x = rotr 6 x XOR rotr 11 x XOR rotr 25 x"
definition small_s0 :: "u32 \<Rightarrow> u32" where "small_s0 x = rotr 7 x XOR rotr 18 x XOR drop_bit 3 x"
definition small_s1 :: "u32 \<Rightarrow> u32" where "small_s1 x = rotr 17 x XOR rotr 19 x XOR drop_bit 10 x"

text \<open>The message schedule, newest word first.\<close>

fun sha_schedule :: "nat \<Rightarrow> u32 list \<Rightarrow> u32 list" where
  "sha_schedule 0 ws = ws"
| "sha_schedule (Suc n) ws =
     sha_schedule n ((small_s1 (ws ! 1) + ws ! 6 + small_s0 (ws ! 14) + ws ! 15) # ws)"

fun sha_round :: "u32 list \<Rightarrow> u32 \<times> u32 \<Rightarrow> u32 list" where
  "sha_round [a, b, c, d, e, f, g, h] (k, w) =
     (let t1 = h + big_S1 e + sha_Ch e f g + k + w; t2 = big_S0 a + sha_Maj a b c
      in [t1 + t2, a, b, c, d + t1, e, f, g])"
| "sha_round s _ = s"

definition sha_block :: "u32 list \<Rightarrow> u32 list \<Rightarrow> u32 list" where
  "sha_block hs blk = map2 (+) hs (foldl sha_round hs (zip sha_K (rev (sha_schedule 48 (rev blk)))))"

definition bytes_of_nat :: "nat \<Rightarrow> nat \<Rightarrow> nat list" where
  "bytes_of_nat n x = map (\<lambda>i. x div 256 ^ i mod 256) (rev [0..<n])"

definition sha_pad :: "nat list \<Rightarrow> nat list" where
  "sha_pad bs = bs @ [0x80] @ replicate ((119 - length bs mod 64) mod 64) 0 @ bytes_of_nat 8 (8 * length bs)"

fun sha_words :: "nat list \<Rightarrow> u32 list" where
  "sha_words (a # b # c # d # r) = word_of_nat (((a * 256 + b) * 256 + c) * 256 + d) # sha_words r"
| "sha_words _ = []"

fun sha_blocks :: "nat \<Rightarrow> u32 list \<Rightarrow> u32 list list" where
  "sha_blocks 0 ws = []"
| "sha_blocks (Suc n) ws = take 16 ws # sha_blocks n (drop 16 ws)"

definition Sum256 :: "string \<Rightarrow> string" where
  "Sum256 s =
     (let ws = sha_words (sha_pad (map of_char s));
          hs = foldl sha_block sha_H0 (sha_blocks (length ws div 16) ws)
      in map char_of (concat (map (\<lambda>w. bytes_of_nat 4 (unat w)) hs)))"

section \<open>\<open>encoding/hex\<close>\<close>

definition hex_nibble :: "nat \<Rightarrow> char" where
  "hex_nibble n = (if n < 10 then char_of (48 + n) else char_of (87 + n))"

definition EncodeToString :: "string \<Rightarrow> string" where
  "EncodeToString bs = concat (map (\<lambda>c. [hex_nibble (of_char c div 16), hex_nibble (of_char c mod 16)]) bs)"

definition nibble_val :: "char \<Rightarrow> nat" where
  "nibble_val c = (if (of_char c :: nat) < 58 then of_char c - 48 else of_char c - 87)"

fun hex_decode :: "string \<Rightarrow> string" where
  "hex_decode (a # b # r) = char_of (16 * nibble_val a + nibble_val b) # hex_decode r"
| "hex_decode _ = []"

lemma nibble_inverse: "n < 16 \<Longrightarrow> nibble_val (hex_nibble n) = n"
  by (auto simp: nibble_val_def hex_nibble_def of_char_of)

lemma nibble_bound: "(of_char (c::char) :: nat) div 16 < 16" "(of_char (c::char) :: nat) mod 16 < 16"
proof -
  have "(of_char c :: nat) < 256" by (metis of_char_mod_256 mod_less_divisor zero_less_numeral)
  then show "(of_char c :: nat) div 16 < 16" by arith
qed simp

lemma hex_decode_encode: "hex_decode (EncodeToString bs) = bs"
proof (induction bs)
  case Nil
  then show ?case by (simp add: EncodeToString_def)
next
  case (Cons c bs)
  have "char_of (16 * nibble_val (hex_nibble (of_char c div 16)) + nibble_val (hex_nibble (of_char c mod 16))) = c"
    by (simp add: nibble_inverse nibble_bound)
  with Cons show ?case by (simp add: EncodeToString_def)
qed

lemma EncodeToString_inj: "EncodeToString a = EncodeToString b \<Longrightarrow> a = b"
  by (metis hex_decode_encode)

lemma length_EncodeToString [simp]: "length (EncodeToString bs) = 2 * length bs"
  by (induction bs) (simp_all add: EncodeToString_def)

text \<open>The digest always has 32 bytes.\<close>

lemma length_sha_round: "length s = 8 \<Longrightarrow> length (sha_round s kw) = 8"
  by (cases "(s, kw)" rule: sha_round.cases) (simp_all add: Let_def)

lemma length_sha_rounds: "length s = 8 \<Longrightarrow> length (foldl sha_round s kws) = 8"
  by (induction kws arbitrary: s) (simp_all add: length_sha_round)

lemma length_sha_blocks: "length hs = 8 \<Longrightarrow> length (foldl sha_block hs bs) = 8"
  by (induction bs arbitrary: hs) (simp_all add: sha_block_def length_sha_rounds)

lemma length_concat_const: "(\<And>x. length (f x) = n) \<Longrightarrow> length (concat (map f xs)) = n * length xs"
  by (induction xs) simp_all

lemma length_Sum256 [simp]: "length (Sum256 s) = 32"
  by (simp add: Sum256_def Let_def length_concat_const [where n = 4] bytes_of_nat_def length_sha_blocks sha_H0_def)

end
