(* ===== verification/StoreInv.thy ===== *)
theory StoreInv
  imports Store
begin

text \<open>
  The schema's constraints (primary keys, unique columns, foreign keys, the check on
  \<open>policies.policy_type\<close>) as one predicate \<open>db_inv\<close>, and the proof that every
  statement the program issues keeps them: \<open>exec\<close> runs any statement of
  \<open>queries.sql.go\<close> that changes the database, one lemma per statement. The locale
  \<open>key_store\<close> is the contract the authentication service relies on, interpreted here on
  the queries.
\<close>

section \<open>Constraints\<close>

definition pm_unique :: "Permission \<Rightarrow> uuid \<times> string \<times> string" where
  "pm_unique p = (pm_RoleID p, pm_Resource p, pm_Action p)"

definition akr_key :: "ApiKeyRole \<Rightarrow> uuid \<times> uuid" where
  "akr_key r = (akr_ApiKeyID r, akr_RoleID r)"

definition keys_unique :: "database \<Rightarrow> bool" where
  "keys_unique db \<longleftrightarrow>
     distinct (map ak_ID (api_keys db)) \<and> distinct (map ak_KeyHash (api_keys db)) \<and>
     distinct (map ro_ID (roles db)) \<and> distinct (map ro_Name (roles db)) \<and>
     distinct (map pm_ID (permissions db)) \<and> distinct (map pm_unique (permissions db)) \<and>
     distinct (map akr_key (api_key_roles db)) \<and>
     distinct (map rl_ID (rate_limits db)) \<and> distinct (map rl_ApiKeyID (rate_limits db)) \<and>
     distinct (map al_ID (audit_logs db)) \<and> distinct (map po_ID (policies db))"

definition references_ok :: "database \<Rightarrow> bool" where
  "references_ok db \<longleftrightarrow>
     list_all (\<lambda>p. pm_RoleID p \<in> ro_ID ` set (roles db)) (permissions db) \<and>
     list_all (\<lambda>r. akr_ApiKeyID r \<in> ak_ID ` set (api_keys db) \<and> akr_RoleID r \<in> ro_ID ` set (roles db)) (api_key_roles db) \<and>
     list_all (\<lambda>r. rl_ApiKeyID r \<in> ak_ID ` set (api_keys db)) (rate_limits db) \<and>
     list_all (\<lambda>l. al_ApiKeyID l \<in> ak_ID ` set (api_keys db)) (audit_logs db)"

definition checks_ok :: "database \<Rightarrow> bool" where
  "checks_ok db \<longleftrightarrow> list_all (\<lambda>p. po_PolicyType p \<in> set policy_types) (policies db)"

definition db_inv :: "database \<Rightarrow> bool" where
  "db_inv db \<longleftrightarrow> keys_unique db \<and> references_ok db \<and> checks_ok db"

lemmas db_inv_defs = db_inv_def keys_unique_def references_ok_def checks_ok_def pm_unique_def akr_key_def

lemma db_inv_empty: "db_inv empty_db"
  by (simp add: db_inv_defs empty_db_def)

lemma map_upd_same: "(\<And>x. f (g x) = f x) \<Longrightarrow> map f (map (\<lambda>x. if P x then g x else x) xs) = map f xs"
  by simp

lemma image_from_map: "map f xs = map f ys \<Longrightarrow> f ` set xs = f ` set ys"
  by (metis list.set_map)

lemma db_inv_api_keys:
  assumes "map ak_ID ks = map ak_ID (api_keys db)" and "map ak_KeyHash ks = map ak_KeyHash (api_keys db)"
  shows "db_inv (db\<lparr>api_keys := ks\<rparr>) = db_inv db"
  using assms image_from_map [OF assms(1)] by (simp add: db_inv_defs)

lemma db_inv_rate_limits:
  assumes "map rl_ID rs = map rl_ID (rate_limits db)" and "map rl_ApiKeyID rs = map rl_ApiKeyID (rate_limits db)"
  shows "db_inv (db\<lparr>rate_limits := rs\<rparr>) = db_inv db"
proof -
  have "list_all (\<lambda>r. rl_ApiKeyID r \<in> S) rs = list_all (\<lambda>r. rl_ApiKeyID r \<in> S) (rate_limits db)" for S
    using arg_cong [OF assms(2), of "list_all (\<lambda>i. i \<in> S)"] by (simp add: list.pred_map comp_def)
  with assms show ?thesis by (simp add: db_inv_defs)
qed

lemma db_inv_policies:
  assumes "map po_ID ps = map po_ID (policies db)" and "db_inv db"
    and "list_all (\<lambda>p. po_PolicyType p \<in> set policy_types) ps"
  shows "db_inv (db\<lparr>policies := ps\<rparr>)"
  using assms by (simp add: db_inv_defs)

lemma image_neq: "f ` {x \<in> S. f x \<noteq> i} = f ` S - {i}"
  by auto

lemma find_None_notin: "find (\<lambda>x. f x = y) xs = None \<longleftrightarrow> y \<notin> f ` set xs"
  by (auto simp: find_None_iff)

section \<open>Statements keep the constraints\<close>

named_theorems stmt_inv \<open>every statement keeps \<open>db_inv\<close>\<close>

lemma CreateAPIKey_inv [stmt_inv]: "db_inv db \<Longrightarrow> db_inv (snd (CreateAPIKey g n a db))"
  by (auto simp: CreateAPIKey_def Let_def db_inv_defs list_all_iff)

lemma RevokeAPIKey_inv [stmt_inv]: "db_inv db \<Longrightarrow> db_inv (snd (RevokeAPIKey n i db))"
  unfolding RevokeAPIKey_def snd_conv by (subst db_inv_api_keys) (rule map_upd_same; simp)+

lemma DeleteAPIKey_inv [stmt_inv]: "db_inv db \<Longrightarrow> db_inv (snd (DeleteAPIKey i db))"
  by (auto simp: DeleteAPIKey_def db_inv_defs distinct_map_filter list_all_iff image_neq)

lemma CreateRole_inv [stmt_inv]: "db_inv db \<Longrightarrow> db_inv (snd (CreateRole g n a db))"
  by (auto simp: CreateRole_def Let_def db_inv_defs list_all_iff)

lemma DeleteRole_inv [stmt_inv]: "db_inv db \<Longrightarrow> db_inv (snd (DeleteRole i db))"
  by (auto simp: DeleteRole_def db_inv_defs distinct_map_filter list_all_iff image_neq)

lemma AddPermission_inv [stmt_inv]: "db_inv db \<Longrightarrow> db_inv (snd (AddPermission g a db))"
  by (auto simp: AddPermission_def Let_def db_inv_defs list_all_iff)

lemma DeletePermission_inv [stmt_inv]: "db_inv db \<Longrightarrow> db_inv (snd (DeletePermission i db))"
  by (auto simp: DeletePermission_def db_inv_defs distinct_map_filter list_all_iff)

lemma AssignRoleToKey_inv [stmt_inv]: "db_inv db \<Longrightarrow> db_inv (snd (AssignRoleToKey n a db))"
  by (auto simp: AssignRoleToKey_def db_inv_defs list_all_iff)

lemma RemoveRoleFromKey_inv [stmt_inv]: "db_inv db \<Longrightarrow> db_inv (snd (RemoveRoleFromKey a db))"
  by (auto simp: RemoveRoleFromKey_def db_inv_defs distinct_map_filter list_all_iff)

lemma UpsertRateLimit_inv [stmt_inv]:
  assumes "db_inv db"
  shows "db_inv (snd (UpsertRateLimit g a db))"
proof (cases "find (\<lambda>r. rl_ApiKeyID r = ur_ApiKeyID a) (rate_limits db)")
  case None
  then have "ur_ApiKeyID a \<notin> rl_ApiKeyID ` set (rate_limits db)" by (simp add: find_None_notin)
  with None assms show ?thesis by (auto simp: UpsertRateLimit_def Let_def db_inv_defs)
next
  case (Some r)
  show ?thesis
    unfolding UpsertRateLimit_def Some Let_def option.case snd_conv
    by (subst db_inv_rate_limits) (rule map_upd_same; simp | rule assms)+
qed

lemma InsertAuditLog_inv [stmt_inv]: "db_inv db \<Longrightarrow> db_inv (snd (InsertAuditLog g n a db))"
  by (auto simp: InsertAuditLog_def audit_row_def db_inv_defs list_all_iff)

lemma CreatePolicy_inv [stmt_inv]: "db_inv db \<Longrightarrow> db_inv (snd (CreatePolicy j g n a db))"
  by (auto simp: CreatePolicy_def Let_def db_inv_defs list_all_iff split: option.splits)

lemma TogglePolicy_inv [stmt_inv]: "db_inv db \<Longrightarrow> db_inv (snd (TogglePolicy n i db))"
  unfolding TogglePolicy_def snd_conv
  by (rule db_inv_policies, rule map_upd_same) (auto simp: db_inv_def checks_ok_def list_all_iff)

lemma UpdatePolicy_inv [stmt_inv]:
  assumes "db_inv db"
  shows "db_inv (snd (UpdatePolicy j n a db))"
proof -
  have "db_inv (db\<lparr>policies := map (\<lambda>q. if po_ID q = up_ID a then q\<lparr>po_Name := up_Name a,
      po_PolicyType := up_PolicyType a, po_Enabled := up_Enabled a, po_Config := cfg, po_UpdatedAt := n\<rparr> else q) (policies db)\<rparr>)"
    if "up_PolicyType a \<in> set policy_types" for cfg
    by (rule db_inv_policies, rule map_upd_same)
      (use assms that in \<open>auto simp: db_inv_def checks_ok_def list_all_iff\<close>)
  then show ?thesis using assms by (auto simp: UpdatePolicy_def Let_def split: option.splits)
qed

lemma DeletePolicy_inv [stmt_inv]: "db_inv db \<Longrightarrow> db_inv (snd (DeletePolicy i db))"
  by (auto simp: DeletePolicy_def db_inv_defs distinct_map_filter list_all_iff)

section \<open>Any sequence of statements\<close>

datatype stmt =
    SCreateAPIKey uuid time CreateAPIKeyParams
  | SRevokeAPIKey time uuid
  | SDeleteAPIKey uuid
  | SCreateRole uuid time CreateRoleParams
  | SDeleteRole uuid
  | SAddPermission uuid AddPermissionParams
  | SDeletePermission uuid
  | SAssignRoleToKey time AssignRoleToKeyParams
  | SRemoveRoleFromKey AssignRoleToKeyParams
  | SUpsertRateLimit uuid UpsertRateLimitParams
  | SInsertAuditLog uuid time InsertAuditLogParams
  | SCreatePolicy "string \<Rightarrow> string option" uuid time CreatePolicyParams
  | STogglePolicy time uuid
  | SUpdatePolicy "string \<Rightarrow> string option" time UpdatePolicyParams
  | SDeletePolicy uuid

primrec exec :: "stmt \<Rightarrow> database \<Rightarrow> database" where
  "exec (SCreateAPIKey g n a) db = snd (CreateAPIKey g n a db)"
| "exec (SRevokeAPIKey n i) db = snd (RevokeAPIKey n i db)"
| "exec (SDeleteAPIKey i) db = snd (DeleteAPIKey i db)"
| "exec (SCreateRole g n a) db = snd (CreateRole g n a db)"
| "exec (SDeleteRole i) db = snd (DeleteRole i db)"
| "exec (SAddPermission g a) db = snd (AddPermission g a db)"
| "exec (SDeletePermission i) db = snd (DeletePermission i db)"
| "exec (SAssignRoleToKey n a) db = snd (AssignRoleToKey n a db)"
| "exec (SRemoveRoleFromKey a) db = snd (RemoveRoleFromKey a db)"
| "exec (SUpsertRateLimit g a) db = snd (UpsertRateLimit g a db)"
| "exec (SInsertAuditLog g n a) db = snd (InsertAuditLog g n a db)"
| "exec (SCreatePolicy j g n a) db = snd (CreatePolicy j g n a db)"
| "exec (STogglePolicy n i) db = snd (TogglePolicy n i db)"
| "exec (SUpdatePolicy j n a) db = snd (UpdatePolicy j n a db)"
| "exec (SDeletePolicy i) db = snd (DeletePolicy i db)"

lemma exec_inv: "db_inv db \<Longrightarrow> db_inv (exec s db)"
  by (cases s) (simp_all add: stmt_inv)

lemma exec_all_inv: "db_inv db \<Longrightarrow> db_inv (fold exec ss db)"
  by (induction ss arbitrary: db) (simp_all add: exec_inv)

section \<open>The contract of the key table\<close>

locale key_store =
  fixes create :: "uuid \<Rightarrow> time \<Rightarrow> CreateAPIKeyParams \<Rightarrow> 'db \<Rightarrow> (db_error + ApiKey) \<times> 'db"
    and lookup :: "string \<Rightarrow> 'db \<Rightarrow> db_error + ApiKey"
    and revoke :: "time \<Rightarrow> uuid \<Rightarrow> 'db \<Rightarrow> (db_error + unit) \<times> 'db"
    and delete :: "uuid \<Rightarrow> 'db \<Rightarrow> (db_error + unit) \<times> 'db"
    and invar :: "'db \<Rightarrow> bool"
  assumes create_lookup: "invar db \<Longrightarrow> create g n a db = (Inr row, db') \<Longrightarrow>
      lookup (cak_KeyHash a) db' = Inr row \<and> ak_ID row = g \<and> ak_Active row \<and> ak_ExpiresAt row = cak_ExpiresAt a"
    and create_other: "invar db \<Longrightarrow> create g n a db = (Inr row, db') \<Longrightarrow> h \<noteq> cak_KeyHash a \<Longrightarrow>
      lookup h db' = lookup h db"
    and create_invar: "invar db \<Longrightarrow> invar (snd (create g n a db))"
    and lookup_unique: "invar db \<Longrightarrow> lookup h db = Inr k \<Longrightarrow> lookup h' db = Inr k' \<Longrightarrow> ak_ID k = ak_ID k' \<Longrightarrow> h = h'"
    and revoke_lookup: "invar db \<Longrightarrow> lookup h db = Inr k \<Longrightarrow>
      \<exists>k'. lookup h (snd (revoke n (ak_ID k) db)) = Inr k' \<and> \<not> ak_Active k' \<and> ak_ID k' = ak_ID k"
    and revoke_other: "invar db \<Longrightarrow> lookup h db = Inr k \<Longrightarrow> ak_ID k \<noteq> i \<Longrightarrow> lookup h (snd (revoke n i db)) = Inr k"
    and revoke_invar: "invar db \<Longrightarrow> invar (snd (revoke n i db))"
    and delete_lookup: "invar db \<Longrightarrow> lookup h db = Inr k \<Longrightarrow> delete (ak_ID k) db = (Inr u, db') \<Longrightarrow> lookup h db' = Inl ErrNoRows"
    and delete_invar: "invar db \<Longrightarrow> invar (snd (delete i db))"

lemma find_append: "find P (xs @ ys) = (case find P xs of None \<Rightarrow> find P ys | Some x \<Rightarrow> Some x)"
  by (induction xs) auto

lemma find_map_upd:
  assumes "\<And>x. P (g x) = P x"
  shows "find P (map g xs) = map_option g (find P xs)"
  by (induction xs) (simp_all add: assms)

lemma distinct_key_eq: "distinct (map f xs) \<Longrightarrow> x \<in> set xs \<Longrightarrow> y \<in> set xs \<Longrightarrow> f x = f y \<Longrightarrow> x = y"
  by (meson distinct_map inj_onD)

lemma find_in: "find P xs = Some x \<Longrightarrow> x \<in> set xs \<and> P x"
  by (auto simp: find_Some_iff)

lemma GetAPIKeyByHash_Inr: "GetAPIKeyByHash h db = Inr k \<longleftrightarrow> text_ok h \<and> find (\<lambda>k. ak_KeyHash k = h) (api_keys db) = Some k"
  by (auto simp: GetAPIKeyByHash_def split: option.splits)

lemma create_lookup_store:
  assumes "CreateAPIKey g n a db = (Inr row, db')"
  shows "GetAPIKeyByHash (cak_KeyHash a) db' = Inr row \<and> ak_ID row = g \<and> ak_Active row \<and> ak_ExpiresAt row = cak_ExpiresAt a"
proof -
  have "cak_KeyHash a \<notin> ak_KeyHash ` set (api_keys db)"
    using assms by (auto simp: CreateAPIKey_def Let_def split: if_splits)
  then have "find (\<lambda>k. ak_KeyHash k = cak_KeyHash a) (api_keys db) = None"
    by (simp add: find_None_notin)
  with assms show ?thesis
    by (auto simp: CreateAPIKey_def Let_def GetAPIKeyByHash_Inr find_append split: if_splits)
qed

lemma create_other_store:
  "CreateAPIKey g n a db = (Inr row, db') \<Longrightarrow> h \<noteq> cak_KeyHash a \<Longrightarrow> GetAPIKeyByHash h db' = GetAPIKeyByHash h db"
  by (auto simp: CreateAPIKey_def Let_def GetAPIKeyByHash_def find_append split: if_splits option.splits)

lemma revoke_lookup_store:
  assumes "GetAPIKeyByHash h db = Inr k"
  shows "GetAPIKeyByHash h (snd (RevokeAPIKey n i db)) =
     Inr (if ak_ID k = i then k\<lparr>ak_Active := False, ak_UpdatedAt := n\<rparr> else k)"
  using assms by (simp add: RevokeAPIKey_def GetAPIKeyByHash_Inr find_map_upd)

lemma lookup_unique_store:
  assumes "db_inv db" "GetAPIKeyByHash h db = Inr k" "GetAPIKeyByHash h' db = Inr k'" "ak_ID k = ak_ID k'"
  shows "h = h'"
proof -
  have "k \<in> set (api_keys db)" "ak_KeyHash k = h" "k' \<in> set (api_keys db)" "ak_KeyHash k' = h'"
    using assms(2,3) by (auto simp: GetAPIKeyByHash_Inr dest: find_in)
  moreover have "distinct (map ak_ID (api_keys db))" using assms(1) by (simp add: db_inv_def keys_unique_def)
  ultimately show ?thesis using assms(4) by (metis distinct_key_eq)
qed

lemma delete_lookup_store:
  assumes "db_inv db" and "GetAPIKeyByHash h db = Inr k" and "DeleteAPIKey (ak_ID k) db = (Inr u, db')"
  shows "GetAPIKeyByHash h db' = Inl ErrNoRows"
proof -
  have k: "k \<in> set (api_keys db)" "ak_KeyHash k = h" "text_ok h"
    using assms(2) by (auto simp: GetAPIKeyByHash_Inr dest: find_in)
  have d: "distinct (map ak_KeyHash (api_keys db))" using assms(1) by (simp add: db_inv_def keys_unique_def)
  have "api_keys db' = filter (\<lambda>x. ak_ID x \<noteq> ak_ID k) (api_keys db)"
    using assms(3) by (auto simp: DeleteAPIKey_def split: if_splits)
  then have "h \<notin> ak_KeyHash ` set (api_keys db')"
    using distinct_key_eq [OF d k(1)] k(2) by auto
  then show ?thesis using k(3) find_None_notin [of ak_KeyHash h "api_keys db'"] by (simp add: GetAPIKeyByHash_def)
qed

interpretation ks: key_store CreateAPIKey GetAPIKeyByHash RevokeAPIKey DeleteAPIKey db_inv
  by unfold_locales
    (auto simp: create_lookup_store create_other_store revoke_lookup_store delete_lookup_store stmt_inv
      intro: lookup_unique_store)

end
