(* ===== verification/JsonRoundtrip.thy ===== *)
theory JsonRoundtrip
  imports Json
begin

text \<open>
  What \<open>Marshal\<close> writes, \<open>Unmarshal\<close> reads back: \<open>json_parse (json_print v) = Some v\<close>
  for every value whose strings are valid UTF-8, whose numbers are JSON numbers and whose
  nesting stays within the parser's limit. The proof follows the parser: the string lexer
  inverts \<open>quote_body\<close>, the byte lexer turns the text of a value into its tokens, and
  the stack machine turns the tokens into the value.
\<close>

section \<open>String literals\<close>

lemma utf8_tail_le: "utf8_tail l t \<le> Suc (length t)"
  by (cases l; cases t) (auto simp: utf8_tail_def)

lemma utf8_tail_take:
  "utf8_tail l t \<noteq> 0 \<Longrightarrow> utf8_tail l (take (utf8_tail l t - 1) t @ r) = utf8_tail l t"
  by (cases l; cases t) (auto simp: utf8_tail_def min_def take_Cons' split: if_splits)

lemma hex_val_digit: "n < 16 \<Longrightarrow> hex_val (hex_digit n) = Some n"
  by (auto simp: hex_val_def hex_digit_def byte_in_def of_char_of)

lemma encode_rune_ascii: "of_char c < (128::nat) \<Longrightarrow> encode_rune (of_char c) = [c]"
  by (simp add: encode_rune_def)

lemma byte_lt: "byte_in 0 127 c \<longleftrightarrow> of_char c < (128::nat)"
  by (auto simp: byte_in_def)

lemma hex_of_byte: "of_char c < (128::nat) \<Longrightarrow>
  hex4 (CHR ''0'' # CHR ''0'' # hex_digit (of_char c div 16) # hex_digit (of_char c mod 16) # r) = Some (of_char c)"
proof -
  assume a: "of_char c < (128::nat)"
  have z: "hex_val (CHR ''0'') = Some 0" by (simp add: hex_val_def byte_in_def)
  have "(of_char c :: nat) div 16 < 16" using a by arith
  then show ?thesis by (simp add: z hex_val_digit)
qed

lemma hex_2028: "hex4 (CHR ''2'' # CHR ''0'' # CHR ''2'' # CHR ''8'' # r) = Some 0x2028"
  "hex4 (CHR ''2'' # CHR ''0'' # CHR ''2'' # CHR ''9'' # r) = Some 0x2029"
  by (simp_all add: hex_val_def byte_in_def)


lemma encode_2028: "encode_rune 8232 = [CHR 0xE2, CHR 0x80, CHR 0xA8]"
  "encode_rune 8233 = [CHR 0xE2, CHR 0x80, CHR 0xA9]"
  by (simp_all add: encode_rune_def char_of_eq_iff)

lemma utf8_len_ascii: "byte_in 0 0x7F c \<Longrightarrow> utf8_len (c # r) = 1"
  by (simp add: utf8_len_def utf8_lead_def utf8_tail_def)

lemma utf8_len_take:
  assumes "utf8_len (c # t) \<noteq> 0"
  shows "utf8_len (c # take (utf8_len (c # t) - 1) t @ r) = utf8_len (c # t)"
  using assms utf8_tail_take [of "utf8_lead c" t r] by (simp add: utf8_len_def)

lemma quote_step_inverse_ascii:
  assumes "byte_in 0 0x7F c" and "quote_step c t = (b, n)"
  shows "n = 0 \<and> b \<noteq> [] \<and> (\<forall>r. str_step (hd b) (tl b @ r) = SEmit [c] (length b - 1))"
proof -
  let ?S = "{QUOTE, BSLASH, CHR 0x08, CHR 0x0C, CHR 0x0A, CHR 0x0D, CHR 0x09}"
  let ?H = "(of_char c :: nat) < 32 \<or> c = CHR ''<'' \<or> c = CHR ''>'' \<or> c = CHR ''&''"
  consider (esc) "c \<in> ?S" | (hex) "c \<notin> ?S" ?H | (plain) "c \<notin> ?S" "\<not> ?H" by argo
  then show ?thesis
  proof cases
    case esc
    with assms show ?thesis
      by (elim insertE emptyE) (auto simp: quote_step_def str_step_def simple_esc_def byte_in_def)
  next
    case hex
    then have "quote_step c t = (BSLASH # CHR ''u'' # CHR ''0'' # CHR ''0'' # hex_digit (of_char c div 16) # [hex_digit (of_char c mod 16)], 0)"
      using assms(1) by (simp add: quote_step_def)
    moreover have "of_char c < (128::nat)" using assms(1) by (simp add: byte_lt)
    ultimately show ?thesis
      using assms(2) by (auto simp: str_step_def simple_esc_def unicode_esc_def hex_of_byte encode_rune_ascii simp del: hex4.simps)
  next
    case plain
    then have "quote_step c t = ([c], 0)" using assms(1) by (simp add: quote_step_def)
    with plain assms show ?thesis by (auto simp: str_step_def utf8_len_ascii)
  qed
qed

lemma quote_step_inverse_multi:
  assumes "\<not> byte_in 0 0x7F c" and "utf8_len (c # t) \<noteq> 0" and "quote_step c t = (b, n)"
  shows "n = utf8_len (c # t) - 1 \<and>
    b \<noteq> [] \<and> (\<forall>r. str_step (hd b) (tl b @ r) = SEmit (c # take n t) (length b - 1))"
proof -
  let ?m = "utf8_len (c # t)"
  have m: "take ?m (c # t) = c # take (?m - 1) t" using assms(2) by (cases ?m) simp_all
  have len: "length (take (?m - 1) t) = ?m - 1"
    using utf8_tail_le [of "utf8_lead c" t] by (auto simp: utf8_len_def)
  have c: "c \<noteq> QUOTE" "c \<noteq> BSLASH" "\<not> (of_char c :: nat) < 32"
    using assms(1) by (auto simp: byte_lt)
  consider (ls) "take ?m (c # t) = [CHR 0xE2, CHR 0x80, CHR 0xA8]"
    | (ps) "take ?m (c # t) = [CHR 0xE2, CHR 0x80, CHR 0xA9]"
    | (other) "take ?m (c # t) \<noteq> [CHR 0xE2, CHR 0x80, CHR 0xA8]" "take ?m (c # t) \<noteq> [CHR 0xE2, CHR 0x80, CHR 0xA9]"
    by argo
  then show ?thesis
  proof cases
    case ls
    then have l: "c # take (?m - 1) t = [CHR 0xE2, CHR 0x80, CHR 0xA8]" using m by (rule trans [OF sym, rotated])
    then have l': "take (?m - 1) t = [CHR 0x80, CHR 0xA8]" by (rule list.inject [THEN iffD1, THEN conjunct2])
    have "?m - 1 = length [CHR 0x80, CHR 0xA8]" using len unfolding l' by (rule sym)
    then have "?m - 1 = 2" by simp
    moreover have "quote_step c t = (BSLASH # ''u2028'', 2)"
      using assms(1,2) ls by (simp add: quote_step_def Let_def)
    ultimately show ?thesis
      using assms(3) l by (auto simp: str_step_def simple_esc_def unicode_esc_def hex_2028 encode_2028 simp del: hex4.simps)
  next
    case ps
    then have l: "c # take (?m - 1) t = [CHR 0xE2, CHR 0x80, CHR 0xA9]" using m by (rule trans [OF sym, rotated])
    then have l': "take (?m - 1) t = [CHR 0x80, CHR 0xA9]" by (rule list.inject [THEN iffD1, THEN conjunct2])
    have "?m - 1 = length [CHR 0x80, CHR 0xA9]" using len unfolding l' by (rule sym)
    then have "?m - 1 = 2" by simp
    moreover have "quote_step c t = (BSLASH # ''u2029'', 2)"
      using assms(1,2) ps by (simp add: quote_step_def Let_def)
    ultimately show ?thesis
      using assms(3) l by (auto simp: str_step_def simple_esc_def unicode_esc_def hex_2028 encode_2028 simp del: hex4.simps)
  next
    case other
    have "str_step c (take (?m - 1) t @ r) = SEmit (c # take (?m - 1) t) (?m - 1)" for r
      using c assms(2) m len utf8_len_take [OF assms(2), of r]
      by (cases ?m) (simp_all add: str_step_def Let_def)
    moreover have "quote_step c t = (take ?m (c # t), ?m - 1)"
      using assms(1,2) other by (simp add: quote_step_def Let_def)
    ultimately show ?thesis using assms(3) len m by auto
  qed
qed

lemma lex_str_quote_body: "valid_utf8 s \<Longrightarrow> lex_str (quote_body s @ QUOTE # r) = Some (s, r)"
proof (induction s rule: quote_body.induct)
  case 1
  then show ?case by (simp add: str_step_def)
next
  case (2 c t)
  obtain b n where q: "quote_step c t = (b, n)" by fastforce
  from "2.prems" have u: "utf8_len (c # t) \<noteq> 0" "valid_utf8 (drop (utf8_len (c # t) - 1) t)"
    by (auto simp: valid_utf8.simps(2) Let_def)
  have "n = utf8_len (c # t) - 1 \<and> b \<noteq> [] \<and> (\<forall>r. str_step (hd b) (tl b @ r) = SEmit (c # take n t) (length b - 1))"
  proof (cases "byte_in 0 0x7F c")
    case True
    with quote_step_inverse_ascii [OF True q] show ?thesis by (simp add: utf8_len_ascii)
  next
    case False
    with quote_step_inverse_multi [OF False u(1) q] show ?thesis by blast
  qed
  then obtain b0 b' where n: "n = utf8_len (c # t) - 1" and b: "b = b0 # b'"
    and st: "\<And>r. str_step b0 (b' @ r) = SEmit (c # take n t) (length b')"
    by (cases b) auto
  have "lex_str (quote_body (drop n t) @ QUOTE # r) = Some (drop n t, r)"
    using "2.IH" [OF q [symmetric]] u(2) n by simp
  then show ?case by (simp add: quote_body.simps(2) q b st)
qed


fun toks :: "json \<Rightarrow> tok list" and toks_elems :: "json list \<Rightarrow> tok list"
  and toks_members :: "(string \<times> json) list \<Rightarrow> tok list" where
  "toks JNull = [TNull]"
| "toks (JBool b) = [TBool b]"
| "toks (JNum n) = [TNum n]"
| "toks (JStr s) = [TStr s]"
| "toks (JArr vs) = TLBrack # toks_elems vs @ [TRBrack]"
| "toks (JObj ms) = TLBrace # toks_members ms @ [TRBrace]"
| "toks_elems [] = []"
| "toks_elems (v # vs) = toks v @ (if vs = [] then [] else TComma # toks_elems vs)"
| "toks_members [] = []"
| "toks_members (m # ms) =
     TStr (fst m) # TColon # toks (snd m) @ (if ms = [] then [] else TComma # toks_members ms)"

definition num_stop :: "string \<Rightarrow> bool" where
  "num_stop r \<longleftrightarrow> (case r of [] \<Rightarrow> True | c # _ \<Rightarrow> \<not> is_digit c \<and> c \<notin> {CHR ''.'', CHR ''e'', CHR ''E''})"

lemma lex_quote [simp]: "valid_utf8 s \<Longrightarrow> lex (json_quote s @ r) = map_option ((#) (TStr s)) (lex r)"
  by (simp add: json_quote_def lex_str_quote_body is_ws_def)

lemma takeWhile_stop: "num_stop r \<Longrightarrow> takeWhile is_digit (d @ r) = takeWhile is_digit d"
  "num_stop r \<Longrightarrow> dropWhile is_digit (d @ r) = dropWhile is_digit d @ r"
  by (induction d) (auto simp: num_stop_def split: list.splits)


lemma lex_int_stop: "s \<noteq> [] \<Longrightarrow> num_stop r \<Longrightarrow> lex_int (s @ r) = map_option (\<lambda>(x, y). (x, y @ r)) (lex_int s)"
  by (cases s) (auto simp: lex_int_def takeWhile_stop)

lemma lex_frac_stop: "num_stop r \<Longrightarrow> lex_frac (s @ r) = map_option (\<lambda>(x, y). (x, y @ r)) (lex_frac s)"
  by (cases s; cases r) (simp_all add: lex_frac_def takeWhile_stop num_stop_def)

lemma lex_sign_app: "s \<noteq> [] \<Longrightarrow> lex_sign (s @ r) = (fst (lex_sign s), snd (lex_sign s) @ r)"
  by (cases s) (simp_all add: lex_sign_def)

lemma lex_exp_stop:
  assumes "s \<noteq> []" and r: "num_stop r" and e: "lex_exp s = Some (x, y)" 
  shows "lex_exp (s @ r) = Some (x, y @ r)"
proof -
  obtain c t where s: "s = c # t" using assms(1) by (cases s) auto
  show ?thesis
  proof (cases "c = CHR ''e'' \<or> c = CHR ''E''")
    case True
    with e s have t: "takeWhile is_digit (snd (lex_sign t)) \<noteq> []"
      by (auto simp: lex_exp_def split: prod.splits if_splits)
    then have "t \<noteq> []" by (auto simp: lex_sign_def)
    then have "lex_sign (t @ r) = (fst (lex_sign t), snd (lex_sign t) @ r)"
      by (rule lex_sign_app)
    with True e t show ?thesis
      by (auto simp: s lex_exp_def takeWhile_stop [OF r] split: prod.splits)
  next
    case False
    with e have "x = []" "y = c # t" by (auto simp: s lex_exp_def)
    with False show ?thesis by (simp add: s lex_exp_def)
  qed
qed

lemma lex_exp_Nil_stop: "num_stop r \<Longrightarrow> lex_exp r = Some ([], r)"
  by (auto simp: num_stop_def lex_exp_def split: list.splits)

lemma lex_frac_Nil_stop: "num_stop r \<Longrightarrow> lex_frac r = Some ([], r)"
  by (auto simp: num_stop_def lex_frac_def split: list.splits)

lemma lex_exp_app: "num_stop r \<Longrightarrow> lex_exp s = Some (x, y) \<Longrightarrow> lex_exp (s @ r) = Some (x, y @ r)"
  by (cases "s = []") (auto simp: lex_exp_stop lex_exp_Nil_stop, auto simp: lex_exp_def)

lemma lex_num_app: "num_stop r \<Longrightarrow> lex_num s = Some n \<Longrightarrow> lex_num (s @ r) = Some n"
proof -
  assume r: "num_stop r" and n: "lex_num s = Some n"
  define sg where "sg = (case s of c # t \<Rightarrow> if c = CHR ''-'' then ([c], t) else ([], s) | [] \<Rightarrow> ([], []))"
  from n obtain i s2 f s3 e s4 where
    i: "lex_int (snd sg) = Some (i, s2)" and f: "lex_frac s2 = Some (f, s3)" and e: "lex_exp s3 = Some (e, s4)"
    and n': "n = fst sg @ i @ f @ e"
    unfolding lex_num_def sg_def [symmetric] by (auto split: prod.splits option.splits)
  have "s \<noteq> []" using i by (auto simp: sg_def lex_int_def)
  then have sg': "(case s @ r of c # t \<Rightarrow> if c = CHR ''-'' then ([c], t) else ([], s @ r) | [] \<Rightarrow> ([], [])) = (fst sg, snd sg @ r)"
    by (cases s) (auto simp: sg_def)
  have "snd sg \<noteq> []" using i by (auto simp: lex_int_def)
  then have "lex_int (snd sg @ r) = Some (i, s2 @ r)" using lex_int_stop [OF _ r] i by simp
  moreover have "lex_frac (s2 @ r) = Some (f, s3 @ r)" using lex_frac_stop [OF r] f by simp
  moreover have "lex_exp (s3 @ r) = Some (e, s4 @ r)" by (rule lex_exp_app [OF r e])
  ultimately show ?thesis unfolding lex_num_def sg' by (simp add: n')
qed

lemma lex_num_first: "lex_num (c # t) \<noteq> None \<Longrightarrow> c = CHR ''-'' \<or> is_digit c"
  by (cases "c = CHR ''0''")
    (auto simp: lex_num_def lex_int_def is_digit_def split: prod.splits option.splits if_splits)

lemma digit_not_special:
  assumes "is_digit c \<or> c = CHR ''-''"
  shows "\<not> is_ws c" "c \<noteq> QUOTE" "punct c = None" "literal c t = None"
proof -
  have n: "c \<notin> {CHR '' '', CHR 0x09, CHR 0x0A, CHR 0x0D, QUOTE, CHR ''{'', CHR ''}'', CHR ''['', CHR '']'',
      CHR '':'', CHR '','', CHR ''n'', CHR ''t'', CHR ''f''}"
    using assms by (auto simp: is_digit_def)
  then show "\<not> is_ws c" "c \<noteq> QUOTE" by (simp_all add: is_ws_def)
  from n show "punct c = None" by (simp add: punct_def)
  from n show "literal c t = None" by (simp add: literal_def)
qed

lemma lex_number [simp]:
  assumes "lex_num n = Some n" and "num_stop r"
  shows "lex (n @ r) = map_option ((#) (TNum n)) (lex r)"
proof -
  obtain c t where n: "n = c # t" using assms(1) by (cases n) (auto simp: lex_num_def lex_int_def)
  have "c = CHR ''-'' \<or> is_digit c" using lex_num_first [of c t] assms(1) n by simp
  note sp = digit_not_special [OF this [THEN disj_commute [THEN iffD1]]]
  have "lex_num (c # t @ r) = Some (c # t)" using lex_num_app [OF assms(2,1)] n by simp
  then show ?thesis by (simp add: n sp)
qed

declare lex.simps(2) [simp del]

text \<open>What may follow a value in a printed text.\<close>

definition value_stop :: "string \<Rightarrow> bool" where
  "value_stop r \<longleftrightarrow> (case r of [] \<Rightarrow> True | c # _ \<Rightarrow> c \<in> {CHR '','', CHR '']'', CHR ''}'', CHR 0x0A})"

lemma value_stop_num: "value_stop r \<Longrightarrow> num_stop r"
  by (auto simp: value_stop_def num_stop_def is_digit_def split: list.splits)

lemma lex_punct: 
  "lex (CHR ''['' # r) = map_option ((#) TLBrack) (lex r)"
  "lex (CHR '']'' # r) = map_option ((#) TRBrack) (lex r)"
  "lex (CHR ''{'' # r) = map_option ((#) TLBrace) (lex r)"
  "lex (CHR ''}'' # r) = map_option ((#) TRBrace) (lex r)"
  "lex (CHR '','' # r) = map_option ((#) TComma) (lex r)"
  "lex (CHR '':'' # r) = map_option ((#) TColon) (lex r)"
  by (simp_all add: lex.simps(2) is_ws_def punct_def)

lemma lex_literal:
  "lex (''null'' @ r) = map_option ((#) TNull) (lex r)"
  "lex (''true'' @ r) = map_option ((#) (TBool True)) (lex r)"
  "lex (''false'' @ r) = map_option ((#) (TBool False)) (lex r)"
  by (simp_all add: lex.simps(2) is_ws_def punct_def literal_def)

lemma map_option_Cons_app: "map_option ((#) t) (map_option ((@) ts) x) = map_option ((@) (t # ts)) x"
  "map_option ((@) us) (map_option ((@) ts) x) = map_option ((@) (us @ ts)) x"
  "map_option ((@) us) (map_option ((#) t) x) = map_option ((@) (us @ [t])) x"
  "map_option ((@) [t]) x = map_option ((#) t) x" "map_option ((@) []) x = x"
  by (cases x; simp)+

lemma lex_print:
  "json_ok v \<Longrightarrow> value_stop r \<Longrightarrow> lex (json_print v @ r) = map_option ((@) (toks v)) (lex r)"
  "\<forall>v \<in> set vs. json_ok v \<Longrightarrow> value_stop r \<Longrightarrow> lex (print_elems vs @ r) = map_option ((@) (toks_elems vs)) (lex r)"
  "\<forall>m \<in> set ms. valid_utf8 (fst m) \<and> json_ok (snd m) \<Longrightarrow> value_stop r \<Longrightarrow>
     lex (print_members ms @ r) = map_option ((@) (toks_members ms)) (lex r)"
  by (induction v and vs and ms arbitrary: r and r and r rule: json_print_print_elems_print_members.induct)
    (simp_all add: lex_punct lex_literal [simplified] value_stop_num map_option_Cons_app value_stop_def)

section \<open>The stack machine\<close>

lemma depth_elem: "v \<in> set vs \<Longrightarrow> json_depth v \<le> foldr max (map json_depth vs) 0"
  by (induction vs) auto

lemma depth_member: "m \<in> set ms \<Longrightarrow> json_depth (snd m) \<le> foldr max (map (\<lambda>m. json_depth (snd m)) ms) 0"
  by (induction ms) auto

lemma toks_first: "toks v = t # ts \<Longrightarrow> t \<noteq> TRBrack"
  by (cases v) auto

lemma toks_nonempty [simp]: "toks v \<noteq> []"
  by (cases v) auto

lemma ptoks_or_end: "vs \<noteq> [] \<Longrightarrow> ptoks WantValueOrEnd fs (toks_elems vs @ ts) = ptoks WantValue fs (toks_elems vs @ ts)"
proof -
  assume "vs \<noteq> []"
  then obtain v ws where "vs = v # ws" by (cases vs) auto
  moreover obtain t us where "toks v = t # us" using toks_nonempty by (cases "toks v") auto
  moreover from this have "t \<noteq> TRBrack" by (rule toks_first)
  ultimately show ?thesis by (cases t) (simp_all add: pstep_def)
qed

lemma ptoks_key_or_end: "ms \<noteq> [] \<Longrightarrow> ptoks WantKeyOrEnd fs (toks_members ms @ ts) = ptoks WantKey fs (toks_members ms @ ts)"
  by (cases ms) (simp_all add: pstep_def)

lemma ptoks_toks:
  "json_depth v + length fs \<le> maxNestingDepth \<Longrightarrow> ptoks WantValue fs (toks v @ ts) = ptoks (GotValue v) fs ts"
  "vs \<noteq> [] \<Longrightarrow> \<forall>v \<in> set vs. json_depth v + Suc (length fs) \<le> maxNestingDepth \<Longrightarrow>
     ptoks WantValue (FArr xs # fs) (toks_elems vs @ TRBrack # ts) = ptoks (GotValue (JArr (xs @ vs))) fs ts"
  "ms \<noteq> [] \<Longrightarrow> \<forall>m \<in> set ms. json_depth (snd m) + Suc (length fs) \<le> maxNestingDepth \<Longrightarrow>
     ptoks WantKey (FObj ns k # fs) (toks_members ms @ TRBrace # ts) = ptoks (GotValue (JObj (ns @ ms))) fs ts"
proof (induction v and vs and ms arbitrary: fs ts and fs ts xs and fs ts ns k rule: toks_toks_elems_toks_members.induct)
  case (5 vs)
  have d: "\<forall>v \<in> set vs. json_depth v + Suc (length fs) \<le> maxNestingDepth"
    using depth_elem [of _ vs] "5.prems" by fastforce
  have l: "length fs < maxNestingDepth" using "5.prems" by simp
  show ?case
  proof (cases "vs = []")
    case True
    with l show ?thesis by (simp add: pstep_def value_tok_def push_def)
  next
    case False
    with l "5.IH" [OF False d, of "[]" ts] show ?thesis
      by (simp add: pstep_def value_tok_def push_def ptoks_or_end)
  qed
next
  case (6 ms)
  have d: "\<forall>m \<in> set ms. json_depth (snd m) + Suc (length fs) \<le> maxNestingDepth"
    using depth_member [of _ ms] "6.prems" by fastforce
  have l: "length fs < maxNestingDepth" using "6.prems" by simp
  show ?case
  proof (cases "ms = []")
    case True
    with l show ?thesis by (simp add: pstep_def value_tok_def push_def)
  next
    case False
    with l "6.IH" [OF False d, of "[]" "[]" ts] show ?thesis
      by (simp add: pstep_def value_tok_def push_def ptoks_key_or_end)
  qed
next
  case (8 v vs)
  then show ?case
    by (cases "vs = []") (simp_all add: pstep_def after_value_def)
next
  case (10 m ms)
  then show ?case
    by (cases "ms = []") (simp_all add: pstep_def after_value_def key_tok_def)
qed (simp_all add: pstep_def value_tok_def)

theorem json_roundtrip:
  assumes "json_ok v" and "json_depth v \<le> maxNestingDepth"
  shows "json_parse (json_print v) = Some v"
  using lex_print(1) [OF assms(1), of "[]"] ptoks_toks(1) [of v "[]" "[]"] assms(2)
  by (simp add: json_parse_def value_stop_def)

lemma json_roundtrip_newline:
  assumes "json_ok v" and "json_depth v \<le> maxNestingDepth"
  shows "json_parse (json_print v @ [CHR 0x0A]) = Some v"
  using lex_print(1) [OF assms(1), of "[CHR 0x0A]"] ptoks_toks(1) [of v "[]" "[]"] assms(2)
  by (simp add: json_parse_def value_stop_def lex.simps(2) is_ws_def)

section \<open>The error responses of the middlewares\<close>

lemma show_nat_hd_zero: "0 < n \<Longrightarrow> hd (show_nat n) \<noteq> CHR ''0''"
proof (induction n rule: show_nat.induct)
  case (1 n)
  show ?case
  proof (cases "n < 10")
    case True
    have "digit_val (char_of (48 + n)) = n" using True by simp
    moreover have "digit_val (CHR ''0'') = 0" by (simp add: digit_val_def)
    ultimately have c: "char_of (48 + n) \<noteq> CHR ''0''" using "1.prems" by (metis less_irrefl)
    have "show_nat n = [char_of (48 + n)]" using True by (subst show_nat.simps) (rule if_P)
    with c show ?thesis by (simp only: list.sel not_False_eq_True)
  next
    case False
    with "1.IH" show ?thesis by (subst show_nat.simps) simp
  qed
qed

lemma takeWhile_all: "list_all P xs \<Longrightarrow> takeWhile P xs = xs \<and> dropWhile P xs = []"
  by (induction xs) auto

lemma lex_int_show_nat: "lex_int (show_nat n) = Some (show_nat n, [])"
proof (cases "n = 0")
  case True
  then show ?thesis by (simp add: show_nat.simps lex_int_def char_of_eq_iff)
next
  case False
  obtain c t where s: "show_nat n = c # t" using show_nat_nonempty [of n] by (cases "show_nat n") auto
  with False show_nat_hd_zero [of n] have "c \<noteq> CHR ''0''" by simp
  with s show_nat_digits [of n] show ?thesis by (simp add: lex_int_def takeWhile_all)
qed

lemma lex_num_Itoa [simp]: "lex_num (Itoa i) = Some (Itoa i)"
proof (cases "i < 0")
  case True
  then show ?thesis by (simp add: Itoa_def lex_num_def lex_int_show_nat lex_frac_def lex_exp_def)
next
  case False
  obtain c t where s: "show_nat (nat i) = c # t" using show_nat_nonempty [of "nat i"] by (cases "show_nat (nat i)") auto
  then have "is_digit c" using show_nat_hd [of "nat i"] by simp
  then have "c \<noteq> CHR ''-''" by (auto simp: is_digit_def)
  with False s lex_int_show_nat [of "nat i"] show ?thesis
    by (simp add: Itoa_def lex_num_def lex_frac_def lex_exp_def)
qed

lemma valid_utf8_ascii: "is_ascii s \<Longrightarrow> valid_utf8 s"
  by (induction s) (simp_all add: is_ascii_def valid_utf8.simps(2) utf8_len_ascii byte_lt)

lemma utf8_len_prefix:
  assumes "utf8_len (c # t) \<noteq> 0" shows "utf8_len (c # t @ r) = utf8_len (c # t)"
  using utf8_len_take [OF assms, of "drop (utf8_len (c # t) - 1) t @ r"]
  by (simp only: append_assoc [symmetric] append_take_drop_id)

lemma valid_utf8_append: "valid_utf8 s \<Longrightarrow> valid_utf8 r \<Longrightarrow> valid_utf8 (s @ r)"
proof (induction s rule: valid_utf8.induct)
  case (2 c t)
  let ?n = "utf8_len (c # t)"
  from "2.prems" have n: "?n \<noteq> 0" and v: "valid_utf8 (drop (?n - 1) t)"
    by (auto simp: valid_utf8.simps(2) Let_def)
  have "?n - 1 \<le> length t" using utf8_tail_le [of "utf8_lead c" t] by (simp add: utf8_len_def)
  with "2.IH" [OF refl v "2.prems"(2)] n show ?case
    by (simp add: valid_utf8.simps(2) utf8_len_prefix Let_def)
qed simp

lemma rpc_error_json_ok: "valid_utf8 msg \<Longrightarrow> json_ok (rpc_error_json code msg)"
  by (simp add: rpc_error_json_def valid_utf8_ascii is_ascii_def)

lemma rpc_error_json_depth: "json_depth (rpc_error_json code msg) \<le> maxNestingDepth"
  by (simp add: rpc_error_json_def maxNestingDepth_def)

lemma json_parse_rpc_error:
  "valid_utf8 msg \<Longrightarrow> json_parse (json_rpc_error code msg) = Some (rpc_error_json code msg)"
  unfolding json_rpc_error_def
  by (rule json_roundtrip_newline) (simp_all add: rpc_error_json_ok rpc_error_json_depth)

lemma rpc_error_read_back:
  assumes "valid_utf8 msg" and "in_int64 code = Some code"
  shows "Unmarshal response_fields (json_rpc_error code msg) None = Some (Some \<lparr>re_code = code, re_message = msg\<rparr>)"
proof -
  have k: "key_is ''error'' ''error''" "\<not> key_is ''error'' ''jsonrpc''" "key_is ''code'' ''code''"
    "\<not> key_is ''code'' ''message''" "key_is ''message'' ''message''"
    by (simp_all add: key_is_def byte_in_def)
  show ?thesis
    using assms
    by (simp add: Unmarshal_def json_parse_rpc_error rpc_error_json_def into_struct_def response_fields_def
        error_fields_def k into_int_def into_string_def Atoi_Itoa_in)
qed
end
