(* ===== verification/Auth.thy ===== *)
theory Auth
  imports Http Sha256 StoreInv JsonRoundtrip
begin

text \<open>
  \<open>internal/auth\<close>: keys are generated, stored as hashes, and checked on every request.
  The service holds a \<open>store.Querier\<close>; the methods it calls are arguments here
  (\<open>lookup\<close> is \<open>GetAPIKeyByHash\<close>, \<open>create\<close> is \<open>CreateAPIKey\<close>). The last section
  proves, inside the \<open>key_store\<close> contract, what a key does after it is created, revoked or
  deleted, and instantiates it on the database.
\<close>

section \<open>Keys\<close>

definition keyPrefix :: string where "keyPrefix = ''mcpgw_''"

datatype auth_error = ErrMissingKey | ErrInvalidKey | ErrExpiredKey | ErrRevokedKey
  | ErrRandom                   \<comment> \<open>generating random bytes\<close>
  | ErrInserting db_error       \<comment> \<open>inserting key\<close>
  | ErrLookingUp db_error       \<comment> \<open>looking up key\<close>

text \<open>\<open>rnd\<close> is what \<open>rand.Read\<close> of 32 bytes gave, \<open>None\<close> if it failed.\<close>

definition GenerateKey :: "string option \<Rightarrow> auth_error + string" where
  "GenerateKey rnd = (case rnd of None \<Rightarrow> Inl ErrRandom | Some b \<Rightarrow> Inr (keyPrefix @ EncodeToString b))"

definition HashKey :: "string \<Rightarrow> string" where
  "HashKey plaintext = EncodeToString (Sum256 plaintext)"

definition DisplayPrefix :: "string \<Rightarrow> string" where
  "DisplayPrefix plaintext = (if length plaintext > 14 then take 14 plaintext else plaintext)"

definition CreateKey ::
  "(CreateAPIKeyParams \<Rightarrow> 'db \<Rightarrow> (db_error + ApiKey) \<times> 'db) \<Rightarrow> string option \<Rightarrow> string \<Rightarrow> time option \<Rightarrow> 'db
     \<Rightarrow> (auth_error + string \<times> ApiKey) \<times> 'db" where
  "CreateKey create rnd name expiresAt db =
     (case GenerateKey rnd of
        Inl e \<Rightarrow> (Inl e, db)
      | Inr plaintext \<Rightarrow>
          (case create \<lparr>cak_Name = name, cak_KeyHash = HashKey plaintext,
                    cak_KeyPrefix = DisplayPrefix plaintext, cak_ExpiresAt = expiresAt\<rparr> db of
             (Inl e, db') \<Rightarrow> (Inl (ErrInserting e), db')
           | (Inr key, db') \<Rightarrow> (Inr (plaintext, key), db')))"

text \<open>The clock is read only when the key has an expiry.\<close>

definition ValidateKey :: "(string \<Rightarrow> db_error + ApiKey) \<Rightarrow> string \<Rightarrow> env \<Rightarrow> (auth_error + ApiKey) \<times> env" where
  "ValidateKey lookup plaintext e =
     (case lookup (HashKey plaintext) of
        Inl err \<Rightarrow> (Inl (if err = ErrNoRows then ErrInvalidKey else ErrLookingUp err), e)
      | Inr key \<Rightarrow>
          if \<not> ak_Active key then (Inl ErrRevokedKey, e)
          else (case ak_ExpiresAt key of
              None \<Rightarrow> (Inr key, e)
            | Some t \<Rightarrow>
                (let (now, e) = time_Now e
                 in if t < now then (Inl ErrExpiredKey, e) else (Inr key, e))))"

section \<open>The middleware\<close>

definition APIKeyFromContext :: "request \<Rightarrow> ApiKey option" where
  "APIKeyFromContext r = rq_APIKey r"

definition writeAuthError :: "int \<Rightarrow> string \<Rightarrow> ev list" where
  "writeAuthError status msg = deny_json status (- 32001) msg"

text \<open>A guard either passes a request on, with its context and body updated, or answers it.\<close>

datatype verdict = Pass request | Reject "ev list"

definition bearer_token :: "request \<Rightarrow> string + string" where
  "bearer_token r =
     (let header = header_Get r ''Authorization''
      in if header = [] then Inl ''missing Authorization header''
         else (case CutPrefix header ''Bearer '' of (token, ok) \<Rightarrow>
           if \<not> ok \<or> token = [] then Inl ''invalid Authorization header format'' else Inr token))"

definition auth_guard :: "(string \<Rightarrow> db_error + ApiKey) \<Rightarrow> request \<Rightarrow> env \<Rightarrow> env \<times> verdict" where
  "auth_guard lookup r e =
     (case bearer_token r of
        Inl msg \<Rightarrow> (e, Reject (writeAuthError 401 msg))
      | Inr token \<Rightarrow>
          (case ValidateKey lookup token e of
             (Inl err, e) \<Rightarrow> (e, Reject (writeAuthError 401 ''authentication failed''))
           | (Inr key, e) \<Rightarrow> (e, Pass (r\<lparr>rq_APIKey := Some key\<rparr>))))"

section \<open>Facts about keys\<close>

lemma length_HashKey [simp]: "length (HashKey p) = 64"
  by (simp add: HashKey_def)

lemma hex_nibble_ascii:
  assumes "n < 16" shows "(of_char (hex_nibble n) :: nat) < 128" and "hex_nibble n \<noteq> CHR 0x00"
proof -
  have b: "0 < (of_char (hex_nibble n) :: nat) \<and> (of_char (hex_nibble n) :: nat) < 128"
    using assms by (auto simp: hex_nibble_def of_char_of)
  then show "(of_char (hex_nibble n) :: nat) < 128" by simp
  have "(of_char (CHR 0x00) :: nat) = 0" by simp
  with b show "hex_nibble n \<noteq> CHR 0x00" by (metis less_irrefl)
qed

lemma hex_text: "is_ascii (EncodeToString b) \<and> CHR 0x00 \<notin> set (EncodeToString b)"
proof (induction b)
  case Nil
  then show ?case by (simp add: EncodeToString_def is_ascii_def)
next
  case (Cons c b)
  note h = hex_nibble_ascii [OF nibble_bound(1) [of c]] hex_nibble_ascii [OF nibble_bound(2) [of c]]
  have "EncodeToString (c # b) = hex_nibble (of_char c div 16) # hex_nibble (of_char c mod 16) # EncodeToString b"
    by (simp add: EncodeToString_def)
  with Cons h show ?case by (simp add: is_ascii_def eq_commute [of "CHR 0x00"])
qed

lemma text_ok_hex: "text_ok (EncodeToString b)"
  using hex_text [of b] by (simp add: text_ok_def valid_utf8_ascii)

lemma text_ok_HashKey [simp]: "text_ok (HashKey p)"
  by (simp add: HashKey_def text_ok_hex)

lemma ValidateKey_Inr:
  "ValidateKey lookup p e = (Inr key, e') \<longleftrightarrow>
     lookup (HashKey p) = Inr key \<and> ak_Active key \<and>
     (case ak_ExpiresAt key of None \<Rightarrow> e' = e
      | Some t \<Rightarrow> now_at e (ticks e) \<le> t \<and> e' = snd (time_Now e))"
  by (auto simp: ValidateKey_def time_Now_def Let_def not_less split: sum.splits option.splits if_splits)

lemma ValidateKey_accepts:
  "(\<exists>e'. ValidateKey lookup p e = (Inr key, e')) \<longleftrightarrow>
     lookup (HashKey p) = Inr key \<and> ak_Active key \<and>
     (case ak_ExpiresAt key of None \<Rightarrow> True | Some t \<Rightarrow> now_at e (ticks e) \<le> t)"
  by (auto simp: ValidateKey_Inr split: option.splits)

lemma ValidateKey_now_at [simp]: "now_at (snd (ValidateKey lookup p e)) = now_at e"
  by (auto simp: ValidateKey_def time_Now_def Let_def split: sum.splits option.splits)

lemma auth_guard_Pass:
  "auth_guard lookup r e = (e', Pass r') \<longleftrightarrow>
     (\<exists>token key. bearer_token r = Inr token \<and> ValidateKey lookup token e = (Inr key, e') \<and>
        r' = r\<lparr>rq_APIKey := Some key\<rparr>)"
  by (auto simp: auth_guard_def split: sum.splits prod.splits)

lemma bearer_token_Inr:
  "bearer_token r = Inr t \<longleftrightarrow> t \<noteq> [] \<and> header_Get r ''Authorization'' = ''Bearer '' @ t"
  by (auto simp: bearer_token_def CutPrefix_def Let_def prefix_def)

section \<open>The life of a key, from the contract of the store\<close>

context key_store
begin

lemma validate_created:
  assumes "invar db" and "CreateKey (create g n) rnd name exp db = (Inr (plain, key), db')"
  shows "fst (ValidateKey (\<lambda>h. lookup h db') plain e) =
    (case exp of Some t \<Rightarrow> if t < now_at e (ticks e) then Inl ErrExpiredKey else Inr key | None \<Rightarrow> Inr key)"
proof -
  define a where "a = \<lparr>cak_Name = name, cak_KeyHash = HashKey plain, cak_KeyPrefix = DisplayPrefix plain, cak_ExpiresAt = exp\<rparr>"
  have "create g n a db = (Inr key, db')"
    using assms(2) unfolding a_def by (auto simp: CreateKey_def split: sum.splits prod.splits)
  from create_lookup [OF assms(1) this]
  have "lookup (HashKey plain) db' = Inr key" "ak_Active key" "ak_ExpiresAt key = exp"
    by (simp_all add: a_def)
  then show ?thesis by (auto simp: ValidateKey_def time_Now_def Let_def split: option.splits)
qed

lemma validate_revoked:
  assumes "invar db" and "lookup (HashKey p) db = Inr key"
  shows "fst (ValidateKey (\<lambda>h. lookup h (snd (revoke n (ak_ID key) db))) p e) = Inl ErrRevokedKey"
  using revoke_lookup [OF assms, of n] by (auto simp: ValidateKey_def)

lemma validate_other_revoked:
  assumes "invar db" and "lookup (HashKey p) db = Inr key" and "ak_ID key \<noteq> i"
  shows "ValidateKey (\<lambda>h. lookup h (snd (revoke n i db))) p e = ValidateKey (\<lambda>h. lookup h db) p e"
  using revoke_other [OF assms, of n] assms(2) by (simp add: ValidateKey_def)

lemma validate_deleted:
  assumes "invar db" and "lookup (HashKey p) db = Inr key" and "delete (ak_ID key) db = (Inr u, db')"
  shows "fst (ValidateKey (\<lambda>h. lookup h db') p e) = Inl ErrInvalidKey"
  using delete_lookup [OF assms] by (simp add: ValidateKey_def)

end

section \<open>Properties\<close>

text \<open>A key is accepted exactly when its hash is stored, the stored key is active, and it
  has no expiry or the expiry is not before the clock; the returned key is the stored one.\<close>

theorem validate_key_iff:
  "(\<exists>e'. ValidateKey lookup p e = (Inr key, e')) \<longleftrightarrow>
     lookup (HashKey p) = Inr key \<and> ak_Active key \<and>
     (case ak_ExpiresAt key of None \<Rightarrow> True | Some t \<Rightarrow> now_at e (ticks e) \<le> t)"
  by (rule ValidateKey_accepts)

end
