(* ===== verification/Float64.thy ===== *)
theory Float64
  imports Complex_Main Prelude
begin

text \<open>
  Go's \<open>float64\<close> as far as the rate limiter uses it. A finite value is the rational it
  denotes, and each operation is the exact operation followed by \<open>rnd64\<close>, IEEE 754
  rounding to 53 significant bits, ties to even. The exponent is not bounded: every
  value the limiter computes from 32-bit settings and 64-bit nanoseconds lies between
  \<open>2^-40\<close> and \<open>2^100\<close> in magnitude, so neither overflow nor subnormal numbers occur;
  the one division by zero is a case of its own in the limiter. The locale \<open>rounding\<close>
  states what the proofs need of a rounding function and is interpreted on \<open>rnd64\<close>.
\<close>

section \<open>Rounding to the nearest, ties to even\<close>

definition round_even :: "rat \<Rightarrow> int" where
  "round_even q = (let f = \<lfloor>q\<rfloor>; d = q - of_int f
     in if d < 1 / 2 then f else if 1 / 2 < d then f + 1 else if even f then f else f + 1)"

fun ilog2 :: "nat \<Rightarrow> nat" where
  "ilog2 n = (if n < 2 then 0 else Suc (ilog2 (n div 2)))"

declare ilog2.simps [simp del]

text \<open>The exponent of a nonzero rational: \<open>2^e \<le> |q| < 2^(e+1)\<close>.\<close>

definition bin_exp :: "rat \<Rightarrow> int" where
  "bin_exp q = (let (n, d) = quotient_of \<bar>q\<bar>; e = int (ilog2 (nat n)) - int (ilog2 (nat d))
     in if 2 powi e \<le> \<bar>q\<bar> then e else e - 1)"

definition ulp64 :: "rat \<Rightarrow> rat" where
  "ulp64 q = 2 powi (bin_exp q - 52)"

definition rnd64 :: "rat \<Rightarrow> rat" where
  "rnd64 q = (if q = 0 then 0 else of_int (round_even (q / ulp64 q)) * ulp64 q)"

section \<open>Operations\<close>

type_synonym float64 = rat

definition fl_add :: "float64 \<Rightarrow> float64 \<Rightarrow> float64" where "fl_add x y = rnd64 (x + y)"
definition fl_sub :: "float64 \<Rightarrow> float64 \<Rightarrow> float64" where "fl_sub x y = rnd64 (x - y)"
definition fl_mul :: "float64 \<Rightarrow> float64 \<Rightarrow> float64" where "fl_mul x y = rnd64 (x * y)"
definition fl_div :: "float64 \<Rightarrow> float64 \<Rightarrow> float64" where "fl_div x y = rnd64 (x / y)"
definition fl_of_int :: "int \<Rightarrow> float64" where "fl_of_int i = rnd64 (of_int i)"

text \<open>Conversion to an integer truncates towards zero.\<close>

definition fl_trunc :: "float64 \<Rightarrow> int" where
  "fl_trunc q = (if 0 \<le> q then \<lfloor>q\<rfloor> else \<lceil>q\<rceil>)"

text \<open>\<open>Duration.Seconds\<close>.\<close>

definition Seconds :: "duration \<Rightarrow> float64" where
  "Seconds d = fl_add (fl_of_int (d sdiv Second)) (fl_div (fl_of_int (d smod Second)) 1000000000)"

section \<open>What a rounding function must satisfy\<close>

abbreviation eps :: rat where "eps \<equiv> 1 / 9007199254740992"   \<comment> \<open>\<open>2^-53\<close>\<close>

locale rounding =
  fixes rnd :: "rat \<Rightarrow> rat"
  assumes rnd_mono: "x \<le> y \<Longrightarrow> rnd x \<le> rnd y"
    and rnd_int: "\<bar>i\<bar> \<le> 9007199254740992 \<Longrightarrow> rnd (of_int i) = of_int i"
    and rnd_err: "\<bar>rnd x - x\<bar> \<le> eps * \<bar>x\<bar>"
begin

lemma rnd_0 [simp]: "rnd 0 = 0"
  using rnd_int [of 0] by simp

lemma rnd_1 [simp]: "rnd 1 = 1"
  using rnd_int [of 1] by simp

lemma rnd_nonneg: "0 \<le> x \<Longrightarrow> 0 \<le> rnd x"
  using rnd_mono [of 0 x] by simp

lemma rnd_le_int: "x \<le> of_int i \<Longrightarrow> \<bar>i\<bar> \<le> 9007199254740992 \<Longrightarrow> rnd x \<le> of_int i"
  using rnd_mono [of x "of_int i"] rnd_int [of i] by simp

lemma rnd_ge_int: "of_int i \<le> x \<Longrightarrow> \<bar>i\<bar> \<le> 9007199254740992 \<Longrightarrow> of_int i \<le> rnd x"
  using rnd_mono [of "of_int i" x] rnd_int [of i] by simp

lemma rnd_upper: "0 \<le> x \<Longrightarrow> rnd x \<le> x + eps * x"
  using abs_ge_self [of "rnd x - x"] rnd_err [of x] by (simp only: abs_of_nonneg)

lemma rnd_lower: "0 \<le> x \<Longrightarrow> x - eps * x \<le> rnd x"
  using abs_ge_minus_self [of "rnd x - x"] rnd_err [of x] by (simp only: abs_of_nonneg)

lemma rnd_upper_cap: "0 \<le> x \<Longrightarrow> x \<le> c \<Longrightarrow> rnd x \<le> x + eps * c"
proof -
  assume a: "0 \<le> x" "x \<le> c"
  have "eps * x \<le> eps * c" using a(2) by (intro mult_left_mono) simp_all
  with rnd_upper [OF a(1)] show ?thesis by linarith
qed

end

section \<open>\<open>rnd64\<close> is such a function\<close>

lemma ilog2_bounds: "0 < n \<Longrightarrow> 2 ^ ilog2 n \<le> n \<and> n < 2 ^ Suc (ilog2 n)"
proof (induction n rule: ilog2.induct)
  case (1 n)
  show ?case
  proof (cases "n < 2")
    case True
    with "1.prems" show ?thesis by (subst (1 2) ilog2.simps) auto
  next
    case False
    with "1.IH" have "2 ^ ilog2 (n div 2) \<le> n div 2" "n div 2 < 2 ^ Suc (ilog2 (n div 2))" by auto
    with False show ?thesis by (simp add: ilog2.simps [of n]) linarith
  qed
qed

lemma bin_exp_bounds:
  assumes "q \<noteq> 0"
  shows "2 powi bin_exp q \<le> \<bar>q\<bar> \<and> \<bar>q\<bar> < 2 powi (bin_exp q + 1)"
proof -
  obtain n d where nd: "quotient_of \<bar>q\<bar> = (n, d)" by fastforce
  then have d: "0 < d" and q: "\<bar>q\<bar> = of_int n / of_int d"
    using quotient_of_denom_pos quotient_of_div by blast+
  with assms have n: "0 < n" by (metis abs_of_nonneg abs_zero div_0 leI le_less linorder_not_less of_int_0 of_int_0_less_iff of_int_pos zero_less_abs_iff zero_less_divide_iff)
  define a where "a = ilog2 (nat n)"
  define b where "b = ilog2 (nat d)"
  have "2 ^ a \<le> nat n \<and> nat n < 2 ^ Suc a" unfolding a_def by (rule ilog2_bounds) (use n in simp)
  then have na: "2 ^ a \<le> n" "n < 2 ^ Suc a" using n by (simp_all add: le_nat_iff nat_less_iff)
  have "2 ^ b \<le> nat d \<and> nat d < 2 ^ Suc b" unfolding b_def by (rule ilog2_bounds) (use d in simp)
  then have db: "2 ^ b \<le> d" "d < 2 ^ Suc b" using d by (simp_all add: le_nat_iff nat_less_iff)
  have na': "2 ^ a \<le> (of_int n :: rat)" "(of_int n :: rat) < 2 * 2 ^ a"
    using na by (metis of_int_le_iff of_int_numeral of_int_power, metis of_int_less_iff of_int_numeral of_int_power power_Suc)
  have db': "2 ^ b \<le> (of_int d :: rat)" "(of_int d :: rat) < 2 * 2 ^ b"
    using db by (metis of_int_le_iff of_int_numeral of_int_power, metis of_int_less_iff of_int_numeral of_int_power power_Suc)
  have e: "(2::rat) powi (int a - int b) = 2 ^ a / 2 ^ b"
    by (simp add: power_int_diff)
  have up: "\<bar>q\<bar> < 2 ^ a * 2 / 2 ^ b"
  proof -
    have "of_int n / of_int d < (2 * 2 ^ a) / (2 ^ b :: rat)"
      by (rule frac_less) (use na' db'(1) n in auto)
    then show ?thesis by (simp add: q mult.commute)
  qed
  have lo: "(2 ^ a / 2 ^ b) / 2 < \<bar>q\<bar>"
  proof -
    have "2 ^ a / (2 * 2 ^ b) < (of_int n / of_int d :: rat)"
      using na'(1) db' d by (intro frac_less2) auto
    then show ?thesis by (simp add: q mult.commute)
  qed
  show ?thesis
    using up lo e by (auto simp: bin_exp_def nd a_def [symmetric] b_def [symmetric] Let_def power_int_add power_int_diff)
qed


lemma ulp64_pos [simp]: "0 < ulp64 q"
  by (simp add: ulp64_def)

lemma ulp64_nz [simp]: "ulp64 q \<noteq> 0"
  using ulp64_pos [of q] by linarith

lemma round_even_near: "\<bar>of_int (round_even q) - q\<bar> \<le> 1 / 2"
proof -
  have "of_int \<lfloor>q\<rfloor> \<le> q" "q < of_int \<lfloor>q\<rfloor> + 1" by linarith+
  then show ?thesis by (auto simp: round_even_def Let_def abs_le_iff)
qed

lemma round_even_of_int [simp]: "round_even (of_int i) = i"
  by (simp add: round_even_def)

lemma round_even_mono: "p \<le> q \<Longrightarrow> round_even p \<le> round_even q"
proof (cases "\<lfloor>p\<rfloor> = \<lfloor>q\<rfloor>")
  case True
  assume "p \<le> q"
  with True show ?thesis by (auto simp: round_even_def Let_def)
next
  case False
  assume "p \<le> q"
  with False have "\<lfloor>p\<rfloor> + 1 \<le> \<lfloor>q\<rfloor>" using floor_mono [of p q] by linarith
  moreover have "round_even p \<le> \<lfloor>p\<rfloor> + 1" "\<lfloor>q\<rfloor> \<le> round_even q"
    by (auto simp: round_even_def Let_def)
  ultimately show ?thesis by linarith
qed

lemma round_even_minus: "round_even (- q) = - round_even q"
proof (cases "q = of_int \<lfloor>q\<rfloor>")
  case True
  then obtain i where "q = of_int i" by blast
  then show ?thesis by (metis of_int_minus round_even_of_int)
next
  case False
  define f where "f = \<lfloor>q\<rfloor>"
  have f: "of_int f < q" "q < of_int f + 1" using False unfolding f_def by linarith+
  have m: "\<lfloor>- q\<rfloor> = - f - 1" using f by (simp add: floor_eq_iff)
  show ?thesis unfolding round_even_def m f_def [symmetric] Let_def by auto
qed

lemma bin_exp_minus [simp]: "bin_exp (- q) = bin_exp q"
  by (simp add: bin_exp_def)

lemma rnd64_minus: "rnd64 (- q) = - rnd64 q"
  by (simp add: rnd64_def ulp64_def round_even_minus)

text \<open>A positive value is rounded within its binade.\<close>

lemma rnd64_binade:
  assumes "0 < q"
  shows "2 powi bin_exp q \<le> rnd64 q \<and> rnd64 q \<le> 2 powi (bin_exp q + 1)"
proof -
  have b: "2 powi bin_exp q \<le> q" "q < 2 powi (bin_exp q + 1)"
    using bin_exp_bounds [of q] assms by auto
  have u: "2 powi bin_exp q = 4503599627370496 * ulp64 q" "2 powi (bin_exp q + 1) = 9007199254740992 * ulp64 q"
    by (simp_all add: ulp64_def power_int_diff power_int_add)
  have "of_int 4503599627370496 \<le> q / ulp64 q" "q / ulp64 q \<le> of_int 9007199254740992"
    using b u by (simp_all add: field_simps)
  then have "4503599627370496 \<le> round_even (q / ulp64 q)" "round_even (q / ulp64 q) \<le> 9007199254740992"
    using round_even_mono round_even_of_int by (metis, metis)
  then have "of_int 4503599627370496 * ulp64 q \<le> of_int (round_even (q / ulp64 q)) * ulp64 q"
    "of_int (round_even (q / ulp64 q)) * ulp64 q \<le> of_int 9007199254740992 * ulp64 q"
    by (intro mult_right_mono; simp only: of_int_le_iff ulp64_pos less_imp_le)+
  then show ?thesis using assms u by (simp add: rnd64_def)
qed

lemma powi_less_imp: "(2::rat) powi a < 2 powi b \<Longrightarrow> a < b"
  using power_int_increasing [of b a "2::rat"] by (cases "b \<le> a") auto

lemma powi_le_imp: "(2::rat) powi a \<le> 2 powi b \<Longrightarrow> a \<le> b"
  using power_int_strict_increasing [of b a "2::rat"] by (cases "b < a") auto

lemma bin_exp_mono:
  assumes "0 < x" and "x \<le> y"
  shows "bin_exp x \<le> bin_exp y"
proof -
  have "(2::rat) powi bin_exp x < 2 powi (bin_exp y + 1)"
    using bin_exp_bounds [of x] bin_exp_bounds [of y] assms by auto
  then have "bin_exp x < bin_exp y + 1" by (rule powi_less_imp)
  then show ?thesis by simp
qed

lemma rnd64_mono_pos:
  assumes "0 < x" and "x \<le> y"
  shows "rnd64 x \<le> rnd64 y"
proof (cases "bin_exp x = bin_exp y")
  case True
  then have u: "ulp64 x = ulp64 y" by (simp add: ulp64_def)
  have "x / ulp64 y \<le> y / ulp64 y" using assms(2) by (simp add: divide_right_mono less_imp_le)
  then have "round_even (x / ulp64 y) \<le> round_even (y / ulp64 y)" by (rule round_even_mono)
  then show ?thesis using assms u by (simp add: rnd64_def)
next
  case False
  with bin_exp_mono [OF assms] have "bin_exp x + 1 \<le> bin_exp y" by simp
  then have "(2::rat) powi (bin_exp x + 1) \<le> 2 powi bin_exp y" by (intro power_int_increasing) simp_all
  with rnd64_binade [of x] rnd64_binade [of y] assms show ?thesis by linarith
qed

lemma rnd64_nonneg: "0 \<le> q \<Longrightarrow> 0 \<le> rnd64 q"
proof (cases "q = 0")
  case False
  assume "0 \<le> q"
  with False have "2 powi bin_exp q \<le> rnd64 q" using rnd64_binade [of q] by simp
  moreover have "(0::rat) \<le> 2 powi bin_exp q" by simp
  ultimately show ?thesis by linarith
qed (simp add: rnd64_def)

lemma rnd64_mono: "x \<le> y \<Longrightarrow> rnd64 x \<le> rnd64 y"
proof -
  assume xy: "x \<le> y"
  consider "0 < x" | "x \<le> 0" "0 \<le> y" | "y < 0" by linarith
  then show ?thesis
  proof cases
    case 1
    with xy show ?thesis by (simp add: rnd64_mono_pos)
  next
    case 2
    then show ?thesis using rnd64_nonneg [of "- x"] rnd64_nonneg [of y] by (simp add: rnd64_minus)
  next
    case 3
    with xy rnd64_mono_pos [of "- y" "- x"] show ?thesis by (simp add: rnd64_minus)
  qed
qed

lemma rnd64_exact:
  assumes "q = of_int k * ulp64 q" shows "rnd64 q = q"
proof (cases "q = 0")
  case False
  have "q / ulp64 q = of_int k" using assms by (metis nonzero_mult_div_cancel_right ulp64_pos less_irrefl)
  then show ?thesis using False assms by (simp add: rnd64_def)
qed (simp add: rnd64_def)

lemma rnd64_int: "\<bar>i\<bar> \<le> 9007199254740992 \<Longrightarrow> rnd64 (of_int i) = of_int i"
proof -
  assume i: "\<bar>i\<bar> \<le> 9007199254740992"
  show ?thesis
  proof (cases "i = 0")
    case False
    let ?e = "bin_exp (of_int i)"
    have b: "2 powi ?e \<le> (of_int \<bar>i\<bar> :: rat)" "(of_int \<bar>i\<bar> :: rat) < 2 powi (?e + 1)"
      using bin_exp_bounds [of "of_int i"] False by auto
    have "(of_int \<bar>i\<bar> :: rat) \<le> of_int 9007199254740992" using i by (simp only: of_int_le_iff)
    then have "(2::rat) powi ?e \<le> 2 powi 53" using b(1) by (simp add: power_int_def)
    then have e: "?e \<le> 53" by (rule powi_le_imp)
    show ?thesis
    proof (cases "?e = 53")
      case True
      then have "(of_int \<bar>i\<bar> :: rat) \<ge> of_int 9007199254740992" using b(1) by (simp add: power_int_def)
      then have "\<bar>i\<bar> \<ge> 9007199254740992" by (simp only: of_int_le_iff)
      with i have "i = 9007199254740992 \<or> i = - 9007199254740992" by linarith
      then show ?thesis
        using True by (intro rnd64_exact [of _ "i div 2"]) (auto simp: ulp64_def power_int_def)
    next
      case False
      with e have k: "?e \<le> 52" by simp
      have u: "ulp64 (of_int i) = 1 / 2 ^ nat (52 - ?e)"
        using k by (simp add: ulp64_def power_int_def field_simps)
      show ?thesis
        by (rule rnd64_exact [of _ "i * 2 ^ nat (52 - ?e)"]) (simp add: u)
    qed
  qed (simp add: rnd64_def)
qed

lemma rnd64_err: "\<bar>rnd64 x - x\<bar> \<le> eps * \<bar>x\<bar>"
proof (cases "x = 0")
  case False
  let ?u = "ulp64 x"
  have "rnd64 x - x = (of_int (round_even (x / ?u)) - x / ?u) * ?u"
    using False ulp64_nz [of x] by (simp add: rnd64_def left_diff_distrib)
  then have "\<bar>rnd64 x - x\<bar> = \<bar>of_int (round_even (x / ?u)) - x / ?u\<bar> * ?u"
    by (simp add: abs_mult abs_of_pos [OF ulp64_pos])
  also have "\<dots> \<le> 1 / 2 * ?u"
    by (intro mult_right_mono round_even_near) (simp add: less_imp_le)
  also have "\<dots> = eps * 2 powi bin_exp x"
    by (simp add: ulp64_def power_int_diff)
  also have "\<dots> \<le> eps * \<bar>x\<bar>"
    using bin_exp_bounds [OF False] by simp
  finally show ?thesis .
qed (simp add: rnd64_def)

interpretation fl: rounding rnd64
  by unfold_locales (rule rnd64_mono rnd64_int rnd64_err; assumption?)+

text \<open>Dyadic values with a short significand are exact.\<close>

lemma bin_exp_unique:
  assumes "2 powi e \<le> \<bar>q\<bar>" and "\<bar>q\<bar> < 2 powi (e + 1)"
  shows "bin_exp q = e"
proof -
  have "(0::rat) < 2 powi e" by simp
  then have "q \<noteq> 0" using assms(1) by (metis abs_zero not_less)
  then have b: "2 powi bin_exp q \<le> \<bar>q\<bar>" "\<bar>q\<bar> < 2 powi (bin_exp q + 1)" using bin_exp_bounds by auto
  have "e < bin_exp q + 1" using assms(1) b(2) by (intro powi_less_imp) linarith
  moreover have "bin_exp q < e + 1" using assms(2) b(1) by (intro powi_less_imp) linarith
  ultimately show ?thesis by simp
qed

lemma rnd64_scale: "rnd64 (q / 2 ^ n) = rnd64 q / 2 ^ n"
proof (cases "q = 0")
  case False
  have "bin_exp (q / 2 ^ n) = bin_exp q - int n"
    using bin_exp_bounds [OF False]
    by (intro bin_exp_unique) (simp_all add: power_int_diff power_int_add abs_divide field_simps)
  then have "ulp64 (q / 2 ^ n) = ulp64 q / 2 ^ n" by (simp add: ulp64_def power_int_diff)
  then show ?thesis using False by (simp add: rnd64_def)
qed (simp add: rnd64_def)

lemma rnd64_dyadic: "\<bar>i\<bar> \<le> 9007199254740992 \<Longrightarrow> rnd64 (of_int i / 2 ^ n) = of_int i / 2 ^ n"
  by (simp only: rnd64_scale rnd64_int)

end
