(* ===== verification/RateLimit.thy ===== *)
theory RateLimit
  imports Auth Float64
begin

text \<open>
  \<open>internal/ratelimit\<close>: a token bucket per API key over \<open>float64\<close>. The limiter's two
  maps are state; \<open>l.now\<close> is the process clock (every call is a separate read); the
  database query is the argument \<open>loader\<close>, \<open>None\<close> for a nil loader. Each operation
  is one step under the limiter's lock; the double-checked creation of a bucket, whose
  steps interleave with other requests, is modelled as a step relation at the end.
\<close>

section \<open>The bucket\<close>

record Config =
  RequestsPerMin :: int
  BurstSize :: int

definition DefaultConfig :: Config where
  "DefaultConfig = \<lparr>RequestsPerMin = 60, BurstSize = 10\<rparr>"

record bucket =
  tokens :: float64
  capacity :: float64
  rate :: float64          \<comment> \<open>tokens per second\<close>
  lastFill :: time

definition refill :: "bucket \<Rightarrow> time \<Rightarrow> bucket" where
  "refill b now =
     (let elapsed = Seconds (time_Sub now (lastFill b))
      in b\<lparr>tokens := min (capacity b) (fl_add (tokens b) (fl_mul elapsed (rate b))), lastFill := now\<rparr>)"

text \<open>
  The conversion of a \<open>float64\<close> to \<open>int64\<close> truncates; what it gives for an infinity
  (\<open>None\<close>) or a value outside the range is up to the platform, the parameter \<open>oor\<close>.
  The product with \<open>time.Millisecond\<close> wraps.
\<close>

definition float_to_int64 :: "(float64 option \<Rightarrow> int) \<Rightarrow> float64 option \<Rightarrow> int" where
  "float_to_int64 oor v = (case v of
      None \<Rightarrow> int64 (oor None)
    | Some q \<Rightarrow> (let i = fl_trunc q
                in if min_int64 \<le> i \<and> i \<le> max_int64 then i else int64 (oor (Some q))))"

definition wait_ms :: "bucket \<Rightarrow> float64 option" where
  "wait_ms b = (if rate b = 0 then None
     else Some (fl_mul (fl_div (fl_sub 1 (tokens b)) (rate b)) 1000))"

definition bucket_wait :: "(float64 option \<Rightarrow> int) \<Rightarrow> bucket \<Rightarrow> duration" where
  "bucket_wait oor b =
     (let wait = int64 (float_to_int64 oor (wait_ms b) * Millisecond)
      in if wait < Second then Second else wait)"

definition allow :: "(float64 option \<Rightarrow> int) \<Rightarrow> bucket \<Rightarrow> time \<Rightarrow> (bool \<times> duration) \<times> bucket" where
  "allow oor b now =
     (let b = refill b now
      in if 1 \<le> tokens b then ((True, 0), b\<lparr>tokens := fl_sub (tokens b) 1\<rparr>)
         else ((False, bucket_wait oor b), b))"

section \<open>The limiter\<close>

record Limiter =
  buckets :: "uuid \<Rightarrow> bucket option"
  configs :: "uuid \<Rightarrow> Config option"
  defaultCfg :: Config

definition NewLimiter :: "Config \<Rightarrow> Limiter" where
  "NewLimiter cfg = \<lparr>buckets = (\<lambda>_. None), configs = (\<lambda>_. None), defaultCfg = cfg\<rparr>"

type_synonym config_loader = "(uuid \<Rightarrow> db_error + RateLimitRow) option"

definition loadConfig :: "config_loader \<Rightarrow> uuid \<Rightarrow> Limiter \<Rightarrow> Config \<times> Limiter" where
  "loadConfig loader keyID l =
     (case configs l keyID of
        Some cfg \<Rightarrow> (cfg, l)
      | None \<Rightarrow>
          (case loader of
             None \<Rightarrow> (defaultCfg l, l)
           | Some q \<Rightarrow>
               (case q keyID of
                  Inl err \<Rightarrow> (defaultCfg l, l)
                | Inr row \<Rightarrow>
                    (let cfg = \<lparr>RequestsPerMin = rr_RequestsPerMin row, BurstSize = rr_BurstSize row\<rparr>
                     in (cfg, l\<lparr>configs := (configs l)(keyID \<mapsto> cfg)\<rparr>)))))"

definition new_bucket :: "Config \<Rightarrow> time \<Rightarrow> bucket" where
  "new_bucket cfg now =
     \<lparr>tokens = fl_of_int (BurstSize cfg), capacity = fl_of_int (BurstSize cfg),
      rate = fl_div (fl_of_int (RequestsPerMin cfg)) 60, lastFill = now\<rparr>"

definition getBucket :: "config_loader \<Rightarrow> uuid \<Rightarrow> Limiter \<times> env \<Rightarrow> bucket \<times> Limiter \<times> env" where
  "getBucket loader keyID s = (case s of (l, e) \<Rightarrow>
     (case buckets l keyID of
        Some b \<Rightarrow> (b, l, e)
      | None \<Rightarrow>
          (let (cfg, l) = loadConfig loader keyID l;
               (now, e) = time_Now e;
               b = new_bucket cfg now
           in (b, l\<lparr>buckets := (buckets l)(keyID \<mapsto> b)\<rparr>, e))))"

text \<open>The bucket is shared by reference, so the result of \<open>b.allow\<close> is stored back.\<close>

definition Allow :: "(float64 option \<Rightarrow> int) \<Rightarrow> config_loader \<Rightarrow> uuid \<Rightarrow> Limiter \<times> env
    \<Rightarrow> (bool \<times> duration) \<times> Limiter \<times> env" where
  "Allow oor loader keyID s =
     (let (b, l, e) = getBucket loader keyID s;
          (now, e) = time_Now e;
          (res, b) = allow oor b now
      in (res, l\<lparr>buckets := (buckets l)(keyID \<mapsto> b)\<rparr>, e))"

definition retry_after_header :: "duration \<Rightarrow> string" where
  "retry_after_header d = Itoa \<lceil>Seconds d\<rceil>"

definition rl_guard :: "(float64 option \<Rightarrow> int) \<Rightarrow> config_loader \<Rightarrow> request \<Rightarrow> Limiter \<times> env \<Rightarrow> (Limiter \<times> env) \<times> verdict" where
  "rl_guard oor loader r s =
     (case APIKeyFromContext r of
        None \<Rightarrow> (s, Pass r)
      | Some key \<Rightarrow>
          (let ((allowed, retryAfter), s) = Allow oor loader (ak_ID key) s
           in if \<not> allowed
              then (s, Reject [SetHeader ''Content-Type'' ''application/json'',
                     SetHeader ''Retry-After'' (retry_after_header retryAfter), WriteHeader 429,
                     Write (json_rpc_error (- 32001) ''rate limit exceeded'')])
              else (s, Pass r)))"

definition idle_bucket :: "time \<Rightarrow> bucket \<Rightarrow> bool" where
  "idle_bucket now b \<longleftrightarrow> 10 * Minute < time_Sub now (lastFill b)"

definition Cleanup :: "Limiter \<times> env \<Rightarrow> Limiter \<times> env" where
  "Cleanup s = (case s of (l, e) \<Rightarrow>
     (let (now, e) = time_Now e;
          gone = (\<lambda>i. case buckets l i of None \<Rightarrow> False | Some b \<Rightarrow> idle_bucket now b)
      in (l\<lparr>buckets := (\<lambda>i. if gone i then None else buckets l i),
            configs := (\<lambda>i. if gone i then None else configs l i)\<rparr>, e)))"

definition SetConfig :: "uuid \<Rightarrow> Config \<Rightarrow> Limiter \<Rightarrow> Limiter" where
  "SetConfig keyID cfg l = l\<lparr>configs := (configs l)(keyID \<mapsto> cfg), buckets := (buckets l)(keyID := None)\<rparr>"

definition stubLoader :: config_loader where
  "stubLoader = Some (\<lambda>_. Inl ErrNoRows)"

section \<open>Well-formed buckets\<close>

text \<open>Settings are 32-bit (\<open>INT\<close> columns), and a usable limit is not negative.\<close>

definition config_ok :: "Config \<Rightarrow> bool" where
  "config_ok c \<longleftrightarrow> 0 \<le> RequestsPerMin c \<and> RequestsPerMin c < 2147483648 \<and> 0 \<le> BurstSize c \<and> BurstSize c < 2147483648"

definition bucket_ok :: "bucket \<Rightarrow> bool" where
  "bucket_ok b \<longleftrightarrow> 0 \<le> tokens b \<and> tokens b \<le> capacity b \<and> 0 \<le> rate b \<and>
     (\<exists>n. 0 \<le> n \<and> n < 2147483648 \<and> capacity b = of_int n)"

lemma Seconds_0 [simp]: "Seconds 0 = 0"
  by (simp add: Seconds_def fl_add_def fl_of_int_def fl_div_def)

lemma sdiv_smod_nonneg: "0 \<le> d \<Longrightarrow> d sdiv Second = d div Second \<and> d smod Second = d mod Second"
  by (simp add: signed_divide_int_def signed_modulo_int_def sgn_if)

lemma Seconds_nonneg: "0 \<le> d \<Longrightarrow> 0 \<le> Seconds d"
  by (simp add: Seconds_def fl_add_def fl_div_def fl_of_int_def sdiv_smod_nonneg fl.rnd_nonneg)

text \<open>\<open>Seconds\<close> is within two roundings of the exact quotient.\<close>

lemma Seconds_split: "(of_int d :: rat) / 1000000000 = of_int (d div Second) + of_int (d mod Second) / 1000000000"
proof -
  have "(of_int d :: rat) = of_int (d div Second * Second + d mod Second)" by (simp only: div_mult_mod_eq)
  also have "\<dots> = of_int (d div Second) * 1000000000 + of_int (d mod Second)" by (simp only: of_int_add of_int_mult of_int_numeral)
  finally show ?thesis by (simp add: field_simps)
qed

lemma Seconds_rnd:
  assumes "0 \<le> d" "d \<le> max_int64"
  shows "Seconds d = rnd64 (of_int (d div Second) + rnd64 (of_int (d mod Second) / 1000000000))"
proof -
  have b: "0 \<le> d div Second" "d div Second \<le> 9223372036" "0 \<le> d mod Second" "d mod Second < Second"
    using assms by (simp_all add: pos_imp_zdiv_nonneg_iff) 
  then show ?thesis using assms by (simp add: Seconds_def fl_add_def fl_div_def fl_of_int_def sdiv_smod_nonneg fl.rnd_int)
qed

lemma Seconds_upper:
  assumes "0 \<le> d" "d \<le> max_int64"
  shows "Seconds d \<le> of_int d / 1000000000 * (1 + eps) * (1 + eps)"
proof -
  have b: "0 \<le> d div Second" "0 \<le> d mod Second" using assms by (simp_all add: pos_imp_zdiv_nonneg_iff)
  let ?q = "of_int (d mod Second) / 1000000000 :: rat" and ?s = "of_int (d div Second) :: rat"
  have q0: "0 \<le> ?q" and s0: "0 \<le> ?s" using b by simp_all
  have s: "?s + rnd64 ?q \<le> (?s + ?q) * (1 + eps)" using fl.rnd_upper [OF q0] s0 by (simp add: algebra_simps)
  have "0 \<le> ?s + rnd64 ?q" using s0 fl.rnd_nonneg [OF q0] by simp
  from fl.rnd_upper [OF this] have "Seconds d \<le> (?s + rnd64 ?q) * (1 + eps)"
    unfolding Seconds_rnd [OF assms] by (simp add: algebra_simps)
  also have "\<dots> \<le> (?s + ?q) * (1 + eps) * (1 + eps)" by (intro mult_right_mono s) simp
  finally show ?thesis by (simp only: Seconds_split [of d])
qed

lemma Seconds_lower:
  assumes "0 \<le> d" "d \<le> max_int64"
  shows "of_int d / 1000000000 * (1 - eps) * (1 - eps) \<le> Seconds d"
proof -
  have b: "0 \<le> d div Second" "0 \<le> d mod Second" using assms by (simp_all add: pos_imp_zdiv_nonneg_iff)
  let ?q = "of_int (d mod Second) / 1000000000 :: rat" and ?s = "of_int (d div Second) :: rat"
  have q0: "0 \<le> ?q" and s0: "0 \<le> ?s" using b by simp_all
  have s: "(?s + ?q) * (1 - eps) \<le> ?s + rnd64 ?q" using fl.rnd_lower [OF q0] s0 by (simp add: algebra_simps)
  have n: "0 \<le> ?s + rnd64 ?q" using s0 fl.rnd_nonneg [OF q0] by simp
  have "(?s + ?q) * (1 - eps) * (1 - eps) \<le> (?s + rnd64 ?q) * (1 - eps)" by (intro mult_right_mono s) simp
  also have "\<dots> \<le> Seconds d"
    using fl.rnd_lower [OF n] unfolding Seconds_rnd [OF assms] by (simp add: algebra_simps)
  finally show ?thesis by (simp only: Seconds_split [of d])
qed

lemma Seconds_ge: "of_int k * Second \<le> d \<Longrightarrow> 0 \<le> k \<Longrightarrow> d \<le> max_int64 \<Longrightarrow> of_int k \<le> Seconds d"
proof -
  assume a: "of_int k * Second \<le> d" "0 \<le> k" "d \<le> max_int64"
  then have d: "0 \<le> d" by simp
  have k: "k \<le> d div Second" "d div Second \<le> 9223372036" using a by (simp_all add: zdiv_mono1 pos_imp_zdiv_nonneg_iff le_div_geq) 
  have "of_int k \<le> of_int (d div Second) + rnd64 (of_int (d mod Second) / 1000000000)"
    using k(1) fl.rnd_nonneg [of "of_int (d mod Second) / 1000000000"] by (simp add: add_increasing2)
  then show ?thesis unfolding Seconds_rnd [OF d a(3)] using k a(2) by (intro fl.rnd_ge_int) simp_all
qed
lemma new_bucket_capacity: "config_ok c \<Longrightarrow> fl_of_int (BurstSize c) = of_int (BurstSize c)"
  by (simp add: config_ok_def fl_of_int_def fl.rnd_int)

lemma new_bucket_rate_nonneg: "config_ok c \<Longrightarrow> 0 \<le> rate (new_bucket c now)"
  by (auto simp: new_bucket_def fl_div_def fl_of_int_def config_ok_def intro!: fl.rnd_nonneg)

lemma new_bucket_ok: "config_ok c \<Longrightarrow> bucket_ok (new_bucket c now)"
  using new_bucket_rate_nonneg [of c now]
  by (auto simp: bucket_ok_def new_bucket_def new_bucket_capacity) (auto simp: config_ok_def)

lemma refill_ok:
  assumes "bucket_ok b" and "lastFill b \<le> now"
  shows "bucket_ok (refill b now)"
proof -
  have "0 \<le> fl_mul (Seconds (time_Sub now (lastFill b))) (rate b)"
    using assms by (auto simp: fl_mul_def bucket_ok_def intro!: fl.rnd_nonneg mult_nonneg_nonneg Seconds_nonneg time_Sub_nonneg)
  then have "0 \<le> fl_add (tokens b) (fl_mul (Seconds (time_Sub now (lastFill b))) (rate b))"
    using assms(1) by (auto simp: fl_add_def bucket_ok_def intro!: fl.rnd_nonneg)
  with assms(1) show ?thesis by (auto simp: bucket_ok_def refill_def Let_def)
qed

lemma fl_sub_one_ok: "1 \<le> t \<Longrightarrow> t \<le> of_int n \<Longrightarrow> 0 \<le> n \<Longrightarrow> n < 2147483648 \<Longrightarrow> 0 \<le> fl_sub t 1 \<and> fl_sub t 1 \<le> of_int n"
  unfolding fl_sub_def by (auto intro!: fl.rnd_nonneg fl.rnd_le_int)

lemma allow_ok:
  assumes "bucket_ok b" and "lastFill b \<le> now"
  shows "bucket_ok (snd (allow oor b now))"
  using refill_ok [OF assms] fl_sub_one_ok
  by (auto simp: allow_def Let_def bucket_ok_def)

lemma allow_frame: "capacity (snd (allow oor b now)) = capacity b" "rate (snd (allow oor b now)) = rate b"
  "lastFill (snd (allow oor b now)) = now"
  by (simp_all add: allow_def refill_def Let_def)

end
