(* ===== verification/Rbac.thy ===== *)
theory Rbac
  imports Auth
begin

text \<open>
  \<open>internal/rbac\<close>: glob patterns over bytes, the permission cache of the service, the tool
  named by a JSON-RPC body, and the middleware's guard. The cache is state; the query
  \<open>GetPermissionsByKeyID\<close> is the argument \<open>loader\<close>. A nil slice is \<open>None\<close>, which the
  service treats as "no role assigned"; the cache is a map into such slices.
\<close>

section \<open>Patterns\<close>

abbreviation STAR :: char where "STAR \<equiv> CHR ''*''"

text \<open>The loop over the suffixes of the value stops at the first match.\<close>

fun match :: "string \<Rightarrow> string \<Rightarrow> bool" where
  "match [] v \<longleftrightarrow> v = []"
| "match (c # p) v \<longleftrightarrow>
     (if c = STAR then p = [] \<or> list_ex (\<lambda>i. match p (drop i v)) [0..<Suc (length v)]
      else (case v of [] \<Rightarrow> False | x # w \<Rightarrow> c = x \<and> match p w))"

definition MatchPattern :: "string \<Rightarrow> string \<Rightarrow> bool" where
  "MatchPattern pattern resource = match pattern resource"

text \<open>The language of a pattern: a star stands for any bytes, every other byte for itself.\<close>

inductive glob :: "string \<Rightarrow> string \<Rightarrow> bool" where
  empty: "glob [] []"
| star: "glob p v \<Longrightarrow> glob (STAR # p) (u @ v)"
| byte: "c \<noteq> STAR \<Longrightarrow> glob p v \<Longrightarrow> glob (c # p) (c # v)"

inductive_cases glob_NilE [elim!]: "glob [] v"
inductive_cases glob_ConsE: "glob (c # p) v"

lemma glob_star_end: "glob [STAR] v"
  using glob.star [OF glob.empty, of v] by simp

lemma match_star: "match (STAR # p) v \<longleftrightarrow> p = [] \<or> (\<exists>i \<le> length v. match p (drop i v))"
  by (auto simp: list_ex_iff less_Suc_eq_le simp del: upt_Suc)

lemma match_sound: "match p v \<Longrightarrow> glob p v"
proof (induction p arbitrary: v)
  case Nil
  then show ?case by (simp add: glob.empty)
next
  case (Cons c p)
  show ?case
  proof (cases "c = STAR")
    case True
    with Cons.prems consider "p = []" | i where "match p (drop i v)" using match_star by blast
    then show ?thesis
    proof cases
      case 1
      with True show ?thesis by (simp add: glob_star_end)
    next
      case 2
      with Cons.IH have "glob (STAR # p) (take i v @ drop i v)" by (intro glob.star) simp
      with True show ?thesis by simp
    qed
  next
    case False
    with Cons show ?thesis by (auto intro: glob.byte split: list.splits)
  qed
qed

lemma match_complete: "glob p v \<Longrightarrow> match p v"
proof (induction rule: glob.induct)
  case empty
  then show ?case by simp
next
  case (star p v u)
  then have "length u \<le> length (u @ v) \<and> match p (drop (length u) (u @ v))" by simp
  then show ?case unfolding match_star by blast
next
  case (byte c p v)
  then show ?case by simp
qed

lemma match_plain: "STAR \<notin> set p \<Longrightarrow> match p v \<longleftrightarrow> v = p"
  by (induction p arbitrary: v) (auto split: list.splits)

lemma match_prefix: "STAR \<notin> set p \<Longrightarrow> match (p @ [STAR]) v \<longleftrightarrow> prefix p v"
  by (induction p arbitrary: v) (auto split: list.splits)

section \<open>The service\<close>

type_synonym perms = "PermissionRow list option"
type_synonym perm_loader = "uuid \<Rightarrow> db_error + perms"

record Service =
  cache :: "uuid \<Rightarrow> perms option"

definition NewService :: Service where
  "NewService = \<lparr>cache = (\<lambda>_. None)\<rparr>"

definition loadPermissions :: "perm_loader \<Rightarrow> uuid \<Rightarrow> Service \<Rightarrow> perms \<times> Service" where
  "loadPermissions loader keyID s =
     (case cache s keyID of
        Some perms \<Rightarrow> (perms, s)
      | None \<Rightarrow>
          (case loader keyID of
             Inl err \<Rightarrow> (None, s)
           | Inr perms \<Rightarrow> (perms, s\<lparr>cache := (cache s)(keyID \<mapsto> perms)\<rparr>)))"

definition permits :: "perms \<Rightarrow> string \<Rightarrow> string \<Rightarrow> bool" where
  "permits perms resource action = (case perms of
      None \<Rightarrow> True
    | Some ps \<Rightarrow> list_ex (\<lambda>p. MatchPattern (pr_Resource p) resource \<and> MatchPattern (pr_Action p) action) ps)"

definition IsAllowed :: "perm_loader \<Rightarrow> uuid \<Rightarrow> string \<Rightarrow> string \<Rightarrow> Service \<Rightarrow> bool \<times> Service" where
  "IsAllowed loader keyID resource action s =
     (let (perms, s) = loadPermissions loader keyID s in (permits perms resource action, s))"

definition InvalidateCache :: "uuid \<Rightarrow> Service \<Rightarrow> Service" where
  "InvalidateCache keyID s = s\<lparr>cache := (cache s)(keyID := None)\<rparr>"

section \<open>The tool a body calls\<close>

definition maxBodyRead :: nat where "maxBodyRead = 64 * 1024"

definition readAndRestore :: "request \<Rightarrow> string \<times> request" where
  "readAndRestore r = read_limited maxBodyRead r"

record rpc_call =
  rc_Method :: string
  rc_Name :: string

definition name_fields :: "rpc_call \<Rightarrow> string \<Rightarrow> json \<Rightarrow> rpc_call option" where
  "name_fields r k v = (if key_is ''name'' k then map_option (\<lambda>s. r\<lparr>rc_Name := s\<rparr>) (into_string v (rc_Name r)) else Some r)"

definition call_fields :: "rpc_call \<Rightarrow> string \<Rightarrow> json \<Rightarrow> rpc_call option" where
  "call_fields r k v =
     (if key_is ''method'' k then map_option (\<lambda>s. r\<lparr>rc_Method := s\<rparr>) (into_string v (rc_Method r))
      else if key_is ''params'' k then into_struct name_fields v r
      else Some r)"

definition extractResourceAction :: "string \<Rightarrow> string \<times> string" where
  "extractResourceAction body =
     (case Unmarshal call_fields body \<lparr>rc_Method = [], rc_Name = []\<rparr> of
        None \<Rightarrow> ([], [])
      | Some req \<Rightarrow>
          if rc_Method req = ''tools/call'' \<and> rc_Name req \<noteq> []
          then (''tool:'' @ rc_Name req, ''execute'') else ([], []))"

section \<open>The middleware\<close>

definition rbac_guard :: "perm_loader \<Rightarrow> request \<Rightarrow> Service \<Rightarrow> Service \<times> verdict" where
  "rbac_guard loader r s =
     (case APIKeyFromContext r of
        None \<Rightarrow> (s, Pass r)
      | Some key \<Rightarrow>
          (let (body, r) = readAndRestore r; (resource, action) = extractResourceAction body
           in if resource = [] then (s, Pass r)
              else (let (allowed, s) = IsAllowed loader (ak_ID key) resource action s
                    in if \<not> allowed then (s, Reject (deny_json 403 (- 32001) ''permission denied''))
                       else (s, Pass r))))"

section \<open>Facts\<close>

lemma loadPermissions_cached:
  assumes "loadPermissions loader k s = (p, s')" and "cache s k = Some q"
  shows "p = q" and "s' = s"
  using assms by (simp_all add: loadPermissions_def)

lemma loadPermissions_loaded:
  assumes "loader k = Inr p" and "cache s k = None"
  shows "loadPermissions loader k s = (p, s\<lparr>cache := (cache s)(k \<mapsto> p)\<rparr>)"
  using assms by (simp add: loadPermissions_def)

lemma loadPermissions_idem:
  assumes "loadPermissions loader k s = (p, s')" and "loader k = Inr q \<or> cache s k \<noteq> None"
  shows "loadPermissions loader' k s' = (p, s')"
  using assms by (auto simp: loadPermissions_def split: option.splits sum.splits)

lemma loadPermissions_other: "j \<noteq> k \<Longrightarrow> cache (snd (loadPermissions loader k s)) j = cache s j"
  by (auto simp: loadPermissions_def split: option.splits sum.splits)

lemma permits_Some:
  "permits (Some ps) res act \<longleftrightarrow> (\<exists>p \<in> set ps. MatchPattern (pr_Resource p) res \<and> MatchPattern (pr_Action p) act)"
  by (auto simp: permits_def list_ex_iff)

lemma rbac_guard_Pass:
  "rbac_guard loader r s = (s', Pass r') \<Longrightarrow> r' = r \<or> r' = snd (readAndRestore r)"
  by (auto simp: rbac_guard_def Let_def split: option.splits prod.splits if_splits)

lemma rbac_guard_Reject:
  assumes "rbac_guard loader r s = (s', Reject es)"
  obtains key res act where "rq_APIKey r = Some key"
    and "extractResourceAction (fst (readAndRestore r)) = (res, act)" and "res \<noteq> []"
    and "IsAllowed loader (ak_ID key) res act s = (False, s')" and "es = deny_json 403 (- 32001) ''permission denied''"
  using assms by (auto simp: rbac_guard_def APIKeyFromContext_def Let_def split: option.splits prod.splits if_splits)

end
