(* ===== verification/Policy.thy ===== *)
theory Policy
  imports Complex_Main Rbac
begin

text \<open>
  \<open>internal/policy\<close>: the policy engine. Its policies, the instant they were loaded and the
  write tracker's windows are state; \<open>ListEnabledPolicies\<close> is the argument \<open>loader\<close>, the
  time zone database the argument \<open>zones\<close>, Unicode lower case outside ASCII the argument
  \<open>uni\<close>. An evaluation yields the reason of a denial or \<open>None\<close>.
\<close>

section \<open>Configurations\<close>

record TimeBasedConfig =
  BlockStartHour :: int
  BlockEndHour :: int
  Timezone :: string

record ContentConfig =
  BlockedPatterns :: "string list"

record RateOfChangeConfig =
  MaxWritesPerWindow :: int
  WindowSeconds :: int

definition time_based_fields :: "TimeBasedConfig \<Rightarrow> string \<Rightarrow> json \<Rightarrow> TimeBasedConfig option" where
  "time_based_fields c k v =
     (if key_is ''block_start_hour'' k then map_option (\<lambda>n. c\<lparr>BlockStartHour := n\<rparr>) (into_int v (BlockStartHour c))
      else if key_is ''block_end_hour'' k then map_option (\<lambda>n. c\<lparr>BlockEndHour := n\<rparr>) (into_int v (BlockEndHour c))
      else if key_is ''timezone'' k then map_option (\<lambda>s. c\<lparr>Timezone := s\<rparr>) (into_string v (Timezone c))
      else Some c)"

definition content_fields :: "ContentConfig \<Rightarrow> string \<Rightarrow> json \<Rightarrow> ContentConfig option" where
  "content_fields c k v =
     (if key_is ''blocked_patterns'' k
      then map_option (\<lambda>ps. c\<lparr>BlockedPatterns := ps\<rparr>) (into_strings v (BlockedPatterns c)) else Some c)"

definition rate_of_change_fields :: "RateOfChangeConfig \<Rightarrow> string \<Rightarrow> json \<Rightarrow> RateOfChangeConfig option" where
  "rate_of_change_fields c k v =
     (if key_is ''max_writes_per_window'' k
      then map_option (\<lambda>n. c\<lparr>MaxWritesPerWindow := n\<rparr>) (into_int v (MaxWritesPerWindow c))
      else if key_is ''window_seconds'' k
      then map_option (\<lambda>n. c\<lparr>WindowSeconds := n\<rparr>) (into_int v (WindowSeconds c))
      else Some c)"

section \<open>The write tracker\<close>

type_synonym windows = "uuid \<Rightarrow> time list"

definition newWriteTracker :: windows where
  "newWriteTracker = (\<lambda>_. [])"

definition record_write :: "uuid \<Rightarrow> time \<Rightarrow> windows \<Rightarrow> windows" where
  "record_write keyID now w = w(keyID := w keyID @ [now])"

definition countInWindow :: "uuid \<Rightarrow> time \<Rightarrow> windows \<Rightarrow> int \<times> windows" where
  "countInWindow keyID windowStart w =
     (let kept = filter (\<lambda>t. \<not> t < windowStart) (w keyID)
      in (int (length kept), w(keyID := kept)))"

section \<open>The engine\<close>

record Engine =
  en_policies :: "Policy list option"
  en_lastLoad :: time
  en_cacheTTL :: duration
  en_windows :: windows

definition NewEngine :: Engine where
  "NewEngine = \<lparr>en_policies = None, en_lastLoad = zero_time, en_cacheTTL = 30 * Second, en_windows = newWriteTracker\<rparr>"

definition loadPolicies :: "db_error + Policy list option \<Rightarrow> Engine \<times> env \<Rightarrow> Policy list option \<times> Engine \<times> env" where
  "loadPolicies loader s = (case s of (e, c) \<Rightarrow>
     (let (now, c) = time_Now c
      in if time_Sub now (en_lastLoad e) < en_cacheTTL e \<and> en_policies e \<noteq> None then (en_policies e, e, c)
         else (case loader of
            Inl err \<Rightarrow> (en_policies e, e, c)
          | Inr ps \<Rightarrow> (let (now, c) = time_Now c in (ps, e\<lparr>en_policies := ps, en_lastLoad := now\<rparr>, c)))))"

text \<open>A loaded location: its name and its offset from UTC in seconds at an instant.\<close>

record zone =
  zn_name :: string
  zn_offset :: "time \<Rightarrow> int"

definition UTC :: zone where "UTC = \<lparr>zn_name = ''UTC'', zn_offset = (\<lambda>_. 0)\<rparr>"

definition zone_hour :: "zone \<Rightarrow> time \<Rightarrow> int" where
  "zone_hour z t = (t + zn_offset z t * Second) div Hour mod 24"

definition blocked_hours :: "TimeBasedConfig \<Rightarrow> zone \<Rightarrow> string" where
  "blocked_hours c z = ''access blocked during hours '' @ Itoa (BlockStartHour c) @ '':00-'' @
     Itoa (BlockEndHour c) @ '':00 '' @ zn_name z"

definition evaluateTimeBased :: "(string \<Rightarrow> zone option) \<Rightarrow> Policy \<Rightarrow> time \<Rightarrow> string option" where
  "evaluateTimeBased zones p now =
     (case Unmarshal time_based_fields (po_Config p) \<lparr>BlockStartHour = 0, BlockEndHour = 0, Timezone = []\<rparr> of
        None \<Rightarrow> None
      | Some c \<Rightarrow>
          (case (if Timezone c \<noteq> [] then zones (Timezone c) else Some UTC) of
             None \<Rightarrow> None
           | Some loc \<Rightarrow>
               (let hour = zone_hour loc now
                in if BlockStartHour c \<le> BlockEndHour c
                   then (if BlockStartHour c \<le> hour \<and> hour < BlockEndHour c then Some (blocked_hours c loc) else None)
                   else (if BlockStartHour c \<le> hour \<or> hour < BlockEndHour c then Some (blocked_hours c loc) else None))))"

definition evaluateContent :: "(string \<Rightarrow> string) \<Rightarrow> Policy \<Rightarrow> string \<Rightarrow> string option" where
  "evaluateContent uni p body =
     (case Unmarshal content_fields (po_Config p) \<lparr>BlockedPatterns = []\<rparr> of
        None \<Rightarrow> None
      | Some c \<Rightarrow>
          (let lower = ToLower uni body
           in map_option (\<lambda>pattern. ''request contains blocked pattern: '' @ pattern)
                (find (\<lambda>pattern. Contains lower (ToLower uni pattern)) (BlockedPatterns c))))"

section \<open>Write operations\<close>

definition writeIndicators :: "string list" where
  "writeIndicators =
     [''delete'', ''drop'', ''remove'', ''update'', ''insert'', ''create'',
      ''write'', ''put'', ''post'', ''modify'', ''alter'', ''set'']"

text \<open>
  The arguments are decoded into an \<open>any\<close>, which fails only on a number beyond
  \<open>float64\<close>: \<open>num_mag\<close> is the magnitude a JSON number denotes.
\<close>

definition num_mag :: "string \<Rightarrow> rat" where
  "num_mag n =
     (let s = (if take 1 n = ''-'' then drop 1 n else n);
          i = takeWhile is_digit s; r = dropWhile is_digit s;
          (f, r) = (if take 1 r = ''.'' then (takeWhile is_digit (drop 1 r), dropWhile is_digit (drop 1 r)) else ([], r));
          r = drop 1 r;
          e = (if take 1 r = ''-'' then - int (digits_val (drop 1 r))
               else if take 1 r = ''+'' then int (digits_val (drop 1 r)) else int (digits_val r))
      in of_nat (digits_val (i @ f)) * 10 powi (e - int (length f)))"

definition float_in_range :: "string \<Rightarrow> bool" where
  "float_in_range n \<longleftrightarrow> num_mag n < 2 ^ 1024 - 2 ^ 970"

fun any_ok :: "json \<Rightarrow> bool" where
  "any_ok (JNum n) \<longleftrightarrow> float_in_range n"
| "any_ok (JArr vs) \<longleftrightarrow> (\<forall>v \<in> set vs. any_ok v)"
| "any_ok (JObj ms) \<longleftrightarrow> (\<forall>m \<in> set ms. any_ok (snd m))"
| "any_ok _ \<longleftrightarrow> True"

definition write_params_fields :: "rpc_call \<Rightarrow> string \<Rightarrow> json \<Rightarrow> rpc_call option" where
  "write_params_fields r k v =
     (if key_is ''name'' k then map_option (\<lambda>s. r\<lparr>rc_Name := s\<rparr>) (into_string v (rc_Name r))
      else if key_is ''arguments'' k then (if any_ok v then Some r else None)
      else Some r)"

definition write_fields :: "rpc_call \<Rightarrow> string \<Rightarrow> json \<Rightarrow> rpc_call option" where
  "write_fields r k v =
     (if key_is ''method'' k then map_option (\<lambda>s. r\<lparr>rc_Method := s\<rparr>) (into_string v (rc_Method r))
      else if key_is ''params'' k then into_struct write_params_fields v r
      else Some r)"

definition isWriteOperation :: "(string \<Rightarrow> string) \<Rightarrow> string \<Rightarrow> bool" where
  "isWriteOperation uni body =
     ((case Unmarshal write_fields body \<lparr>rc_Method = [], rc_Name = []\<rparr> of
         None \<Rightarrow> False
       | Some req \<Rightarrow> rc_Name req \<noteq> [] \<and> list_ex (\<lambda>ind. Contains (ToLower uni (rc_Name req)) ind) writeIndicators) \<or>
      list_ex (\<lambda>ind. Contains (ToLower uni body) ind) writeIndicators)"

definition evaluateRateOfChange :: "(string \<Rightarrow> string) \<Rightarrow> request \<Rightarrow> Policy \<Rightarrow> string \<Rightarrow> time \<Rightarrow> windows \<Rightarrow> string option \<times> windows" where
  "evaluateRateOfChange uni r p body now w =
     (if \<not> isWriteOperation uni body then (None, w)
      else (case Unmarshal rate_of_change_fields (po_Config p) \<lparr>MaxWritesPerWindow = 0, WindowSeconds = 0\<rparr> of
          None \<Rightarrow> (None, w)
        | Some c \<Rightarrow>
            if MaxWritesPerWindow c \<le> 0 \<or> WindowSeconds c \<le> 0 then (None, w)
            else (case APIKeyFromContext r of
                None \<Rightarrow> (None, w)
              | Some key \<Rightarrow>
                  (let windowStart = time_Add now (int64 (- WindowSeconds c * Second));
                       (count, w) = countInWindow (ak_ID key) windowStart w
                   in if MaxWritesPerWindow c \<le> count
                      then (Some (''too many write operations: '' @ Itoa count @ '' in '' @ Itoa (WindowSeconds c) @
                                  ''s (limit '' @ Itoa (MaxWritesPerWindow c) @ '')''), w)
                      else (None, record_write (ak_ID key) now w)))))"

section \<open>The middleware\<close>

definition evaluate :: "(string \<Rightarrow> string) \<Rightarrow> (string \<Rightarrow> zone option) \<Rightarrow> request \<Rightarrow> string \<Rightarrow> time \<Rightarrow> Policy \<Rightarrow> windows
    \<Rightarrow> string option \<times> windows" where
  "evaluate uni zones r body now p w =
     (if po_PolicyType p = ''time_based'' then (evaluateTimeBased zones p now, w)
      else if po_PolicyType p = ''content'' then (evaluateContent uni p body, w)
      else if po_PolicyType p = ''rate_of_change'' then evaluateRateOfChange uni r p body now w
      else (None, w))"

text \<open>The loop over the policies: the first denial, with the policy's name.\<close>

fun evaluate_all :: "(string \<Rightarrow> string) \<Rightarrow> (string \<Rightarrow> zone option) \<Rightarrow> request \<Rightarrow> string \<Rightarrow> time \<Rightarrow> Policy list \<Rightarrow> windows
    \<Rightarrow> (string \<times> string) option \<times> windows" where
  "evaluate_all uni zones r body now [] w = (None, w)"
| "evaluate_all uni zones r body now (p # ps) w =
     (case evaluate uni zones r body now p w of
        (Some reason, w') \<Rightarrow> (Some (po_Name p, reason), w')
      | (None, w') \<Rightarrow> evaluate_all uni zones r body now ps w')"

definition writePolicyDenied :: "string \<Rightarrow> string \<Rightarrow> ev list" where
  "writePolicyDenied policyName reason = deny_json 403 (- 32002)
     (''policy violation: '' @ policyName @ [CHR '' '', CHR 0xE2, CHR 0x80, CHR 0x94, CHR '' ''] @ reason)"

text \<open>The package has its own copy of the reading of bodies, with the same limit as \<open>rbac\<close>.\<close>

definition policy_maxBodyRead :: nat where "policy_maxBodyRead = 64 * 1024"

definition policy_readAndRestore :: "request \<Rightarrow> string \<times> request" where
  "policy_readAndRestore r = read_limited policy_maxBodyRead r"

lemma policy_readAndRestore_rbac [simp]: "policy_readAndRestore = readAndRestore"
  by (simp add: fun_eq_iff policy_readAndRestore_def policy_maxBodyRead_def readAndRestore_def maxBodyRead_def)

definition policy_guard :: "(string \<Rightarrow> string) \<Rightarrow> (string \<Rightarrow> zone option) \<Rightarrow> db_error + Policy list option
    \<Rightarrow> request \<Rightarrow> Engine \<times> env \<Rightarrow> (Engine \<times> env) \<times> verdict" where
  "policy_guard uni zones loader r s =
     (let (ps, e, c) = loadPolicies loader s
      in if ps = None \<or> ps = Some [] then ((e, c), Pass r)
         else (let (body, r) = policy_readAndRestore r;
                   (now, c) = time_Now c;
                   (denial, w) = evaluate_all uni zones r body now (the ps) (en_windows e);
                   e = e\<lparr>en_windows := w\<rparr>
               in (case denial of
                     Some (name, reason) \<Rightarrow> ((e, c), Reject (writePolicyDenied name reason))
                   | None \<Rightarrow> ((e, c), Pass r))))"

end
