(* ===== verification/Guard.thy ===== *)
theory Guard
  imports RateLimit Policy
begin

text \<open>
  The shape the four access checks of the gateway share: a guard passes a request on,
  touching only its body and its context, or answers it with an error and never calls the
  next handler. \<open>gate\<close> makes a middleware of a guard, as each package's
  \<open>Middleware\<close> method does. The contract is the locale \<open>guard\<close>, its lemmas hold for
  every check, and it is interpreted on all four.
\<close>

section \<open>Gates\<close>

definition gate :: "(request \<Rightarrow> 's \<Rightarrow> 's \<times> verdict) \<Rightarrow> 's middleware" where
  "gate g next r s = (case g r s of
      (s', Pass r') \<Rightarrow> next r' s'
    | (s', Reject es) \<Rightarrow> (s', es, Returned))"

text \<open>Guards in a row: the first rejection, or the request as the last one passes it on.\<close>

fun run_guards :: "(request \<Rightarrow> 's \<Rightarrow> 's \<times> verdict) list \<Rightarrow> request \<Rightarrow> 's \<Rightarrow> 's \<times> verdict" where
  "run_guards [] r s = (s, Pass r)"
| "run_guards (g # gs) r s = (case g r s of
      (s', Pass r') \<Rightarrow> run_guards gs r' s'
    | (s', Reject es) \<Rightarrow> (s', Reject es))"

lemma Chain_gates:
  "Chain h (map gate gs) r s = (case run_guards gs r s of
     (s', Pass r') \<Rightarrow> h r' s' | (s', Reject es) \<Rightarrow> (s', es, Returned))"
  by (induction gs arbitrary: r s) (auto simp: gate_def split: prod.splits verdict.splits)

lemma run_guards_append:
  "run_guards (gs @ hs) r s = (case run_guards gs r s of
     (s', Pass r') \<Rightarrow> run_guards hs r' s' | (s', Reject es) \<Rightarrow> (s', Reject es))"
  by (induction gs arbitrary: r s) (auto split: prod.splits verdict.splits)

lemma run_guards_pass_Cons:
  "run_guards (g # gs) r s = (s', Pass r') \<longleftrightarrow> (\<exists>s1 r1. g r s = (s1, Pass r1) \<and> run_guards gs r1 s1 = (s', Pass r'))"
  by (auto split: prod.splits verdict.splits)

lemma run_guards_reject:
  "run_guards gs r s = (s', Reject es) \<Longrightarrow> \<exists>g \<in> set gs. \<exists>r s. g r s = (s', Reject es)"
proof (induction gs arbitrary: r s)
  case (Cons g gs)
  show ?case
  proof (cases "g r s")
    case (Pair s1 v)
    with Cons.prems Cons.IH show ?thesis by (cases v) auto
  qed
qed simp

text \<open>A guard over one component's state acts on the state of the process.\<close>

definition lift_guard :: "('w \<Rightarrow> 's) \<Rightarrow> ('s \<Rightarrow> 'w \<Rightarrow> 'w) \<Rightarrow> ('w \<Rightarrow> request \<Rightarrow> 's \<Rightarrow> 's \<times> verdict) \<Rightarrow> request \<Rightarrow> 'w \<Rightarrow> 'w \<times> verdict" where
  "lift_guard get put g r w = (let (s, v) = g w r (get w) in (put s w, v))"

section \<open>The contract\<close>

definition same_target :: "request \<Rightarrow> request \<Rightarrow> bool" where
  "same_target r r' \<longleftrightarrow> rq_Method r' = rq_Method r \<and> rq_Path r' = rq_Path r \<and> rq_RawQuery r' = rq_RawQuery r \<and> rq_Header r' = rq_Header r \<and>
     rq_RemoteAddr r' = rq_RemoteAddr r \<and> rq_TLS r' = rq_TLS r \<and> rq_RequestID r' = rq_RequestID r"

lemma same_target_refl [simp]: "same_target r r"
  by (simp add: same_target_def)

lemma same_target_trans: "same_target r r' \<Longrightarrow> same_target r' r'' \<Longrightarrow> same_target r r''"
  by (simp add: same_target_def)

lemma run_guards_target:
  assumes "\<And>g r s s' r'. g \<in> set gs \<Longrightarrow> g r s = (s', Pass r') \<Longrightarrow> same_target r r'"
  shows "run_guards gs r s = (s', Pass r') \<Longrightarrow> same_target r r'"
  using assms
proof (induction gs arbitrary: r s)
  case (Cons g gs)
  obtain s1 r1 where g: "g r s = (s1, Pass r1)" and gs: "run_guards gs r1 s1 = (s', Pass r')"
    using Cons.prems(1) unfolding run_guards_pass_Cons by blast
  have "same_target r1 r'" by (rule Cons.IH [OF gs]) (erule Cons.prems(2) [rotated], simp)
  moreover have "same_target r r1" by (rule Cons.prems(2) [of g r s s1 r1]) (simp_all add: g)
  ultimately show ?case by (rule same_target_trans [rotated])
qed simp

locale gatekeeper =
  fixes g :: "request \<Rightarrow> 's \<Rightarrow> 's \<times> verdict" and code :: int
  assumes not_success: "300 \<le> code"
    and reject_code: "g r s = (s', Reject es) \<Longrightarrow> final_status es = code"
    and pass_target: "g r s = (s', Pass r') \<Longrightarrow> same_target r r'"
begin

lemma gate_cases:
  assumes "gate g next r s = (s', es, f)"
  shows "(\<exists>s1 r'. g r s = (s1, Pass r') \<and> same_target r r' \<and> next r' s1 = (s', es, f)) \<or>
    (g r s = (s', Reject es) \<and> f = Returned \<and> final_status es = code)"
  using assms pass_target reject_code by (cases "g r s"; cases "snd (g r s)") (auto simp: gate_def)

text \<open>An answer of another status comes from the next handler.\<close>

lemma gate_other_status:
  assumes "gate g next r s = (s', es, f)" and "final_status es \<noteq> code"
  shows "\<exists>s1 r'. g r s = (s1, Pass r') \<and> same_target r r' \<and> next r' s1 = (s', es, f)"
  using gate_cases [OF assms(1)] assms(2) by auto

end

text \<open>The checks of the gateway answer with a client error.\<close>

locale guard = gatekeeper +
  assumes client_error: "400 \<le> code" "code < 500"
begin

text \<open>A success comes from the next handler.\<close>

lemma gate_success:
  assumes "gate g next r s = (s', es, f)" and "final_status es < 400"
  shows "\<exists>s1 r'. g r s = (s1, Pass r') \<and> same_target r r' \<and> next r' s1 = (s', es, f)"
  using gate_other_status [OF assms(1)] assms(2) client_error by simp

end

text \<open>Guards that satisfy the contract, lifted to a larger state, satisfy it too.\<close>

lemma guard_lift:
  assumes "\<And>w. guard (g w) code"
  shows "guard (lift_guard get put g) code"
proof
  show "300 \<le> code" "400 \<le> code" "code < 500" using guard.client_error [OF assms] by auto
next
  fix r s s' es
  assume "lift_guard get put g r s = (s', Reject es)"
  then have "g s r (get s) = (fst (g s r (get s)), Reject es)" by (auto simp: lift_guard_def split: prod.splits)
  then show "final_status es = code" by (rule gatekeeper.reject_code [OF guard.axioms(1) [OF assms]])
next
  fix r s s' r'
  assume "lift_guard get put g r s = (s', Pass r')"
  then have "g s r (get s) = (fst (g s r (get s)), Pass r')" by (auto simp: lift_guard_def split: prod.splits)
  then show "same_target r r'" by (rule gatekeeper.pass_target [OF guard.axioms(1) [OF assms]])
qed

section \<open>The four checks\<close>

lemma same_target_read: "same_target r (snd (read_limited n r))"
  by (simp add: same_target_def read_limited_def split: option.splits)

interpretation auth_g: guard "auth_guard lookup" 401 for lookup
proof
  show "auth_guard lookup r s = (s', Reject es) \<Longrightarrow> final_status es = 401" for r s s' es
    by (auto simp: auth_guard_def writeAuthError_def split: sum.splits prod.splits)
  show "auth_guard lookup r s = (s', Pass r') \<Longrightarrow> same_target r r'" for r s s' r'
    by (auto simp: auth_guard_Pass same_target_def)
qed simp_all

lemma final_status_429:
  "final_status [SetHeader ''Content-Type'' ''application/json'', SetHeader ''Retry-After'' v, WriteHeader 429, Write b] = 429"
  by (simp add: final_status_def respond_def fresh_response_def write_header_def body_allowed_def Let_def)

interpretation rl_g: guard "rl_guard oor loader" 429 for oor loader
proof
  show "rl_guard oor loader r s = (s', Reject es) \<Longrightarrow> final_status es = 429" for r s s' es
    by (auto simp: rl_guard_def Let_def final_status_429 split: option.splits prod.splits if_splits)
  show "rl_guard oor loader r s = (s', Pass r') \<Longrightarrow> same_target r r'" for r s s' r'
    by (auto simp: rl_guard_def Let_def split: option.splits prod.splits if_splits)
qed simp_all

interpretation rbac_g: guard "rbac_guard loader" 403 for loader
proof
  show "rbac_guard loader r s = (s', Reject es) \<Longrightarrow> final_status es = 403" for r s s' es
    by (elim rbac_guard_Reject) simp
  show "rbac_guard loader r s = (s', Pass r') \<Longrightarrow> same_target r r'" for r s s' r'
    by (drule rbac_guard_Pass) (auto simp: readAndRestore_def same_target_read)
qed simp_all

interpretation policy_g: guard "policy_guard uni zones loader" 403 for uni zones loader
proof
  show "policy_guard uni zones loader r s = (s', Reject es) \<Longrightarrow> final_status es = 403" for r s s' es
    by (auto simp: policy_guard_def Let_def writePolicyDenied_def split: prod.splits option.splits if_splits)
  show "policy_guard uni zones loader r s = (s', Pass r') \<Longrightarrow> same_target r r'" for r s s' r'
    by (auto simp: policy_guard_def readAndRestore_def Let_def same_target_read split: prod.splits option.splits if_splits)
      (metis same_target_read snd_conv)+
qed simp_all

end
