(* ===== verification/Config.thy ===== *)
theory Config
  imports Prelude Float64
begin

text \<open>
  \<open>internal/config\<close>: the environment is a function from names to values, the empty
  string for an unset one (\<open>os.Getenv\<close>). \<open>strconv.ParseBool\<close> and
  \<open>time.ParseDuration\<close> are written out; the record is called \<open>Settings\<close> because
  the rate limiter has a \<open>Config\<close> too.
\<close>

section \<open>Parsing values\<close>

definition ParseBool :: "string \<Rightarrow> bool option" where
  "ParseBool s =
     (if s \<in> set [''1'', ''t'', ''T'', ''true'', ''TRUE'', ''True''] then Some True
      else if s \<in> set [''0'', ''f'', ''F'', ''false'', ''FALSE'', ''False''] then Some False
      else None)"

text \<open>\<open>leadingInt\<close>: the value of the digits in front and what follows; \<open>None\<close> on overflow
  of \<open>1 << 63\<close>.\<close>

fun leadingInt :: "nat \<Rightarrow> string \<Rightarrow> (nat \<times> string) option" where
  "leadingInt x [] = Some (x, [])"
| "leadingInt x (c # s) =
     (if \<not> is_digit c then Some (x, c # s)
      else if 2 ^ 63 div 10 < x then None
      else if 2 ^ 63 < x * 10 + digit_val c then None
      else leadingInt (x * 10 + digit_val c) s)"

text \<open>\<open>leadingFraction\<close>: the value of the digits, the power of ten they stand over, the
  rest; digits that would overflow are skipped.\<close>

fun leadingFraction :: "nat \<Rightarrow> nat \<Rightarrow> bool \<Rightarrow> string \<Rightarrow> nat \<times> nat \<times> string" where
  "leadingFraction x scale over [] = (x, scale, [])"
| "leadingFraction x scale over (c # s) =
     (if \<not> is_digit c then (x, scale, c # s)
      else if over then leadingFraction x scale over s
      else if (2 ^ 63 - 1) div 10 < x then leadingFraction x scale True s
      else if 2 ^ 63 < x * 10 + digit_val c then leadingFraction x scale True s
      else leadingFraction (x * 10 + digit_val c) (scale * 10) False s)"

definition unit_of :: "string \<Rightarrow> nat option" where
  "unit_of u = map_of [(''ns'', 1), (''us'', 1000), ([CHR 0xC2, CHR 0xB5, CHR ''s''], 1000),
     ([CHR 0xCE, CHR 0xBC, CHR ''s''], 1000), (''ms'', 1000000), (''s'', 1000000000),
     (''m'', 60000000000), (''h'', 3600000000000)] u"

definition unit_char :: "char \<Rightarrow> bool" where
  "unit_char c \<longleftrightarrow> c \<noteq> CHR ''.'' \<and> \<not> is_digit c"

text \<open>One term: a number with an optional fraction, then a unit. The result is its value in
  nanoseconds and the rest of the text.\<close>

definition duration_term :: "string \<Rightarrow> (nat \<times> string) option" where
  "duration_term s =
     (case leadingInt 0 s of None \<Rightarrow> None
      | Some (v, s1) \<Rightarrow>
        (let pre = (length s1 \<noteq> length s);
             (f, scale, s2, post) = (if take 1 s1 = ''.''
                then (let (f, scale, s2) = leadingFraction 0 1 False (drop 1 s1) in (f, scale, s2, length s2 \<noteq> length s1 - 1))
                else (0, 1, s1, False));
             u = takeWhile unit_char s2; s3 = dropWhile unit_char s2
         in if \<not> pre \<and> \<not> post then None
            else (case unit_of u of None \<Rightarrow> None
              | Some un \<Rightarrow>
                  if 2 ^ 63 div un < v then None
                  else (let w = v * un + (if 0 < f then nat (fl_trunc (fl_mul (fl_of_int (int f))
                              (fl_div (fl_of_int (int un)) (fl_of_int (int scale))))) else 0)
                        in if 2 ^ 63 < w then None else Some (w, s3)))))"

lemma leadingInt_length: "leadingInt x s = Some (v, t) \<Longrightarrow> length t \<le> length s"
  by (induction x s rule: leadingInt.induct) (auto split: if_splits)

lemma leadingFraction_length: "leadingFraction x sc ov s = (f, sc', t) \<Longrightarrow> length t \<le> length s"
  by (induction x sc ov s rule: leadingFraction.induct) (auto split: if_splits)

lemma unit_of_Nil [simp]: "unit_of [] = None"
  by (simp add: unit_of_def)

lemma duration_term_shorter:
  assumes "duration_term s = Some (w, t)"
  shows "length t < length s"
proof -
  obtain v s1 where v: "leadingInt 0 s = Some (v, s1)"
    using assms by (cases "leadingInt 0 s") (auto simp: duration_term_def)
  obtain f scale s2 post where f: "(if take 1 s1 = ''.''
       then (let (f, scale, s2) = leadingFraction 0 1 False (drop 1 s1) in (f, scale, s2, length s2 \<noteq> length s1 - 1))
       else (0, 1, s1, False)) = (f, scale, s2, post)" by (rule prod_cases4)
  have l1: "length s1 \<le> length s" by (rule leadingInt_length [OF v])
  have l2: "length s2 \<le> length s1"
    using f by (auto split: if_splits prod.splits dest!: leadingFraction_length)
  have u: "takeWhile unit_char s2 \<noteq> []" and t: "t = dropWhile unit_char s2"
    using assms v f by (auto simp: duration_term_def Let_def split: if_splits option.splits)
  have "length t < length s2"
  proof -
    have "length (takeWhile unit_char s2) + length t = length s2"
      unfolding t by (metis length_append takeWhile_dropWhile_id)
    with u show ?thesis by (cases "takeWhile unit_char s2") auto
  qed
  with l1 l2 show ?thesis by simp
qed

text \<open>The terms are added up; a term must start with a digit or a point.\<close>

function duration_terms :: "nat \<Rightarrow> string \<Rightarrow> nat option" where
  "duration_terms d s =
     (if s = [] then Some d
      else if \<not> (hd s = CHR ''.'' \<or> is_digit (hd s)) then None
      else (case duration_term s of None \<Rightarrow> None
        | Some (w, t) \<Rightarrow> if 2 ^ 63 < d + w then None else duration_terms (d + w) t))"
  by pat_completeness auto
termination
  by (relation "measure (\<lambda>(d, s). length s)") (auto simp: duration_term_shorter)

declare duration_terms.simps [simp del]

definition ParseDuration :: "string \<Rightarrow> duration option" where
  "ParseDuration s =
     (let neg = (take 1 s = ''-'');
          s = (if neg \<or> take 1 s = ''+'' then drop 1 s else s)
      in if s = ''0'' then Some 0
         else if s = [] then None
         else (case duration_terms 0 s of None \<Rightarrow> None
           | Some d \<Rightarrow> if neg then Some (- int d) else if 2 ^ 63 - 1 < d then None else Some (int d)))"

section \<open>The settings\<close>

record Settings =
  cf_Port :: int
  cf_DatabaseURL :: string
  cf_MigrationsPath :: string
  cf_UpstreamURL :: string
  cf_LogLevel :: string
  cf_LogFormat :: string
  cf_ReadTimeout :: duration
  cf_WriteTimeout :: duration
  cf_IdleTimeout :: duration
  cf_ShutdownTimeout :: duration
  cf_MetricsEnabled :: bool
  cf_MetricsPort :: int
  cf_RateLimitEnabled :: bool
  cf_AuditEnabled :: bool

type_synonym environ = "string \<Rightarrow> string"

definition envString :: "environ \<Rightarrow> string \<Rightarrow> string \<Rightarrow> string" where
  "envString env key fallback = (let v = env key in if v \<noteq> [] then v else fallback)"

definition envInt :: "environ \<Rightarrow> string \<Rightarrow> int \<Rightarrow> int" where
  "envInt env key fallback =
     (let v = env key in if v = [] then fallback else (case Atoi v of None \<Rightarrow> fallback | Some i \<Rightarrow> i))"

definition envBool :: "environ \<Rightarrow> string \<Rightarrow> bool \<Rightarrow> bool" where
  "envBool env key fallback =
     (let v = env key in if v = [] then fallback else (case ParseBool v of None \<Rightarrow> fallback | Some b \<Rightarrow> b))"

definition envDuration :: "environ \<Rightarrow> string \<Rightarrow> duration \<Rightarrow> duration" where
  "envDuration env key fallback =
     (let v = env key in if v = [] then fallback else (case ParseDuration v of None \<Rightarrow> fallback | Some d \<Rightarrow> d))"

definition validate :: "Settings \<Rightarrow> string option" where
  "validate c =
     (if cf_Port c < 1 \<or> 65535 < cf_Port c then Some ''PORT must be between 1 and 65535''
      else if cf_MetricsPort c < 1 \<or> 65535 < cf_MetricsPort c then Some ''METRICS_PORT must be between 1 and 65535''
      else if cf_ReadTimeout c \<le> 0 then Some ''READ_TIMEOUT must be positive''
      else if cf_WriteTimeout c \<le> 0 then Some ''WRITE_TIMEOUT must be positive''
      else None)"

definition read_settings :: "environ \<Rightarrow> Settings" where
  "read_settings env =
     \<lparr>cf_Port = envInt env ''PORT'' 8080,
      cf_DatabaseURL = env ''DATABASE_URL'',
      cf_MigrationsPath = envString env ''MIGRATIONS_PATH'' ''migrations'',
      cf_UpstreamURL = env ''UPSTREAM_URL'',
      cf_LogLevel = envString env ''LOG_LEVEL'' ''info'',
      cf_LogFormat = envString env ''LOG_FORMAT'' ''json'',
      cf_ReadTimeout = envDuration env ''READ_TIMEOUT'' (15 * Second),
      cf_WriteTimeout = envDuration env ''WRITE_TIMEOUT'' (30 * Second),
      cf_IdleTimeout = envDuration env ''IDLE_TIMEOUT'' (60 * Second),
      cf_ShutdownTimeout = envDuration env ''SHUTDOWN_TIMEOUT'' (30 * Second),
      cf_MetricsEnabled = envBool env ''METRICS_ENABLED'' True,
      cf_MetricsPort = envInt env ''METRICS_PORT'' 9090,
      cf_RateLimitEnabled = envBool env ''RATE_LIMIT_ENABLED'' True,
      cf_AuditEnabled = envBool env ''AUDIT_ENABLED'' True\<rparr>"

definition Load :: "environ \<Rightarrow> string + Settings" where
  "Load env =
     (if env ''UPSTREAM_URL'' = [] then Inl ''UPSTREAM_URL is required''
      else (case validate (read_settings env) of
          Some err \<Rightarrow> Inl err
        | None \<Rightarrow> Inr (read_settings env)))"

section \<open>Facts\<close>

lemma validate_None:
  "validate c = None \<longleftrightarrow> 1 \<le> cf_Port c \<and> cf_Port c \<le> 65535 \<and> 1 \<le> cf_MetricsPort c \<and> cf_MetricsPort c \<le> 65535 \<and>
     0 < cf_ReadTimeout c \<and> 0 < cf_WriteTimeout c"
  by (auto simp: validate_def)

lemma Load_Inr: "Load env = Inr c \<longleftrightarrow> env ''UPSTREAM_URL'' \<noteq> [] \<and> c = read_settings env \<and> validate c = None"
  by (auto simp: Load_def split: option.splits)

text \<open>A whole number of any unit, as \<open>Duration\<close> values are written in configuration files.\<close>

lemma leadingInt_digits:
  assumes "list_all is_digit ds" and "foldl (\<lambda>n c. 10 * n + digit_val c) x ds \<le> 2 ^ 63" and "r = [] \<or> \<not> is_digit (hd r)"
  shows "leadingInt x (ds @ r) = Some (foldl (\<lambda>n c. 10 * n + digit_val c) x ds, r)"
  using assms
proof (induction ds arbitrary: x)
  case Nil
  then show ?case by (cases r) auto
next
  case (Cons c ds)
  have mono: "n \<le> foldl (\<lambda>n c. 10 * n + digit_val c) n ds" for n
  proof (induction ds arbitrary: n)
    case (Cons d ds)
    have "n \<le> 10 * n + digit_val d" by simp
    also have "\<dots> \<le> foldl (\<lambda>n c. 10 * n + digit_val c) (10 * n + digit_val d) ds" by (rule Cons)
    finally show ?case by simp
  qed simp
  have "10 * x + digit_val c \<le> 2 ^ 63" using Cons.prems(2) mono [of "10 * x + digit_val c"] by simp
  moreover from this have "x \<le> 2 ^ 63 div 10" by simp
  ultimately show ?case using Cons.prems Cons.IH [of "10 * x + digit_val c"] by (simp add: mult.commute)
qed

lemma unit_chars:
  assumes "unit_of u = Some k"
  shows "takeWhile unit_char u = u" and "u \<noteq> []" and "\<not> is_digit (hd u)" and "take 1 u \<noteq> ''.''" and "0 < k"
proof -
  have "u \<in> set [''ns'', ''us'', [CHR 0xC2, CHR 0xB5, CHR ''s''], [CHR 0xCE, CHR 0xBC, CHR ''s''], ''ms'', ''s'', ''m'', ''h''] \<and> 0 < k"
    using assms by (auto simp: unit_of_def split: if_splits)
  then show "takeWhile unit_char u = u" "u \<noteq> []" "\<not> is_digit (hd u)" "take 1 u \<noteq> ''.''" "0 < k"
    by (auto simp: unit_char_def is_digit_def)
qed

lemma show_nat_hd_cases: "hd (show_nat n) \<noteq> CHR ''-''" "hd (show_nat n) \<noteq> CHR ''+''"
  using show_nat_hd [of n] by (auto simp: is_digit_def)

lemma take_1_app: "s \<noteq> [] \<Longrightarrow> take 1 (s @ t) = [hd s]"
  by (cases s) auto

lemma duration_term_whole:
  assumes "unit_of u = Some k" and "n * k \<le> 2 ^ 63"
  shows "duration_term (show_nat n @ u) = Some (n * k, [])"
proof -
  note u = unit_chars [OF assms(1)]
  have n: "n \<le> 2 ^ 63 div k" using assms(2) u(5) by (simp add: less_eq_div_iff_mult_less_eq)
  have d: "foldl (\<lambda>n c. 10 * n + digit_val c) 0 (show_nat n) = n"
    using digits_val_show_nat [of n] by (simp add: digits_val_def)
  have "n \<le> n * k" using u(5) by (cases k) simp_all
  then have "n \<le> 2 ^ 63" using assms(2) by (rule order_trans)
  then have "leadingInt 0 (show_nat n @ u) = Some (n, u)"
    using leadingInt_digits [OF show_nat_digits, of 0 n u] u(3) d by simp
  moreover have "dropWhile unit_char u = []" using u(1) by (metis dropWhile_eq_Nil_conv set_takeWhileD)
  moreover have "length u \<noteq> length (show_nat n @ u)" by simp
  ultimately show ?thesis
    using u n assms
    by (simp add: duration_term_def Let_def not_less takeWhile_eq_all_conv [THEN iffD2] dropWhile_eq_Nil_conv [THEN iffD2])
qed

section \<open>Properties\<close>

text \<open>A duration written as a whole number and a unit is read as that many units.\<close>

theorem ParseDuration_whole:
  assumes "unit_of u = Some k" and "n * k \<le> 2 ^ 63 - 1"
  shows "ParseDuration (show_nat n @ u) = Some (int (n * k))"
proof -
  note u = unit_chars [OF assms(1)]
  obtain c cs where c: "show_nat n = c # cs" by (metis neq_Nil_conv show_nat_nonempty)
  then have h: "c \<noteq> CHR ''-''" "c \<noteq> CHR ''+''" "is_digit c" using show_nat_hd_cases [of n] show_nat_hd [of n] by auto
  have t: "duration_term (show_nat n @ u) = Some (n * k, [])" by (rule duration_term_whole [OF assms(1)]) (use assms(2) in linarith)
  have "duration_terms 0 (show_nat n @ u) = Some (n * k)"
    using t c h assms(2) by (subst duration_terms.simps) (simp add: duration_terms.simps)
  moreover have "show_nat n @ u \<noteq> ''0''" using c u(2) by auto
  ultimately show ?thesis using c h u(2) assms(2) by (simp add: ParseDuration_def Let_def not_less)
qed

lemma ParseDuration_minus:
  assumes "unit_of u = Some k" and "n * k \<le> 2 ^ 63"
  shows "ParseDuration (CHR ''-'' # show_nat n @ u) = Some (- int (n * k))"
proof -
  note u = unit_chars [OF assms(1)]
  obtain c cs where c: "show_nat n = c # cs" by (metis neq_Nil_conv show_nat_nonempty)
  then have h: "is_digit c" using show_nat_hd [of n] by auto
  have "duration_terms 0 (show_nat n @ u) = Some (n * k)"
    using duration_term_whole [OF assms] c h assms(2) by (subst duration_terms.simps) (simp add: duration_terms.simps)
  moreover have "show_nat n @ u \<noteq> ''0''" using c u(2) by auto
  ultimately show ?thesis using c u(2) by (simp add: ParseDuration_def Let_def)
qed

lemma ParseDuration_whole_witness: "ParseDuration (show_nat 15 @ ''s'') = Some 15000000000"
  using ParseDuration_whole [of "''s''" 1000000000 15] by (simp add: unit_of_def)

section \<open>Settings as environment variables\<close>

text \<open>How a value of each type is written in an environment variable: numbers in decimal, \<open>true\<close>
  or \<open>false\<close>, a duration as a whole number of some unit. A variable that is not set stands for the
  documented default.\<close>

definition int_text :: "int \<Rightarrow> string \<Rightarrow> bool" where
  "int_text i s \<longleftrightarrow> s = Itoa i \<and> min_int64 \<le> i \<and> i \<le> max_int64"

definition bool_text :: "bool \<Rightarrow> string \<Rightarrow> bool" where
  "bool_text b s \<longleftrightarrow> s = (if b then ''true'' else ''false'')"

definition string_text :: "string \<Rightarrow> string \<Rightarrow> bool" where
  "string_text v s \<longleftrightarrow> s = v \<and> v \<noteq> []"

definition duration_text :: "duration \<Rightarrow> string \<Rightarrow> bool" where
  "duration_text d s \<longleftrightarrow> (\<exists>n u k. unit_of u = Some k \<and>
     (s = show_nat n @ u \<and> d = int (n * k) \<and> n * k \<le> 2 ^ 63 - 1 \<or>
      s = CHR ''-'' # show_nat n @ u \<and> d = - int (n * k) \<and> n * k \<le> 2 ^ 63))"

definition stands_for :: "('a \<Rightarrow> string \<Rightarrow> bool) \<Rightarrow> 'a \<Rightarrow> string \<Rightarrow> 'a \<Rightarrow> bool" where
  "stands_for text dv s v \<longleftrightarrow> text v s \<or> s = [] \<and> v = dv"

definition describes :: "environ \<Rightarrow> Settings \<Rightarrow> bool" where
  "describes env c \<longleftrightarrow>
     stands_for int_text 8080 (env ''PORT'') (cf_Port c) \<and>
     stands_for string_text [] (env ''DATABASE_URL'') (cf_DatabaseURL c) \<and>
     stands_for string_text ''migrations'' (env ''MIGRATIONS_PATH'') (cf_MigrationsPath c) \<and>
     stands_for string_text [] (env ''UPSTREAM_URL'') (cf_UpstreamURL c) \<and>
     stands_for string_text ''info'' (env ''LOG_LEVEL'') (cf_LogLevel c) \<and>
     stands_for string_text ''json'' (env ''LOG_FORMAT'') (cf_LogFormat c) \<and>
     stands_for duration_text (15 * Second) (env ''READ_TIMEOUT'') (cf_ReadTimeout c) \<and>
     stands_for duration_text (30 * Second) (env ''WRITE_TIMEOUT'') (cf_WriteTimeout c) \<and>
     stands_for duration_text (60 * Second) (env ''IDLE_TIMEOUT'') (cf_IdleTimeout c) \<and>
     stands_for duration_text (30 * Second) (env ''SHUTDOWN_TIMEOUT'') (cf_ShutdownTimeout c) \<and>
     stands_for bool_text True (env ''METRICS_ENABLED'') (cf_MetricsEnabled c) \<and>
     stands_for int_text 9090 (env ''METRICS_PORT'') (cf_MetricsPort c) \<and>
     stands_for bool_text True (env ''RATE_LIMIT_ENABLED'') (cf_RateLimitEnabled c) \<and>
     stands_for bool_text True (env ''AUDIT_ENABLED'') (cf_AuditEnabled c)"

lemma read_back:
  "stands_for int_text d (env n) i \<Longrightarrow> envInt env n d = i"
  "stands_for string_text s (env n) v \<Longrightarrow> envString env n s = v"
  "stands_for string_text [] (env n) v \<Longrightarrow> env n = v"
  "stands_for bool_text b (env n) b' \<Longrightarrow> envBool env n b = b'"
proof -
  have "Itoa i \<noteq> []" by (simp add: Itoa_def)
  then show "stands_for int_text d (env n) i \<Longrightarrow> envInt env n d = i"
    by (auto simp: stands_for_def int_text_def envInt_def Let_def Atoi_Itoa_in in_int64_def)
  show "stands_for bool_text b (env n) b' \<Longrightarrow> envBool env n b = b'"
    by (cases b') (auto simp: stands_for_def bool_text_def envBool_def ParseBool_def)
qed (auto simp: stands_for_def string_text_def envString_def)

lemma read_back_duration:
  assumes "stands_for duration_text d (env n) t"
  shows "envDuration env n d = t"
proof (cases "env n = []")
  case True
  have "\<not> duration_text t []" by (auto simp: duration_text_def)
  with assms True show ?thesis by (simp add: stands_for_def envDuration_def)
next
  case False
  with assms have "duration_text t (env n)" by (simp add: stands_for_def)
  then have "ParseDuration (env n) = Some t" unfolding duration_text_def by (auto simp: ParseDuration_whole ParseDuration_minus)
  with False show ?thesis by (simp add: envDuration_def)
qed

text \<open>C33: An environment in which each of the fourteen variables holds the text of a setting, or is
  unset where the setting has its default, loads exactly those settings when there is an upstream,
  both ports are in range and the read and write timeouts positive, and is refused otherwise.\<close>

theorem settings_read_back:
  assumes "describes env c"
  shows "if cf_UpstreamURL c \<noteq> [] \<and> 1 \<le> cf_Port c \<and> cf_Port c \<le> 65535 \<and> 1 \<le> cf_MetricsPort c \<and> cf_MetricsPort c \<le> 65535 \<and>
       0 < cf_ReadTimeout c \<and> 0 < cf_WriteTimeout c
     then Load env = Inr c else \<exists>err. Load env = Inl err"
proof -
  have "envInt env ''PORT'' 8080 = cf_Port c \<and> envInt env ''METRICS_PORT'' 9090 = cf_MetricsPort c"
    and "env ''DATABASE_URL'' = cf_DatabaseURL c" and u: "env ''UPSTREAM_URL'' = cf_UpstreamURL c"
    and "envString env ''MIGRATIONS_PATH'' ''migrations'' = cf_MigrationsPath c"
    and "envString env ''LOG_LEVEL'' ''info'' = cf_LogLevel c \<and> envString env ''LOG_FORMAT'' ''json'' = cf_LogFormat c"
    and "envDuration env ''READ_TIMEOUT'' (15 * Second) = cf_ReadTimeout c \<and> envDuration env ''WRITE_TIMEOUT'' (30 * Second) = cf_WriteTimeout c"
    and "envDuration env ''IDLE_TIMEOUT'' (60 * Second) = cf_IdleTimeout c \<and> envDuration env ''SHUTDOWN_TIMEOUT'' (30 * Second) = cf_ShutdownTimeout c"
    using assms unfolding describes_def by (blast intro: read_back read_back_duration)+
  moreover have "envBool env ''METRICS_ENABLED'' True = cf_MetricsEnabled c" "envBool env ''RATE_LIMIT_ENABLED'' True = cf_RateLimitEnabled c"
    "envBool env ''AUDIT_ENABLED'' True = cf_AuditEnabled c"
    by (rule read_back(4), use assms in \<open>simp add: describes_def\<close>)+
  ultimately have "read_settings env = c" by (cases c) (simp add: read_settings_def)
  then show ?thesis using u validate_None [of c] by (auto simp: Load_def split: option.splits)
qed

lemma settings_read_back_witness:
  "Load ((\<lambda>_. [])(''UPSTREAM_URL'' := ''http://up'', ''READ_TIMEOUT'' := show_nat 2 @ ''m'', ''AUDIT_ENABLED'' := ''false'', ''PORT'' := Itoa 80)) =
     Inr \<lparr>cf_Port = 80, cf_DatabaseURL = [], cf_MigrationsPath = ''migrations'', cf_UpstreamURL = ''http://up'', cf_LogLevel = ''info'',
       cf_LogFormat = ''json'', cf_ReadTimeout = 120000000000, cf_WriteTimeout = 30000000000, cf_IdleTimeout = 60000000000,
       cf_ShutdownTimeout = 30000000000, cf_MetricsEnabled = True, cf_MetricsPort = 9090, cf_RateLimitEnabled = True, cf_AuditEnabled = False\<rparr>"
    (is "Load ?env = Inr ?c")
proof -
  have "unit_of ''m'' = Some 60000000000" by (simp add: unit_of_def)
  then have "duration_text 120000000000 (show_nat 2 @ ''m'')"
    unfolding duration_text_def by (intro exI [of _ "2::nat"] exI [of _ "''m''"] exI [of _ 60000000000]) simp
  then have "describes ?env ?c"
    by (simp add: describes_def stands_for_def int_text_def bool_text_def string_text_def)
  from settings_read_back [OF this] show ?thesis by simp
qed

end
