(* ===== verification/Migrate.thy ===== *)
theory Migrate
  imports Auth "HOL-Library.List_Lexorder" "HOL-Library.Char_ord"
begin

text \<open>
  \<open>internal/database\<close> and \<open>cmd/keygen\<close>. A migration file is applied in a transaction
  together with its row in \<open>schema_migrations\<close>. The schema is any type \<open>'d\<close>, the effect of
  a file's SQL the argument \<open>exec_sql\<close> (\<open>None\<close> when a statement fails); the directory and
  the failures of the connection are arguments as well. File names sort by bytes.
\<close>

section \<open>Connecting\<close>

text \<open>\<open>sql.Open\<close> and \<open>Ping\<close> are arguments; a connection comes with the limits of its pool.\<close>

record pool_limits =
  MaxOpenConns :: nat
  MaxIdleConns :: nat
  ConnMaxLifetime :: duration
  ConnMaxIdleTime :: duration

definition Connect :: "(string \<Rightarrow> string + 'c) \<Rightarrow> ('c \<Rightarrow> string option) \<Rightarrow> string \<Rightarrow> string + 'c \<times> pool_limits" where
  "Connect sql_open ping databaseURL =
     (case sql_open databaseURL of
        Inl err \<Rightarrow> Inl (''opening database: '' @ err)
      | Inr db \<Rightarrow>
          (case ping db of
             Some err \<Rightarrow> Inl (''pinging database: '' @ err)
           | None \<Rightarrow> Inr (db, \<lparr>MaxOpenConns = 25, MaxIdleConns = 5, ConnMaxLifetime = 5 * Minute, ConnMaxIdleTime = Minute\<rparr>)))"

section \<open>Migrations\<close>

record 'd mig_db =
  mg_schema :: 'd
  mg_versions :: "string list"      \<comment> \<open>\<open>schema_migrations\<close>, in the order applied\<close>

datatype mig_error = CreatingTable | ReadingDir | Checking string | ReadingFile string
  | Starting string | Executing string | Recording string | Committing string

text \<open>What can fail besides the SQL of a file: the functions say for which file.\<close>

record mig_io =
  io_create :: bool
  io_dir :: "(string \<times> bool) list option"          \<comment> \<open>names, with true for a directory\<close>
  io_read :: "string \<Rightarrow> string option"
  io_check :: "string \<Rightarrow> bool"
  io_begin :: "string \<Rightarrow> bool"
  io_record :: "string \<Rightarrow> bool"
  io_commit :: "string \<Rightarrow> bool"

definition migration_files :: "(string \<times> bool) list \<Rightarrow> string list" where
  "migration_files entries = sort (map fst (filter (\<lambda>(name, is_dir). \<not> is_dir \<and> HasSuffix name ''.sql'') entries))"

definition migrate_file :: "mig_io \<Rightarrow> (string \<Rightarrow> 'd \<Rightarrow> 'd option) \<Rightarrow> string \<Rightarrow> 'd mig_db \<Rightarrow> (mig_error + unit) \<times> 'd mig_db" where
  "migrate_file io exec_sql f db =
     (if \<not> io_check io f then (Inl (Checking f), db)
      else if f \<in> set (mg_versions db) then (Inr (), db)
      else (case io_read io f of None \<Rightarrow> (Inl (ReadingFile f), db)
        | Some content \<Rightarrow>
            if \<not> io_begin io f then (Inl (Starting f), db)
            else (case exec_sql content (mg_schema db) of None \<Rightarrow> (Inl (Executing f), db)
              | Some d \<Rightarrow>
                  if \<not> io_record io f then (Inl (Recording f), db)
                  else if \<not> io_commit io f then (Inl (Committing f), db)
                  else (Inr (), \<lparr>mg_schema = d, mg_versions = mg_versions db @ [f]\<rparr>))))"

fun migrate_files :: "mig_io \<Rightarrow> (string \<Rightarrow> 'd \<Rightarrow> 'd option) \<Rightarrow> string list \<Rightarrow> 'd mig_db \<Rightarrow> (mig_error + unit) \<times> 'd mig_db" where
  "migrate_files io exec_sql [] db = (Inr (), db)"
| "migrate_files io exec_sql (f # fs) db =
     (case migrate_file io exec_sql f db of
        (Inl err, db') \<Rightarrow> (Inl err, db')
      | (Inr u, db') \<Rightarrow> migrate_files io exec_sql fs db')"

definition Migrate :: "mig_io \<Rightarrow> (string \<Rightarrow> 'd \<Rightarrow> 'd option) \<Rightarrow> 'd mig_db \<Rightarrow> (mig_error + unit) \<times> 'd mig_db" where
  "Migrate io exec_sql db =
     (if \<not> io_create io then (Inl CreatingTable, db)
      else (case io_dir io of None \<Rightarrow> (Inl ReadingDir, db)
        | Some entries \<Rightarrow> migrate_files io exec_sql (migration_files entries) db))"

text \<open>The schema a list of files gives, one after the other.\<close>

fun apply_files :: "(string \<Rightarrow> string option) \<Rightarrow> (string \<Rightarrow> 'd \<Rightarrow> 'd option) \<Rightarrow> string list \<Rightarrow> 'd \<Rightarrow> 'd option" where
  "apply_files rd exec_sql [] d = Some d"
| "apply_files rd exec_sql (f # fs) d =
     Option.bind (rd f) (\<lambda>c. Option.bind (exec_sql c d) (apply_files rd exec_sql fs))"

lemma apply_files_snoc:
  "apply_files rd exec_sql (fs @ [f]) d =
     Option.bind (apply_files rd exec_sql fs d) (\<lambda>d'. Option.bind (rd f) (\<lambda>c. exec_sql c d'))"
  by (induction fs arbitrary: d) (auto split: Option.bind_splits)

lemma migrate_file_cases:
  assumes "migrate_file io exec_sql f db = (res, db')"
  obtains (same) "db' = db" "f \<in> set (mg_versions db) \<or> (\<exists>err. res = Inl err)"
    | (applied) c d where "res = Inr ()" "f \<notin> set (mg_versions db)" "io_read io f = Some c" "exec_sql c (mg_schema db) = Some d"
        "db' = \<lparr>mg_schema = d, mg_versions = mg_versions db @ [f]\<rparr>"
proof (cases "db' = db \<and> (f \<in> set (mg_versions db) \<or> (\<exists>err. res = Inl err))")
  case True
  then show ?thesis using same by blast
next
  case False
  have "\<exists>c d. res = Inr () \<and> f \<notin> set (mg_versions db) \<and> io_read io f = Some c \<and> exec_sql c (mg_schema db) = Some d \<and>
      db' = \<lparr>mg_schema = d, mg_versions = mg_versions db @ [f]\<rparr>"
    using assms False unfolding migrate_file_def
    by (simp split: if_split_asm option.split_asm) auto
  then show ?thesis using applied by blast
qed

lemma migrate_file_again: "f \<in> set (mg_versions db) \<Longrightarrow> io_check io f \<Longrightarrow> migrate_file io exec_sql f db = (Inr (), db)"
  by (simp add: migrate_file_def)

definition mig_inv :: "(string \<Rightarrow> string option) \<Rightarrow> (string \<Rightarrow> 'd \<Rightarrow> 'd option) \<Rightarrow> 'd \<Rightarrow> 'd mig_db \<Rightarrow> bool" where
  "mig_inv rd exec_sql d0 db \<longleftrightarrow> distinct (mg_versions db) \<and> apply_files rd exec_sql (mg_versions db) d0 = Some (mg_schema db)"

lemma migrate_file_inv:
  assumes "migrate_file io exec_sql f db = (res, db')" and "mig_inv (io_read io) exec_sql d0 db"
  shows "mig_inv (io_read io) exec_sql d0 db'"
  using assms(1)
proof (cases rule: migrate_file_cases)
  case same
  with assms(2) show ?thesis by simp
next
  case (applied c d)
  with assms(2) show ?thesis by (simp add: mig_inv_def apply_files_snoc)
qed

lemma migrate_files_inv:
  "migrate_files io exec_sql fs db = (res, db') \<Longrightarrow> mig_inv (io_read io) exec_sql d0 db \<Longrightarrow> mig_inv (io_read io) exec_sql d0 db'"
  by (induction fs arbitrary: db) (auto split: prod.splits sum.splits dest: migrate_file_inv)

lemma migrate_files_versions:
  "migrate_files io exec_sql fs db = (res, db') \<Longrightarrow> set (mg_versions db) \<subseteq> set (mg_versions db') \<and>
     (res = Inr () \<longrightarrow> set fs \<subseteq> set (mg_versions db'))"
proof (induction fs arbitrary: db)
  case (Cons f fs)
  obtain r1 db1 where m: "migrate_file io exec_sql f db = (r1, db1)" by fastforce
  have v: "set (mg_versions db) \<subseteq> set (mg_versions db1)" "r1 = Inr () \<Longrightarrow> f \<in> set (mg_versions db1)"
    using m by (cases rule: migrate_file_cases; auto)+
  show ?case
  proof (cases r1)
    case (Inl err)
    with m v Cons.prems show ?thesis by auto
  next
    case (Inr u)
    with m Cons.prems have "migrate_files io exec_sql fs db1 = (res, db')" by simp
    from Cons.IH [OF this] v Inr show ?thesis by auto
  qed
qed simp

text \<open>From an empty table the files that are applied form a prefix of the sorted directory.\<close>

lemma migrate_files_fresh:
  assumes "migrate_files io exec_sql fs db = (res, db')" and "distinct fs" and "set fs \<inter> set (mg_versions db) = {}"
  shows "\<exists>us vs. fs = us @ vs \<and> mg_versions db' = mg_versions db @ us \<and> (res = Inr () \<longrightarrow> vs = [])"
  using assms
proof (induction fs arbitrary: db)
  case (Cons f fs)
  obtain r1 db1 where m: "migrate_file io exec_sql f db = (r1, db1)" by fastforce
  from m show ?case
  proof (cases rule: migrate_file_cases)
    case same
    then obtain err where "r1 = Inl err" using Cons.prems(3) by auto
    with m same Cons.prems(1) show ?thesis by (intro exI [of _ "[]"] exI [of _ "f # fs"]) auto
  next
    case (applied c d)
    with m Cons.prems have h: "migrate_files io exec_sql fs db1 = (res, db')" "distinct fs" "set fs \<inter> set (mg_versions db1) = {}"
      by auto
    obtain us vs where "fs = us @ vs" "mg_versions db' = mg_versions db1 @ us" "res = Inr () \<longrightarrow> vs = []"
      using Cons.IH [OF h] by blast
    with applied show ?thesis by (intro exI [of _ "f # us"] exI [of _ vs]) auto
  qed
qed auto

end
