(* ===== verification/Dashboard.thy ===== *)
theory Dashboard
  imports Views Guard Config Migrate
begin

text \<open>
  \<open>internal/dashboard/server.go\<close> and \<open>auth.go\<close>, and the start of \<open>cmd/dashboard\<close>: a
  web application over the store. Its state is the clock, the database it shares with the
  gateway, and what the environment supplies from call to call: for each statement whether
  the connection serves it, the row identifier and the instant of \<open>NOW()\<close>, and for each
  new key its random bytes. The JWT library, \<open>uuid.Parse\<close>, multipart bodies and the
  server's JSONB normalisation are fields of \<open>dash_params\<close>. A handler that ignores an
  error (\<open>_ =\<close>) ignores it here.
\<close>

section \<open>The state\<close>

record stmt_run =
  sr_up :: bool
  sr_gen :: uuid
  sr_now :: time

record dash =
  da_env :: env
  da_db :: database
  da_stmt :: "nat \<Rightarrow> stmt_run"
  da_stmts :: nat
  da_rand :: "nat \<Rightarrow> string option"
  da_rands :: nat

definition dash_now :: "dash \<Rightarrow> time \<times> dash" where
  "dash_now s = (let (t, e) = time_Now (da_env s) in (t, s\<lparr>da_env := e\<rparr>))"

definition run_stmt :: "(stmt_run \<Rightarrow> database \<Rightarrow> 'a stmt_result) \<Rightarrow> dash \<Rightarrow> (db_error + 'a) \<times> dash" where
  "run_stmt q s =
     (let c = da_stmt s (da_stmts s); (res, db) = with_conn (sr_up c) (q c) (da_db s)
      in (res, s\<lparr>da_db := db, da_stmts := Suc (da_stmts s)\<rparr>))"

definition run_read :: "(stmt_run \<Rightarrow> database \<Rightarrow> db_error + 'a) \<Rightarrow> dash \<Rightarrow> (db_error + 'a) \<times> dash" where
  "run_read q = run_stmt (\<lambda>c db. (q c db, db))"

text \<open>\<open>x, _ := query\<close>: the zero value when the query fails.\<close>

definition ok_or :: "'a \<Rightarrow> db_error + 'a \<Rightarrow> 'a" where
  "ok_or d r = (case r of Inl _ \<Rightarrow> d | Inr x \<Rightarrow> x)"

record jwt_claims =
  jc_sub :: string      \<comment> \<open>\<open>GetSubject\<close>, empty when it fails\<close>
  jc_exp :: int         \<comment> \<open>seconds\<close>
  jc_iat :: int

record dash_params =
  dp_secret :: string
  dp_user :: string
  dp_pass :: string
  dp_sign :: "string \<Rightarrow> jwt_claims \<Rightarrow> string option"              \<comment> \<open>\<open>SignedString\<close> with HS256\<close>
  dp_parse :: "string \<Rightarrow> string \<Rightarrow> time \<Rightarrow> jwt_claims option"     \<comment> \<open>\<open>jwt.Parse\<close>, HS256 only, at an instant\<close>
  dp_uuid :: "string \<Rightarrow> uuid option"
  dp_multipart :: "request \<Rightarrow> (string \<times> string) list"
  dp_jsonb :: "string \<Rightarrow> string option"
  dp_view :: view_lib

section \<open>Sessions: \<open>auth.go\<close>\<close>

definition cookieName :: string where "cookieName = ''mcp_session''"

definition tokenTTL :: duration where "tokenTTL = 24 * Hour"

text \<open>\<open>jwt.NewNumericDate\<close> drops the fraction of the second.\<close>

definition numeric_date :: "time \<Rightarrow> int" where
  "numeric_date t = t div Second"

definition createToken :: "dash_params \<Rightarrow> string \<Rightarrow> dash \<Rightarrow> string option \<times> dash" where
  "createToken p username s =
     (let (t, s) = dash_now s; (u, s) = dash_now s
      in (dp_sign p (dp_secret p) \<lparr>jc_sub = username, jc_exp = numeric_date (time_Add t tokenTTL), jc_iat = numeric_date u\<rparr>, s))"

definition validateToken :: "dash_params \<Rightarrow> string \<Rightarrow> dash \<Rightarrow> (string \<times> bool) \<times> dash" where
  "validateToken p tok s =
     (let (now, s) = dash_now s
      in (case dp_parse p (dp_secret p) tok now of None \<Rightarrow> ([], False) | Some c \<Rightarrow> (jc_sub c, jc_sub c \<noteq> []), s))"

definition session_cookie :: "string \<Rightarrow> bool \<Rightarrow> cookie" where
  "session_cookie tok secure = \<lparr>ck_Name = cookieName, ck_Value = tok, ck_Path = ''/'', ck_MaxAge = tokenTTL sdiv Second,
     ck_HttpOnly = True, ck_Secure = secure, ck_Lax = True\<rparr>"

definition setSessionCookie :: "dash_params \<Rightarrow> request \<Rightarrow> string \<Rightarrow> dash \<Rightarrow> ev list option \<times> dash" where
  "setSessionCookie p r username s =
     (case createToken p username s of
        (None, s) \<Rightarrow> (None, s)
      | (Some tok, s) \<Rightarrow>
          (Some (SetCookie (session_cookie tok (rq_TLS r \<or> header_Get r ''X-Forwarded-Proto'' = ''https''))), s))"

definition clearSessionCookie :: "ev list" where
  "clearSessionCookie = SetCookie \<lparr>ck_Name = cookieName, ck_Value = [], ck_Path = ''/'', ck_MaxAge = - 1,
     ck_HttpOnly = False, ck_Secure = False, ck_Lax = False\<rparr>"

text \<open>\<open>requireAuth\<close> is the gate of this check.\<close>

definition session_guard :: "dash_params \<Rightarrow> request \<Rightarrow> dash \<Rightarrow> dash \<times> verdict" where
  "session_guard p r s =
     (case request_Cookie r cookieName of
        None \<Rightarrow> (s, Reject (http_Redirect r ''/dashboard/login''))
      | Some tok \<Rightarrow>
          (let ((_, ok), s) = validateToken p tok s
           in if \<not> ok then (s, Reject (clearSessionCookie @ http_Redirect r ''/dashboard/login'')) else (s, Pass r)))"

definition requireAuth :: "dash_params \<Rightarrow> dash middleware" where
  "requireAuth p = gate (session_guard p)"

section \<open>Signing in and out\<close>

definition render :: "dash_params \<Rightarrow> view \<Rightarrow> ev list" where
  "render p v = [SetHeader ''Content-Type'' ''text/html; charset=utf-8'', Write (html (dp_view p) v)]"

definition form :: "dash_params \<Rightarrow> request \<Rightarrow> string \<Rightarrow> string" where
  "form p = FormValue (dp_multipart p)"

definition handleLoginPage :: "dash_params \<Rightarrow> dash handler" where
  "handleLoginPage p r s =
     (let (ok, s) = (case request_Cookie r cookieName of None \<Rightarrow> (False, s)
          | Some tok \<Rightarrow> (let ((_, ok), s) = validateToken p tok s in (ok, s)))
      in if ok then (s, http_Redirect r ''/dashboard'', Returned)
         else (s, render p (LoginPage []), Returned))"

definition handleLogin :: "dash_params \<Rightarrow> dash handler" where
  "handleLogin p r s =
     (let username = form p r ''username''; password = form p r ''password''
      in if \<not> (username = dp_user p \<and> password = dp_pass p)
         then (s, render p (LoginPage ''Invalid username or password''), Returned)
         else (case setSessionCookie p r username s of
             (None, s) \<Rightarrow> (s, render p (LoginPage ''Internal error''), Returned)
           | (Some es, s) \<Rightarrow> (s, es @ http_Redirect r ''/dashboard'', Returned)))"

definition handleLogout :: "dash handler" where
  "handleLogout r s = (s, clearSessionCookie @ http_Redirect r ''/dashboard/login'', Returned)"

section \<open>The home page\<close>

text \<open>\<open>fmt\<close>'s \<open>%.1f\<close> of a value that is not negative.\<close>

definition fixed1 :: "float64 \<Rightarrow> string" where
  "fixed1 x = (let n = nat (round_even (x * 10)) in show_nat (n div 10) @ ''.'' @ show_nat (n mod 10))"

definition error_rate :: "int \<Rightarrow> int \<Rightarrow> string" where
  "error_rate errToday reqToday =
     (if 0 < reqToday then fixed1 (fl_mul (fl_div (fl_of_int errToday) (fl_of_int reqToday)) 100) @ ''%'' else ''0%'')"

definition loadStats :: "dash \<Rightarrow> Stats \<times> dash" where
  "loadStats s =
     (let (req, s) = run_read (\<lambda>c db. Inr (CountRequestsToday (sr_now c) db)) s; reqToday = ok_or 0 req;
          (act, s) = run_read (\<lambda>c db. Inr (CountActiveKeys db)) s; activeKeys = ok_or 0 act;
          (err, s) = run_read (\<lambda>c db. Inr (CountErrorsToday (sr_now c) db)) s; errToday = ok_or 0 err
      in (\<lparr>st_RequestsToday = reqToday, st_ActiveKeys = activeKeys, st_ErrorsToday = errToday,
           st_ErrorRate = error_rate errToday reqToday\<rparr>, s))"

definition handleHome :: "dash_params \<Rightarrow> dash handler" where
  "handleHome p r s = (let (st, s) = loadStats s in (s, render p (HomePage st), Returned))"

definition handleStats :: "dash_params \<Rightarrow> dash handler" where
  "handleStats p r s = (let (st, s) = loadStats s in (s, render p (StatsCards st), Returned))"

section \<open>API keys\<close>

text \<open>The keys table reads the clock while it is rendered.\<close>

definition render_keys :: "dash_params \<Rightarrow> (view_lib \<Rightarrow> ListAPIKeysRow list \<Rightarrow> env \<Rightarrow> view \<times> env) \<Rightarrow> ListAPIKeysRow list
    \<Rightarrow> dash \<Rightarrow> view \<times> dash" where
  "render_keys p tpl keys s = (let (v, e) = tpl (dp_view p) keys (da_env s) in (v, s\<lparr>da_env := e\<rparr>))"

definition list_keys :: "dash \<Rightarrow> ListAPIKeysRow list \<times> dash" where
  "list_keys s = (let (res, s) = run_read (\<lambda>c db. Inr (ListAPIKeys db)) s in (ok_or [] res, s))"

definition handleKeys :: "dash_params \<Rightarrow> dash handler" where
  "handleKeys p r s =
     (let (keys, s) = list_keys s; (v, s) = render_keys p KeysPage keys s in (s, render p v, Returned))"

definition keys_table :: "dash_params \<Rightarrow> dash handler" where
  "keys_table p r s =
     (let (keys, s) = list_keys s; (v, s) = render_keys p KeysTable keys s in (s, render p v, Returned))"

text \<open>The expiry the form asks for; text that is not a duration counts as none.\<close>

definition key_expiry :: "string \<Rightarrow> dash \<Rightarrow> time option \<times> dash" where
  "key_expiry expiresStr s =
     (if expiresStr \<noteq> [] \<and> expiresStr \<noteq> ''0'' then
        (case ParseDuration expiresStr of
           None \<Rightarrow> (None, s)
         | Some dur \<Rightarrow> (let (t, s) = dash_now s in (Some (time_Add t dur), s)))
      else (None, s))"

text \<open>\<open>authSvc.CreateKey\<close>: the random bytes, then the insert.\<close>

definition create_key :: "string \<Rightarrow> time option \<Rightarrow> dash \<Rightarrow> (auth_error + string \<times> ApiKey) \<times> dash" where
  "create_key name expiresAt s =
     (let rnd = da_rand s (da_rands s); s = s\<lparr>da_rands := Suc (da_rands s)\<rparr>
      in CreateKey (\<lambda>arg. run_stmt (\<lambda>c. CreateAPIKey (sr_gen c) (sr_now c) arg)) rnd name expiresAt s)"

definition banner :: "string \<Rightarrow> view" where
  "banner plaintext =
     [Raw (''<div id='' @ [QUOTE] @ ''new-key-display'' @ [QUOTE] @ '' hx-swap-oob='' @ [QUOTE] @ ''innerHTML'' @ [QUOTE] @ ''>'')] @
     NewKeyBanner plaintext @ [Raw ''</div>'']"

definition handleCreateKey :: "dash_params \<Rightarrow> dash handler" where
  "handleCreateKey p r s =
     (let name = form p r ''name''; expiresStr = form p r ''expires'';
          (expiresAt, s) = key_expiry expiresStr s;
          (res, s) = create_key name expiresAt s;
          plaintext = (case res of Inl _ \<Rightarrow> [] | Inr (pt, _) \<Rightarrow> pt);
          (keys, s) = list_keys s;
          (v, s) = render_keys p KeysTable keys s
      in (s, [SetHeader ''Content-Type'' ''text/html; charset=utf-8'', Write (html (dp_view p) v)] @
             (if plaintext \<noteq> [] then map (\<lambda>c. Write (html (dp_view p) [c])) (banner plaintext) else []), Returned))"

text \<open>A handler that needs the \<open>{id}\<close> of its URL.\<close>

definition with_id :: "dash_params \<Rightarrow> string \<Rightarrow> string \<Rightarrow> (uuid \<Rightarrow> dash handler) \<Rightarrow> dash handler" where
  "with_id p err idStr h r s =
     (case dp_uuid p idStr of None \<Rightarrow> (s, http_Error err 400, Returned) | Some i \<Rightarrow> h i r s)"

definition handleRevokeKey :: "dash_params \<Rightarrow> string \<Rightarrow> dash handler" where
  "handleRevokeKey p idStr = with_id p ''invalid id'' idStr
     (\<lambda>i r s. keys_table p r (snd (run_stmt (\<lambda>c. RevokeAPIKey (sr_now c) i) s)))"

definition handleDeleteKey :: "dash_params \<Rightarrow> string \<Rightarrow> dash handler" where
  "handleDeleteKey p idStr = with_id p ''invalid id'' idStr
     (\<lambda>i r s. keys_table p r (snd (run_stmt (\<lambda>c. DeleteAPIKey i) s)))"

section \<open>The audit log\<close>

definition pageSize :: nat where "pageSize = 50"

definition audit_filter :: "request \<Rightarrow> AuditFilter" where
  "audit_filter r =
     \<lparr>af_ToolName = query_Get r ''tool_name'', af_StatusCode = query_Get r ''status_code'',
      af_Page = (case Atoi (query_Get r ''page'') of Some n \<Rightarrow> if 0 < n then n else 1 | None \<Rightarrow> 1),
      af_HasMore = False\<rparr>"

definition audit_params :: "AuditFilter \<Rightarrow> ListAuditLogsParams" where
  "audit_params f =
     \<lparr>la_ApiKeyID = None,
      la_ToolName = (if af_ToolName f \<noteq> [] then Some (af_ToolName f) else None),
      la_StatusCode = (if af_StatusCode f \<noteq> [] then map_option int32 (Atoi (af_StatusCode f)) else None),
      la_StartTime = None, la_EndTime = None, la_PageLimit = int pageSize + 1\<rparr>"

definition queryAuditLogs :: "request \<Rightarrow> dash \<Rightarrow> (AuditLog list \<times> AuditFilter) \<times> dash" where
  "queryAuditLogs r s =
     (let f = audit_filter r; (res, s) = run_read (\<lambda>c. ListAuditLogs (audit_params f)) s
      in (case res of
            Inl _ \<Rightarrow> (([], f), s)
          | Inr logs \<Rightarrow>
              if pageSize < length logs then ((take pageSize logs, f\<lparr>af_HasMore := True\<rparr>), s) else ((logs, f), s)))"

definition handleAudit :: "dash_params \<Rightarrow> dash handler" where
  "handleAudit p r s = (let ((logs, f), s) = queryAuditLogs r s in (s, render p (AuditPage (dp_view p) logs f), Returned))"

definition handleAuditResults :: "dash_params \<Rightarrow> dash handler" where
  "handleAuditResults p r s = (let ((logs, f), s) = queryAuditLogs r s in (s, render p (AuditResults (dp_view p) logs f), Returned))"

section \<open>Roles\<close>

fun load_perms :: "Role list \<Rightarrow> dash \<Rightarrow> RoleWithPerms list \<times> dash" where
  "load_perms [] s = ([], s)"
| "load_perms (role # rs) s =
     (let (res, s) = run_read (\<lambda>c db. Inr (ListPermissionsByRole (ro_ID role) db)) s;
          (rest, s) = load_perms rs s
      in (\<lparr>rp_Role = role, rp_Permissions = ok_or [] res\<rparr> # rest, s))"

definition loadRolesWithPerms :: "dash \<Rightarrow> RoleWithPerms list \<times> dash" where
  "loadRolesWithPerms s =
     (let (res, s) = run_read (\<lambda>c db. Inr (ListRoles db)) s
      in (case res of Inl _ \<Rightarrow> ([], s) | Inr rs \<Rightarrow> load_perms rs s))"

definition handleRoles :: "dash_params \<Rightarrow> dash handler" where
  "handleRoles p r s = (let (rs, s) = loadRolesWithPerms s in (s, render p (RolesPage (dp_view p) rs), Returned))"

definition roles_list :: "dash_params \<Rightarrow> dash handler" where
  "roles_list p r s = (let (rs, s) = loadRolesWithPerms s in (s, render p (RolesList (dp_view p) rs), Returned))"

definition handleCreateRole :: "dash_params \<Rightarrow> dash handler" where
  "handleCreateRole p r s =
     (let name = form p r ''name''; desc = form p r ''description''
      in roles_list p r (snd (run_stmt (\<lambda>c. CreateRole (sr_gen c) (sr_now c) \<lparr>cr_Name = name, cr_Description = desc\<rparr>) s)))"

definition handleDeleteRole :: "dash_params \<Rightarrow> string \<Rightarrow> dash handler" where
  "handleDeleteRole p idStr = with_id p ''invalid id'' idStr
     (\<lambda>i r s. roles_list p r (snd (run_stmt (\<lambda>c. DeleteRole i) s)))"

definition handleAddPermission :: "dash_params \<Rightarrow> string \<Rightarrow> dash handler" where
  "handleAddPermission p idStr = with_id p ''invalid role id'' idStr
     (\<lambda>i r s. let resource = form p r ''resource''; action = form p r ''action''
       in roles_list p r (snd (run_stmt (\<lambda>c. AddPermission (sr_gen c)
            \<lparr>ap_RoleID = i, ap_Resource = resource, ap_Action = action\<rparr>) s)))"

definition handleDeletePermission :: "dash_params \<Rightarrow> string \<Rightarrow> dash handler" where
  "handleDeletePermission p idStr = with_id p ''invalid id'' idStr
     (\<lambda>i r s. roles_list p r (snd (run_stmt (\<lambda>c. DeletePermission i) s)))"

section \<open>Policies\<close>

definition list_policies :: "dash \<Rightarrow> Policy list \<times> dash" where
  "list_policies s = (let (res, s) = run_read (\<lambda>c db. Inr (ListPolicies db)) s in (ok_or [] res, s))"

definition handlePolicies :: "dash_params \<Rightarrow> dash handler" where
  "handlePolicies p r s = (let (ps, s) = list_policies s in (s, render p (PoliciesPage (dp_view p) ps), Returned))"

definition policies_list :: "dash_params \<Rightarrow> dash handler" where
  "policies_list p r s = (let (ps, s) = list_policies s in (s, render p (PoliciesList (dp_view p) ps), Returned))"

text \<open>\<open>json.Unmarshal\<close> into a \<open>RawMessage\<close>: the text of one value without the space around it.\<close>

definition raw_message :: "string \<Rightarrow> string option" where
  "raw_message s = map_option (\<lambda>_. TrimString s) (json_parse s)"

definition handleCreatePolicy :: "dash_params \<Rightarrow> dash handler" where
  "handleCreatePolicy p r s =
     (let name = form p r ''name''; policyType = form p r ''policy_type''; configStr = form p r ''config''
      in (case raw_message configStr of
            None \<Rightarrow> policies_list p r s
          | Some cfg \<Rightarrow> policies_list p r (snd (run_stmt (\<lambda>c. CreatePolicy (dp_jsonb p) (sr_gen c) (sr_now c)
                \<lparr>cp_Name = name, cp_PolicyType = policyType, cp_Enabled = True, cp_Config = cfg\<rparr>) s))))"

definition handleTogglePolicy :: "dash_params \<Rightarrow> string \<Rightarrow> dash handler" where
  "handleTogglePolicy p idStr = with_id p ''invalid id'' idStr
     (\<lambda>i r s. policies_list p r (snd (run_stmt (\<lambda>c. TogglePolicy (sr_now c) i) s)))"

definition handleDeletePolicy :: "dash_params \<Rightarrow> string \<Rightarrow> dash handler" where
  "handleDeletePolicy p idStr = with_id p ''invalid id'' idStr
     (\<lambda>i r s. policies_list p r (snd (run_stmt (\<lambda>c. DeletePolicy i) s)))"

section \<open>Chart data\<close>

text \<open>\<open>t.Format("15:04")\<close> in UTC.\<close>

definition clock_label :: "time \<Rightarrow> string" where
  "clock_label = Format (\<lambda>_. 0) [LHour, LText '':'', LMin]"

definition chart_hours :: "time \<Rightarrow> time list" where
  "chart_hours now = map (\<lambda>i. now div Hour * Hour - int (23 - i) * Hour) [0..<24]"

definition chart_counts :: "(int \<times> int) list \<Rightarrow> time \<Rightarrow> int list" where
  "chart_counts rows now = map (\<lambda>t. case map_of (rev rows) (t div Second) of None \<Rightarrow> 0 | Some n \<Rightarrow> n) (chart_hours now)"

definition handleChartData :: "dash handler" where
  "handleChartData r s =
     (let (res, s) = run_read (\<lambda>c db. Inr (CountRequestsByHour (sr_now c) db)) s; rows = ok_or [] res;
          (now, s) = dash_now s
      in (s, [SetHeader ''Content-Type'' ''application/json'',
              Write (json_print (JObj [(''data'', JArr (map (\<lambda>n. JNum (Itoa n)) (chart_counts rows now))),
                 (''labels'', JArr (map (\<lambda>t. JStr (clock_label t)) (chart_hours now)))]) @ [CHR 0x0A])], Returned))"

section \<open>Routes\<close>

definition public_route :: "dash_params \<Rightarrow> string \<Rightarrow> string \<Rightarrow> dash handler option" where
  "public_route p method path =
     (if method = ''GET'' \<and> path = ''/dashboard/login'' then Some (handleLoginPage p)
      else if method = ''POST'' \<and> path = ''/dashboard/login'' then Some (handleLogin p)
      else if method = ''GET'' \<and> path = ''/dashboard/logout'' then Some handleLogout
      else None)"

definition fixed_route :: "dash_params \<Rightarrow> string \<Rightarrow> string \<Rightarrow> dash handler option" where
  "fixed_route p method path =
     (if method = ''GET'' then map_of
        [(''/dashboard'', handleHome p), (''/dashboard/stats'', handleStats p), (''/dashboard/chart-data'', handleChartData),
         (''/dashboard/keys'', handleKeys p), (''/dashboard/audit'', handleAudit p),
         (''/dashboard/audit/results'', handleAuditResults p), (''/dashboard/roles'', handleRoles p),
         (''/dashboard/policies'', handlePolicies p)] path
      else if method = ''POST'' then map_of
        [(''/dashboard/keys'', handleCreateKey p), (''/dashboard/roles'', handleCreateRole p),
         (''/dashboard/policies'', handleCreatePolicy p)] path
      else None)"

text \<open>A pattern \<open>/dashboard/kind/{id}\<close> matches one segment that is not empty, and with a
  further segment one that may be empty (\<open>uuid.Parse\<close> then refuses it).\<close>

definition id_route :: "dash_params \<Rightarrow> string \<Rightarrow> string \<Rightarrow> dash handler option" where
  "id_route p method path =
     (case split_on (CHR ''/'') path of
        [a, b, kind, i] \<Rightarrow>
          if method = ''DELETE'' \<and> a = [] \<and> b = ''dashboard'' \<and> i \<noteq> [] then map_of
            [(''keys'', handleDeleteKey p i), (''roles'', handleDeleteRole p i),
             (''permissions'', handleDeletePermission p i), (''policies'', handleDeletePolicy p i)] kind
          else None
      | [a, b, kind, i, op] \<Rightarrow>
          if method = ''POST'' \<and> a = [] \<and> b = ''dashboard'' then map_of
            [((''keys'', ''revoke''), handleRevokeKey p i), ((''roles'', ''permissions''), handleAddPermission p i),
             ((''policies'', ''toggle''), handleTogglePolicy p i)] (kind, op)
          else None
      | _ \<Rightarrow> None)"

definition protected_route :: "dash_params \<Rightarrow> string \<Rightarrow> string \<Rightarrow> dash handler option" where
  "protected_route p method path =
     (case fixed_route p method path of Some h \<Rightarrow> Some h | None \<Rightarrow> id_route p method path)"

definition dashboard :: "dash_params \<Rightarrow> dash handler \<Rightarrow> dash handler" where
  "dashboard p other r s =
     (case public_route p (rq_Method r) (rq_Path r) of
        Some h \<Rightarrow> h r s
      | None \<Rightarrow> (case protected_route p (rq_Method r) (rq_Path r) of
            Some h \<Rightarrow> requireAuth p h r s
          | None \<Rightarrow> other r s))"

section \<open>Starting up: \<open>cmd/dashboard\<close>\<close>

datatype dash_error = NoDatabaseURL | NoAdminPassword | NoJWTSecret | DashConnect | DashMigrate mig_error

text \<open>\<open>rnd\<close> is what \<open>rand.Read\<close> of 32 bytes gives, \<open>conn\<close> whether \<open>database.Connect\<close> succeeds.
  The result is the address, the secret and the credentials the server runs with.\<close>

definition dashboard_start :: "string option \<Rightarrow> bool \<Rightarrow> (string \<Rightarrow> mig_io) \<Rightarrow> (string \<Rightarrow> 'd \<Rightarrow> 'd option) \<Rightarrow> environ \<Rightarrow> 'd mig_db
    \<Rightarrow> (dash_error + string \<times> string \<times> string \<times> string) \<times> 'd mig_db" where
  "dashboard_start rnd conn io exec_sql env db =
     (if env ''DATABASE_URL'' = [] then (Inl NoDatabaseURL, db)
      else let port = envString env ''DASHBOARD_PORT'' ''8081''; adminUser = envString env ''ADMIN_USER'' ''admin'';
               adminPass = env ''ADMIN_PASSWORD''
      in if adminPass = [] then (Inl NoAdminPassword, db)
      else let path = envString env ''MIGRATIONS_PATH'' ''migrations'';
               secret = (if env ''JWT_SECRET'' = [] then rnd else Some (env ''JWT_SECRET''))
      in case secret of None \<Rightarrow> (Inl NoJWTSecret, db)
      | Some sec \<Rightarrow>
          if \<not> conn then (Inl DashConnect, db)
          else (case Migrate (io path) exec_sql db of
              (Inl err, db') \<Rightarrow> (Inl (DashMigrate err), db')
            | (Inr _, db') \<Rightarrow> (Inr ('':'' @ port, sec, adminUser, adminPass), db')))"

end
