(* ===== verification/DashboardProps.thy ===== *)
theory DashboardProps
  imports Dashboard
begin

text \<open>
  What the dashboard does to the database and who may make it do so; sessions; the audit
  page; the chart. Every handler runs at most one statement that changes a table, as a lemma
  per handler, so the invariant of the schema carries over from \<open>StoreInv\<close>.
\<close>

section \<open>Effects of the handlers\<close>

named_theorems dash_db \<open>what an operation leaves of the database\<close>

lemma dash_now_db [dash_db]: "da_db (snd (dash_now s)) = da_db s"
  by (simp add: dash_now_def Let_def split_beta)

lemma run_read_db [dash_db]: "da_db (snd (run_read q s)) = da_db s"
  by (simp add: run_read_def run_stmt_def with_conn_def Let_def split_beta)

lemma run_stmt_db:
  "da_db (snd (run_stmt q s)) = (let c = da_stmt s (da_stmts s) in if sr_up c then snd (q c (da_db s)) else da_db s)"
  by (simp add: run_stmt_def with_conn_def Let_def split_beta)

lemma createToken_db [dash_db]: "da_db (snd (createToken p u s)) = da_db s"
  by (simp add: createToken_def Let_def split_beta dash_db)

lemma validateToken_db [dash_db]: "da_db (snd (validateToken p t s)) = da_db s"
  by (simp add: validateToken_def Let_def split_beta dash_db)

lemma setSessionCookie_db [dash_db]: "da_db (snd (setSessionCookie p r u s)) = da_db s"
  using createToken_db [of p u s]
  by (cases "createToken p u s"; cases "fst (createToken p u s)") (simp_all add: setSessionCookie_def)

lemma loadStats_db [dash_db]: "da_db (snd (loadStats s)) = da_db s"
  by (simp add: loadStats_def Let_def split_beta dash_db)

lemma list_keys_db [dash_db]: "da_db (snd (list_keys s)) = da_db s"
  by (simp add: list_keys_def Let_def split_beta dash_db)

lemma render_keys_db [dash_db]: "da_db (snd (render_keys p tpl ks s)) = da_db s"
  by (simp add: render_keys_def Let_def split_beta)

lemma key_expiry_db [dash_db]: "da_db (snd (key_expiry x s)) = da_db s"
  by (simp add: key_expiry_def Let_def split_beta dash_db split: option.splits)

lemma queryAuditLogs_db [dash_db]: "da_db (snd (queryAuditLogs r s)) = da_db s"
  by (simp add: queryAuditLogs_def Let_def split_beta dash_db split: sum.splits)

lemma load_perms_db [dash_db]: "da_db (snd (load_perms rs s)) = da_db s"
  by (induction rs arbitrary: s) (simp_all add: Let_def split_beta dash_db)

lemma loadRoles_db [dash_db]: "da_db (snd (loadRolesWithPerms s)) = da_db s"
  by (simp add: loadRolesWithPerms_def Let_def split_beta dash_db split: sum.splits)

lemma list_policies_db [dash_db]: "da_db (snd (list_policies s)) = da_db s"
  by (simp add: list_policies_def Let_def split_beta dash_db)

definition reads_only :: "dash handler \<Rightarrow> bool" where
  "reads_only h \<longleftrightarrow> (\<forall>r s. da_db (fst (h r s)) = da_db s)"

definition writes_once :: "dash handler \<Rightarrow> bool" where
  "writes_once h \<longleftrightarrow> (\<forall>r s. \<exists>ss. length ss \<le> 1 \<and> da_db (fst (h r s)) = fold exec ss (da_db s))"

lemma writes_onceI: "(\<And>r s. da_db (fst (h r s)) = da_db s \<or> (\<exists>x. da_db (fst (h r s)) = exec x (da_db s))) \<Longrightarrow> writes_once h"
  unfolding writes_once_def
proof (intro allI)
  fix r s
  assume "\<And>r s. da_db (fst (h r s)) = da_db s \<or> (\<exists>x. da_db (fst (h r s)) = exec x (da_db s))"
  then consider "da_db (fst (h r s)) = da_db s" | x where "da_db (fst (h r s)) = exec x (da_db s)" by metis
  then show "\<exists>ss. length ss \<le> 1 \<and> da_db (fst (h r s)) = fold exec ss (da_db s)"
  proof cases
    case 1
    then show ?thesis by (intro exI [of _ "[]"]) simp
  next
    case 2
    then show ?thesis by (intro exI [of _ "[x]"]) simp
  qed
qed

lemma reads_writes: "reads_only h \<Longrightarrow> writes_once h"
  by (rule writes_onceI) (simp add: reads_only_def)

named_theorems dash_reads \<open>handlers that leave the database alone\<close>
named_theorems dash_writes \<open>handlers that run at most one statement\<close>

lemma handleLoginPage_reads [dash_reads]: "reads_only (handleLoginPage p)"
  by (simp add: reads_only_def handleLoginPage_def Let_def split_beta dash_db split: option.splits)

lemma handleLogin_reads [dash_reads]: "reads_only (handleLogin p)"
  unfolding reads_only_def
proof (intro allI)
  fix r s
  show "da_db (fst (handleLogin p r s)) = da_db s"
    using setSessionCookie_db [of p r "form p r ''username''" s]
    by (cases "setSessionCookie p r (form p r ''username'') s"; cases "fst (setSessionCookie p r (form p r ''username'') s)")
      (auto simp: handleLogin_def Let_def)
qed

lemma handleLogout_reads [dash_reads]: "reads_only handleLogout"
  by (simp add: reads_only_def handleLogout_def)

lemma handleHome_reads [dash_reads]: "reads_only (handleHome p)"
  by (simp add: reads_only_def handleHome_def split_beta dash_db)

lemma handleStats_reads [dash_reads]: "reads_only (handleStats p)"
  by (simp add: reads_only_def handleStats_def split_beta dash_db)

lemma handleChartData_reads [dash_reads]: "reads_only handleChartData"
  by (simp add: reads_only_def handleChartData_def Let_def split_beta dash_db)

lemma handleKeys_reads [dash_reads]: "reads_only (handleKeys p)"
  by (simp add: reads_only_def handleKeys_def Let_def split_beta dash_db)

lemma keys_table_db [dash_db]: "da_db (fst (keys_table p r s)) = da_db s"
  by (simp add: keys_table_def Let_def split_beta dash_db)

lemma handleAudit_reads [dash_reads]: "reads_only (handleAudit p)"
  by (simp add: reads_only_def handleAudit_def split_beta dash_db)

lemma handleAuditResults_reads [dash_reads]: "reads_only (handleAuditResults p)"
  by (simp add: reads_only_def handleAuditResults_def split_beta dash_db)

lemma handleRoles_reads [dash_reads]: "reads_only (handleRoles p)"
  by (simp add: reads_only_def handleRoles_def split_beta dash_db)

lemma roles_list_db [dash_db]: "da_db (fst (roles_list p r s)) = da_db s"
  by (simp add: roles_list_def split_beta dash_db)

lemma handlePolicies_reads [dash_reads]: "reads_only (handlePolicies p)"
  by (simp add: reads_only_def handlePolicies_def split_beta dash_db)

lemma policies_list_db [dash_db]: "da_db (fst (policies_list p r s)) = da_db s"
  by (simp add: policies_list_def split_beta dash_db)

lemma run_stmt_exec:
  assumes "\<And>c db. snd (q c db) = exec (f c) db"
  shows "da_db (snd (run_stmt q s)) = da_db s \<or> (\<exists>x. da_db (snd (run_stmt q s)) = exec x (da_db s))"
  using assms by (auto simp: run_stmt_db Let_def)

lemma CreateKey_snd: "snd (CreateKey create rnd n x s) = (case GenerateKey rnd of Inl _ \<Rightarrow> s
   | Inr pt \<Rightarrow> snd (create \<lparr>cak_Name = n, cak_KeyHash = HashKey pt, cak_KeyPrefix = DisplayPrefix pt, cak_ExpiresAt = x\<rparr> s))"
  by (simp add: CreateKey_def split: sum.splits prod.splits)

lemma create_key_db:
  "da_db (snd (create_key n x s)) = da_db s \<or> (\<exists>a. da_db (snd (create_key n x s)) = exec a (da_db s))"
proof (cases "GenerateKey (da_rand s (da_rands s))")
  case (Inr pt)
  let ?a = "\<lparr>cak_Name = n, cak_KeyHash = HashKey pt, cak_KeyPrefix = DisplayPrefix pt, cak_ExpiresAt = x\<rparr>"
  let ?s = "s\<lparr>da_rands := Suc (da_rands s)\<rparr>"
  have "snd (create_key n x s) = snd (run_stmt (\<lambda>c. CreateAPIKey (sr_gen c) (sr_now c) ?a) ?s)"
    by (simp add: create_key_def CreateKey_snd Let_def Inr)
  then show ?thesis
    using run_stmt_exec [of "\<lambda>c. CreateAPIKey (sr_gen c) (sr_now c) ?a" "\<lambda>c. SCreateAPIKey (sr_gen c) (sr_now c) ?a" ?s] by simp
qed (simp add: create_key_def CreateKey_snd Let_def)

lemma handleCreateKey_writes [dash_writes]: "writes_once (handleCreateKey p)"
proof (rule writes_onceI)
  fix r s
  show "da_db (fst (handleCreateKey p r s)) = da_db s \<or> (\<exists>x. da_db (fst (handleCreateKey p r s)) = exec x (da_db s))"
    using create_key_db [of "form p r ''name''" "fst (key_expiry (form p r ''expires'') s)" "snd (key_expiry (form p r ''expires'') s)"]
    by (simp add: handleCreateKey_def Let_def split_beta dash_db)
qed

text \<open>Handlers that run one statement and then list a table.\<close>

lemma with_id_writes:
  assumes "\<And>i. writes_once (h i)"
  shows "writes_once (with_id p err x h)"
  using assms unfolding writes_once_def with_id_def
  by (auto split: option.splits intro: exI [of _ "[]"])

lemma run_then_writes:
  assumes "\<And>r s. da_db (fst (h r s)) = da_db s" and "\<And>r c db. snd (q r c db) = exec (f r c) db"
  shows "writes_once (\<lambda>r s. h r (snd (run_stmt (q r) s)))"
proof (rule writes_onceI)
  fix r s
  show "da_db (fst (h r (snd (run_stmt (q r) s)))) = da_db s \<or> (\<exists>x. da_db (fst (h r (snd (run_stmt (q r) s)))) = exec x (da_db s))"
    using run_stmt_exec [of "q r" "f r" s] assms by simp
qed

lemma handleRevokeKey_writes [dash_writes]: "writes_once (handleRevokeKey p i)"
  unfolding handleRevokeKey_def
  by (intro with_id_writes run_then_writes [where f = "\<lambda>r c. SRevokeAPIKey (sr_now c) i" for i]) (simp_all add: dash_db)

lemma handleDeleteKey_writes [dash_writes]: "writes_once (handleDeleteKey p i)"
  unfolding handleDeleteKey_def
  by (intro with_id_writes run_then_writes [where f = "\<lambda>r c. SDeleteAPIKey i" for i]) (simp_all add: dash_db)

lemma handleCreateRole_writes [dash_writes]: "writes_once (handleCreateRole p)"
  unfolding handleCreateRole_def Let_def
  by (intro run_then_writes [where f = "\<lambda>r c. SCreateRole (sr_gen c) (sr_now c) \<lparr>cr_Name = form p r ''name'', cr_Description = form p r ''description''\<rparr>"])
    (simp_all add: dash_db)

lemma handleDeleteRole_writes [dash_writes]: "writes_once (handleDeleteRole p i)"
  unfolding handleDeleteRole_def
  by (intro with_id_writes run_then_writes [where f = "\<lambda>r c. SDeleteRole i" for i]) (simp_all add: dash_db)

lemma handleAddPermission_writes [dash_writes]: "writes_once (handleAddPermission p i)"
  unfolding handleAddPermission_def Let_def
  by (intro with_id_writes run_then_writes [where f = "\<lambda>r c. SAddPermission (sr_gen c)
      \<lparr>ap_RoleID = i, ap_Resource = form p r ''resource'', ap_Action = form p r ''action''\<rparr>" for i]) (simp_all add: dash_db)

lemma handleDeletePermission_writes [dash_writes]: "writes_once (handleDeletePermission p i)"
  unfolding handleDeletePermission_def
  by (intro with_id_writes run_then_writes [where f = "\<lambda>r c. SDeletePermission i" for i]) (simp_all add: dash_db)

lemma handleCreatePolicy_writes [dash_writes]: "writes_once (handleCreatePolicy p)"
proof (rule writes_onceI)
  fix r s
  let ?q = "\<lambda>cfg c. CreatePolicy (dp_jsonb p) (sr_gen c) (sr_now c)
      \<lparr>cp_Name = form p r ''name'', cp_PolicyType = form p r ''policy_type'', cp_Enabled = True, cp_Config = cfg\<rparr>"
  show "da_db (fst (handleCreatePolicy p r s)) = da_db s \<or> (\<exists>x. da_db (fst (handleCreatePolicy p r s)) = exec x (da_db s))"
  proof (cases "raw_message (form p r ''config'')")
    case (Some cfg)
    show ?thesis
      using run_stmt_exec [of "?q cfg" "\<lambda>c. SCreatePolicy (dp_jsonb p) (sr_gen c) (sr_now c)
        \<lparr>cp_Name = form p r ''name'', cp_PolicyType = form p r ''policy_type'', cp_Enabled = True, cp_Config = cfg\<rparr>" s]
      by (simp add: handleCreatePolicy_def Some dash_db)
  qed (simp add: handleCreatePolicy_def dash_db)
qed

lemma handleTogglePolicy_writes [dash_writes]: "writes_once (handleTogglePolicy p i)"
  unfolding handleTogglePolicy_def
  by (intro with_id_writes run_then_writes [where f = "\<lambda>r c. STogglePolicy (sr_now c) i" for i]) (simp_all add: dash_db)

lemma handleDeletePolicy_writes [dash_writes]: "writes_once (handleDeletePolicy p i)"
  unfolding handleDeletePolicy_def
  by (intro with_id_writes run_then_writes [where f = "\<lambda>r c. SDeletePolicy i" for i]) (simp_all add: dash_db)

section \<open>Routes\<close>

lemma public_route_reads: "public_route p m path = Some h \<Longrightarrow> reads_only h"
  by (auto simp: public_route_def dash_reads split: if_splits)

lemma fixed_route_get: "fixed_route p ''GET'' path = Some h \<Longrightarrow> reads_only h"
  by (auto simp: fixed_route_def simp del: map_of.simps dest!: map_of_SomeD intro: dash_reads)

lemma fixed_route_writes: "fixed_route p m path = Some h \<Longrightarrow> (m = ''GET'' \<or> m = ''POST'') \<and> writes_once h"
  by (auto simp: fixed_route_def simp del: map_of.simps split: if_splits dest!: map_of_SomeD intro: dash_writes reads_writes dash_reads)

lemma id_route_writes: "id_route p m path = Some h \<Longrightarrow> (m = ''POST'' \<or> m = ''DELETE'') \<and> writes_once h"
  by (auto simp: id_route_def simp del: map_of.simps split: list.splits if_splits dest!: map_of_SomeD intro: dash_writes)

lemma protected_route_writes:
  "protected_route p m path = Some h \<Longrightarrow> writes_once h \<and> (m = ''GET'' \<longrightarrow> reads_only h) \<and> m \<in> {''GET'', ''POST'', ''DELETE''}"
  using fixed_route_writes [of p m path h] id_route_writes [of p m path h] fixed_route_get [of p path h]
  by (auto simp: protected_route_def split: option.splits)

section \<open>The session check\<close>

text \<open>A request carries a session when the check passes it.\<close>

definition session_ok :: "dash_params \<Rightarrow> request \<Rightarrow> dash \<Rightarrow> bool" where
  "session_ok p r s \<longleftrightarrow> (case snd (session_guard p r s) of Pass _ \<Rightarrow> True | Reject _ \<Rightarrow> False)"

lemma validateToken_eq:
  "validateToken p tok s = ((case dp_parse p (dp_secret p) tok (now_at (da_env s) (ticks (da_env s))) of
      None \<Rightarrow> ([], False) | Some c \<Rightarrow> (jc_sub c, jc_sub c \<noteq> [])), snd (dash_now s))"
  by (simp add: validateToken_def dash_now_def time_Now_def Let_def)

lemma session_ok_iff:
  "session_ok p r s \<longleftrightarrow> (case request_Cookie r cookieName of None \<Rightarrow> False
     | Some tok \<Rightarrow> (case dp_parse p (dp_secret p) tok (now_at (da_env s) (ticks (da_env s))) of
          None \<Rightarrow> False | Some c \<Rightarrow> jc_sub c \<noteq> []))"
  by (auto simp: session_ok_def session_guard_def validateToken_eq split: option.splits)

lemma session_guard_cases:
  "session_guard p r s =
     (if session_ok p r s then (snd (dash_now s), Pass r)
      else case request_Cookie r cookieName of
          None \<Rightarrow> (s, Reject (http_Redirect r ''/dashboard/login''))
        | Some _ \<Rightarrow> (snd (dash_now s), Reject (clearSessionCookie @ http_Redirect r ''/dashboard/login'')))"
  by (auto simp: session_guard_def session_ok_iff validateToken_eq split: option.splits)

lemma redirect_response:
  "rp_status (respond (http_Redirect r u)) = Some 303 \<and> rp_sent (respond (http_Redirect r u)) ''Location'' = Some u"
  "rp_status (respond (clearSessionCookie @ http_Redirect r u)) = Some 303 \<and>
   rp_sent (respond (clearSessionCookie @ http_Redirect r u)) ''Location'' = Some u"
  by (simp_all add: respond_def http_Redirect_def fresh_response_def write_header_def body_allowed_def clearSessionCookie_def SetCookie_def)

lemma final_status_redirect:
  "final_status (http_Redirect r u) = 303" "final_status (clearSessionCookie @ http_Redirect r u) = 303"
  by (simp_all add: final_status_def redirect_response)

interpretation session_g: gatekeeper "session_guard p" 303 for p
proof
  show "session_guard p r s = (s', Reject es) \<Longrightarrow> final_status es = 303" for r s s' es
    by (auto simp: session_guard_cases final_status_redirect split: if_splits option.splits)
  show "session_guard p r s = (s', Pass r') \<Longrightarrow> same_target r r'" for r s s' r'
    by (auto simp: session_guard_cases split: if_splits option.splits)
qed simp

lemma dashboard_protected:
  assumes "protected_route p (rq_Method r) (rq_Path r) = Some h" and "public_route p (rq_Method r) (rq_Path r) = None"
  shows "dashboard p other r s = (if session_ok p r s then h r (snd (dash_now s))
     else (fst (session_guard p r s), (case snd (session_guard p r s) of Reject es \<Rightarrow> es | Pass _ \<Rightarrow> []), Returned))"
  using assms by (auto simp: dashboard_def requireAuth_def gate_def session_guard_cases split: option.splits)

lemma dashboard_effect:
  assumes "reads_only other"
  shows "da_db (fst (dashboard p other r s)) = da_db s \<or>
    (session_ok p r s \<and> rq_Method r \<in> {''POST'', ''DELETE''} \<and> protected_route p (rq_Method r) (rq_Path r) \<noteq> None \<and>
     (\<exists>x. da_db (fst (dashboard p other r s)) = exec x (da_db s)))"
proof (cases "public_route p (rq_Method r) (rq_Path r)")
  case (Some h)
  then show ?thesis using public_route_reads [OF Some] by (simp add: dashboard_def reads_only_def)
next
  case None
  show ?thesis
  proof (cases "protected_route p (rq_Method r) (rq_Path r)")
    case None
    with \<open>public_route _ _ _ = None\<close> assms show ?thesis by (simp add: dashboard_def reads_only_def)
  next
    case (Some h)
    note d = dashboard_protected [OF Some None, of other s]
    note w = protected_route_writes [OF Some]
    show ?thesis
    proof (cases "session_ok p r s")
      case False
      then show ?thesis by (auto simp: d session_guard_cases dash_db split: option.splits)
    next
      case True
      obtain ss where ss: "length ss \<le> 1" "da_db (fst (h r (snd (dash_now s)))) = fold exec ss (da_db s)"
        using w unfolding writes_once_def by (metis dash_now_db)
      have "rq_Method r = ''GET'' \<Longrightarrow> da_db (fst (h r (snd (dash_now s)))) = da_db s"
        using w by (simp add: reads_only_def dash_db)
      with ss w True Some show ?thesis by (cases ss) (auto simp: d)
    qed
  qed
qed

section \<open>Properties\<close>


text \<open>Without a session, a guarded route runs no statement: the answer is a redirect to the
  login page.\<close>

theorem no_session_redirects:
  assumes "public_route p (rq_Method r) (rq_Path r) = None" and "protected_route p (rq_Method r) (rq_Path r) \<noteq> None"
    and "\<not> session_ok p r s" and "dashboard p other r s = (s', es, f)"
  shows "da_db s' = da_db s \<and> da_stmts s' = da_stmts s \<and> f = Returned \<and>
    rp_status (respond es) = Some 303 \<and> rp_sent (respond es) ''Location'' = Some ''/dashboard/login''"
proof -
  obtain h where h: "protected_route p (rq_Method r) (rq_Path r) = Some h" using assms(2) by blast
  show ?thesis
    using assms(3,4) dashboard_protected [OF h assms(1), of other s]
    by (auto simp: session_guard_cases redirect_response dash_now_def time_Now_def split: option.splits)
qed

text \<open>No request to the dashboard breaks a constraint of the schema.\<close>

theorem dashboard_keeps_schema:
  assumes "reads_only other" and "db_inv (da_db s)"
  shows "db_inv (da_db (fst (dashboard p other r s)))"
proof -
  consider "da_db (fst (dashboard p other r s)) = da_db s" | x where "da_db (fst (dashboard p other r s)) = exec x (da_db s)"
    using dashboard_effect [OF assms(1), of p r s] by blast
  then show ?thesis by cases (simp_all add: assms(2) exec_inv)
qed

section \<open>The life of a session\<close>

text \<open>What the code relies on: the library's tokens are made of cookie bytes, and it accepts what
  it signed until the expiry it was given.\<close>

definition jwt_library :: "dash_params \<Rightarrow> bool" where
  "jwt_library p \<longleftrightarrow> (\<forall>c tok. dp_sign p (dp_secret p) c = Some tok \<longrightarrow> list_all token_byte tok \<and>
     (\<forall>now. dp_parse p (dp_secret p) tok now = (if now < jc_exp c * Second then Some c else None)))"

definition login_claims :: "dash_params \<Rightarrow> dash \<Rightarrow> jwt_claims" where
  "login_claims p s = \<lparr>jc_sub = dp_user p, jc_exp = numeric_date (now_at (da_env s) (ticks (da_env s)) + tokenTTL),
     jc_iat = numeric_date (now_at (da_env s) (Suc (ticks (da_env s))))\<rparr>"

lemma handleLogin_ok:
  assumes "form p r ''username'' = dp_user p" and "form p r ''password'' = dp_pass p"
    and "dp_sign p (dp_secret p) (login_claims p s) = Some tok"
  shows "fst (snd (handleLogin p r s)) =
     SetCookie (session_cookie tok (rq_TLS r \<or> header_Get r ''X-Forwarded-Proto'' = ''https'')) @ http_Redirect r ''/dashboard''"
  using assms by (simp add: handleLogin_def Let_def setSessionCookie_def createToken_def dash_now_def time_Now_def time_Add_def login_claims_def)

lemma handleLogin_refused:
  assumes "\<not> (form p r ''username'' = dp_user p \<and> form p r ''password'' = dp_pass p)"
  shows "handleLogin p r s = (s, render p (LoginPage ''Invalid username or password''), Returned)"
  using assms by (auto simp: handleLogin_def Let_def)

lemma exp_nanos: "numeric_date (t + tokenTTL) * Second = t div Second * Second + tokenTTL"
proof -
  have "(t + 86400 * Second) div Second = 86400 + t div Second" by (rule div_mult_self1) simp
  then show ?thesis by (simp add: numeric_date_def tokenTTL_def)
qed

lemma cookieName_token: "cookieName \<noteq> []" "list_all token_byte cookieName" "CHR ''='' \<notin> set cookieName"
  by (simp_all add: cookieName_def token_byte_def cookie_byte_def byte_in_def)

text \<open>C25: Signing in with the configured credentials, the name not empty, sets a cookie that takes
  a request past \<open>requireAuth\<close> until 24 hours after the second of the login; after that it is
  cleared and the request redirected to the login page. The JWT library is assumed to accept exactly
  until its expiry what it signed, and to sign.\<close>

theorem session_lifetime:
  assumes "form p r ''username'' = dp_user p" and "form p r ''password'' = dp_pass p" and "dp_user p \<noteq> []"
    and "jwt_library p" and "dp_sign p (dp_secret p) (login_claims p s) = Some tok"
    and "rq_Header r2 ''Cookie'' = [cookieName @ ''='' @ tok]"
  shows "rp_sent (respond (fst (snd (handleLogin p r s)))) ''Set-Cookie'' =
      Some (cookie_String (session_cookie tok (rq_TLS r \<or> header_Get r ''X-Forwarded-Proto'' = ''https''))) \<and>
    requireAuth p h r2 s2 =
      (if now_at (da_env s2) (ticks (da_env s2)) < now_at (da_env s) (ticks (da_env s)) div Second * Second + 24 * Hour
       then h r2 (snd (dash_now s2))
       else (snd (dash_now s2), clearSessionCookie @ http_Redirect r2 ''/dashboard/login'', Returned))"
proof
  show "rp_sent (respond (fst (snd (handleLogin p r s)))) ''Set-Cookie'' =
      Some (cookie_String (session_cookie tok (rq_TLS r \<or> header_Get r ''X-Forwarded-Proto'' = ''https'')))"
    unfolding handleLogin_ok [OF assms(1,2,5)]
    by (simp add: SetCookie_def respond_def http_Redirect_def fresh_response_def write_header_def body_allowed_def)
  have tok: "list_all token_byte tok" "dp_parse p (dp_secret p) tok t = (if t < jc_exp (login_claims p s) * Second then Some (login_claims p s) else None)" for t
    using assms(4,5) by (simp_all add: jwt_library_def)
  have "request_Cookie r2 cookieName = Some tok"
    by (rule request_Cookie_sent [OF assms(6) cookieName_token tok(1)])
  moreover have "jc_exp (login_claims p s) * Second = now_at (da_env s) (ticks (da_env s)) div Second * Second + 24 * Hour"
    using exp_nanos [of "now_at (da_env s) (ticks (da_env s))"] by (simp add: login_claims_def tokenTTL_def)
  moreover have "jc_sub (login_claims p s) \<noteq> []" using assms(3) by (simp add: login_claims_def)
  ultimately show "requireAuth p h r2 s2 =
      (if now_at (da_env s2) (ticks (da_env s2)) < now_at (da_env s) (ticks (da_env s)) div Second * Second + 24 * Hour
       then h r2 (snd (dash_now s2))
       else (snd (dash_now s2), clearSessionCookie @ http_Redirect r2 ''/dashboard/login'', Returned))"
    by (simp add: requireAuth_def gate_def session_guard_def validateToken_eq tok(2))
qed

section \<open>Concrete instances\<close>

definition demo_view :: view_lib where
  "demo_view = \<lparr>vl_frag = (\<lambda>_ _. []), vl_escape = (\<lambda>_. []), vl_attr = (\<lambda>_. []), vl_url = (\<lambda>_. []),
     vl_classes = (\<lambda>_. []), vl_uuid = (\<lambda>_. []), vl_loc = (\<lambda>_. 0)\<rparr>"

definition demo_dash :: dash_params where
  "demo_dash = \<lparr>dp_secret = ''k'', dp_user = ''admin'', dp_pass = ''pw'', dp_sign = (\<lambda>_ c. if c = \<lparr>jc_sub = ''admin'', jc_exp = 86400, jc_iat = 0\<rparr> then Some ''tok'' else None),
     dp_parse = (\<lambda>_ tok now. if tok = ''tok'' \<and> now < 86400 * Second
        then Some \<lparr>jc_sub = ''admin'', jc_exp = 86400, jc_iat = 0\<rparr> else None),
     dp_uuid = (\<lambda>i. if i = ''1'' then Some 1 else None), dp_multipart = (\<lambda>_. []), dp_jsonb = Some, dp_view = demo_view\<rparr>"

definition demo_state :: "database \<Rightarrow> dash" where
  "demo_state db = \<lparr>da_env = \<lparr>now_at = (\<lambda>_. 0), ticks = 0\<rparr>, da_db = db,
     da_stmt = (\<lambda>n. \<lparr>sr_up = True, sr_gen = 7, sr_now = 0\<rparr>), da_stmts = 0, da_rand = (\<lambda>_. Some ''r''), da_rands = 0\<rparr>"

definition demo_http :: "string \<Rightarrow> string \<Rightarrow> string \<Rightarrow> string list \<Rightarrow> request" where
  "demo_http method path query cookies = \<lparr>rq_Method = method, rq_Path = path, rq_RawQuery = query,
     rq_Header = (\<lambda>k. if k = ''Cookie'' then cookies else []), rq_Body = None, rq_RemoteAddr = [], rq_TLS = False,
     rq_APIKey = None, rq_RequestID = None\<rparr>"

definition one_role :: database where
  "one_role = empty_db\<lparr>roles := [\<lparr>ro_ID = 1, ro_Name = ''reader'', ro_Description = [], ro_CreatedAt = 0\<rparr>]\<rparr>"

lemma demo_session: "session_ok demo_dash (demo_http m path q [''mcp_session=tok'']) (demo_state db)"
proof -
  have "request_Cookie (demo_http m path q [''mcp_session=tok'']) cookieName = Some ''tok''"
    by (rule request_Cookie_sent [OF _ cookieName_token])
      (simp_all add: demo_http_def cookieName_def token_byte_def cookie_byte_def byte_in_def)
  then show ?thesis by (simp add: session_ok_iff demo_dash_def demo_state_def)
qed

abbreviation demo_del :: "string list \<Rightarrow> request" where
  "demo_del cs \<equiv> demo_http ''DELETE'' ''/dashboard/roles/1'' [] cs"

lemma demo_delete_route:
  "public_route p (rq_Method (demo_del cs)) (rq_Path (demo_del cs)) = None"
  "protected_route p (rq_Method (demo_del cs)) (rq_Path (demo_del cs)) = Some (handleDeleteRole p ''1'')"
  by (simp_all add: demo_http_def public_route_def protected_route_def fixed_route_def id_route_def)

lemma demo_delete:
  "da_db (fst (dashboard demo_dash (\<lambda>r s. (s, [], Returned)) (demo_http ''DELETE'' ''/dashboard/roles/1'' [] [''mcp_session=tok'']) (demo_state one_role)))
     = empty_db"
proof -
  let ?r = "demo_http ''DELETE'' ''/dashboard/roles/1'' [] [''mcp_session=tok'']"
  have "fst (dashboard demo_dash (\<lambda>r s. (s, [], Returned)) ?r (demo_state one_role)) =
      fst (handleDeleteRole demo_dash ''1'' ?r (snd (dash_now (demo_state one_role))))"
    using demo_session [of "''DELETE''" "''/dashboard/roles/1''" "[]" one_role]
    by (simp add: dashboard_protected [OF demo_delete_route(2,1)])
  then show ?thesis
    by (simp add: handleDeleteRole_def with_id_def demo_dash_def dash_db run_stmt_db Let_def demo_state_def dash_now_def time_Now_def
        DeleteRole_def one_role_def empty_db_def)
qed


lemma no_session_redirects_witness:
  "\<exists>s' es. dashboard demo_dash (\<lambda>r s. (s, [], Returned)) (demo_http ''DELETE'' ''/dashboard/roles/1'' [] []) (demo_state one_role) = (s', es, Returned) \<and>
     da_db s' = one_role \<and> rp_status (respond es) = Some 303"
proof -
  let ?r = "demo_http ''DELETE'' ''/dashboard/roles/1'' [] []"
  obtain s' es f where d: "dashboard demo_dash (\<lambda>r s. (s, [], Returned)) ?r (demo_state one_role) = (s', es, f)"
    by (rule prod_cases3)
  have "\<not> session_ok demo_dash ?r (demo_state one_role)"
    by (simp add: session_ok_iff request_Cookie_def demo_http_def cookie_count_def List.map_filter_simps)
  from no_session_redirects [OF _ _ this d] show ?thesis
    using d by (simp add: demo_delete_route) (simp add: demo_state_def)
qed

lemma dashboard_keeps_schema_witness:
  "db_inv (da_db (fst (dashboard demo_dash (\<lambda>r s. (s, [], Returned)) (demo_http ''DELETE'' ''/dashboard/roles/1'' [] [''mcp_session=tok'']) (demo_state one_role))))"
  by (rule dashboard_keeps_schema) (simp_all add: reads_only_def demo_state_def one_role_def empty_db_def db_inv_defs)

lemma session_lifetime_witness:
  "fst (snd (requireAuth demo_dash (\<lambda>r s. (s, [WriteHeader 200], Returned))
     (demo_http ''GET'' ''/dashboard'' [] [''mcp_session=tok'']) (demo_state empty_db))) = [WriteHeader 200]"
proof -
  let ?r = "demo_http ''POST'' ''/dashboard/login'' ''username=admin&password=pw'' []"
  have q: "ParseQuery ''username=admin&password=pw'' = [(''username'', ''admin''), (''password'', ''pw'')]"
    using ParseQuery_text [of "[(''username'', ''admin''), (''password'', ''pw'')]"] by (simp add: query_ok_def query_plain_def)
  have f: "form demo_dash ?r ''username'' = dp_user demo_dash" "form demo_dash ?r ''password'' = dp_pass demo_dash"
    by (simp_all add: form_def FormValue_def post_values_def demo_http_def demo_dash_def values_Get_def header_Get_def
        is_urlencoded_def cut_at_def TrimString_def q)
  have "dp_user demo_dash \<noteq> []" by (simp add: demo_dash_def)
  moreover have "jwt_library demo_dash"
    by (auto simp: jwt_library_def demo_dash_def token_byte_def cookie_byte_def byte_in_def split: if_splits)
  moreover have "dp_sign demo_dash (dp_secret demo_dash) (login_claims demo_dash (demo_state empty_db)) = Some ''tok''"
    by (simp add: demo_dash_def login_claims_def demo_state_def numeric_date_def tokenTTL_def)
  moreover have "rq_Header (demo_http ''GET'' ''/dashboard'' [] [''mcp_session=tok'']) ''Cookie'' = [cookieName @ ''='' @ ''tok'']"
    by (simp add: demo_http_def cookieName_def)
  ultimately show ?thesis
    using session_lifetime [OF f, of "demo_state empty_db" "''tok''" "demo_http ''GET'' ''/dashboard'' [] [''mcp_session=tok'']"
      "\<lambda>r s. (s, [WriteHeader 200], Returned)" "demo_state empty_db"]
    by (simp add: demo_state_def)
qed

end
