(* ===== verification/DashboardPages.thy ===== *)
theory DashboardPages
  imports DashboardProps
begin

text \<open>
  What the dashboard's pages show: the audit log and its links, the chart of the last day,
  and the markup of every page, which no stored or submitted text can change.
\<close>

section \<open>The audit log\<close>

text \<open>The entries that pass the filter of the form, newest first. A status that is not a
  number does not filter.\<close>

definition audit_status :: "string \<Rightarrow> int option" where
  "audit_status s = (if s = [] then None else map_option int32 (Atoi s))"

definition audit_matches :: "AuditFilter \<Rightarrow> database \<Rightarrow> AuditLog list" where
  "audit_matches f db = sort_key (\<lambda>l. - al_CreatedAt l)
     (filter (\<lambda>l. (af_ToolName f = [] \<or> al_ToolName l = af_ToolName f) \<and>
        narg (audit_status (af_StatusCode f)) (\<lambda>c. al_StatusCode l = c)) (audit_logs db))"

lemma audit_match_params:
  "audit_match (audit_params f) = (\<lambda>l. (af_ToolName f = [] \<or> al_ToolName l = af_ToolName f) \<and>
     narg (audit_status (af_StatusCode f)) (\<lambda>c. al_StatusCode l = c))"
  by (auto simp: fun_eq_iff audit_match_def audit_params_def audit_status_def narg_def)

lemma narg_tool: "narg (la_ToolName (audit_params f)) text_ok \<longleftrightarrow> af_ToolName f = [] \<or> text_ok (af_ToolName f)"
  by (simp add: narg_def audit_params_def)

lemma ListAuditLogs_params:
  "ListAuditLogs (audit_params f) db =
     (if af_ToolName f = [] \<or> text_ok (af_ToolName f) then Inr (take (Suc pageSize) (audit_matches f db)) else Inl InvalidText)"
proof -
  have "nat (la_PageLimit (audit_params f)) = Suc pageSize" "\<not> la_PageLimit (audit_params f) < 0"
    by (simp_all add: audit_params_def nat_add_distrib)
  then show ?thesis by (simp add: ListAuditLogs_def narg_tool audit_matches_def audit_match_params)
qed

lemma queryAuditLogs_eq:
  "fst (queryAuditLogs r s) =
     (let f = audit_filter r; all = audit_matches f (da_db s)
      in if sr_up (da_stmt s (da_stmts s)) \<and> (af_ToolName f = [] \<or> text_ok (af_ToolName f))
         then (take pageSize all, f\<lparr>af_HasMore := pageSize < length all\<rparr>) else ([], f))"
  by (auto simp: queryAuditLogs_def run_read_def run_stmt_def with_conn_def Let_def ListAuditLogs_params min_def not_less
      audit_filter_def take_all)

lemma query_plain_digit: "is_digit c \<Longrightarrow> query_plain c"
  by (auto simp: query_plain_def is_digit_def)

lemma query_plain_Itoa: "0 \<le> n \<Longrightarrow> list_all query_plain (Itoa n)"
  using show_nat_digits [of "nat n"] by (simp add: Itoa_def list_all_iff query_plain_digit)

text \<open>The query string of a page link, when the filters hold no byte that a query gives a
  meaning.\<close>

definition link_values :: "AuditFilter \<Rightarrow> int \<Rightarrow> (string \<times> string) list" where
  "link_values f page = (''page'', Itoa page) #
     (if af_ToolName f \<noteq> [] then [(''tool_name'', af_ToolName f)] else []) @
     (if af_StatusCode f \<noteq> [] then [(''status_code'', af_StatusCode f)] else [])"

lemma auditPageURL_text: "auditPageURL f page = ''/dashboard/audit/results?'' @ query_text (link_values f page)"
  by (simp add: auditPageURL_def link_values_def)

lemma ParseQuery_link:
  assumes "list_all query_plain (af_ToolName f)" and "list_all query_plain (af_StatusCode f)" and "0 \<le> page"
  shows "ParseQuery (query_text (link_values f page)) = link_values f page"
  using assms query_plain_Itoa [OF assms(3)]
  by (intro ParseQuery_text) (auto simp: link_values_def query_ok_def, simp_all add: query_plain_def)

lemma link_filter:
  assumes "list_all query_plain (af_ToolName f)" and "list_all query_plain (af_StatusCode f)"
    and "1 \<le> page" and "page \<le> max_int64" and "''/dashboard/audit/results?'' @ rq_RawQuery r = auditPageURL f page"
  shows "audit_filter r = f\<lparr>af_Page := page, af_HasMore := False\<rparr>"
proof -
  have q: "ParseQuery (rq_RawQuery r) = link_values f page"
    using assms(3,5) ParseQuery_link [OF assms(1,2), of page] by (simp add: auditPageURL_text)
  have "Atoi (Itoa page) = Some page" using assms(3,4) by (intro Atoi_Itoa_in) (simp add: in_int64_def)
  then show ?thesis
    using assms(3) by (simp add: audit_filter_def query_Get_def q values_Get_def link_values_def)
qed

text \<open>C27: The audit page shows the newest 50 entries that pass the filter, and offers a next page
  exactly when there are more than 50; with a tool name the database cannot hold, or without a
  connection, it shows none.\<close>

theorem audit_page_rows:
  "fst (queryAuditLogs r s) =
     (let f = audit_filter r; all = audit_matches f (da_db s)
      in if sr_up (da_stmt s (da_stmts s)) \<and> (af_ToolName f = [] \<or> text_ok (af_ToolName f))
         then (take 50 all, f\<lparr>af_HasMore := 50 < length all\<rparr>) else ([], f))"
  by (rule queryAuditLogs_eq [unfolded pageSize_def])

text \<open>Following the link to the next page shows the next page number and the same filters, and
  on the same data the same rows: later entries are never shown.\<close>

theorem next_page_same_rows:
  assumes "fst (queryAuditLogs r s) = (rows, f)" and "af_HasMore f" and "af_Page f < max_int64"
    and "list_all query_plain (af_ToolName f)" and "list_all query_plain (af_StatusCode f)"
    and "''/dashboard/audit/results?'' @ rq_RawQuery r2 = auditPageURL f (int64 (af_Page f + 1))"
    and "da_db s2 = da_db s" and "sr_up (da_stmt s2 (da_stmts s2))"
  shows "fst (queryAuditLogs r2 s2) = (rows, f\<lparr>af_Page := af_Page f + 1\<rparr>)"
proof -
  have more: "sr_up (da_stmt s (da_stmts s)) \<and> (af_ToolName (audit_filter r) = [] \<or> text_ok (af_ToolName (audit_filter r)))"
  proof (rule ccontr)
    assume "\<not> ?thesis"
    with assms(1) have "f = audit_filter r" by (simp add: queryAuditLogs_eq)
    with assms(2) show False by (simp add: audit_filter_def)
  qed
  with assms(1) have rows: "rows = take pageSize (audit_matches (audit_filter r) (da_db s))"
    and f: "f = (audit_filter r)\<lparr>af_HasMore := pageSize < length (audit_matches (audit_filter r) (da_db s))\<rparr>"
    by (simp_all add: queryAuditLogs_eq Let_def)
  have same: "af_ToolName (audit_filter r) = af_ToolName f" "af_StatusCode (audit_filter r) = af_StatusCode f"
    by (simp_all add: f)
  have page: "1 \<le> af_Page f" by (auto simp: f audit_filter_def split: option.splits)
  have pg: "int64 (af_Page f + 1) = af_Page f + 1" using page assms(3) by (intro int64_id) simp_all
  have f2: "audit_filter r2 = f\<lparr>af_Page := af_Page f + 1, af_HasMore := False\<rparr>"
    using assms(3,6) page by (intro link_filter [OF assms(4,5)]) (simp_all add: pg)
  have "audit_matches (audit_filter r2) db = audit_matches (audit_filter r) db" for db
    by (simp add: audit_matches_def f2 same)
  then show ?thesis
    using more assms(2,7,8) by (simp add: queryAuditLogs_eq Let_def rows f2 same) (simp add: f)
qed

section \<open>The chart\<close>

lemma map_of_counts: "distinct hs \<Longrightarrow> map_of (rev (map (\<lambda>h. (h, g h)) hs)) k = (if k \<in> set hs then Some (g k) else None)"
  by (induction hs) (auto simp: map_add_def split: option.splits)

lemma count_list_map_filter: "count_list (map f (filter P xs)) k = length (filter (\<lambda>x. P x \<and> f x = k) xs)"
  by (induction xs) auto

lemma hour_epoch_eq: "hour_epoch t = (k * Hour) div Second \<longleftrightarrow> k * Hour \<le> t \<and> t < k * Hour + Hour"
proof -
  have "t div Hour = k \<longleftrightarrow> k * Hour \<le> t \<and> t < k * Hour + Hour" by linarith
  then show ?thesis by (simp add: hour_epoch_def)
qed

lemma row_count:
  assumes "u div Hour * Hour - 23 * Hour \<le> k * Hour"
  shows "(case map_of (rev (CountRequestsByHour u db)) ((k * Hour) div Second) of None \<Rightarrow> 0 | Some n \<Rightarrow> n) =
    int (length (filter (\<lambda>l. k * Hour \<le> al_CreatedAt l \<and> al_CreatedAt l < k * Hour + Hour) (audit_logs db)))"
proof -
  let ?P = "\<lambda>l. u - 24 * Hour \<le> al_CreatedAt l"
  let ?hs = "map (\<lambda>l. hour_epoch (al_CreatedAt l)) (filter ?P (audit_logs db))"
  have rows: "map_of (rev (CountRequestsByHour u db)) h = (if h \<in> set ?hs then Some (int (count_list ?hs h)) else None)" for h
    using map_of_counts [of "sort (remdups ?hs)" "\<lambda>h. int (count_list ?hs h)" h]
    by (simp add: CountRequestsByHour_def Let_def)
  have "h \<notin> set ?hs \<Longrightarrow> count_list ?hs h = 0" for h by (simp add: count_list_0_iff)
  then have "(case map_of (rev (CountRequestsByHour u db)) h of None \<Rightarrow> 0 | Some n \<Rightarrow> n) = int (count_list ?hs h)" for h
    unfolding rows by simp
  moreover have "u - 24 * Hour \<le> k * Hour" using assms by linarith
  then have "filter (\<lambda>l. ?P l \<and> hour_epoch (al_CreatedAt l) = (k * Hour) div Second) (audit_logs db) =
      filter (\<lambda>l. k * Hour \<le> al_CreatedAt l \<and> al_CreatedAt l < k * Hour + Hour) (audit_logs db)"
    unfolding hour_epoch_eq by (intro filter_cong) auto
  ultimately show ?thesis unfolding count_list_map_filter by simp
qed

text \<open>C28: With the clocks of server and database in the same hour, the chart's 24 values are the
  numbers of audited requests in each of the last 24 clock hours, the current one last.\<close>

theorem chart_counts_exact:
  assumes "u div Hour = v div Hour"
  shows "chart_counts (CountRequestsByHour u db) v = map (\<lambda>t. int (length (filter (\<lambda>l. t \<le> al_CreatedAt l \<and> al_CreatedAt l < t + Hour)
     (audit_logs db)))) (map (\<lambda>i. (v div Hour - 23 + int i) * Hour) [0..<24])"
proof -
  have hours: "chart_hours v = map (\<lambda>i. (v div Hour - 23 + int i) * Hour) [0..<24]"
    unfolding chart_hours_def by (intro map_cong) (auto simp: of_nat_diff algebra_simps)
  show ?thesis
    unfolding chart_counts_def hours list.map_comp comp_def
    by (intro map_cong refl row_count) (simp add: assms)
qed

section \<open>Markup\<close>

definition markup_byte :: "char \<Rightarrow> bool" where
  "markup_byte c \<longleftrightarrow> c \<in> set [CHR ''<'', CHR ''>'', CHR 0x22, CHR 0x27]"

text \<open>What the documentation of \<open>templ\<close> promises of its escaping functions: what they write holds
  no byte that opens or closes a tag or an attribute value.\<close>

definition escapes :: "view_lib \<Rightarrow> bool" where
  "escapes L \<longleftrightarrow> (\<forall>s. filter markup_byte (vl_escape L s) = [] \<and> filter markup_byte (vl_attr L s) = [] \<and>
     filter markup_byte (vl_url L s) = [])"

text \<open>The chunks whose bytes are fixed by the program.\<close>

primrec is_static :: "chunk \<Rightarrow> bool" where
  "is_static (Frag _ _) = True"
| "is_static (Text _) = False"
| "is_static (Attr _) = False"
| "is_static (Classes _) = False"
| "is_static (Url _) = False"
| "is_static (Raw _) = True"

abbreviation skeleton :: "view \<Rightarrow> view" where
  "skeleton v \<equiv> filter is_static v"

lemma markup_skeleton:
  assumes "escapes L"
  shows "filter markup_byte (html L v) = filter markup_byte (html L (skeleton v))"
proof (induction v)
  case (Cons c v)
  then show ?case using assms by (cases c) (simp_all add: html_def escapes_def)
qed simp

datatype page = PLogin string | PHome Stats | PStats Stats | PKeys "ListAPIKeysRow list" | PKeysTable "ListAPIKeysRow list"
  | PBanner string | PAudit "AuditLog list" AuditFilter | PAuditResults "AuditLog list" AuditFilter
  | PRoles "RoleWithPerms list" | PRolesList "RoleWithPerms list" | PPolicies "Policy list" | PPoliciesList "Policy list"

primrec page_view :: "view_lib \<Rightarrow> page \<Rightarrow> env \<Rightarrow> view" where
  "page_view L (PLogin m) e = LoginPage m"
| "page_view L (PHome st) e = HomePage st"
| "page_view L (PStats st) e = StatsCards st"
| "page_view L (PKeys ks) e = fst (KeysPage L ks e)"
| "page_view L (PKeysTable ks) e = fst (KeysTable L ks e)"
| "page_view L (PBanner t) e = banner t"
| "page_view L (PAudit ls f) e = AuditPage L ls f"
| "page_view L (PAuditResults ls f) e = AuditResults L ls f"
| "page_view L (PRoles rs) e = RolesPage L rs"
| "page_view L (PRolesList rs) e = RolesList L rs"
| "page_view L (PPolicies ps) e = PoliciesPage L ps"
| "page_view L (PPoliciesList ps) e = PoliciesList L ps"

text \<open>Two values of the same shape differ in texts only.\<close>

definition key_shape :: "ListAPIKeysRow \<Rightarrow> ListAPIKeysRow \<Rightarrow> bool" where
  "key_shape k k' \<longleftrightarrow> lk_Active k = lk_Active k' \<and> lk_ExpiresAt k = lk_ExpiresAt k'"

definition log_shape :: "AuditLog \<Rightarrow> AuditLog \<Rightarrow> bool" where
  "log_shape l l' \<longleftrightarrow> (al_ToolName l = []) = (al_ToolName l' = []) \<and> al_StatusCode l = al_StatusCode l'"

definition filter_shape :: "AuditFilter \<Rightarrow> AuditFilter \<Rightarrow> bool" where
  "filter_shape f f' \<longleftrightarrow> af_Page f = af_Page f' \<and> af_HasMore f = af_HasMore f'"

definition role_shape :: "RoleWithPerms \<Rightarrow> RoleWithPerms \<Rightarrow> bool" where
  "role_shape r r' \<longleftrightarrow> (ro_Description (rp_Role r) = []) = (ro_Description (rp_Role r') = []) \<and>
     length (rp_Permissions r) = length (rp_Permissions r')"

definition policy_shape :: "Policy \<Rightarrow> Policy \<Rightarrow> bool" where
  "policy_shape p p' \<longleftrightarrow> po_Enabled p = po_Enabled p' \<and> po_PolicyType p = po_PolicyType p'"

primrec same_shape :: "page \<Rightarrow> page \<Rightarrow> bool" where
  "same_shape (PLogin m) pg = (case pg of PLogin m' \<Rightarrow> (m = []) = (m' = []) | _ \<Rightarrow> False)"
| "same_shape (PHome st) pg = (case pg of PHome _ \<Rightarrow> True | _ \<Rightarrow> False)"
| "same_shape (PStats st) pg = (case pg of PStats _ \<Rightarrow> True | _ \<Rightarrow> False)"
| "same_shape (PKeys ks) pg = (case pg of PKeys ks' \<Rightarrow> list_all2 key_shape ks ks' | _ \<Rightarrow> False)"
| "same_shape (PKeysTable ks) pg = (case pg of PKeysTable ks' \<Rightarrow> list_all2 key_shape ks ks' | _ \<Rightarrow> False)"
| "same_shape (PBanner t) pg = (case pg of PBanner _ \<Rightarrow> True | _ \<Rightarrow> False)"
| "same_shape (PAudit ls f) pg = (case pg of PAudit ls' f' \<Rightarrow> list_all2 log_shape ls ls' \<and> filter_shape f f' | _ \<Rightarrow> False)"
| "same_shape (PAuditResults ls f) pg = (case pg of PAuditResults ls' f' \<Rightarrow> list_all2 log_shape ls ls' \<and> filter_shape f f' | _ \<Rightarrow> False)"
| "same_shape (PRoles rs) pg = (case pg of PRoles rs' \<Rightarrow> list_all2 role_shape rs rs' | _ \<Rightarrow> False)"
| "same_shape (PRolesList rs) pg = (case pg of PRolesList rs' \<Rightarrow> list_all2 role_shape rs rs' | _ \<Rightarrow> False)"
| "same_shape (PPolicies ps) pg = (case pg of PPolicies ps' \<Rightarrow> list_all2 policy_shape ps ps' | _ \<Rightarrow> False)"
| "same_shape (PPoliciesList ps) pg = (case pg of PPoliciesList ps' \<Rightarrow> list_all2 policy_shape ps ps' | _ \<Rightarrow> False)"

lemma skeleton_sidebarLink [simp]: "skeleton (sidebarLink href i act v) =
   (if act then [Frag TLayout 11, Frag TLayout 12] @ skeleton v @ [Frag TLayout 13]
    else [Frag TLayout 14, Frag TLayout 15] @ skeleton v @ [Frag TLayout 16])"
  by (simp add: sidebarLink_def)

lemma skeleton_Layout:
  "skeleton v = skeleton w \<Longrightarrow> skeleton (Layout t a v) = skeleton (Layout t a w)"
  by (simp add: Layout_def)

lemma skeleton_concat:
  assumes "list_all2 R xs ys" and "\<And>x y. R x y \<Longrightarrow> skeleton (f x) = skeleton (f y)"
  shows "skeleton (concat (map f xs)) = skeleton (concat (map f ys))"
  using assms(1) by induction (simp_all add: assms(2))

lemma skeleton_rows:
  assumes "list_all2 R xs ys" and "\<And>i x y. R x y \<Longrightarrow> skeleton (f i x) = skeleton (f i y)"
  shows "skeleton (view_rows f xs) = skeleton (view_rows f ys)"
proof -
  have "skeleton (concat (map (\<lambda>(i, x). f i x) (enumerate n xs))) = skeleton (concat (map (\<lambda>(i, x). f i x) (enumerate n ys)))" for n
    using assms(1) by (induction arbitrary: n) (simp_all add: assms(2))
  then show ?thesis by (simp add: view_rows_def)
qed

lemma list_all2_empty: "list_all2 R xs ys \<Longrightarrow> (xs = []) = (ys = [])"
  by (cases xs; cases ys) auto

lemma skeleton_keyRow:
  assumes "key_shape k k'"
  shows "skeleton (fst (keyRow L k i e)) = skeleton (fst (keyRow L k' j e)) \<and> snd (keyRow L k i e) = snd (keyRow L k' j e)"
  using assms by (auto simp: keyRow_def keyStatusBadge_def key_shape_def striped_def time_Now_def Let_def split: option.splits)

lemma skeleton_keyRows:
  "list_all2 key_shape ks ks' \<Longrightarrow>
     skeleton (fst (keyRows L ks i e)) = skeleton (fst (keyRows L ks' j e)) \<and> snd (keyRows L ks i e) = snd (keyRows L ks' j e)"
proof (induction arbitrary: i j e rule: list_all2_induct)
  case (Cons k ks k' ks')
  then show ?case
    using skeleton_keyRow [OF Cons(1), of L i e j] by (simp add: Let_def split_beta) 
qed simp

lemma skeleton_KeysTable:
  "list_all2 key_shape ks ks' \<Longrightarrow> skeleton (fst (KeysTable L ks e)) = skeleton (fst (KeysTable L ks' e))"
  using skeleton_keyRows [of ks ks' L 0 e 0] list_all2_empty [of key_shape ks ks']
  by (simp add: KeysTable_def Let_def split_beta)

lemma skeleton_auditRow: "log_shape l l' \<Longrightarrow> skeleton (auditRow L i l) = skeleton (auditRow L i l')"
  by (simp add: auditRow_def log_shape_def statusBadge_def striped_def)

lemma skeleton_AuditResults:
  "list_all2 log_shape ls ls' \<Longrightarrow> filter_shape f f' \<Longrightarrow> skeleton (AuditResults L ls f) = skeleton (AuditResults L ls' f')"
  using skeleton_rows [of log_shape ls ls' "auditRow L"] list_all2_empty [of log_shape ls ls']
  by (simp add: AuditResults_def filter_shape_def skeleton_auditRow)

lemma skeleton_permTags:
  "length ps = length ps' \<Longrightarrow> skeleton (concat (map (permTag L) ps)) = skeleton (concat (map (permTag L) ps'))"
  by (induction rule: list_induct2) (simp_all add: permTag_def)

lemma skeleton_roleCard: "role_shape r r' \<Longrightarrow> skeleton (roleCard L r) = skeleton (roleCard L r')"
  using skeleton_permTags [of "rp_Permissions r" "rp_Permissions r'" L]
  by (cases "rp_Permissions r"; cases "rp_Permissions r'") (auto simp: roleCard_def role_shape_def Let_def)

lemma skeleton_RolesList: "list_all2 role_shape rs rs' \<Longrightarrow> skeleton (RolesList L rs) = skeleton (RolesList L rs')"
  using skeleton_concat [of role_shape rs rs' "roleCard L"] list_all2_empty [of role_shape rs rs']
  by (simp add: RolesList_def skeleton_roleCard)

lemma skeleton_policyCard: "policy_shape p p' \<Longrightarrow> skeleton (policyCard L p) = skeleton (policyCard L p')"
  by (simp add: policyCard_def policy_shape_def policyTypeIcon_def policyTypeBadge_def Let_def)

lemma skeleton_PoliciesList: "list_all2 policy_shape ps ps' \<Longrightarrow> skeleton (PoliciesList L ps) = skeleton (PoliciesList L ps')"
  using skeleton_concat [of policy_shape ps ps' "policyCard L"] list_all2_empty [of policy_shape ps ps']
  by (simp add: PoliciesList_def skeleton_policyCard)

lemma skeleton_page:
  assumes "same_shape pg pg'"
  shows "skeleton (page_view L pg e) = skeleton (page_view L pg' e)"
proof (cases pg)
  case (PKeys ks)
  then show ?thesis using assms skeleton_KeysTable [of ks _ L e]
    by (cases pg') (simp_all add: KeysPage_def Let_def split_beta Layout_def)
qed (use assms in \<open>cases pg'; simp add: LoginPage_def HomePage_def StatsCards_def statCard_def skeleton_KeysTable banner_def NewKeyBanner_def
    skeleton_AuditResults AuditPage_def RolesPage_def PoliciesPage_def skeleton_RolesList skeleton_PoliciesList Layout_def\<close>)+

text \<open>C24: No text that is stored or submitted changes the markup of a page: two pages whose data agree
  in everything but texts have the same tags, quotes and attribute boundaries.\<close>

theorem texts_keep_markup:
  assumes "escapes L" and "same_shape pg pg'"
  shows "filter markup_byte (html L (page_view L pg e)) = filter markup_byte (html L (page_view L pg' e))"
  using markup_skeleton [OF assms(1)] skeleton_page [OF assms(2), of L e] by metis

section \<open>Concrete instances\<close>

definition demo_log :: "nat \<Rightarrow> AuditLog" where
  "demo_log n = \<lparr>al_ID = of_nat n, al_ApiKeyID = 1, al_Action = ''POST'', al_Resource = ''/mcp'', al_StatusCode = 200,
     al_LatencyMs = 3, al_Ip = [], al_CreatedAt = int n, al_RequestBody = [], al_ResponseBody = [], al_ToolName = ''t''\<rparr>"

definition demo_logs :: database where
  "demo_logs = empty_db\<lparr>audit_logs := map demo_log [0..<51]\<rparr>"

lemma Itoa_2: "Itoa 2 = ''2''"
  by code_simp

lemma next_page_same_rows_witness:
  "fst (fst (queryAuditLogs (demo_http ''GET'' ''/dashboard/audit/results'' ''page=2'' []) (demo_state demo_logs))) =
   fst (fst (queryAuditLogs (demo_http ''GET'' ''/dashboard/audit'' [] []) (demo_state demo_logs)))"
proof -
  let ?r = "demo_http ''GET'' ''/dashboard/audit'' [] []" and ?s = "demo_state demo_logs"
  have f: "audit_filter ?r = \<lparr>af_ToolName = [], af_StatusCode = [], af_Page = 1, af_HasMore = False\<rparr>"
    by (simp add: audit_filter_def query_Get_def demo_http_def values_Get_def Atoi_def)
  have n: "length (audit_matches (audit_filter ?r) (da_db ?s)) = 51"
    by (simp add: audit_matches_def f audit_status_def narg_def demo_state_def demo_logs_def)
  obtain rows f1 where q: "fst (queryAuditLogs ?r ?s) = (rows, f1)" by (cases "fst (queryAuditLogs ?r ?s)")
  then have "f1 = (audit_filter ?r)\<lparr>af_HasMore := True\<rparr>"
    using n by (auto simp: queryAuditLogs_eq Let_def f pageSize_def demo_state_def)
  moreover have "auditPageURL (audit_filter ?r) 2 = ''/dashboard/audit/results?'' @ ''page=2''"
    by (simp add: auditPageURL_def f Itoa_2)
  ultimately show ?thesis
    using next_page_same_rows [OF q, of "demo_http ''GET'' ''/dashboard/audit/results'' ''page=2'' []" ?s] q
    by (simp add: f auditPageURL_def Itoa_2 int64_def signed_take_bit_int_eq_self) (simp add: demo_http_def demo_state_def)
qed

lemma chart_counts_exact_witness:
  "chart_counts (CountRequestsByHour 0 demo_logs) 0 ! 23 = 51"
  using chart_counts_exact [of 0 0 demo_logs] by (simp add: demo_logs_def demo_log_def filter_True)

text \<open>\<open>html.EscapeString\<close> of Go's library keeps the promise.\<close>

definition html_EscapeString :: "string \<Rightarrow> string" where
  "html_EscapeString s = concat (map (\<lambda>c. if c = CHR ''&'' then ''&amp;'' else if c = CHR ''<'' then ''&lt;''
     else if c = CHR ''>'' then ''&gt;'' else if c = CHR 0x22 then ''&#34;'' else if c = CHR 0x27 then ''&#39;'' else [c]) s)"

lemma html_EscapeString_safe: "filter markup_byte (html_EscapeString s) = []"
  by (induction s) (auto simp: html_EscapeString_def markup_byte_def)

definition escaping_view :: view_lib where
  "escaping_view = demo_view\<lparr>vl_escape := html_EscapeString, vl_attr := html_EscapeString, vl_url := html_EscapeString\<rparr>"

lemma texts_keep_markup_witness:
  "filter markup_byte (html escaping_view (page_view escaping_view (PLogin ''<script>'') \<lparr>now_at = (\<lambda>_. 0), ticks = 0\<rparr>)) =
   filter markup_byte (html escaping_view (page_view escaping_view (PLogin ''x'') \<lparr>now_at = (\<lambda>_. 0), ticks = 0\<rparr>))"
  by (rule texts_keep_markup) (simp_all add: escapes_def escaping_view_def html_EscapeString_safe)

text \<open>The link does not encode its filters: a tool name with \<open>&\<close> is cut, and what follows becomes
  a setting of its own.\<close>

lemma page_link_unescaped:
  "map_of (ParseQuery (drop 25 (auditPageURL \<lparr>af_ToolName = ''a&page=9'', af_StatusCode = [], af_Page = 1, af_HasMore = True\<rparr> 2)))
     ''tool_name'' = Some ''a''"
  by (simp add: auditPageURL_def Itoa_2 ParseQuery_def query_pair_def cut_at_def List.map_filter_simps Let_def)

end
