(* ===== verification/AuthProps.thy ===== *)
theory AuthProps
  imports Guard Migrate Clock
begin

text \<open>
  \<open>cmd/keygen\<close>, and what the gateway's authentication promises over the life of a key:
  a key works from its creation on, its revocation is final, whatever else happens to the
  database, and nothing but a valid bearer token passes the guard.
\<close>

section \<open>The key generator\<close>

datatype keygen_result = KeygenExit1 string | Printed string ApiKey

text \<open>
  \<open>main\<close>: \<open>conn\<close> tells whether \<open>Connect\<close> succeeds, \<open>migrated\<close> whether \<open>Migrate\<close> does;
  \<open>now\<close> is the process clock, \<open>dbnow\<close> and \<open>gen\<close> what the server chooses for the row.
\<close>

definition keygen_main :: "string \<Rightarrow> bool \<Rightarrow> bool \<Rightarrow> string option \<Rightarrow> time \<Rightarrow> uuid \<Rightarrow> time \<Rightarrow> string \<Rightarrow> duration \<Rightarrow> database
    \<Rightarrow> keygen_result \<times> database" where
  "keygen_main dbURL conn migrated rnd now gen dbnow name expires db =
     (if dbURL = [] then (KeygenExit1 ''DATABASE_URL is required'', db)
      else if \<not> conn then (KeygenExit1 ''failed to connect to database'', db)
      else if \<not> migrated then (KeygenExit1 ''failed to run migrations'', db)
      else (let expiresAt = (if 0 < expires then Some (time_Add now expires) else None)
            in (case CreateKey (CreateAPIKey gen dbnow) rnd name expiresAt db of
                  (Inl err, db') \<Rightarrow> (KeygenExit1 ''failed to create key'', db')
                | (Inr (plaintext, key), db') \<Rightarrow> (Printed plaintext key, db'))))"

text \<open>What it prints for a new key on \<open>stderr\<close> and \<open>stdout\<close>. The dash in the text is U+2014.\<close>

definition keygen_report :: "(uuid \<Rightarrow> string) \<Rightarrow> (time \<Rightarrow> int) \<Rightarrow> ApiKey \<Rightarrow> string" where
  "keygen_report show_id loc key = (let line = (\<lambda>a b. a @ b @ [CHR 0x0A])
     in line ''Key created successfully:'' [] @ line ''  ID:      '' (show_id (ak_ID key)) @
        line ''  Name:    '' (ak_Name key) @ line ''  Prefix:  '' (ak_KeyPrefix key) @
        line ''  Expires: '' (case ak_ExpiresAt key of Some t \<Rightarrow> Format loc RFC3339 t | None \<Rightarrow> ''never'') @
        [CHR 0x0A] @ ''Store this key securely '' @ [CHR 0xE2, CHR 0x80, CHR 0x94] @
        line '' it cannot be retrieved again:'' [] @ [CHR 0x0A])"

definition keygen_output :: "(uuid \<Rightarrow> string) \<Rightarrow> (time \<Rightarrow> int) \<Rightarrow> string \<Rightarrow> ApiKey \<Rightarrow> string \<times> string" where
  "keygen_output show_id loc plaintext key = (keygen_report show_id loc key, plaintext @ [CHR 0x0A])"

section \<open>Revocation is final\<close>

definition hash_dead :: "string \<Rightarrow> database \<Rightarrow> bool" where
  "hash_dead h db \<longleftrightarrow> (\<forall>k \<in> set (api_keys db). ak_KeyHash k = h \<longrightarrow> \<not> ak_Active k)"

definition creates_hash :: "string \<Rightarrow> stmt \<Rightarrow> bool" where
  "creates_hash h s = (case s of SCreateAPIKey g n a \<Rightarrow> cak_KeyHash a = h | _ \<Rightarrow> False)"

lemma exec_api_keys:
  "api_keys (exec s db) = api_keys db \<or> (\<exists>g n a. s = SCreateAPIKey g n a) \<or> (\<exists>n i. s = SRevokeAPIKey n i) \<or> (\<exists>i. s = SDeleteAPIKey i)"
  by (cases s) (auto simp: CreateRole_def DeleteRole_def AddPermission_def DeletePermission_def AssignRoleToKey_def
      RemoveRoleFromKey_def UpsertRateLimit_def InsertAuditLog_def CreatePolicy_def TogglePolicy_def UpdatePolicy_def
      DeletePolicy_def Let_def split: option.splits)

lemma exec_hash_dead: "hash_dead h db \<Longrightarrow> \<not> creates_hash h s \<Longrightarrow> hash_dead h (exec s db)"
  using exec_api_keys [of s db]
  by (auto simp: hash_dead_def creates_hash_def CreateAPIKey_def RevokeAPIKey_def DeleteAPIKey_def Let_def split: if_splits)

lemma exec_all_hash_dead: "hash_dead h db \<Longrightarrow> \<forall>s \<in> set ss. \<not> creates_hash h s \<Longrightarrow> hash_dead h (fold exec ss db)"
  by (induction ss arbitrary: db) (simp_all add: exec_hash_dead)

lemma hash_dead_lookup: "hash_dead h db \<Longrightarrow> GetAPIKeyByHash h db = Inr k \<Longrightarrow> \<not> ak_Active k"
  by (auto simp: hash_dead_def GetAPIKeyByHash_Inr dest!: find_in)

lemma revoke_hash_dead:
  assumes "db_inv db" and "GetAPIKeyByHash h db = Inr key"
  shows "hash_dead h (snd (RevokeAPIKey n (ak_ID key) db))"
proof -
  have k: "key \<in> set (api_keys db)" "ak_KeyHash key = h" using assms(2) by (auto simp: GetAPIKeyByHash_Inr dest: find_in)
  have d: "distinct (map ak_KeyHash (api_keys db))" using assms(1) by (simp add: db_inv_def keys_unique_def)
  have "x = key" if "x \<in> set (api_keys db)" "ak_KeyHash x = h" for x
    using distinct_key_eq [OF d that(1) k(1)] that(2) k(2) by simp
  then show ?thesis by (auto simp: hash_dead_def RevokeAPIKey_def)
qed

section \<open>Properties\<close>

definition key_row :: "string \<Rightarrow> ApiKey" where
  "key_row plain = \<lparr>ak_ID = 1, ak_Name = ''k'', ak_KeyHash = HashKey plain, ak_KeyPrefix = [], ak_ExpiresAt = None,
     ak_Active = True, ak_CreatedAt = 0, ak_UpdatedAt = 0\<rparr>"

definition key_db :: "string \<Rightarrow> database" where
  "key_db plain = empty_db\<lparr>api_keys := [key_row plain]\<rparr>"

lemma key_db_inv: "db_inv (key_db p)"
  by (simp add: db_inv_def key_db_def empty_db_def keys_unique_def references_ok_def checks_ok_def)

lemma key_db_lookup: "GetAPIKeyByHash (HashKey p) (key_db p) = Inr (key_row p)"
  by (simp add: GetAPIKeyByHash_Inr key_db_def key_row_def)

text \<open>Every statement of the store keeps the keys and constraints of the schema, whether
  it succeeds or fails, and so does any sequence of statements.\<close>

theorem statements_keep_schema:
  assumes "db_inv db"
  shows "db_inv (fold exec ss db)"
  by (rule exec_all_inv [OF assms])

lemma statements_keep_schema_witness:
  "db_inv (fold exec [SDeleteAPIKey 1, SRevokeAPIKey 5 1] (key_db ''k''))"
  by (rule statements_keep_schema [OF key_db_inv])

text \<open>Whatever the generator prints is accepted by the gateway, as the key of the row
  it created, until the expiry that was asked for.\<close>

theorem keygen_key_works:
  assumes "db_inv db" and "keygen_main dbURL conn migrated rnd now gen dbnow name expires db = (Printed plain key, db')"
  shows "fst (ValidateKey (\<lambda>h. GetAPIKeyByHash h db') plain e) =
    (if 0 < expires \<and> now + expires < now_at e (ticks e) then Inl ErrExpiredKey else Inr key) \<and>
    ak_ID key = gen \<and> plain = keyPrefix @ EncodeToString (the rnd)"
proof -
  define ex where "ex = (if 0 < expires then Some (time_Add now expires) else None)"
  have c: "CreateKey (CreateAPIKey gen dbnow) rnd name ex db = (Inr (plain, key), db')"
    using assms(2) by (auto simp: keygen_main_def ex_def Let_def split: if_splits prod.splits sum.splits)
  have "ak_ID key = gen \<and> plain = keyPrefix @ EncodeToString (the rnd)"
    using c by (auto simp: CreateKey_def GenerateKey_def CreateAPIKey_def Let_def split: sum.splits prod.splits option.splits if_splits)
  moreover from ks.validate_created [OF assms(1) c, of e]
  have "fst (ValidateKey (\<lambda>h. GetAPIKeyByHash h db') plain e) =
      (if 0 < expires \<and> now + expires < now_at e (ticks e) then Inl ErrExpiredKey else Inr key)"
    by (auto simp: ex_def time_Add_def split: if_splits)
  ultimately show ?thesis by simp
qed

lemma keygen_key_works_witness:
  "\<exists>plain key db'. keygen_main ''postgres://'' True True (Some ''x'') 0 9 0 ''admin'' 0 empty_db = (Printed plain key, db') \<and>
     fst (ValidateKey (\<lambda>h. GetAPIKeyByHash h db') plain \<lparr>now_at = (\<lambda>_. 7), ticks = 0\<rparr>) = Inr key"
proof -
  have i: "db_inv empty_db" by (simp add: db_inv_def empty_db_def keys_unique_def references_ok_def checks_ok_def)
  have t: "text_ok (DisplayPrefix (keyPrefix @ EncodeToString ''x''))" "text_ok ''admin''"
  proof -
    have "EncodeToString ''x'' = ''78''" by (simp add: EncodeToString_def hex_nibble_def) code_simp
    then show "text_ok (DisplayPrefix (keyPrefix @ EncodeToString ''x''))" "text_ok ''admin''"
      by (simp_all add: DisplayPrefix_def keyPrefix_def text_ok_def valid_utf8_ascii is_ascii_def)
  qed
  obtain plain key db' where k: "keygen_main ''postgres://'' True True (Some ''x'') 0 9 0 ''admin'' 0 empty_db = (Printed plain key, db')"
    using t by (auto simp: keygen_main_def CreateKey_def GenerateKey_def CreateAPIKey_def empty_db_def Let_def)
  from keygen_key_works [OF i k, of "\<lparr>now_at = (\<lambda>_. 7), ticks = 0\<rparr>"] k show ?thesis by auto
qed

text \<open>C5: Revocation is final: once the key of a plaintext is revoked, no sequence of
  statements makes the gateway accept that plaintext again, unless it creates a key with the
  same hash anew.\<close>

theorem revoked_stays_revoked:
  assumes "db_inv db" and "GetAPIKeyByHash (HashKey p) db = Inr key" and "\<forall>s \<in> set ss. \<not> creates_hash (HashKey p) s"
  shows "fst (ValidateKey (\<lambda>h. GetAPIKeyByHash h (fold exec (SRevokeAPIKey n (ak_ID key) # ss) db)) p e)
    \<in> {Inl ErrRevokedKey, Inl ErrInvalidKey}"
proof -
  define db' where "db' = fold exec (SRevokeAPIKey n (ak_ID key) # ss) db"
  have "hash_dead (HashKey p) db'"
    unfolding db'_def using exec_all_hash_dead [OF revoke_hash_dead [OF assms(1,2)] assms(3)] by simp
  then have dead: "\<And>k. GetAPIKeyByHash (HashKey p) db' = Inr k \<Longrightarrow> \<not> ak_Active k" by (rule hash_dead_lookup)
  have "GetAPIKeyByHash (HashKey p) db' \<in> Inr ` UNIV \<union> {Inl ErrNoRows}"
    by (auto simp: GetAPIKeyByHash_def split: option.splits)
  with dead show ?thesis unfolding db'_def [symmetric] by (auto simp: ValidateKey_def)
qed

lemma revoked_stays_revoked_witness:
  "fst (ValidateKey (\<lambda>h. GetAPIKeyByHash h (fold exec [SRevokeAPIKey 5 1, SDeleteRole 4] (key_db ''k''))) ''k'' \<lparr>now_at = (\<lambda>_. 7), ticks = 0\<rparr>)
    \<in> {Inl ErrRevokedKey, Inl ErrInvalidKey}"
  using revoked_stays_revoked [OF key_db_inv key_db_lookup, of "[SDeleteRole 4]" "''k''" 5] by (simp add: creates_hash_def key_row_def)

text \<open>A key that has an entry in the audit log cannot be deleted: the statement fails on
  the reference and the key goes on working.\<close>

theorem audited_key_not_deleted:
  assumes "db_inv db" and "l \<in> set (audit_logs db)"
  shows "DeleteAPIKey (al_ApiKeyID l) db = (Inl ForeignKeyViolation, db)"
  using assms by (auto simp: DeleteAPIKey_def db_inv_def references_ok_def list_all_iff)

lemma audited_key_not_deleted_witness:
  "DeleteAPIKey 1 ((key_db ''k'')\<lparr>audit_logs := [audit_row 4 0 \<lparr>ia_ApiKeyID = 1, ia_Action = [], ia_Resource = [], ia_StatusCode = 200,
      ia_LatencyMs = 0, ia_Ip = [], ia_RequestBody = [], ia_ResponseBody = [], ia_ToolName = []\<rparr>]\<rparr>) =
    (Inl ForeignKeyViolation, (key_db ''k'')\<lparr>audit_logs := [audit_row 4 0 \<lparr>ia_ApiKeyID = 1, ia_Action = [], ia_Resource = [], ia_StatusCode = 200,
      ia_LatencyMs = 0, ia_Ip = [], ia_RequestBody = [], ia_ResponseBody = [], ia_ToolName = []\<rparr>]\<rparr>)"
proof -
  let ?l = "audit_row 4 0 \<lparr>ia_ApiKeyID = 1, ia_Action = [], ia_Resource = [], ia_StatusCode = 200,
      ia_LatencyMs = 0, ia_Ip = [], ia_RequestBody = [], ia_ResponseBody = [], ia_ToolName = []\<rparr>"
  have "db_inv ((key_db ''k'')\<lparr>audit_logs := [?l]\<rparr>)"
    using key_db_inv [of "''k''"]
    by (simp add: db_inv_def key_db_def key_row_def empty_db_def keys_unique_def references_ok_def checks_ok_def audit_row_def)
  from audited_key_not_deleted [OF this, of ?l] show ?thesis by (simp add: audit_row_def)
qed

text \<open>C15: The guard lets a request through exactly when its \<open>Authorization\<close> header is
  \<open>Bearer\<close> and a token whose hash is a stored, active, unexpired key; the request carries that
  key on and is otherwise unchanged.\<close>

theorem auth_guard_passes_iff:
  "(\<exists>e'. auth_guard lookup r e = (e', Pass r')) \<longleftrightarrow>
     (\<exists>token key. token \<noteq> [] \<and> header_Get r ''Authorization'' = ''Bearer '' @ token \<and> lookup (HashKey token) = Inr key \<and>
        ak_Active key \<and> (case ak_ExpiresAt key of None \<Rightarrow> True | Some t \<Rightarrow> now_at e (ticks e) \<le> t) \<and> r' = r\<lparr>rq_APIKey := Some key\<rparr>)"
proof -
  have "(\<exists>e'. auth_guard lookup r e = (e', Pass r')) \<longleftrightarrow> (\<exists>token key. bearer_token r = Inr token \<and>
      (\<exists>e'. ValidateKey lookup token e = (Inr key, e')) \<and> r' = r\<lparr>rq_APIKey := Some key\<rparr>)"
    unfolding auth_guard_Pass by blast
  then show ?thesis unfolding ValidateKey_accepts bearer_token_Inr by auto
qed

text \<open>C31: Migrating is atomic per file: from a database whose schema is what its recorded
  files give, any run, also one that fails, ends in such a database, no file twice.\<close>

theorem migrate_consistent:
  assumes "Migrate io exec_sql db = (res, db')"
    and "distinct (mg_versions db)" and "apply_files (io_read io) exec_sql (mg_versions db) d0 = Some (mg_schema db)"
  shows "distinct (mg_versions db') \<and> apply_files (io_read io) exec_sql (mg_versions db') d0 = Some (mg_schema db')"
  using assms migrate_files_inv [of io exec_sql _ db res db' d0]
  by (auto simp: Migrate_def mig_inv_def split: if_splits option.splits)

definition demo_io :: mig_io where
  "demo_io = \<lparr>io_create = True, io_dir = Some [(''002_b.sql'', False), (''001_a.sql'', False), (''notes'', False)],
     io_read = (\<lambda>f. Some f), io_check = (\<lambda>_. True), io_begin = (\<lambda>_. True), io_record = (\<lambda>_. True), io_commit = (\<lambda>f. f = ''001_a.sql'')\<rparr>"

lemma migrate_consistent_witness:
  "\<exists>res db'. Migrate demo_io (\<lambda>c d. Some (d @ [c])) \<lparr>mg_schema = [], mg_versions = []\<rparr> = (res, db') \<and> distinct (mg_versions db') \<and>
     apply_files (io_read demo_io) (\<lambda>c d. Some (d @ [c])) (mg_versions db') [] = Some (mg_schema db')"
proof -
  obtain res db' where m: "Migrate demo_io (\<lambda>c d. Some (d @ [c])) \<lparr>mg_schema = [], mg_versions = []\<rparr> = (res, db')" by fastforce
  from migrate_consistent [OF m, of "[]"] m show ?thesis by auto
qed

text \<open>After a migration that succeeds every \<open>.sql\<close> file of the directory is recorded,
  and migrating again changes nothing, whatever the files then contain.\<close>

theorem migrate_idempotent:
  assumes "Migrate io exec_sql db = (Inr (), db')" and "io_create io'" and "io_dir io' = io_dir io" and "\<And>f. io_check io' f"
  shows "Migrate io' exec_sql' db' = (Inr (), db')"
proof -
  obtain es where es: "io_dir io = Some es" "migrate_files io exec_sql (migration_files es) db = (Inr (), db')"
    using assms(1) by (auto simp: Migrate_def split: if_splits option.splits)
  have "migrate_files io' exec_sql' fs db' = (Inr (), db')" if "set fs \<subseteq> set (mg_versions db')" for fs
    using that by (induction fs) (auto simp: migrate_file_again assms(4))
  with migrate_files_versions [OF es(2)] es(1) assms(2,3) show ?thesis by (simp add: Migrate_def)
qed

lemma migrate_idempotent_witness:
  "Migrate demo_io (\<lambda>c d. None) \<lparr>mg_schema = (), mg_versions = [''001_a.sql'', ''002_b.sql'']\<rparr>
     = (Inr (), \<lparr>mg_schema = (), mg_versions = [''001_a.sql'', ''002_b.sql'']\<rparr>)"
proof (rule migrate_idempotent)
  show "Migrate demo_io (\<lambda>c d. Some d) \<lparr>mg_schema = (), mg_versions = [''001_a.sql'', ''002_b.sql'']\<rparr>
     = (Inr (), \<lparr>mg_schema = (), mg_versions = [''001_a.sql'', ''002_b.sql'']\<rparr>)"
  proof -
    have "set (migration_files [(''002_b.sql'', False), (''001_a.sql'', False), (''notes'', False)]) = {''001_a.sql'', ''002_b.sql''}"
      by (auto simp: migration_files_def HasSuffix_def suffix_def)
    moreover have "migrate_files demo_io (\<lambda>c d. Some d) fs db = (Inr (), db)" if "set fs \<subseteq> set (mg_versions db)" for fs and db :: "unit mig_db"
      using that by (induction fs) (auto simp: migrate_file_again demo_io_def)
    ultimately show ?thesis by (simp add: Migrate_def) (simp add: demo_io_def)
  qed
qed (simp_all add: demo_io_def)

end
