(* ===== verification/DashboardKeys.thy ===== *)
theory DashboardKeys
  imports DashboardPages AuthProps
begin

text \<open>
  Dashboard and gateway together: they share the database, so what the dashboard does to a key
  is what the gateway's authentication sees.
\<close>

section \<open>Creating a key\<close>

text \<open>The expiry the form means: none for an empty field, \<open>0\<close>, or text that is no duration.\<close>

definition asked_expiry :: "string \<Rightarrow> time \<Rightarrow> time option" where
  "asked_expiry x now = (if x = [] \<or> x = ''0'' then None else map_option (\<lambda>d. now + d) (ParseDuration x))"

lemma key_expiry_fst: "fst (key_expiry x s) = asked_expiry x (now_at (da_env s) (ticks (da_env s)))"
  by (simp add: key_expiry_def asked_expiry_def dash_now_def time_Now_def time_Add_def split: option.splits)

definition form_key :: "dash_params \<Rightarrow> request \<Rightarrow> dash \<Rightarrow> (auth_error + string \<times> ApiKey) \<times> dash" where
  "form_key p r s = (let (x, s) = key_expiry (form p r ''expires'') s in create_key (form p r ''name'') x s)"

lemma handleCreateKey_form_key:
  "da_db (fst (handleCreateKey p r s)) = da_db (snd (form_key p r s))"
  by (simp add: handleCreateKey_def form_key_def Let_def split_beta dash_db)

lemma GenerateKey_nonempty: "GenerateKey rnd = Inr pt \<Longrightarrow> pt \<noteq> []"
  by (auto simp: GenerateKey_def keyPrefix_def split: option.splits)

lemma CreateKey_Inr_nonempty: "CreateKey create rnd n x s = (Inr (pt, key), s') \<Longrightarrow> pt \<noteq> []"
  by (auto simp: CreateKey_def GenerateKey_nonempty split: sum.splits prod.splits)

lemma handleCreateKey_shows:
  assumes "form_key p r s = (Inr (plain, key), s1)"
  shows "Write (vl_escape (dp_view p) plain) \<in> set (fst (snd (handleCreateKey p r s)))"
proof -
  have "plain \<noteq> []" using assms by (auto simp: form_key_def create_key_def Let_def split_beta CreateKey_Inr_nonempty)
  with assms show ?thesis
    by (simp add: handleCreateKey_def form_key_def Let_def split_beta banner_def NewKeyBanner_def html_def)
qed

text \<open>The service over the statements of the dashboard is the service over the database.\<close>

lemma create_key_Inr:
  assumes "create_key n x s = (Inr (plain, key), s1)"
  shows "\<exists>g t. CreateKey (CreateAPIKey g t) (da_rand s (da_rands s)) n x (da_db s) = (Inr (plain, key), da_db s1)"
proof -
  let ?c = "da_stmt s (da_stmts s)"
  have "CreateKey (CreateAPIKey (sr_gen ?c) (sr_now ?c)) (da_rand s (da_rands s)) n x (da_db s) = (Inr (plain, key), da_db s1)"
    using assms
    by (auto simp: create_key_def CreateKey_def run_stmt_def with_conn_def Let_def split: sum.splits prod.splits if_splits)
  then show ?thesis by blast
qed

section \<open>Properties\<close>

text \<open>C26: When the dashboard creates a key it shows the plaintext, and the gateway accepts that
  plaintext as the stored key until the expiry the form asked for; an expiry that is not a Go
  duration (\<open>30d\<close>, \<open>1 year\<close>) is dropped and the key never expires.\<close>

theorem dashboard_key_works:
  assumes "db_inv (da_db s)" and "form_key p r s = (Inr (plain, key), s1)"
  shows "Write (vl_escape (dp_view p) plain) \<in> set (fst (snd (handleCreateKey p r s))) \<and>
    fst (ValidateKey (\<lambda>h. GetAPIKeyByHash h (da_db (fst (handleCreateKey p r s)))) plain e) =
      (case asked_expiry (form p r ''expires'') (now_at (da_env s) (ticks (da_env s))) of
         None \<Rightarrow> Inr key
       | Some t \<Rightarrow> if t < now_at e (ticks e) then Inl ErrExpiredKey else Inr key)"
proof
  show "Write (vl_escape (dp_view p) plain) \<in> set (fst (snd (handleCreateKey p r s)))"
    by (rule handleCreateKey_shows [OF assms(2)])
  obtain x s0 where x: "key_expiry (form p r ''expires'') s = (x, s0)" by (cases "key_expiry (form p r ''expires'') s")
  have db0: "da_db s0 = da_db s" using key_expiry_db [of "form p r ''expires''" s] x by simp
  have "create_key (form p r ''name'') x s0 = (Inr (plain, key), s1)" using assms(2) x by (simp add: form_key_def)
  from create_key_Inr [OF this] obtain g t where
    "CreateKey (CreateAPIKey g t) (da_rand s0 (da_rands s0)) (form p r ''name'') x (da_db s) = (Inr (plain, key), da_db s1)"
    unfolding db0 by blast
  from ks.validate_created [OF assms(1) this, of e]
  have "fst (ValidateKey (\<lambda>h. GetAPIKeyByHash h (da_db s1)) plain e) =
      (case x of Some t \<Rightarrow> if t < now_at e (ticks e) then Inl ErrExpiredKey else Inr key | None \<Rightarrow> Inr key)" .
  moreover have "da_db (fst (handleCreateKey p r s)) = da_db s1" using assms(2) by (simp add: handleCreateKey_form_key)
  moreover have "x = asked_expiry (form p r ''expires'') (now_at (da_env s) (ticks (da_env s)))"
    using key_expiry_fst [of "form p r ''expires''" s] x by simp
  ultimately show "fst (ValidateKey (\<lambda>h. GetAPIKeyByHash h (da_db (fst (handleCreateKey p r s)))) plain e) =
      (case asked_expiry (form p r ''expires'') (now_at (da_env s) (ticks (da_env s))) of
         None \<Rightarrow> Inr key | Some t \<Rightarrow> if t < now_at e (ticks e) then Inl ErrExpiredKey else Inr key)"
    by (simp split: option.splits)
qed

lemma split_revoke_path:
  "CHR ''/'' \<notin> set i \<Longrightarrow> split_on (CHR ''/'') (''/dashboard/keys/'' @ i @ ''/revoke'') = [[], ''dashboard'', ''keys'', i, ''revoke'']"
  using split_on_append [of "CHR ''/''" i "''revoke''"] by simp

lemma revoke_route:
  assumes "CHR ''/'' \<notin> set i"
  shows "public_route p ''POST'' (''/dashboard/keys/'' @ i @ ''/revoke'') = None"
    and "protected_route p ''POST'' (''/dashboard/keys/'' @ i @ ''/revoke'') = Some (handleRevokeKey p i)"
proof -
  show "public_route p ''POST'' (''/dashboard/keys/'' @ i @ ''/revoke'') = None" by (simp add: public_route_def)
  have "fixed_route p ''POST'' (''/dashboard/keys/'' @ i @ ''/revoke'') = None" by (simp add: fixed_route_def)
  moreover have "id_route p ''POST'' (''/dashboard/keys/'' @ i @ ''/revoke'') = Some (handleRevokeKey p i)"
    unfolding id_route_def split_revoke_path [OF assms] by simp
  ultimately show "protected_route p ''POST'' (''/dashboard/keys/'' @ i @ ''/revoke'') = Some (handleRevokeKey p i)"
    by (simp add: protected_route_def)
qed

text \<open>C12: Revoking a key in the dashboard closes the gateway to it at once and for good: after the
  request, whatever statements follow (none of them creating a key of the same hash), a request to
  the gateway with the key's token is answered 401.\<close>

theorem dashboard_revocation_closes_gateway:
  assumes "db_inv (da_db s)" and "GetAPIKeyByHash (HashKey token) (da_db s) = Inr key"
    and "rq_Method r = ''POST''" and "rq_Path r = ''/dashboard/keys/'' @ i @ ''/revoke''" and "CHR ''/'' \<notin> set i"
    and "dp_uuid p i = Some (ak_ID key)" and "session_ok p r s" and "sr_up (da_stmt s (da_stmts s))"
    and "\<forall>x \<in> set ss. \<not> creates_hash (HashKey token) x"
    and "header_Get q ''Authorization'' = ''Bearer '' @ token" and "token \<noteq> []"
  shows "snd (auth_guard (\<lambda>h. GetAPIKeyByHash h (fold exec ss (da_db (fst (dashboard p other r s))))) q e) =
    Reject (writeAuthError 401 ''authentication failed'')"
proof -
  note route = revoke_route [OF assms(5), of p, folded assms(3,4)]
  have "da_db (fst (dashboard p other r s)) = snd (RevokeAPIKey (sr_now (da_stmt s (da_stmts s))) (ak_ID key) (da_db s))"
    using assms(6,7,8)
    by (simp add: dashboard_protected [OF route(2,1)] handleRevokeKey_def with_id_def dash_db run_stmt_db Let_def)
      (simp add: dash_now_def time_Now_def)
  then have "hash_dead (HashKey token) (fold exec ss (da_db (fst (dashboard p other r s))))"
    using exec_all_hash_dead [OF revoke_hash_dead [OF assms(1,2)] assms(9)] by simp
  then have "\<And>k. GetAPIKeyByHash (HashKey token) (fold exec ss (da_db (fst (dashboard p other r s)))) = Inr k \<Longrightarrow> \<not> ak_Active k"
    by (rule hash_dead_lookup)
  moreover have "bearer_token q = Inr token" using assms(10,11) by (simp add: bearer_token_Inr)
  ultimately show ?thesis by (auto simp: auth_guard_def ValidateKey_def split: sum.splits)
qed

section \<open>Concrete instances\<close>

lemma ParseDuration_30d: "ParseDuration ''30d'' = None"
proof -
  have "duration_term ''30d'' = None"
    by (simp add: duration_term_def is_digit_def digit_val_def unit_char_def unit_of_def Let_def)
  then show ?thesis by (simp add: ParseDuration_def duration_terms.simps is_digit_def Let_def)
qed

lemma demo_form:
  "form demo_dash (demo_http m path ''name=n&expires=30d'' cs) ''name'' = ''n''"
  "form demo_dash (demo_http m path ''name=n&expires=30d'' cs) ''expires'' = ''30d''"
proof -
  have q: "ParseQuery ''name=n&expires=30d'' = [(''name'', ''n''), (''expires'', ''30d'')]"
    using ParseQuery_text [of "[(''name'', ''n''), (''expires'', ''30d'')]"] by (simp add: query_ok_def query_plain_def)
  show "form demo_dash (demo_http m path ''name=n&expires=30d'' cs) ''name'' = ''n''"
    "form demo_dash (demo_http m path ''name=n&expires=30d'' cs) ''expires'' = ''30d''"
    by (simp_all add: form_def FormValue_def post_values_def demo_http_def demo_dash_def values_Get_def header_Get_def
        is_urlencoded_def cut_at_def TrimString_def q)
qed

lemma dashboard_key_works_witness:
  "\<exists>plain key s1. form_key demo_dash (demo_http ''POST'' ''/dashboard/keys'' ''name=n&expires=30d'' []) (demo_state empty_db) = (Inr (plain, key), s1) \<and>
     fst (ValidateKey (\<lambda>h. GetAPIKeyByHash h (da_db (fst (handleCreateKey demo_dash
       (demo_http ''POST'' ''/dashboard/keys'' ''name=n&expires=30d'' []) (demo_state empty_db))))) plain
       \<lparr>now_at = (\<lambda>_. 900 * 365 * 24 * Hour), ticks = 0\<rparr>) = Inr key"
proof -
  let ?r = "demo_http ''POST'' ''/dashboard/keys'' ''name=n&expires=30d'' []" and ?s = "demo_state empty_db"
  have i: "db_inv (da_db ?s)" by (simp add: demo_state_def db_inv_empty)
  have hex: "EncodeToString ''r'' = ''72''" by code_simp
  have t: "text_ok (DisplayPrefix (keyPrefix @ ''72''))" "text_ok ''n''"
    by (simp_all add: DisplayPrefix_def keyPrefix_def text_ok_def valid_utf8_ascii is_ascii_def)
  obtain plain key s1 where k: "form_key demo_dash ?r ?s = (Inr (plain, key), s1)"
    using t by (auto simp: form_key_def demo_form key_expiry_def ParseDuration_30d create_key_def CreateKey_def GenerateKey_def
        demo_state_def run_stmt_def with_conn_def CreateAPIKey_def empty_db_def hex Let_def)
  from dashboard_key_works [OF i k, of "\<lparr>now_at = (\<lambda>_. 900 * 365 * 24 * Hour), ticks = 0\<rparr>"] k
  show ?thesis by (auto simp: demo_form asked_expiry_def ParseDuration_30d)
qed

lemma dashboard_revocation_closes_gateway_witness:
  "snd (auth_guard (\<lambda>h. GetAPIKeyByHash h (fold exec [SDeleteRole 4] (da_db (fst (dashboard demo_dash (\<lambda>r s. (s, [], Returned))
     (demo_http ''POST'' ''/dashboard/keys/1/revoke'' [] [''mcp_session=tok'']) (demo_state (key_db ''k'')))))))
     ((demo_http ''POST'' ''/mcp'' [] [])\<lparr>rq_Header := (\<lambda>_. [''Bearer k''])\<rparr>) \<lparr>now_at = (\<lambda>_. 7), ticks = 0\<rparr>) =
   Reject (writeAuthError 401 ''authentication failed'')"
proof (rule dashboard_revocation_closes_gateway)
  show "db_inv (da_db (demo_state (key_db ''k'')))" by (simp add: demo_state_def key_db_inv)
  show "GetAPIKeyByHash (HashKey ''k'') (da_db (demo_state (key_db ''k''))) = Inr (key_row ''k'')"
    by (simp add: demo_state_def key_db_lookup)
  show "session_ok demo_dash (demo_http ''POST'' ''/dashboard/keys/1/revoke'' [] [''mcp_session=tok'']) (demo_state (key_db ''k''))"
    by (rule demo_session)
  show "dp_uuid demo_dash ''1'' = Some (ak_ID (key_row ''k''))" by (simp add: demo_dash_def key_row_def)
qed (simp_all add: demo_http_def demo_state_def creates_hash_def header_Get_def)

end
