(* ===== verification/DashboardLife.thy ===== *)
theory DashboardLife
  imports DashboardProps "HOL-Library.Multiset"
begin

text \<open>
  The second half of \<open>main\<close> in \<open>cmd/dashboard/main.go\<close>: the server runs in a goroutine that ends
  the process when it cannot listen; a signal leads to \<open>srv.Shutdown\<close>, which closes the listener
  and waits for the requests in flight or for its deadline of ten seconds; then \<open>main\<close> returns,
  with status 0 in both cases. Meanwhile other processes change the shared database.
\<close>

section \<open>States and steps\<close>

datatype dash_phase = Running | Signalled | ShuttingDown | Exited int

record dash_life =
  dl_phase :: dash_phase
  dl_listening :: bool
  dl_forced :: bool              \<comment> \<open>\<open>Shutdown\<close> returned an error\<close>
  dl_calls :: "request list"     \<comment> \<open>accepted and not answered\<close>
  dl_dash :: dash
  dl_accepted :: "request list"
  dl_answers :: "(request \<times> ev list \<times> fin) list"

definition dash_boot :: "dash \<Rightarrow> dash_life" where
  "dash_boot d = \<lparr>dl_phase = Running, dl_listening = True, dl_forced = False, dl_calls = [], dl_dash = d, dl_accepted = [], dl_answers = []\<rparr>"

fun exited :: "dash_phase \<Rightarrow> bool" where
  "exited (Exited _) = True"
| "exited _ = False"

definition dash_answer :: "dash_params \<Rightarrow> dash handler \<Rightarrow> request \<Rightarrow> dash_life \<Rightarrow> dash_life" where
  "dash_answer p other r s = (let (d, out) = dashboard p other r (dl_dash s)
     in s\<lparr>dl_dash := d, dl_answers := dl_answers s @ [(r, out)]\<rparr>)"

inductive dash_step :: "dash_params \<Rightarrow> dash handler \<Rightarrow> dash_life \<Rightarrow> dash_life \<Rightarrow> bool"
  for p :: dash_params and other :: "dash handler" where
  accept: "dl_listening s \<Longrightarrow> \<not> exited (dl_phase s) \<Longrightarrow>
    dash_step p other s (s\<lparr>dl_calls := dl_calls s @ [r], dl_accepted := dl_accepted s @ [r]\<rparr>)"
| answer: "dl_calls s = xs @ r # ys \<Longrightarrow> \<not> exited (dl_phase s) \<Longrightarrow> dash_step p other s (dash_answer p other r (s\<lparr>dl_calls := xs @ ys\<rparr>))"
| written: "\<not> exited (dl_phase s) \<Longrightarrow> dash_step p other s (s\<lparr>dl_dash := (dl_dash s)\<lparr>da_db := exec st (da_db (dl_dash s))\<rparr>\<rparr>)"
| listen_fails: "dl_phase s = Running \<or> dl_phase s = Signalled \<Longrightarrow> dash_step p other s (s\<lparr>dl_phase := Exited 1, dl_listening := False\<rparr>)"
| signal: "dl_phase s = Running \<Longrightarrow> dash_step p other s (s\<lparr>dl_phase := Signalled\<rparr>)"
| shutdown: "dl_phase s = Signalled \<Longrightarrow> dash_step p other s (s\<lparr>dl_phase := ShuttingDown, dl_listening := False\<rparr>)"
| drained: "dl_phase s = ShuttingDown \<Longrightarrow> dl_calls s = [] \<Longrightarrow> dash_step p other s (s\<lparr>dl_phase := Exited 0\<rparr>)"
| deadline: "dl_phase s = ShuttingDown \<Longrightarrow> dash_step p other s (s\<lparr>dl_phase := Exited 0, dl_forced := True\<rparr>)"

inductive dash_reach :: "dash_params \<Rightarrow> dash handler \<Rightarrow> dash \<Rightarrow> dash_life \<Rightarrow> bool"
  for p :: dash_params and other :: "dash handler" and d :: dash where
  boot: "dash_reach p other d (dash_boot d)"
| step: "dash_reach p other d s \<Longrightarrow> dash_step p other s s' \<Longrightarrow> dash_reach p other d s'"

lemma exited_final: "dl_phase s = Exited c \<Longrightarrow> \<not> dash_step p other s s'"
  by (auto elim: dash_step.cases)

section \<open>Invariant\<close>

definition dash_inv :: "dash_life \<Rightarrow> bool" where
  "dash_inv s \<longleftrightarrow> db_inv (da_db (dl_dash s)) \<and> mset (dl_accepted s) = mset (dl_calls s) + mset (map fst (dl_answers s)) \<and>
     (dl_phase s \<in> {ShuttingDown, Exited 0} \<longrightarrow> \<not> dl_listening s) \<and>
     (dl_phase s = Exited 0 \<and> \<not> dl_forced s \<longrightarrow> dl_calls s = []) \<and> (exited (dl_phase s) \<longrightarrow> dl_phase s = Exited 0 \<or> dl_phase s = Exited 1)"

lemma dash_step_inv:
  assumes "dash_step p other s s'" and "dash_inv s" and "reads_only other"
  shows "dash_inv s'"
  using assms(1)
proof (cases rule: dash_step.cases)
  case (answer xs r ys)
  then show ?thesis using assms(2) dashboard_keeps_schema [OF assms(3), of "dl_dash s" p r]
    by (auto simp: dash_inv_def dash_answer_def Let_def split_beta)
qed (use assms(2) in \<open>simp_all add: dash_inv_def exec_inv, auto?\<close>)

lemma dash_reach_inv:
  "dash_reach p other d s \<Longrightarrow> db_inv (da_db d) \<Longrightarrow> reads_only other \<Longrightarrow> dash_inv s"
proof (induction rule: dash_reach.induct)
  case boot
  then show ?case by (simp add: dash_inv_def dash_boot_def)
next
  case (step s s')
  from dash_step_inv [OF step.hyps(2) step.IH [OF step.prems] step.prems(2)] show ?case .
qed

text \<open>While the dashboard runs, beside any other writers, the schema holds, and every accepted
  request is either in flight or has been answered, exactly once; when it has ended with status 0
  and \<open>Shutdown\<close> did not run into its deadline, none is left unanswered.\<close>

theorem dashboard_life:
  assumes "dash_reach p other d s" and "db_inv (da_db d)" and "reads_only other"
  shows "db_inv (da_db (dl_dash s)) \<and> mset (dl_accepted s) = mset (dl_calls s) + mset (map fst (dl_answers s)) \<and>
    (dl_phase s = Exited 0 \<longrightarrow> \<not> dl_forced s \<longrightarrow> mset (map fst (dl_answers s)) = mset (dl_accepted s))"
  using dash_reach_inv [OF assms] by (auto simp: dash_inv_def)

text \<open>A status of 0 does not mean that: a request that outlasts the ten seconds is cut off and the
  status is 0 all the same.\<close>

theorem forced_exit_is_clean:
  "\<exists>s. dash_reach p other d s \<and> dl_phase s = Exited 0 \<and> dl_calls s = [r] \<and> dl_answers s = []"
proof -
  note rs = dash_reach.step
  have "dash_reach p other d (dash_boot d\<lparr>dl_calls := [r], dl_accepted := [r]\<rparr>)"
    using rs [OF dash_reach.boot dash_step.accept [of "dash_boot d" p other r]] by (simp add: dash_boot_def)
  from rs [OF this dash_step.signal] have "dash_reach p other d (dash_boot d\<lparr>dl_calls := [r], dl_accepted := [r], dl_phase := Signalled\<rparr>)"
    by (simp add: dash_boot_def)
  from rs [OF this dash_step.shutdown]
  have "dash_reach p other d (dash_boot d\<lparr>dl_calls := [r], dl_accepted := [r], dl_phase := ShuttingDown, dl_listening := False\<rparr>)"
    by (simp add: dash_boot_def)
  from rs [OF this dash_step.deadline] show ?thesis by (auto simp: dash_boot_def)
qed

lemma dashboard_life_witness:
  "\<exists>s. dash_reach demo_dash (\<lambda>r s. (s, [], Returned)) (demo_state one_role) s \<and> dl_phase s = Exited 0 \<and> dl_accepted s = [] \<and>
     db_inv (da_db (dl_dash s)) \<and> mset (map fst (dl_answers s)) = mset (dl_accepted s)"
proof -
  let ?o = "\<lambda>r s. (s, [], Returned)" and ?d = "demo_state one_role"
  note rs = dash_reach.step
  have "dash_reach demo_dash ?o ?d ((dash_boot ?d)\<lparr>dl_phase := Signalled\<rparr>)"
    by (rule rs [OF dash_reach.boot dash_step.signal]) (simp add: dash_boot_def)
  from rs [OF this dash_step.shutdown] have "dash_reach demo_dash ?o ?d ((dash_boot ?d)\<lparr>dl_phase := ShuttingDown, dl_listening := False\<rparr>)" by simp
  from rs [OF this dash_step.drained] have r: "dash_reach demo_dash ?o ?d ((dash_boot ?d)\<lparr>dl_phase := Exited 0, dl_listening := False\<rparr>)"
    by (simp add: dash_boot_def)
  have "db_inv (da_db ?d)" "reads_only ?o" by (simp_all add: reads_only_def demo_state_def one_role_def empty_db_def db_inv_defs)
  from dashboard_life [OF r this] r show ?thesis
    by (intro exI [of _ "(dash_boot ?d)\<lparr>dl_phase := Exited 0, dl_listening := False\<rparr>"]) (simp add: dash_boot_def)
qed

end
