(* ===== verification/AuditTrail.thy ===== *)
theory AuditTrail
  imports Rbac
begin

text \<open>
  \<open>internal/audit\<close>: the entry of a request, the buffered channel between the handlers
  and the goroutine that inserts entries, and the middleware. The channel and the goroutine
  are one state; \<open>InsertAuditLog\<close> is the argument \<open>ins\<close>. \<open>Logger\<close> is called
  \<open>AuditLogger\<close> here, the middleware package has a function of that name.
\<close>

section \<open>Channels\<close>

text \<open>A buffered Go channel. A non-blocking send finds room, or none, or panics on a closed
  channel; a receive gets the oldest value.\<close>

record 'a channel =
  ch_buf :: "'a list"
  ch_cap :: nat
  ch_closed :: bool

datatype send_result = Sent | Full | SendPanic

definition make_chan :: "nat \<Rightarrow> 'a channel" where
  "make_chan n = \<lparr>ch_buf = [], ch_cap = n, ch_closed = False\<rparr>"

definition try_send :: "'a \<Rightarrow> 'a channel \<Rightarrow> send_result \<times> 'a channel" where
  "try_send x c =
     (if ch_closed c then (SendPanic, c)
      else if length (ch_buf c) < ch_cap c then (Sent, c\<lparr>ch_buf := ch_buf c @ [x]\<rparr>)
      else (Full, c))"

definition chan_recv :: "'a channel \<Rightarrow> ('a \<times> 'a channel) option" where
  "chan_recv c = (case ch_buf c of [] \<Rightarrow> None | x # xs \<Rightarrow> Some (x, c\<lparr>ch_buf := xs\<rparr>))"

definition close_chan :: "'a channel \<Rightarrow> 'a channel" where
  "close_chan c = c\<lparr>ch_closed := True\<rparr>"

text \<open>What a client of a channel relies on.\<close>

locale channel_contract =
  fixes send :: "'a \<Rightarrow> 'c \<Rightarrow> send_result \<times> 'c" and recv :: "'c \<Rightarrow> ('a \<times> 'c) option"
    and contents :: "'c \<Rightarrow> 'a list" and cap :: "'c \<Rightarrow> nat"
  assumes send_Sent: "send x c = (Sent, c') \<Longrightarrow> contents c' = contents c @ [x] \<and> length (contents c) < cap c"
    and send_else: "send x c = (r, c') \<Longrightarrow> r \<noteq> Sent \<Longrightarrow> contents c' = contents c"
    and send_cap: "cap (snd (send x c)) = cap c"
    and recv_Some: "recv c = Some (x, c') \<Longrightarrow> contents c = x # contents c' \<and> cap c' = cap c"
    and recv_None: "recv c = None \<longleftrightarrow> contents c = []"
begin

text \<open>Whatever is sent comes out once, in order: what was taken out, then what is inside.\<close>

lemma send_fifo:
  "send x c = (r, c') \<Longrightarrow> out @ contents c' = (out @ contents c) @ (if r = Sent then [x] else [])"
  using send_Sent [of x c c'] send_else [of x c r c'] by (cases "r = Sent") auto

lemma recv_fifo: "recv c = Some (x, c') \<Longrightarrow> (out @ [x]) @ contents c' = out @ contents c"
  using recv_Some by fastforce

lemma send_bounded: "length (contents c) \<le> cap c \<Longrightarrow> length (contents (snd (send x c))) \<le> cap c"
  using send_Sent [of x c "snd (send x c)"] send_else [of x c "fst (send x c)" "snd (send x c)"]
  by (cases "fst (send x c) = Sent") (auto simp: prod_eq_iff)

lemma recv_bounded: "recv c = Some (x, c') \<Longrightarrow> length (contents c) \<le> cap c \<Longrightarrow> length (contents c') \<le> cap c'"
  using recv_Some by fastforce

end

interpretation ch: channel_contract try_send chan_recv ch_buf ch_cap
  by unfold_locales (auto simp: try_send_def chan_recv_def split: if_splits list.splits)

section \<open>The logger\<close>

record Entry =
  en_ApiKeyID :: uuid
  en_Action :: string
  en_Resource :: string
  en_StatusCode :: int
  en_LatencyMs :: int
  en_IP :: string
  en_RequestBody :: string
  en_ResponseBody :: string
  en_ToolName :: string

definition entry_params :: "Entry \<Rightarrow> InsertAuditLogParams" where
  "entry_params e = \<lparr>ia_ApiKeyID = en_ApiKeyID e, ia_Action = en_Action e, ia_Resource = en_Resource e,
     ia_StatusCode = int32 (en_StatusCode e), ia_LatencyMs = en_LatencyMs e, ia_Ip = en_IP e,
     ia_RequestBody = en_RequestBody e, ia_ResponseBody = en_ResponseBody e, ia_ToolName = en_ToolName e\<rparr>"

text \<open>The goroutine \<open>process\<close> is at its receive, in an insertion, or done.\<close>

datatype worker = Receiving | Inserting Entry | Exited

record AuditLogger =
  au_entries :: "Entry channel"
  au_dropped :: int
  au_worker :: worker

definition NewAuditLogger :: "nat \<Rightarrow> AuditLogger" where
  "NewAuditLogger bufferSize = \<lparr>au_entries = make_chan bufferSize, au_dropped = 0, au_worker = Receiving\<rparr>"

text \<open>
  \<open>Log\<close>: \<open>Some True\<close> when the entry was taken, \<open>Some False\<close> when it was dropped, \<open>None\<close>
  for the panic of a send on a closed channel. With an empty buffer of size 0 a receiver
  that waits takes the value.
\<close>

definition Log :: "Entry \<Rightarrow> AuditLogger \<Rightarrow> bool option \<times> AuditLogger" where
  "Log e l = (case try_send e (au_entries l) of
      (Sent, c) \<Rightarrow> (Some True, l\<lparr>au_entries := c\<rparr>)
    | (SendPanic, c) \<Rightarrow> (None, l)
    | (Full, c) \<Rightarrow>
        if ch_buf (au_entries l) = [] \<and> au_worker l = Receiving
        then (Some True, l\<lparr>au_worker := Inserting e\<rparr>)
        else (Some False, l\<lparr>au_dropped := int64 (au_dropped l + 1)\<rparr>))"

definition Dropped :: "AuditLogger \<Rightarrow> int" where
  "Dropped l = au_dropped l"

definition Close_begin :: "AuditLogger \<Rightarrow> AuditLogger" where
  "Close_begin l = l\<lparr>au_entries := close_chan (au_entries l)\<rparr>"

text \<open>\<open>Close\<close> returns once the goroutine is done.\<close>

definition Close_returns :: "AuditLogger \<Rightarrow> bool" where
  "Close_returns l \<longleftrightarrow> au_worker l = Exited"

text \<open>One step of \<open>process\<close>: receive, or insert and log an error, or leave the loop; \<open>None\<close>
  when it is blocked or done.\<close>

definition process_step :: "(InsertAuditLogParams \<Rightarrow> 'db \<Rightarrow> (db_error + unit) \<times> 'db) \<Rightarrow> AuditLogger \<times> 'db \<Rightarrow> (AuditLogger \<times> 'db) option" where
  "process_step ins s = (case s of (l, db) \<Rightarrow>
     (case au_worker l of
        Receiving \<Rightarrow>
          (case chan_recv (au_entries l) of
             Some (e, c) \<Rightarrow> Some (l\<lparr>au_entries := c, au_worker := Inserting e\<rparr>, db)
           | None \<Rightarrow> if ch_closed (au_entries l) then Some (l\<lparr>au_worker := Exited\<rparr>, db) else None)
      | Inserting e \<Rightarrow> Some (l\<lparr>au_worker := Receiving\<rparr>, snd (ins (entry_params e) db))
      | Exited \<Rightarrow> None))"

section \<open>The middleware\<close>

definition maxBodyCapture :: nat where "maxBodyCapture = 64 * 1024"

record responseCapture =
  rs_status :: int
  rs_body :: string

text \<open>The calls the wrapped writer sees, as its two methods handle them.\<close>

definition capture_ev :: "responseCapture \<Rightarrow> ev \<Rightarrow> responseCapture" where
  "capture_ev rc e = (case e of
      WriteHeader c \<Rightarrow> rc\<lparr>rs_status := c\<rparr>
    | Write b \<Rightarrow>
        if length (rs_body rc) < maxBodyCapture
        then (let remaining = maxBodyCapture - length (rs_body rc)
              in if remaining < length b then rc\<lparr>rs_body := rs_body rc @ take remaining b\<rparr>
                 else rc\<lparr>rs_body := rs_body rc @ b\<rparr>)
        else rc
    | _ \<Rightarrow> rc)"

definition capture :: "ev list \<Rightarrow> responseCapture" where
  "capture es = foldl capture_ev \<lparr>rs_status = 200, rs_body = []\<rparr> es"

definition audit_readAndRestore :: "request \<Rightarrow> string \<times> request" where
  "audit_readAndRestore r = read_limited maxBodyCapture r"

definition str_Cut :: "string \<Rightarrow> char \<Rightarrow> string option" where
  "str_Cut s c = map_option (\<lambda>i. take i s) (IndexByte s c)"

definition clientIP :: "request \<Rightarrow> string" where
  "clientIP r =
     (let xff = header_Get r ''X-Forwarded-For''
      in if xff \<noteq> []
         then (case IndexByte xff (CHR '','') of
             Some i \<Rightarrow> if 0 < i then TrimSpace (take i xff) else TrimSpace xff
           | None \<Rightarrow> TrimSpace xff)
         else (case str_Cut (rq_RemoteAddr r) (CHR '':'') of Some host \<Rightarrow> host | None \<Rightarrow> rq_RemoteAddr r))"

definition extractToolName :: "string \<Rightarrow> string" where
  "extractToolName body =
     (case Unmarshal call_fields body \<lparr>rc_Method = [], rc_Name = []\<rparr> of
        None \<Rightarrow> []
      | Some req \<Rightarrow> if rc_Method req = ''tools/call'' \<and> rc_Name req \<noteq> [] then rc_Name req else rc_Method req)"

definition audit_entry :: "request \<Rightarrow> string \<Rightarrow> responseCapture \<Rightarrow> duration \<Rightarrow> Entry" where
  "audit_entry r reqBody rc since =
     \<lparr>en_ApiKeyID = (case APIKeyFromContext r of Some key \<Rightarrow> ak_ID key | None \<Rightarrow> uuid_Nil),
      en_Action = rq_Method r, en_Resource = rq_Path r, en_StatusCode = rs_status rc,
      en_LatencyMs = since sdiv Millisecond, en_IP = clientIP r, en_RequestBody = reqBody,
      en_ResponseBody = rs_body rc, en_ToolName = extractToolName reqBody\<rparr>"

text \<open>\<open>now\<close> reads the clock, \<open>log\<close> is \<open>l.Log\<close>, \<open>None\<close> when it panics. A panic in
  \<open>next\<close> leaves the middleware before the entry is made.\<close>

definition audit_Middleware :: "('s \<Rightarrow> time \<times> 's) \<Rightarrow> (Entry \<Rightarrow> 's \<Rightarrow> bool option \<times> 's) \<Rightarrow> 's middleware" where
  "audit_Middleware now log next r s =
     (let (start, s) = now s;
          (reqBody, r) = audit_readAndRestore r;
          (s, es, f) = next r s
      in (case f of
            Panicked \<Rightarrow> (s, es, Panicked)
          | Returned \<Rightarrow>
              (let (t, s) = now s;
                   (res, s) = log (audit_entry r reqBody (capture es) (time_Sub t start)) s
               in (s, es, if res = None then Panicked else Returned))))"

end
