(* ===== verification/RbacProps.thy ===== *)
theory RbacProps
  imports Rbac
begin

text \<open>
  The permission cache under concurrent requests and invalidations, as a step relation,
  and the properties of the access check.
\<close>

section \<open>Concurrent loads\<close>

text \<open>
  \<open>loadPermissions\<close> reads the cache, queries the database with no lock held, and reads the
  cache again under the write lock before it stores its rows. Meanwhile the rows in the
  database change and \<open>InvalidateCache\<close> runs. A request is at one of these points.
\<close>

datatype lp_pc = Idle | Querying uuid | Fetched uuid perms | Answered uuid perms
  | Failed uuid  \<comment> \<open>\<open>loadPermissions\<close> returned \<open>nil\<close> because its query failed\<close>

record lp_state =
  lp_db :: "uuid \<Rightarrow> perms"
  lp_cache :: "uuid \<Rightarrow> perms option"
  lp_pcs :: "nat \<Rightarrow> lp_pc"

definition lp_enter :: "nat \<Rightarrow> uuid \<Rightarrow> lp_state \<Rightarrow> lp_state" where
  "lp_enter t k s = s\<lparr>lp_pcs := (lp_pcs s)(t := (case lp_cache s k of Some p \<Rightarrow> Answered k p | None \<Rightarrow> Querying k))\<rparr>"

definition lp_fetch :: "nat \<Rightarrow> uuid \<Rightarrow> lp_state \<Rightarrow> lp_state" where
  "lp_fetch t k s = s\<lparr>lp_pcs := (lp_pcs s)(t := Fetched k (lp_db s k))\<rparr>"

definition lp_fail :: "nat \<Rightarrow> uuid \<Rightarrow> lp_state \<Rightarrow> lp_state" where
  "lp_fail t k s = s\<lparr>lp_pcs := (lp_pcs s)(t := Failed k)\<rparr>"

definition lp_store :: "nat \<Rightarrow> uuid \<Rightarrow> perms \<Rightarrow> lp_state \<Rightarrow> lp_state" where
  "lp_store t k p s = (case lp_cache s k of
      Some q \<Rightarrow> s\<lparr>lp_pcs := (lp_pcs s)(t := Answered k q)\<rparr>
    | None \<Rightarrow> s\<lparr>lp_cache := (lp_cache s)(k \<mapsto> p), lp_pcs := (lp_pcs s)(t := Answered k p)\<rparr>)"

definition lp_invalidate :: "uuid \<Rightarrow> lp_state \<Rightarrow> lp_state" where
  "lp_invalidate k s = s\<lparr>lp_cache := (lp_cache s)(k := None)\<rparr>"

definition lp_change :: "uuid \<Rightarrow> perms \<Rightarrow> lp_state \<Rightarrow> lp_state" where
  "lp_change k p s = s\<lparr>lp_db := (lp_db s)(k := p)\<rparr>"

inductive lp_request :: "lp_state \<Rightarrow> lp_state \<Rightarrow> bool" where
  enter: "lp_pcs s t = Idle \<Longrightarrow> lp_request s (lp_enter t k s)"
| fetch: "lp_pcs s t = Querying k \<Longrightarrow> lp_request s (lp_fetch t k s)"
| fail: "lp_pcs s t = Querying k \<Longrightarrow> lp_request s (lp_fail t k s)"
| store: "lp_pcs s t = Fetched k p \<Longrightarrow> lp_request s (lp_store t k p s)"

inductive lp_step :: "lp_state \<Rightarrow> lp_state \<Rightarrow> bool" where
  request: "lp_request s s' \<Longrightarrow> lp_step s s'"
| change: "lp_step s (lp_change k p s)"
| invalidate: "lp_step s (lp_invalidate k s)"

inductive_cases lp_requestE: "lp_request s s'"
inductive_cases lp_stepE: "lp_step s s'"

inductive lp_reach :: "(uuid \<Rightarrow> perms) \<Rightarrow> lp_state \<Rightarrow> bool" for db0 :: "uuid \<Rightarrow> perms" where
  start: "lp_reach db0 \<lparr>lp_db = db0, lp_cache = (\<lambda>_. None), lp_pcs = (\<lambda>_. Idle)\<rparr>"
| step: "lp_reach db0 s \<Longrightarrow> lp_step s s' \<Longrightarrow> lp_reach db0 s'"

text \<open>Runs in which nobody changes the rows.\<close>

inductive lp_quiet :: "(uuid \<Rightarrow> perms) \<Rightarrow> lp_state \<Rightarrow> bool" for db0 :: "uuid \<Rightarrow> perms" where
  quiet_start: "lp_quiet db0 \<lparr>lp_db = db0, lp_cache = (\<lambda>_. None), lp_pcs = (\<lambda>_. Idle)\<rparr>"
| quiet_request: "lp_quiet db0 s \<Longrightarrow> lp_request s s' \<Longrightarrow> lp_quiet db0 s'"
| quiet_invalidate: "lp_quiet db0 s \<Longrightarrow> lp_quiet db0 (lp_invalidate k s)"

definition lp_fresh :: "(uuid \<Rightarrow> perms) \<Rightarrow> lp_state \<Rightarrow> bool" where
  "lp_fresh db0 s \<longleftrightarrow> lp_db s = db0 \<and> (\<forall>k p. lp_cache s k = Some p \<longrightarrow> p = db0 k) \<and>
     (\<forall>t k p. lp_pcs s t = Fetched k p \<longrightarrow> p = db0 k) \<and>
     (\<forall>t k p. lp_pcs s t = Answered k p \<longrightarrow> p = db0 k)"

lemma lp_request_fresh: "lp_request s s' \<Longrightarrow> lp_fresh db0 s \<Longrightarrow> lp_fresh db0 s'"
  by (cases rule: lp_requestE, assumption)
    (auto simp: lp_fresh_def lp_enter_def lp_fetch_def lp_fail_def lp_store_def split: option.splits if_splits)

lemma lp_quiet_fresh: "lp_quiet db0 s \<Longrightarrow> lp_fresh db0 s"
proof (induction rule: lp_quiet.induct)
  case quiet_start
  then show ?case by (simp add: lp_fresh_def)
next
  case (quiet_request s s')
  then show ?case by (blast intro: lp_request_fresh)
next
  case (quiet_invalidate s k)
  then show ?case by (auto simp: lp_fresh_def lp_invalidate_def)
qed

section \<open>Properties\<close>

text \<open>C16: The matcher accepts exactly the language of the pattern, in which a star
  stands for any bytes and every other byte for itself.\<close>

theorem MatchPattern_glob: "MatchPattern p v \<longleftrightarrow> glob p v"
  using match_sound match_complete by (auto simp: MatchPattern_def)

text \<open>A pattern that ends in its only star grants exactly the resources that start
  with what precedes the star.\<close>

theorem MatchPattern_prefix:
  assumes "STAR \<notin> set p"
  shows "MatchPattern (p @ [STAR]) v \<longleftrightarrow> prefix p v"
  unfolding MatchPattern_def by (rule match_prefix [OF assms])

lemma MatchPattern_prefix_witness:
  "MatchPattern ''tool:*'' ''tool:delete'' \<and> \<not> MatchPattern ''tool:*'' ''db:x''"
  using MatchPattern_prefix [of "''tool:''" "''tool:delete''"] MatchPattern_prefix [of "''tool:''" "''db:x''"] by simp

definition cache_agrees :: "perm_loader \<Rightarrow> Service \<Rightarrow> bool" where
  "cache_agrees loader s \<longleftrightarrow> (\<forall>k p. cache s k = Some p \<longrightarrow> loader k = Inr p)"

lemma IsAllowed_agrees: "cache_agrees loader s \<Longrightarrow> cache_agrees loader (snd (IsAllowed loader k res act s))"
  by (auto simp: cache_agrees_def IsAllowed_def loadPermissions_def Let_def split: option.splits sum.splits if_splits)

lemma GetPermissionsByKeyID_set:
  assumes "GetPermissionsByKeyID k db = Some ps"
  shows "ps \<noteq> []" and "q \<in> set ps \<longleftrightarrow> (\<exists>p a. p \<in> set (permissions db) \<and> a \<in> set (api_key_roles db) \<and>
    akr_RoleID a = pm_RoleID p \<and> akr_ApiKeyID a = k \<and> q = \<lparr>pr_Resource = pm_Resource p, pr_Action = pm_Action p\<rparr>)"
proof -
  have sc: "scan_rows xs = Some zs \<Longrightarrow> zs = xs \<and> zs \<noteq> []" for xs zs :: "PermissionRow list"
    by (auto simp: scan_rows_def split: if_splits)
  note e = sc [OF assms [unfolded GetPermissionsByKeyID_def]]
  then show "ps \<noteq> []" by blast
  have c: "x \<in> set (concat (map (\<lambda>p. concat (map (\<lambda>a. if P p a then [f p] else []) as)) bs)) \<longleftrightarrow>
    (\<exists>p a. p \<in> set bs \<and> a \<in> set as \<and> P p a \<and> x = f p)" for x P f as bs
    by (induction bs) (auto split: if_splits)
  show "q \<in> set ps \<longleftrightarrow> (\<exists>p a. p \<in> set (permissions db) \<and> a \<in> set (api_key_roles db) \<and>
    akr_RoleID a = pm_RoleID p \<and> akr_ApiKeyID a = k \<and> q = \<lparr>pr_Resource = pm_Resource p, pr_Action = pm_Action p\<rparr>)"
    using e by (simp only: c conj_assoc)
qed

lemma GetPermissionsByKeyID_None:
  assumes "GetPermissionsByKeyID k db = None" and "p \<in> set (permissions db)" and "a \<in> set (api_key_roles db)"
    and "akr_RoleID a = pm_RoleID p" and "akr_ApiKeyID a = k"
  shows False
  using assms by (auto simp: GetPermissionsByKeyID_def scan_rows_def split: if_splits)

lemma IsAllowed_db:
  assumes "loader = (\<lambda>k. Inr (GetPermissionsByKeyID k db))" and "cache_agrees loader s"
  shows "fst (IsAllowed loader k res act s) \<longleftrightarrow>
      (\<nexists>p a. p \<in> set (permissions db) \<and> a \<in> set (api_key_roles db) \<and> akr_RoleID a = pm_RoleID p \<and> akr_ApiKeyID a = k) \<or>
      (\<exists>p a. p \<in> set (permissions db) \<and> a \<in> set (api_key_roles db) \<and> akr_RoleID a = pm_RoleID p \<and> akr_ApiKeyID a = k \<and>
         MatchPattern (pm_Resource p) res \<and> MatchPattern (pm_Action p) act)"
proof -
  have "fst (IsAllowed loader k res act s) = permits (GetPermissionsByKeyID k db) res act"
    using assms by (auto simp: IsAllowed_def loadPermissions_def cache_agrees_def split: option.splits)
  also have "\<dots> \<longleftrightarrow>
      (\<nexists>p a. p \<in> set (permissions db) \<and> a \<in> set (api_key_roles db) \<and> akr_RoleID a = pm_RoleID p \<and> akr_ApiKeyID a = k) \<or>
      (\<exists>p a. p \<in> set (permissions db) \<and> a \<in> set (api_key_roles db) \<and> akr_RoleID a = pm_RoleID p \<and> akr_ApiKeyID a = k \<and>
         MatchPattern (pm_Resource p) res \<and> MatchPattern (pm_Action p) act)"
  proof (cases "GetPermissionsByKeyID k db")
    case None
    with GetPermissionsByKeyID_None [OF None] show ?thesis by (auto simp: permits_def)
  next
    case (Some ps)
    with GetPermissionsByKeyID_set [OF Some] show ?thesis unfolding Some permits_Some by (metis PermissionRow.select_convs(1,2) list.set_intros(1) neq_Nil_conv)
  qed
  finally show "fst (IsAllowed loader k res act s) \<longleftrightarrow>
      (\<nexists>p a. p \<in> set (permissions db) \<and> a \<in> set (api_key_roles db) \<and> akr_RoleID a = pm_RoleID p \<and> akr_ApiKeyID a = k) \<or>
      (\<exists>p a. p \<in> set (permissions db) \<and> a \<in> set (api_key_roles db) \<and> akr_RoleID a = pm_RoleID p \<and> akr_ApiKeyID a = k \<and>
         MatchPattern (pm_Resource p) res \<and> MatchPattern (pm_Action p) act)" .
qed

text \<open>C14: While the cache agrees with the database, a key may use a resource exactly when
  none of its roles carries a permission, or one of them carries a permission whose
  patterns match the resource and the action. The check keeps the agreement.\<close>

theorem IsAllowed_iff:
  assumes "loader = (\<lambda>k. Inr (GetPermissionsByKeyID k db))" and "cache_agrees loader s"
  shows "(fst (IsAllowed loader k res act s) \<longleftrightarrow>
      ((\<nexists>p a. p \<in> set (permissions db) \<and> a \<in> set (api_key_roles db) \<and> akr_RoleID a = pm_RoleID p \<and> akr_ApiKeyID a = k) \<or>
       (\<exists>p a. p \<in> set (permissions db) \<and> a \<in> set (api_key_roles db) \<and> akr_RoleID a = pm_RoleID p \<and> akr_ApiKeyID a = k \<and>
         MatchPattern (pm_Resource p) res \<and> MatchPattern (pm_Action p) act))) \<and>
    cache_agrees loader (snd (IsAllowed loader k res act s))"
  using IsAllowed_db [OF assms] IsAllowed_agrees [OF assms(2)] by blast

definition demo_db :: database where
  "demo_db = empty_db\<lparr>permissions := [\<lparr>pm_ID = 1, pm_RoleID = 2, pm_Resource = ''tool:*'', pm_Action = ''execute''\<rparr>],
     api_key_roles := [\<lparr>akr_ApiKeyID = 3, akr_RoleID = 2, akr_AssignedAt = 0\<rparr>]\<rparr>"

lemma IsAllowed_iff_witness:
  "fst (IsAllowed (\<lambda>k. Inr (GetPermissionsByKeyID k demo_db)) 3 ''tool:x'' ''execute'' NewService) \<and>
   cache_agrees (\<lambda>k. Inr (GetPermissionsByKeyID k demo_db))
     (snd (IsAllowed (\<lambda>k. Inr (GetPermissionsByKeyID k demo_db)) 3 ''tool:x'' ''execute'' NewService))"
proof -
  have a: "cache_agrees (\<lambda>k. Inr (GetPermissionsByKeyID k demo_db)) NewService"
    by (simp add: cache_agrees_def NewService_def)
  have m: "MatchPattern ''tool:*'' ''tool:x''" "MatchPattern ''execute'' ''execute''"
    by (simp_all add: MatchPattern_def)
  show ?thesis
    using IsAllowed_iff [OF refl a, of 3 "''tool:x''" "''execute''"] m by (simp add: demo_db_def)
qed

definition tool_call :: "string \<Rightarrow> (string \<times> json) list \<Rightarrow> json" where
  "tool_call n args = JObj [(''jsonrpc'', JStr ''2.0''), (''id'', JNum ''1''), (''method'', JStr ''tools/call''),
     (''params'', JObj [(''name'', JStr n), (''arguments'', JObj args)])]"

lemma ascii_ok [simp]: "is_ascii s \<Longrightarrow> valid_utf8 s"
  by (rule valid_utf8_ascii)

lemma tool_call_ok: "valid_utf8 n \<Longrightarrow> json_ok (JObj args) \<Longrightarrow> json_ok (tool_call n args)"
  by (auto simp: tool_call_def lex_num_def lex_int_def lex_sign_def lex_frac_def lex_exp_def is_ascii_def is_digit_def)

lemma call_keys:
  "\<not> key_is ''method'' ''jsonrpc''" "\<not> key_is ''params'' ''jsonrpc''" "\<not> key_is ''method'' ''id''" "\<not> key_is ''params'' ''id''"
  "key_is ''method'' ''method''" "\<not> key_is ''method'' ''params''" "key_is ''params'' ''params''"
  "key_is ''name'' ''name''" "\<not> key_is ''name'' ''arguments''"
  by (simp_all add: key_is_def byte_in_def)

text \<open>Every well-formed call of a named tool, with any arguments, is checked
  against the resource of that tool and the action \<open>execute\<close>.\<close>

theorem extract_tool_call:
  assumes "valid_utf8 n" and "n \<noteq> []" and "json_ok (JObj args)" and "json_depth (tool_call n args) \<le> maxNestingDepth"
  shows "extractResourceAction (json_print (tool_call n args)) = (''tool:'' @ n, ''execute'')"
  using assms(2) json_roundtrip [OF tool_call_ok [OF assms(1,3)] assms(4)]
  by (simp add: extractResourceAction_def Unmarshal_def tool_call_def into_struct_def call_fields_def name_fields_def
      call_keys into_string_def)

lemma extract_tool_call_witness:
  "extractResourceAction (json_print (tool_call ''rm'' [(''path'', JStr ''/'')])) = (''tool:rm'', ''execute'')"
  using extract_tool_call [of "''rm''" "[(''path'', JStr ''/'')]"]
  by (simp add: tool_call_def is_ascii_def maxNestingDepth_def)

text \<open>The guard denies a request only when the key is known, the body calls a tool and
  the key is not allowed to use it; the denial is a 403 with the JSON-RPC error -32001.\<close>

theorem rbac_denies_only:
  assumes "rbac_guard loader r s = (s', Reject es)"
  shows "\<exists>key n. rq_APIKey r = Some key \<and> n \<noteq> [] \<and>
      extractResourceAction (fst (readAndRestore r)) = (''tool:'' @ n, ''execute'') \<and>
      \<not> fst (IsAllowed loader (ak_ID key) (''tool:'' @ n) ''execute'' s) \<and>
      final_status es = 403 \<and>
      Unmarshal response_fields (rp_body (respond es)) None = Some (Some \<lparr>re_code = - 32001, re_message = ''permission denied''\<rparr>)"
proof -
  obtain key res act where a: "rq_APIKey r = Some key" "extractResourceAction (fst (readAndRestore r)) = (res, act)" "res \<noteq> []"
    "IsAllowed loader (ak_ID key) res act s = (False, s')" "es = deny_json 403 (- 32001) ''permission denied''"
    using rbac_guard_Reject [OF assms] by blast
  obtain n where n: "n \<noteq> []" "res = ''tool:'' @ n" "act = ''execute''"
    using a(2,3) by (auto simp: extractResourceAction_def split: option.splits if_splits)
  have "Unmarshal response_fields (json_rpc_error (- 32001) ''permission denied'') None
      = Some (Some \<lparr>re_code = - 32001, re_message = ''permission denied''\<rparr>)"
    by (rule rpc_error_read_back) (simp_all add: is_ascii_def in_int64_def)
  with a n show ?thesis by (auto simp: respond_deny)
qed

definition demo_key :: ApiKey where
  "demo_key = \<lparr>ak_ID = 3, ak_Name = ''k'', ak_KeyHash = [], ak_KeyPrefix = [], ak_ExpiresAt = None, ak_Active = True,
     ak_CreatedAt = 0, ak_UpdatedAt = 0\<rparr>"

definition demo_request :: "string \<Rightarrow> request" where
  "demo_request body = \<lparr>rq_Method = ''POST'', rq_Path = ''/mcp'', rq_RawQuery = [], rq_Header = (\<lambda>_. []), rq_Body = Some \<lparr>bd_data = body, bd_fails = False\<rparr>,
     rq_RemoteAddr = ''10.0.0.1:9'', rq_TLS = False, rq_APIKey = Some demo_key, rq_RequestID = None\<rparr>"

lemma call_depth: "json_depth (tool_call n []) \<le> maxNestingDepth"
  by (simp add: tool_call_def maxNestingDepth_def)

lemma rm_call:
  "readAndRestore (demo_request (json_print (tool_call ''rm'' []))) = (json_print (tool_call ''rm'' []), demo_request (json_print (tool_call ''rm'' [])))"
  "extractResourceAction (json_print (tool_call ''rm'' [])) = (''tool:rm'', ''execute'')"
  "length (json_print (tool_call ''rm'' [])) \<le> maxBodyRead"
proof -
  show "extractResourceAction (json_print (tool_call ''rm'' [])) = (''tool:rm'', ''execute'')"
    using extract_tool_call [of "''rm''" "[]"] by (simp add: is_ascii_def call_depth)
  show l: "length (json_print (tool_call ''rm'' [])) \<le> maxBodyRead"
    by (simp add: tool_call_def json_quote_def quote_body.simps quote_step_def byte_in_def maxBodyRead_def)
  then show "readAndRestore (demo_request (json_print (tool_call ''rm'' []))) = (json_print (tool_call ''rm'' []), demo_request (json_print (tool_call ''rm'' [])))"
    by (simp add: readAndRestore_def read_limited_def demo_request_def)
qed

lemma rbac_denies_only_witness:
  "\<exists>s' es. rbac_guard (\<lambda>k. Inr (Some [])) (demo_request (json_print (tool_call ''rm'' []))) NewService = (s', Reject es) \<and>
     final_status es = 403"
proof -
  let ?body = "json_print (tool_call ''rm'' [])"
  note e = rm_call(2) and b = rm_call(1)
  obtain s' es where g: "rbac_guard (\<lambda>k. Inr (Some [])) (demo_request ?body) NewService = (s', Reject es)"
    using b e by (auto simp: rbac_guard_def APIKeyFromContext_def demo_request_def IsAllowed_def loadPermissions_def
        NewService_def permits_def)
  from rbac_denies_only [OF g] g show ?thesis by blast
qed

text \<open>A body that is not one JSON value, or of which the first 64 KiB are not, passes the
  guard unchecked, whatever the key may do.\<close>

theorem rbac_fails_open:
  assumes "json_parse (fst (readAndRestore r)) = None"
  shows "\<exists>r'. rbac_guard loader r s = (s, Pass r')"
  using assms
  by (auto simp: rbac_guard_def extractResourceAction_def Unmarshal_def Let_def split: option.splits prod.splits)

lemma json_parse_Nil: "json_parse [] = None"
  by (simp add: json_parse_def lex.simps)

lemma rbac_fails_open_witness:
  "\<exists>r'. rbac_guard (\<lambda>k. Inr (Some [])) (demo_request []) NewService = (NewService, Pass r')"
  using rbac_fails_open [of "demo_request []"]
  by (simp add: demo_request_def readAndRestore_def read_limited_def json_parse_Nil)




end
