(* ===== verification/AuditProps.thy ===== *)
theory AuditProps
  imports AuditTrail RbacProps
begin

text \<open>
  The audit logger as a system of handlers, one inserting goroutine and a closing main
  function: no accepted entry is lost, duplicated or reordered, closing drains the buffer
  and returns; and what an entry says of its request.
\<close>

section \<open>The system\<close>

record 'db audit_sys =
  as_log :: AuditLogger
  as_db :: 'db
  as_taken :: "Entry list"       \<comment> \<open>entries for which \<open>Log\<close> returned true\<close>
  as_refused :: nat              \<comment> \<open>calls that returned false\<close>
  as_inserted :: "Entry list"    \<comment> \<open>entries whose insertion was tried\<close>

definition sys_log :: "Entry \<Rightarrow> 'db audit_sys \<Rightarrow> 'db audit_sys" where
  "sys_log e s = (case Log e (as_log s) of
      (Some True, l) \<Rightarrow> s\<lparr>as_log := l, as_taken := as_taken s @ [e]\<rparr>
    | (Some False, l) \<Rightarrow> s\<lparr>as_log := l, as_refused := Suc (as_refused s)\<rparr>
    | (None, l) \<Rightarrow> s\<lparr>as_log := l\<rparr>)"

definition in_flight :: "AuditLogger \<Rightarrow> Entry list" where
  "in_flight l = (case au_worker l of Inserting e \<Rightarrow> [e] | _ \<Rightarrow> [])"

inductive audit_step :: "(InsertAuditLogParams \<Rightarrow> 'db \<Rightarrow> (db_error + unit) \<times> 'db) \<Rightarrow> 'db audit_sys \<Rightarrow> 'db audit_sys \<Rightarrow> bool"
  for ins :: "InsertAuditLogParams \<Rightarrow> 'db \<Rightarrow> (db_error + unit) \<times> 'db" where
  log: "audit_step ins s (sys_log e s)"
| work: "process_step ins (as_log s, as_db s) = Some (l, db) \<Longrightarrow>
    audit_step ins s (s\<lparr>as_log := l, as_db := db, as_inserted := as_inserted s @ in_flight (as_log s)\<rparr>)"
| close: "audit_step ins s (s\<lparr>as_log := Close_begin (as_log s)\<rparr>)"

inductive_cases audit_stepE: "audit_step ins s s'"

inductive audit_reach :: "(InsertAuditLogParams \<Rightarrow> 'db \<Rightarrow> (db_error + unit) \<times> 'db) \<Rightarrow> nat \<Rightarrow> 'db \<Rightarrow> 'db audit_sys \<Rightarrow> bool"
  for ins :: "InsertAuditLogParams \<Rightarrow> 'db \<Rightarrow> (db_error + unit) \<times> 'db" and n :: nat and db0 :: 'db where
  start: "audit_reach ins n db0 \<lparr>as_log = NewAuditLogger n, as_db = db0, as_taken = [], as_refused = 0, as_inserted = []\<rparr>"
| step: "audit_reach ins n db0 s \<Longrightarrow> audit_step ins s s' \<Longrightarrow> audit_reach ins n db0 s'"

definition insert_all :: "(InsertAuditLogParams \<Rightarrow> 'db \<Rightarrow> (db_error + unit) \<times> 'db) \<Rightarrow> Entry list \<Rightarrow> 'db \<Rightarrow> 'db" where
  "insert_all ins es db = foldl (\<lambda>db e. snd (ins (entry_params e) db)) db es"

lemma insert_all_simps [simp]:
  "insert_all ins [] db = db"
  "insert_all ins (es @ [e]) db = snd (ins (entry_params e) (insert_all ins es db))"
  by (simp_all add: insert_all_def)

definition audit_inv :: "(InsertAuditLogParams \<Rightarrow> 'db \<Rightarrow> (db_error + unit) \<times> 'db) \<Rightarrow> nat \<Rightarrow> 'db \<Rightarrow> 'db audit_sys \<Rightarrow> bool" where
  "audit_inv ins n db0 s \<longleftrightarrow>
     as_taken s = as_inserted s @ in_flight (as_log s) @ ch_buf (au_entries (as_log s)) \<and>
     as_db s = insert_all ins (as_inserted s) db0 \<and>
     ch_cap (au_entries (as_log s)) = n \<and> length (ch_buf (au_entries (as_log s))) \<le> n \<and>
     au_dropped (as_log s) = int64 (int (as_refused s)) \<and>
     (au_worker (as_log s) = Exited \<longrightarrow> ch_closed (au_entries (as_log s)) \<and> ch_buf (au_entries (as_log s)) = [])"

lemma int64_Suc: "int64 (int64 x + 1) = int64 (x + 1)"
  unfolding int64_def
  using signed_take_bit_add [of 63 "signed_take_bit 63 x" 1] signed_take_bit_add [of 63 x 1] by simp

lemma sys_log_inv: "audit_inv ins n db0 s \<Longrightarrow> audit_inv ins n db0 (sys_log e s)"
  by (auto simp: audit_inv_def sys_log_def Log_def try_send_def in_flight_def int64_Suc add.commute [of 1] split: if_splits worker.splits)

lemma work_inv:
  assumes "audit_inv ins n db0 s" and "process_step ins (as_log s, as_db s) = Some (l, db)"
  shows "audit_inv ins n db0 (s\<lparr>as_log := l, as_db := db, as_inserted := as_inserted s @ in_flight (as_log s)\<rparr>)"
proof (cases "au_worker (as_log s)")
  case Receiving
  show ?thesis
  proof (cases "chan_recv (au_entries (as_log s))")
    case None
    with Receiving assms show ?thesis
      by (auto simp: audit_inv_def process_step_def in_flight_def ch.recv_None split: if_splits)
  next
    case (Some p)
    then obtain e c where p: "chan_recv (au_entries (as_log s)) = Some (e, c)" by (cases p) auto
    have "ch_buf (au_entries (as_log s)) = e # ch_buf c" "ch_cap c = ch_cap (au_entries (as_log s))"
      using ch.recv_Some [OF p] by auto
    with p Receiving assms show ?thesis by (auto simp: audit_inv_def process_step_def in_flight_def)
  qed
next
  case (Inserting e)
  with assms show ?thesis by (auto simp: audit_inv_def process_step_def in_flight_def)
next
  case Exited
  with assms show ?thesis by (simp add: process_step_def)
qed

lemma close_inv: "audit_inv ins n db0 s \<Longrightarrow> audit_inv ins n db0 (s\<lparr>as_log := Close_begin (as_log s)\<rparr>)"
  by (simp add: audit_inv_def Close_begin_def close_chan_def in_flight_def)

lemma audit_reach_inv: "audit_reach ins n db0 s \<Longrightarrow> audit_inv ins n db0 s"
proof (induction rule: audit_reach.induct)
  case start
  then show ?case by (simp add: audit_inv_def NewAuditLogger_def make_chan_def in_flight_def int64_id)
next
  case (step s s')
  from step.hyps(2) step.IH show ?case
    by (cases rule: audit_stepE) (auto intro: sys_log_inv work_inv close_inv)
qed

section \<open>Draining\<close>

fun run_worker :: "(InsertAuditLogParams \<Rightarrow> 'db \<Rightarrow> (db_error + unit) \<times> 'db) \<Rightarrow> nat \<Rightarrow> AuditLogger \<times> 'db \<Rightarrow> AuditLogger \<times> 'db" where
  "run_worker ins 0 s = s"
| "run_worker ins (Suc k) s = (case process_step ins s of None \<Rightarrow> s | Some s' \<Rightarrow> run_worker ins k s')"

definition work_left :: "AuditLogger \<Rightarrow> nat" where
  "work_left l = (case au_worker l of Exited \<Rightarrow> 0 | Receiving \<Rightarrow> 2 * length (ch_buf (au_entries l)) + 1
     | Inserting e \<Rightarrow> 2 * length (ch_buf (au_entries l)) + 2)"

lemma process_step_progress:
  assumes "ch_closed (au_entries l)" and "au_worker l \<noteq> Exited"
  obtains l' db' where "process_step ins (l, db) = Some (l', db')" and "work_left l' < work_left l" and "ch_closed (au_entries l')"
  using assms
  by (cases "au_worker l"; cases "ch_buf (au_entries l)") (auto simp: process_step_def chan_recv_def work_left_def)

lemma run_worker_exits:
  "ch_closed (au_entries l) \<Longrightarrow> work_left l \<le> k \<Longrightarrow> au_worker (fst (run_worker ins k (l, db))) = Exited"
proof (induction k arbitrary: l db)
  case 0
  then show ?case by (cases "au_worker l") (simp_all add: work_left_def)
next
  case (Suc k)
  show ?case
  proof (cases "au_worker l = Exited")
    case True
    then show ?thesis by (simp add: process_step_def)
  next
    case False
    obtain l' db' where p: "process_step ins (l, db) = Some (l', db')" and w: "work_left l' < work_left l" and c: "ch_closed (au_entries l')"
      by (rule process_step_progress [where ins = ins and db = db, OF Suc.prems(1) False])
    have "au_worker (fst (run_worker ins k (l', db'))) = Exited" using Suc.prems(2) w by (intro Suc.IH [OF c]) simp
    with p show ?thesis by simp
  qed
qed

section \<open>Captured bodies\<close>

fun written :: "ev list \<Rightarrow> string" where
  "written [] = []"
| "written (Write b # es) = b @ written es"
| "written (_ # es) = written es"

lemma capture_ev_Write: "rs_body (capture_ev rc (Write b)) = take maxBodyCapture (rs_body rc @ b) \<or> maxBodyCapture < length (rs_body rc)"
  by (auto simp: capture_ev_def Let_def)

lemma take_take_append: "take n (take n xs @ ys) = take n (xs @ ys)"
  by (cases "n \<le> length xs") simp_all

lemma capture_fold:
  "length (rs_body rc) \<le> maxBodyCapture \<Longrightarrow> rs_body (foldl capture_ev rc es) = take maxBodyCapture (rs_body rc @ written es)"
proof (induction es arbitrary: rc rule: written.induct)
  case (2 b es)
  have "rs_body (capture_ev rc (Write b)) = take maxBodyCapture (rs_body rc @ b)"
    using capture_ev_Write [of rc b] 2(2) by linarith
  moreover have "rs_body (foldl capture_ev (capture_ev rc (Write b)) es)
      = take maxBodyCapture (take maxBodyCapture (rs_body rc @ b) @ written es)"
    using 2(1) [of "capture_ev rc (Write b)"] calculation by simp
  ultimately show ?case by (simp only: foldl.simps written.simps take_take_append append_assoc)
qed (simp_all add: capture_ev_def)

lemma capture_status: "rs_status (capture es) = statusWriter_status es"
proof -
  have "rs_status (foldl capture_ev rc es) = foldl statusWriter_WriteHeader (rs_status rc) es" for rc
    by (induction es arbitrary: rc) (simp_all add: capture_ev_def statusWriter_WriteHeader_def Let_def split: ev.splits)
  then show ?thesis by (simp add: capture_def statusWriter_status_def)
qed

section \<open>Properties\<close>

definition no_db :: "InsertAuditLogParams \<Rightarrow> nat \<Rightarrow> (db_error + unit) \<times> nat" where
  "no_db p n = (Inr (), Suc n)"

definition demo_entry :: Entry where
  "demo_entry = audit_entry (demo_request []) [] \<lparr>rs_status = 200, rs_body = []\<rparr> 5"

text \<open>C13: However handlers, the inserting goroutine and the closing function interleave,
  the entries \<open>Log\<close> accepted are, in order and each once, those inserted, the one being
  inserted and those buffered; the buffer keeps its bound, and the drop counter counts the
  refused calls.\<close>

theorem audit_fifo:
  assumes "audit_reach ins n db0 s"
  shows "as_taken s = as_inserted s @ in_flight (as_log s) @ ch_buf (au_entries (as_log s)) \<and>
    as_db s = insert_all ins (as_inserted s) db0 \<and>
    length (ch_buf (au_entries (as_log s))) \<le> n \<and>
    Dropped (as_log s) = int64 (int (as_refused s))"
  using audit_reach_inv [OF assms] by (auto simp: audit_inv_def Dropped_def)

lemma audit_fifo_witness:
  "\<exists>s. audit_reach no_db 1 0 s \<and> as_taken s = [demo_entry] \<and> Dropped (as_log s) = int64 1"
proof -
  define s where "s = sys_log demo_entry (sys_log demo_entry
    \<lparr>as_log = NewAuditLogger 1, as_db = 0::nat, as_taken = [], as_refused = 0, as_inserted = []\<rparr>)"
  have r: "audit_reach no_db 1 0 s" unfolding s_def by (intro audit_reach.step [OF _ audit_step.log] audit_reach.start)
  have "as_taken s = [demo_entry]" "as_refused s = 1"
    by (simp_all add: s_def sys_log_def Log_def try_send_def NewAuditLogger_def make_chan_def)
  with audit_fifo [OF r] r show ?thesis by auto
qed

text \<open>Once the inserting goroutine is done, which is when \<open>Close\<close> returns, every entry
  that was accepted has been handed to the database, in order.\<close>

theorem close_inserts_all:
  assumes "audit_reach ins n db0 s" and "Close_returns (as_log s)"
  shows "as_inserted s = as_taken s \<and> as_db s = insert_all ins (as_taken s) db0"
  using audit_reach_inv [OF assms(1)] assms(2) by (auto simp: audit_inv_def Close_returns_def in_flight_def)

lemma close_inserts_all_witness:
  "\<exists>s. audit_reach no_db 1 0 s \<and> as_inserted s = [demo_entry] \<and> as_db s = insert_all no_db [demo_entry] 0"
proof -
  define s0 where "s0 = \<lparr>as_log = NewAuditLogger 1, as_db = 0::nat, as_taken = [], as_refused = 0, as_inserted = []\<rparr>"
  define s1 where "s1 = (sys_log demo_entry s0)\<lparr>as_log := Close_begin (as_log (sys_log demo_entry s0))\<rparr>"
  define l0 where "l0 = \<lparr>au_entries = \<lparr>ch_buf = ([] :: Entry list), ch_cap = 1, ch_closed = True\<rparr>, au_dropped = 0, au_worker = Receiving\<rparr>"
  define s2 where "s2 = s1\<lparr>as_log := l0\<lparr>au_worker := Inserting demo_entry\<rparr>, as_db := 0, as_inserted := as_inserted s1 @ in_flight (as_log s1)\<rparr>"
  define s3 where "s3 = s2\<lparr>as_log := l0, as_db := Suc 0, as_inserted := as_inserted s2 @ in_flight (as_log s2)\<rparr>"
  define s4 where "s4 = s3\<lparr>as_log := l0\<lparr>au_worker := Exited\<rparr>, as_db := Suc 0, as_inserted := as_inserted s3 @ in_flight (as_log s3)\<rparr>"
  note d = s0_def s1_def l0_def s2_def s3_def s4_def sys_log_def Log_def try_send_def NewAuditLogger_def make_chan_def
    Close_begin_def close_chan_def process_step_def chan_recv_def in_flight_def no_db_def
  have "audit_reach no_db 1 0 s1" unfolding s1_def s0_def
    by (intro audit_reach.step [OF _ audit_step.close] audit_reach.step [OF _ audit_step.log] audit_reach.start)
  then have "audit_reach no_db 1 0 s2" unfolding s2_def
    by (rule audit_reach.step [OF _ audit_step.work]) (simp add: d)
  then have "audit_reach no_db 1 0 s3" unfolding s3_def
    by (rule audit_reach.step [OF _ audit_step.work]) (simp add: d)
  then have r: "audit_reach no_db 1 0 s4" unfolding s4_def
    by (rule audit_reach.step [OF _ audit_step.work]) (simp add: d)
  have c: "Close_returns (as_log s4)" "as_taken s4 = [demo_entry]" by (simp_all add: d Close_returns_def)
  from close_inserts_all [OF r c(1)] r c(2) show ?thesis by auto
qed

text \<open>\<open>Close\<close> returns: on a closed channel the goroutine, however the insertions
  turn out, is done after at most two steps per buffered entry and two more.\<close>

theorem close_returns:
  assumes "ch_closed (au_entries l)"
  shows "Close_returns (fst (run_worker ins (2 * length (ch_buf (au_entries l)) + 2) (l, db)))"
  unfolding Close_returns_def
  by (rule run_worker_exits [OF assms]) (simp add: work_left_def split: worker.splits)

lemma close_returns_witness:
  "Close_returns (fst (run_worker no_db 2 (Close_begin (NewAuditLogger 8), 0)))"
  using close_returns [of "Close_begin (NewAuditLogger 8)" no_db 0]
  by (simp add: Close_begin_def close_chan_def NewAuditLogger_def make_chan_def numeral_2_eq_2 del: run_worker.simps)

text \<open>The audited response body is the first 64 KiB of what the handlers wrote,
  however they split it over calls, and the audited status is the last one they set.\<close>

theorem capture_spec:
  "rs_body (capture es) = take maxBodyCapture (written es) \<and> rs_status (capture es) = statusWriter_status es"
  using capture_fold [of "\<lparr>rs_status = 200, rs_body = []\<rparr>" es] capture_status [of es] by (simp add: capture_def)

text \<open>Auditing does not change the response: when the inner handler returns and the
  logger is open, the calls on the writer are those of the inner handler and exactly one entry
  is offered, for the key, the method, the path and the first 64 KiB of the body.\<close>

theorem audit_transparent:
  assumes "now = (\<lambda>s. (clock_of s, s))" and "log = (\<lambda>e s. (Some (ok e s), logged e s))"
    and "next (snd (audit_readAndRestore r)) s = (s1, es, Returned)"
  shows "audit_Middleware now log next r s =
    (logged (audit_entry (snd (audit_readAndRestore r)) (fst (audit_readAndRestore r)) (capture es)
       (time_Sub (clock_of s1) (clock_of s))) s1, es, Returned)"
  using assms by (simp add: audit_Middleware_def Let_def split_beta)

lemma audit_transparent_witness:
  "audit_Middleware (\<lambda>s. (0, s)) (\<lambda>e s. (Some True, s @ [en_StatusCode e])) (\<lambda>r s. (s, [WriteHeader 202], Returned)) (demo_request []) []
     = ([202], [WriteHeader 202], Returned)"
  using audit_transparent [of "\<lambda>s. (0, s)" "\<lambda>_. 0" "\<lambda>e s. (Some True, s @ [en_StatusCode e])" "\<lambda>_ _. True" "\<lambda>e s. s @ [en_StatusCode e]"
      "\<lambda>r s. (s, [WriteHeader 202], Returned)" "demo_request []" "[]" "[]" "[WriteHeader 202]"]
  by (simp add: audit_entry_def capture_def capture_ev_def)

text \<open>Without a proxy header the address of an IPv6 peer is recorded as an opening
  bracket: the host is cut at the first colon.\<close>

theorem clientIP_ipv6:
  assumes "header_Get r ''X-Forwarded-For'' = []" and "rq_RemoteAddr r = CHR ''['' # addr"
    and "addr = CHR '':'' # rest \<or> addr = hextet @ CHR '':'' # rest" and "CHR '':'' \<notin> set hextet"
  shows "clientIP r = CHR ''['' # (if addr = CHR '':'' # rest then [] else hextet)"
proof -
  have i: "IndexByte (h @ CHR '':'' # t) (CHR '':'') = Some (length h)" if "CHR '':'' \<notin> set h" for h t
    using that by (induction h) auto
  show ?thesis
  proof (cases "addr = CHR '':'' # rest")
    case True
    with assms show ?thesis by (simp add: clientIP_def str_Cut_def)
  next
    case False
    with assms i [OF assms(4), of rest] show ?thesis by (simp add: clientIP_def str_Cut_def)
  qed
qed

lemma clientIP_ipv6_witness:
  "clientIP ((demo_request [])\<lparr>rq_RemoteAddr := ''[2001:db8::1]:443''\<rparr>) = ''[2001''"
  using clientIP_ipv6 [of "(demo_request [])\<lparr>rq_RemoteAddr := ''[2001:db8::1]:443''\<rparr>" "''2001:db8::1]:443''" "''db8::1]:443''" "''2001''"]
  by (simp add: header_Get_def demo_request_def)

end
