(* ===== verification/Observe.thy ===== *)
theory Observe
  imports Http Float64
begin

text \<open>
  \<open>internal/metrics\<close>, \<open>internal/health\<close> and \<open>internal/admin\<close>. The Prometheus vectors
  are maps from label values, a histogram is the list of its observations; the middleware
  changes them through \<open>upd\<close>, which applies a function to the metrics in the state of the
  process. \<open>pattern\<close> is the route pattern chi matched, empty when it matched none.
\<close>

section \<open>Metrics\<close>

record Metrics =
  RequestsTotal :: "string \<times> string \<times> string \<Rightarrow> nat"
  RequestDuration :: "string \<times> string \<Rightarrow> float64 list"
  ErrorsTotal :: "string \<times> string \<times> string \<Rightarrow> nat"
  ActiveConnections :: int

definition new_metrics :: Metrics where
  "new_metrics = \<lparr>RequestsTotal = (\<lambda>_. 0), RequestDuration = (\<lambda>_. []), ErrorsTotal = (\<lambda>_. 0), ActiveConnections = 0\<rparr>"

record statusCapture =
  sc_status :: int
  sc_wroteHeader :: bool

definition statusCapture_ev :: "statusCapture \<Rightarrow> ev \<Rightarrow> statusCapture" where
  "statusCapture_ev s e = (case e of
      WriteHeader code \<Rightarrow> if \<not> sc_wroteHeader s then \<lparr>sc_status = code, sc_wroteHeader = True\<rparr> else s
    | _ \<Rightarrow> s)"

definition captured_status :: "ev list \<Rightarrow> int" where
  "captured_status es = sc_status (foldl statusCapture_ev \<lparr>sc_status = 200, sc_wroteHeader = False\<rparr> es)"

definition inc_active :: "int \<Rightarrow> Metrics \<Rightarrow> Metrics" where
  "inc_active n m = m\<lparr>ActiveConnections := ActiveConnections m + n\<rparr>"

definition record_request :: "string \<Rightarrow> string \<Rightarrow> int \<Rightarrow> float64 \<Rightarrow> Metrics \<Rightarrow> Metrics" where
  "record_request method path status duration m =
     (let l = (method, path, Itoa status);
          m = m\<lparr>RequestsTotal := (RequestsTotal m)(l := Suc (RequestsTotal m l)),
                RequestDuration := (RequestDuration m)((method, path) := RequestDuration m (method, path) @ [duration])\<rparr>
      in if 400 \<le> status then m\<lparr>ErrorsTotal := (ErrorsTotal m)(l := Suc (ErrorsTotal m l))\<rparr> else m)"

text \<open>The gauge is lowered by a deferred call, so also when \<open>next\<close> panics; the counters
  are only reached when it returns.\<close>

definition metrics_Middleware :: "('s \<Rightarrow> time \<times> 's) \<Rightarrow> ((Metrics \<Rightarrow> Metrics) \<Rightarrow> 's \<Rightarrow> 's) \<Rightarrow> (request \<Rightarrow> string) \<Rightarrow> 's middleware" where
  "metrics_Middleware now upd pattern next r s =
     (let s = upd (inc_active 1) s;
          (start, s) = now s;
          (s, es, f) = next r s
      in (case f of
            Panicked \<Rightarrow> (upd (inc_active (- 1)) s, es, Panicked)
          | Returned \<Rightarrow>
              (let (t, s) = now s;
                   path = (if pattern r = [] then ''unknown'' else pattern r);
                   s = upd (record_request (rq_Method r) path (captured_status es) (Seconds (time_Sub t start))) s
               in (upd (inc_active (- 1)) s, es, Returned))))"

section \<open>Health\<close>

text \<open>The database handle is \<open>None\<close> for nil, else whether a ping succeeds.\<close>

record Checker =
  hc_db :: "bool option"
  hc_ready :: bool

definition NewChecker :: "bool option \<Rightarrow> Checker" where
  "NewChecker db = \<lparr>hc_db = db, hc_ready = False\<rparr>"

definition SetDB :: "bool option \<Rightarrow> Checker \<Rightarrow> Checker" where
  "SetDB db c = c\<lparr>hc_db := db\<rparr>"

definition SetReady :: "bool \<Rightarrow> Checker \<Rightarrow> Checker" where
  "SetReady v c = c\<lparr>hc_ready := v\<rparr>"

definition encode_map :: "(string \<times> string) list \<Rightarrow> ev" where
  "encode_map kvs = Write (json_print (JObj (map (\<lambda>(k, v). (k, JStr v)) kvs)) @ [CHR 0x0A])"

definition Healthz :: "ev list" where
  "Healthz = [SetHeader ''Content-Type'' ''application/json'', encode_map [(''status'', ''ok'')]]"

definition Readyz :: "Checker \<Rightarrow> ev list" where
  "Readyz c = SetHeader ''Content-Type'' ''application/json'' #
     (if \<not> hc_ready c then [WriteHeader 503, encode_map [(''status'', ''not_ready'')]]
      else (case hc_db c of
          Some False \<Rightarrow> [WriteHeader 503, encode_map [(''reason'', ''database''), (''status'', ''not_ready'')]]
        | _ \<Rightarrow> [encode_map [(''status'', ''ready'')]]))"

section \<open>Admin\<close>

definition admin_health :: "bool \<Rightarrow> ev list" where
  "admin_health ping = SetHeader ''Content-Type'' ''application/json'' #
     (if ping then [encode_map [(''status'', ''ok'')]]
      else [WriteHeader 503, encode_map [(''status'', ''degraded'')]])"

section \<open>Facts\<close>

lemma captured_first:
  "foldl statusCapture_ev \<lparr>sc_status = c, sc_wroteHeader = True\<rparr> es = \<lparr>sc_status = c, sc_wroteHeader = True\<rparr>"
  by (induction es) (auto simp: statusCapture_ev_def split: ev.splits)

lemma captured_Nil [simp]: "captured_status [] = 200"
  by (simp add: captured_status_def)

lemma captured_Cons:
  "captured_status (e # es) = (case e of WriteHeader c \<Rightarrow> c | _ \<Rightarrow> captured_status es)"
  by (cases e) (simp_all add: captured_status_def statusCapture_ev_def captured_first)

text \<open>When the handler's first call of \<open>WriteHeader\<close> is a final status and comes before any
  write, the captured status is the one the client gets.\<close>

fun writes_status_first :: "ev list \<Rightarrow> bool" where
  "writes_status_first [] \<longleftrightarrow> True"
| "writes_status_first (WriteHeader c # es) \<longleftrightarrow> \<not> (100 \<le> c \<and> c \<le> 199 \<and> c \<noteq> 101)"
| "writes_status_first (Write b # es) \<longleftrightarrow> (\<forall>e \<in> set es. case e of WriteHeader c \<Rightarrow> False | _ \<Rightarrow> True)"
| "writes_status_first (_ # es) \<longleftrightarrow> writes_status_first es"

lemma no_header_status:
  "\<forall>e \<in> set es. case e of WriteHeader c \<Rightarrow> False | _ \<Rightarrow> True \<Longrightarrow> captured_status es = 200"
  by (induction es) (auto simp: captured_Cons split: ev.splits)

lemma captured_final_aux:
  "writes_status_first es \<Longrightarrow> rp_status p = None \<Longrightarrow>
   the (rp_status (let q = foldl apply_ev p es in case rp_status q of None \<Rightarrow> write_header 200 q | Some _ \<Rightarrow> q)) = captured_status es"
proof (induction es arbitrary: p rule: writes_status_first.induct)
  case (3 b es)
  have "rp_status (apply_ev p (Write b)) = Some 200" using 3 by (simp add: Let_def)
  then have "rp_status (foldl apply_ev (apply_ev p (Write b)) es) = Some 200" by (rule apply_evs_status_Some)
  with 3 no_header_status [of es] show ?case by (simp add: captured_Cons del: apply_ev.simps)
next
  case (2 c es)
  then have "rp_status (apply_ev p (WriteHeader c)) = Some c" by auto
  then have "rp_status (foldl apply_ev (apply_ev p (WriteHeader c)) es) = Some c" by (rule apply_evs_status_Some)
  then show ?case by (simp add: captured_Cons del: apply_ev.simps)
qed (auto simp: captured_Cons)

end
