(* ===== verification/Gateway.thy ===== *)
theory Gateway
  imports Guard AuditTrail Observe Config Migrate
begin

text \<open>
  \<open>internal/proxy\<close> and \<open>cmd/gateway\<close>: the reverse proxy, the start of the process, the
  routes and the order of the middlewares. \<open>httputil.ReverseProxy\<close> with its transport is
  the parameter \<open>rp\<close>, chi's answer to a request no route matches the parameter
  \<open>other\<close>. The state of the process is the record \<open>world\<close>; the queries run on the
  database in it, and fail while \<open>w_conn\<close> is false.
\<close>

section \<open>The proxy\<close>

definition maxRequestBody :: nat where "maxRequestBody = 1048576"

record url =
  ur_Scheme :: string
  ur_Host :: string
  ur_Path :: string

datatype proxy_error = UrlError string | BadScheme string | NoHost

text \<open>\<open>parse\<close> is \<open>url.Parse\<close>.\<close>

definition NewHandler :: "(string \<Rightarrow> string + url) \<Rightarrow> string \<Rightarrow> proxy_error + url" where
  "NewHandler parse upstreamURL =
     (case parse upstreamURL of
        Inl err \<Rightarrow> Inl (UrlError err)
      | Inr u \<Rightarrow>
          if ur_Scheme u \<noteq> ''http'' \<and> ur_Scheme u \<noteq> ''https'' then Inl (BadScheme (ur_Scheme u))
          else if ur_Host u = [] then Inl NoHost
          else Inr u)"

text \<open>\<open>http.MaxBytesReader\<close>: a longer body delivers the limit and then fails.\<close>

definition max_bytes :: "nat \<Rightarrow> body \<Rightarrow> body" where
  "max_bytes n b = (if length (bd_data b) \<le> n then b else \<lparr>bd_data = take n (bd_data b), bd_fails = True\<rparr>)"

text \<open>An answer of the upstream. When its body breaks off, \<open>ReverseProxy\<close> panics with
  \<open>http.ErrAbortHandler\<close> after what it copied.\<close>

record upstream_response =
  us_status :: int
  us_header :: "(string \<times> string) list"
  us_body :: string
  us_aborts :: bool

type_synonym 'u round_trip = "url \<Rightarrow> request \<Rightarrow> 'u \<Rightarrow> upstream_response option \<times> 'u"

text \<open>The outgoing request: scheme and host are those of \<open>u\<close>, which goes with it; the path is
  replaced, the query stays.\<close>

definition Director :: "url \<Rightarrow> request \<Rightarrow> request" where
  "Director u r = r\<lparr>rq_Path := ur_Path u\<rparr>"

definition proxy_unavailable :: string where
  "proxy_unavailable = json_print (JObj [(''jsonrpc'', JStr ''2.0''),
     (''error'', JObj [(''code'', JNum (Itoa (- 32603))), (''message'', JStr ''upstream unavailable'')])])"

definition proxy_ServeHTTP :: "'u round_trip \<Rightarrow> url \<Rightarrow> request \<Rightarrow> 'u \<Rightarrow> 'u \<times> ev list \<times> fin" where
  "proxy_ServeHTTP rp u r s =
     (let r = r\<lparr>rq_Body := map_option (max_bytes maxRequestBody) (rq_Body r)\<rparr>;
          (resp, s) = rp u (Director u r) s
      in (case resp of
            None \<Rightarrow> (s, http_Error proxy_unavailable 502, Returned)
          | Some p \<Rightarrow> (s, map (\<lambda>(k, v). SetHeader k v) (us_header p) @ [WriteHeader (us_status p), Write (us_body p)],
                       if us_aborts p then Panicked else Returned)))"

section \<open>The process\<close>

record 'u world =
  w_env :: env
  w_db :: database
  w_conn :: bool
  w_lim :: Limiter
  w_rbac :: Service
  w_eng :: Engine
  w_audit :: AuditLogger
  w_met :: Metrics
  w_chk :: Checker
  w_log :: "log_entry list"
  w_id :: "nat \<Rightarrow> string"       \<comment> \<open>the values of \<open>uuid.NewString\<close>\<close>
  w_ids :: nat
  w_up :: 'u

record 'u params =
  p_cfg :: Settings
  p_url :: url
  p_rp :: "'u round_trip"
  p_oor :: "float64 option \<Rightarrow> int"
  p_uni :: "string \<Rightarrow> string"
  p_zones :: "string \<Rightarrow> zone option"
  p_pattern :: "request \<Rightarrow> string"

definition world_now :: "'u world \<Rightarrow> time \<times> 'u world" where
  "world_now w = (let (t, e) = time_Now (w_env w) in (t, w\<lparr>w_env := e\<rparr>))"

definition world_id :: "'u world \<Rightarrow> string \<times> 'u world" where
  "world_id w = (w_id w (w_ids w), w\<lparr>w_ids := Suc (w_ids w)\<rparr>)"

section \<open>The checks on the state of the process\<close>

definition query :: "'u world \<Rightarrow> (database \<Rightarrow> db_error + 'a) \<Rightarrow> db_error + 'a" where
  "query w q = (if w_conn w then q (w_db w) else Inl ConnError)"

definition auth_check :: "request \<Rightarrow> 'u world \<Rightarrow> 'u world \<times> verdict" where
  "auth_check = lift_guard w_env (\<lambda>e w. w\<lparr>w_env := e\<rparr>) (\<lambda>w. auth_guard (\<lambda>h. query w (GetAPIKeyByHash h)))"

definition rate_check :: "(float64 option \<Rightarrow> int) \<Rightarrow> request \<Rightarrow> 'u world \<Rightarrow> 'u world \<times> verdict" where
  "rate_check oor = lift_guard (\<lambda>w. (w_lim w, w_env w)) (\<lambda>(l, e) w. w\<lparr>w_lim := l, w_env := e\<rparr>)
     (\<lambda>w. rl_guard oor (Some (\<lambda>i. query w (GetRateLimitByKeyID i))))"

definition rbac_check :: "request \<Rightarrow> 'u world \<Rightarrow> 'u world \<times> verdict" where
  "rbac_check = lift_guard w_rbac (\<lambda>s w. w\<lparr>w_rbac := s\<rparr>)
     (\<lambda>w. rbac_guard (\<lambda>i. query w (\<lambda>db. Inr (GetPermissionsByKeyID i db))))"

definition policy_check :: "(string \<Rightarrow> string) \<Rightarrow> (string \<Rightarrow> zone option) \<Rightarrow> request \<Rightarrow> 'u world \<Rightarrow> 'u world \<times> verdict" where
  "policy_check uni zones = lift_guard (\<lambda>w. (w_eng w, w_env w)) (\<lambda>(g, e) w. w\<lparr>w_eng := g, w_env := e\<rparr>)
     (\<lambda>w. policy_guard uni zones (query w (\<lambda>db. Inr (ListEnabledPolicies db))))"

definition audit_log :: "Entry \<Rightarrow> 'u world \<Rightarrow> bool option \<times> 'u world" where
  "audit_log e w = (let (res, l) = Log e (w_audit w) in (res, w\<lparr>w_audit := l\<rparr>))"

definition proxy_handler :: "'u params \<Rightarrow> 'u world handler" where
  "proxy_handler p r w = (let (u, es, f) = proxy_ServeHTTP (p_rp p) (p_url p) r (w_up w) in (w\<lparr>w_up := u\<rparr>, es, f))"

section \<open>The log level\<close>

datatype log_level = LevelDebug | LevelWarn | LevelError | LevelInfo

definition setupLogger :: "Settings \<Rightarrow> log_level \<times> bool" where
  "setupLogger cfg =
     ((if cf_LogLevel cfg = ''debug'' then LevelDebug
       else if cf_LogLevel cfg = ''warn'' then LevelWarn
       else if cf_LogLevel cfg = ''error'' then LevelError
       else LevelInfo),
      cf_LogFormat cfg = ''text'')"

text \<open>The numbers of \<open>log/slog\<close>; a record is written when its level is not below the handler's.\<close>

fun level_num :: "log_level \<Rightarrow> int" where
  "level_num LevelDebug = - 4" | "level_num LevelInfo = 0" | "level_num LevelWarn = 4" | "level_num LevelError = 8"

instantiation log_level :: linorder
begin

definition less_eq_log_level :: "log_level \<Rightarrow> log_level \<Rightarrow> bool" where
  "less_eq_log_level a b \<longleftrightarrow> level_num a \<le> level_num b"

definition less_log_level :: "log_level \<Rightarrow> log_level \<Rightarrow> bool" where
  "less_log_level a b \<longleftrightarrow> level_num a < level_num b"

instance
proof
  show "x = y" if "x \<le> y" "y \<le> x" for x y :: log_level
    using that by (cases x; cases y) (simp_all add: less_eq_log_level_def)
qed (auto simp: less_eq_log_level_def less_log_level_def)

end

definition log_info :: "'u params \<Rightarrow> log_entry \<Rightarrow> 'u world \<Rightarrow> 'u world" where
  "log_info p l w = (if fst (setupLogger (p_cfg p)) \<le> LevelInfo then w\<lparr>w_log := w_log w @ [l]\<rparr> else w)"

section \<open>Routes\<close>

definition checks :: "'u params \<Rightarrow> (request \<Rightarrow> 'u world \<Rightarrow> 'u world \<times> verdict) list" where
  "checks p = [auth_check] @ (if cf_RateLimitEnabled (p_cfg p) then [rate_check (p_oor p)] else []) @
     [rbac_check, policy_check (p_uni p) (p_zones p)]"

definition mcp_middlewares :: "'u params \<Rightarrow> 'u world middleware list" where
  "mcp_middlewares p = map gate (checks p) @
     (if cf_AuditEnabled (p_cfg p) then [audit_Middleware world_now audit_log] else [])"

definition mcp_handler :: "'u params \<Rightarrow> 'u world handler" where
  "mcp_handler p = (if cf_DatabaseURL (p_cfg p) \<noteq> [] then Chain (proxy_handler p) (mcp_middlewares p) else proxy_handler p)"

definition routes :: "'u params \<Rightarrow> string \<Rightarrow> string \<Rightarrow> 'u world handler option" where
  "routes p method path =
     (if method = ''GET'' \<and> path = ''/healthz'' then Some (\<lambda>r w. (w, Healthz, Returned))
      else if method = ''GET'' \<and> path = ''/readyz'' then Some (\<lambda>r w. (w, Readyz (w_chk w), Returned))
      else if method = ''GET'' \<and> path = ''/admin/health'' \<and> cf_DatabaseURL (p_cfg p) \<noteq> []
      then Some (\<lambda>r w. (w, admin_health (w_conn w), Returned))
      else if method = ''POST'' \<and> path = ''/mcp'' then Some (mcp_handler p)
      else None)"

definition router :: "'u params \<Rightarrow> 'u world handler \<Rightarrow> 'u world handler" where
  "router p other r w = (case routes p (rq_Method r) (rq_Path r) of Some h \<Rightarrow> h r w | None \<Rightarrow> other r w)"

definition outer_middlewares :: "'u params \<Rightarrow> 'u world middleware list" where
  "outer_middlewares p = [RequestID world_id, Logger world_now (log_info p), Recoverer] @
     (if cf_MetricsEnabled (p_cfg p) then [metrics_Middleware world_now (\<lambda>f w. w\<lparr>w_met := f (w_met w)\<rparr>) (p_pattern p)] else [])"

definition gateway :: "'u params \<Rightarrow> 'u world handler \<Rightarrow> 'u world handler" where
  "gateway p other = Chain (router p other) (outer_middlewares p)"

section \<open>Starting up\<close>

datatype start_error = LoadConfig string | CreateProxy proxy_error | ConnectDatabase | RunMigrations mig_error

text \<open>\<open>run\<close> up to the servers: the settings, the upstream, and the readiness state with the
  database handle. \<open>conn\<close> tells whether \<open>database.Connect\<close> succeeds.\<close>

definition gateway_start :: "(string \<Rightarrow> string + url) \<Rightarrow> bool \<Rightarrow> mig_io \<Rightarrow> (string \<Rightarrow> 'd \<Rightarrow> 'd option) \<Rightarrow> environ \<Rightarrow> 'd mig_db
    \<Rightarrow> (start_error + Settings \<times> url \<times> Checker) \<times> 'd mig_db" where
  "gateway_start parse conn io exec_sql env db =
     (case Load env of
        Inl err \<Rightarrow> (Inl (LoadConfig err), db)
      | Inr cfg \<Rightarrow>
          (case NewHandler parse (cf_UpstreamURL cfg) of
             Inl err \<Rightarrow> (Inl (CreateProxy err), db)
           | Inr u \<Rightarrow>
               if cf_DatabaseURL cfg \<noteq> [] then
                 (if \<not> conn then (Inl ConnectDatabase, db)
                  else (case Migrate io exec_sql db of
                      (Inl err, db') \<Rightarrow> (Inl (RunMigrations err), db')
                    | (Inr _, db') \<Rightarrow> (Inr (cfg, u, SetReady True (SetDB (Some True) (NewChecker None))), db')))
               else (Inr (cfg, u, SetReady True (NewChecker None)), db)))"

end
