(* ===== verification/Lifecycle.thy ===== *)
theory Lifecycle
  imports AuditProps Gateway
begin

text \<open>
  The second half of \<open>run\<close> in \<open>cmd/gateway/main.go\<close>, with auditing on: the servers start, the
  process becomes ready, a signal or a failing server ends the wait, the servers are shut down,
  and the deferred \<open>auditLogger.Close\<close> runs before the process exits. Requests, the inserting
  goroutine and \<open>run\<close> are concurrent, so the process is a step relation: a call in flight is
  the entry it is going to log. \<open>srv.Shutdown\<close> closes the listener at once and returns when no
  call is left or its deadline is over.
\<close>

section \<open>States\<close>

datatype phase = Starting | Serving | StoppingMetrics | Draining
  | Closing "string option"   \<comment> \<open>\<open>run\<close> returns this error (or none) and its deferred \<open>Close\<close> waits\<close>
  | Ended "string option"

record 'db life =
  lf_phase :: phase
  lf_chk :: Checker
  lf_listening :: bool
  lf_calls :: "Entry list"
  lf_sys :: "'db audit_sys"
  lf_logged :: nat              \<comment> \<open>calls of \<open>Log\<close> so far\<close>
  lf_lost :: "Entry list"       \<comment> \<open>calls whose \<open>Log\<close> panicked\<close>

definition life_start :: "nat \<Rightarrow> 'db \<Rightarrow> 'db life" where
  "life_start n db = \<lparr>lf_phase = Starting, lf_chk = SetDB (Some True) (NewChecker None), lf_listening = True, lf_calls = [],
     lf_sys = \<lparr>as_log = NewAuditLogger n, as_db = db, as_taken = [], as_refused = 0, as_inserted = []\<rparr>,
     lf_logged = 0, lf_lost = []\<rparr>"

fun ended :: "phase \<Rightarrow> bool" where
  "ended (Ended _) = True"
| "ended _ = False"

text \<open>\<open>main\<close> turns the error of \<open>run\<close> into the exit status.\<close>

definition main_status :: "string option \<Rightarrow> int" where
  "main_status r = (case r of None \<Rightarrow> 0 | Some err \<Rightarrow> 1)"

text \<open>A call ends by logging its entry; the panic of a closed channel loses it.\<close>

definition life_log :: "Entry \<Rightarrow> 'db life \<Rightarrow> 'db life" where
  "life_log e s = s\<lparr>lf_sys := sys_log e (lf_sys s), lf_logged := Suc (lf_logged s),
     lf_lost := (if fst (Log e (as_log (lf_sys s))) = None then lf_lost s @ [e] else lf_lost s)\<rparr>"

text \<open>\<open>run\<close> returns: the deferred \<open>Close\<close> begins.\<close>

definition life_return :: "string option \<Rightarrow> 'db life \<Rightarrow> 'db life" where
  "life_return r s = s\<lparr>lf_phase := Closing r,
     lf_sys := (lf_sys s)\<lparr>as_log := Close_begin (as_log (lf_sys s))\<rparr>\<rparr>"

definition life_work :: "AuditLogger \<Rightarrow> 'db \<Rightarrow> 'db life \<Rightarrow> 'db life" where
  "life_work l db s = s\<lparr>lf_sys := (lf_sys s)\<lparr>as_log := l, as_db := db,
     as_inserted := as_inserted (lf_sys s) @ in_flight (as_log (lf_sys s))\<rparr>\<rparr>"

section \<open>Steps\<close>

inductive life_step :: "(InsertAuditLogParams \<Rightarrow> 'db \<Rightarrow> (db_error + unit) \<times> 'db) \<Rightarrow> 'db life \<Rightarrow> 'db life \<Rightarrow> bool"
  for ins :: "InsertAuditLogParams \<Rightarrow> 'db \<Rightarrow> (db_error + unit) \<times> 'db" where
  arrive: "lf_listening s \<Longrightarrow> \<not> ended (lf_phase s) \<Longrightarrow> life_step ins s (s\<lparr>lf_calls := lf_calls s @ [e]\<rparr>)"
| finish: "lf_calls s = xs @ e # ys \<Longrightarrow> \<not> ended (lf_phase s) \<Longrightarrow> life_step ins s (life_log e (s\<lparr>lf_calls := xs @ ys\<rparr>))"
| work: "process_step ins (as_log (lf_sys s), as_db (lf_sys s)) = Some (l, db) \<Longrightarrow> \<not> ended (lf_phase s) \<Longrightarrow>
    life_step ins s (life_work l db s)"
| ready: "lf_phase s = Starting \<Longrightarrow> life_step ins s (s\<lparr>lf_phase := Serving, lf_chk := SetReady True (lf_chk s)\<rparr>)"
| signal: "lf_phase s = Serving \<Longrightarrow> life_step ins s (s\<lparr>lf_phase := StoppingMetrics, lf_chk := SetReady False (lf_chk s)\<rparr>)"
| shutdown: "lf_phase s = StoppingMetrics \<Longrightarrow> life_step ins s (s\<lparr>lf_phase := Draining, lf_listening := False\<rparr>)"
| drained: "lf_phase s = Draining \<Longrightarrow> lf_calls s = [] \<Longrightarrow> life_step ins s (life_return None s)"
| deadline: "lf_phase s = Draining \<Longrightarrow> life_step ins s (life_return (Some ''forced shutdown'') s)"
| accept_fails: "\<not> ended (lf_phase s) \<Longrightarrow> life_step ins s (s\<lparr>lf_listening := False\<rparr>)"
| gateway_fails: "lf_phase s = Serving \<Longrightarrow> \<not> lf_listening s \<Longrightarrow> life_step ins s (life_return (Some ''gateway server'') s)"
| metrics_fails: "lf_phase s = Serving \<Longrightarrow> life_step ins s (life_return (Some ''metrics server'') s)"
| exit: "lf_phase s = Closing r \<Longrightarrow> Close_returns (as_log (lf_sys s)) \<Longrightarrow>
    life_step ins s (s\<lparr>lf_phase := Ended r, lf_listening := False\<rparr>)"

inductive life_reach :: "(InsertAuditLogParams \<Rightarrow> 'db \<Rightarrow> (db_error + unit) \<times> 'db) \<Rightarrow> nat \<Rightarrow> 'db \<Rightarrow> 'db life \<Rightarrow> bool"
  for ins :: "InsertAuditLogParams \<Rightarrow> 'db \<Rightarrow> (db_error + unit) \<times> 'db" and n :: nat and db0 :: 'db where
  start: "life_reach ins n db0 (life_start n db0)"
| step: "life_reach ins n db0 s \<Longrightarrow> life_step ins s s' \<Longrightarrow> life_reach ins n db0 s'"

section \<open>Invariant\<close>

definition closed :: "'db life \<Rightarrow> bool" where
  "closed s \<longleftrightarrow> ch_closed (au_entries (as_log (lf_sys s)))"

text \<open>What holds in each phase: no entry is lost before \<open>Close\<close> begins, nor on the way of a
  clean return; the process is ready only while it serves, unless a server failed.\<close>

fun phase_inv :: "phase \<Rightarrow> 'db life \<Rightarrow> bool" where
  "phase_inv Starting s = (lf_lost s = [] \<and> \<not> closed s \<and> \<not> hc_ready (lf_chk s))"
| "phase_inv Serving s = (lf_lost s = [] \<and> \<not> closed s)"
| "phase_inv StoppingMetrics s = (lf_lost s = [] \<and> \<not> closed s \<and> \<not> hc_ready (lf_chk s))"
| "phase_inv Draining s = (lf_lost s = [] \<and> \<not> closed s \<and> \<not> hc_ready (lf_chk s) \<and> \<not> lf_listening s)"
| "phase_inv (Closing None) s = (lf_lost s = [] \<and> closed s \<and> \<not> hc_ready (lf_chk s) \<and> \<not> lf_listening s \<and> lf_calls s = [])"
| "phase_inv (Closing (Some _)) s = closed s"
| "phase_inv (Ended None) s = (lf_lost s = [] \<and> \<not> hc_ready (lf_chk s) \<and> \<not> lf_listening s \<and> lf_calls s = [] \<and>
     Close_returns (as_log (lf_sys s)))"
| "phase_inv (Ended (Some _)) s = Close_returns (as_log (lf_sys s))"

definition life_inv :: "(InsertAuditLogParams \<Rightarrow> 'db \<Rightarrow> (db_error + unit) \<times> 'db) \<Rightarrow> nat \<Rightarrow> 'db \<Rightarrow> 'db life \<Rightarrow> bool" where
  "life_inv ins n db0 s \<longleftrightarrow> audit_inv ins n db0 (lf_sys s) \<and> phase_inv (lf_phase s) s \<and>
     lf_logged s = length (as_taken (lf_sys s)) + as_refused (lf_sys s) + length (lf_lost s)"

lemma closed_updates [simp]:
  "closed (s\<lparr>lf_phase := x1\<rparr>) = closed s" "closed (s\<lparr>lf_chk := x2\<rparr>) = closed s" "closed (s\<lparr>lf_listening := x3\<rparr>) = closed s"
  "closed (s\<lparr>lf_calls := x4\<rparr>) = closed s"
  by (simp_all add: closed_def)

lemma Log_closed: "fst (Log e l) = None \<longleftrightarrow> ch_closed (au_entries l)"
  by (auto simp: Log_def try_send_def)

lemma sys_log_closed [simp]: "ch_closed (au_entries (as_log (sys_log e s))) = ch_closed (au_entries (as_log s))"
  by (auto simp: sys_log_def Log_def try_send_def)

lemma sys_log_count:
  "length (as_taken (sys_log e s)) + as_refused (sys_log e s) + (if fst (Log e (as_log s)) = None then 1 else 0) =
     Suc (length (as_taken s) + as_refused s)"
  by (auto simp: sys_log_def Log_def try_send_def)

lemma sys_log_taken_work [simp]: "as_taken (lf_sys (life_work l db s)) = as_taken (lf_sys s)" "as_refused (lf_sys (life_work l db s)) = as_refused (lf_sys s)"
  by (simp_all add: life_work_def)

lemma process_step_closed: "process_step ins (l, db) = Some (l', db') \<Longrightarrow> ch_closed (au_entries l') = ch_closed (au_entries l)"
  by (auto simp: process_step_def chan_recv_def split: worker.splits option.splits if_splits list.splits)

lemma phase_inv_cong:
  assumes "lf_lost s' = lf_lost s" "closed s' = closed s" "lf_chk s' = lf_chk s" "lf_listening s' = lf_listening s"
    "lf_calls s' = lf_calls s" and "\<not> ended ph"
  shows "phase_inv ph s' = phase_inv ph s"
  using assms by (cases "(ph, s)" rule: phase_inv.cases) simp_all

lemma life_return_simps [simp]:
  "closed (life_return r s)" "lf_phase (life_return r s) = Closing r" "lf_lost (life_return r s) = lf_lost s"
  "lf_chk (life_return r s) = lf_chk s" "lf_listening (life_return r s) = lf_listening s" "lf_calls (life_return r s) = lf_calls s"
  "lf_logged (life_return r s) = lf_logged s" "as_taken (lf_sys (life_return r s)) = as_taken (lf_sys s)"
  "as_refused (lf_sys (life_return r s)) = as_refused (lf_sys s)"
  by (simp_all add: life_return_def closed_def Close_begin_def close_chan_def)

lemma life_return_audit: "audit_inv ins n db0 (lf_sys s) \<Longrightarrow> audit_inv ins n db0 (lf_sys (life_return r s))"
  by (simp add: life_return_def close_inv)

lemma life_step_inv:
  assumes "life_inv ins n db0 s" and "life_step ins s s'"
  shows "life_inv ins n db0 s'"
  using assms(2)
proof (cases rule: life_step.cases)
  case (arrive e)
  with assms(1) show ?thesis
    by (cases "(lf_phase s, s)" rule: phase_inv.cases) (auto simp: life_inv_def)
next
  case (finish xs e ys)
  have c: "closed s' = closed s" by (simp add: finish closed_def life_log_def)
  have l: "lf_lost s' = (if closed s then lf_lost s @ [e] else lf_lost s)"
    by (simp add: finish life_log_def closed_def Log_closed)
  have "phase_inv (lf_phase s) s'"
    using assms(1) finish(2,3) c l
    by (cases "(lf_phase s, s)" rule: phase_inv.cases) (auto simp: life_inv_def finish(1) life_log_def)
  moreover have "lf_logged s' = length (as_taken (lf_sys s')) + as_refused (lf_sys s') + length (lf_lost s')"
    using assms(1) sys_log_count [of e "lf_sys s"] by (auto simp: life_inv_def finish(1) life_log_def split: if_splits)
  ultimately show ?thesis
    using assms(1) by (simp add: life_inv_def finish(1) life_log_def sys_log_inv)
next
  case (work l db)
  have "phase_inv (lf_phase s) s' = phase_inv (lf_phase s) s"
    using work by (intro phase_inv_cong) (simp_all add: life_work_def closed_def process_step_closed)
  then show ?thesis
    using assms(1) work_inv [OF _ work(2)] by (simp add: life_inv_def work(1)) (simp add: life_work_def)
next
  case accept_fails
  with assms(1) show ?thesis
    by (cases "(lf_phase s, s)" rule: phase_inv.cases) (auto simp: life_inv_def)
next
  case (exit r)
  with assms(1) show ?thesis by (cases r) (simp_all add: life_inv_def)
qed (use assms(1) in \<open>simp_all add: life_inv_def life_return_audit SetReady_def\<close>)

lemma life_reach_inv: "life_reach ins n db0 s \<Longrightarrow> life_inv ins n db0 s"
proof (induction rule: life_reach.induct)
  case start
  show ?case
    by (simp add: life_inv_def life_start_def audit_inv_def NewAuditLogger_def make_chan_def in_flight_def int64_id closed_def
        SetDB_def NewChecker_def)
next
  case (step s s')
  then show ?case by (blast intro: life_step_inv)
qed

section \<open>Properties\<close>

text \<open>C21: When the gateway exits with status 0, no call was cut off or failed to log, and every
  entry that was not refused for a full buffer has been handed to the database, in order.\<close>

theorem clean_exit_loses_nothing:
  assumes "life_reach ins n db0 s" and "lf_phase s = Ended r" and "main_status r = 0"
  shows "lf_calls s = [] \<and> lf_lost s = [] \<and> as_db (lf_sys s) = insert_all ins (as_taken (lf_sys s)) db0 \<and>
    lf_logged s = length (as_taken (lf_sys s)) + as_refused (lf_sys s)"
  using life_reach_inv [OF assms(1)] assms(2,3)
  by (auto simp: life_inv_def audit_inv_def Close_returns_def in_flight_def main_status_def split: option.splits)

text \<open>C22: Once \<open>Close\<close> has begun, a call that is still running panics in \<open>Log\<close> and its entry is lost;
  that happens only when a server failed or the shutdown ran into its deadline.\<close>

theorem late_calls_panic:
  assumes "life_reach ins n db0 s" and "lf_phase s = Closing r" and "e \<in> set (lf_calls s)"
  shows "fst (Log e (as_log (lf_sys s))) = None \<and> r \<noteq> None \<and>
    (\<exists>s'. life_step ins s s' \<and> lf_lost s' = lf_lost s @ [e])"
proof -
  have inv: "phase_inv (Closing r) s" using life_reach_inv [OF assms(1)] assms(2) by (simp add: life_inv_def)
  then have r: "r \<noteq> None" and c: "closed s" using assms(3) by (cases r; auto)+
  then have p: "fst (Log e (as_log (lf_sys s))) = None" by (simp add: Log_closed closed_def)
  obtain xs ys where "lf_calls s = xs @ e # ys" using assms(3) by (meson split_list)
  then have "life_step ins s (life_log e (s\<lparr>lf_calls := xs @ ys\<rparr>))" by (rule life_step.finish) (simp add: assms(2))
  moreover have "lf_lost (life_log e (s\<lparr>lf_calls := xs @ ys\<rparr>)) = lf_lost s @ [e]" by (simp add: life_log_def p)
  ultimately show ?thesis using p r by blast
qed

text \<open>C23: Once \<open>run\<close> returns, the process comes to its exit: no step can change the result or add to
  what the audit goroutine has left, a step that exits or reduces it is always possible, so after
  at most two steps per buffered entry and two more the process is gone, whatever calls still run.\<close>

theorem closing_ends:
  assumes "life_reach ins n db0 s" and "lf_phase s = Closing r"
  shows "(\<forall>s'. life_step ins s s' \<longrightarrow> lf_phase s' \<in> {Closing r, Ended r} \<and> work_left (as_log (lf_sys s')) \<le> work_left (as_log (lf_sys s))) \<and>
    (\<exists>s'. life_step ins s s' \<and> (lf_phase s' = Ended r \<or> work_left (as_log (lf_sys s')) < work_left (as_log (lf_sys s)))) \<and>
    work_left (as_log (lf_sys s)) \<le> 2 * length (ch_buf (au_entries (as_log (lf_sys s)))) + 2"
proof (intro conjI allI impI)
  have c: "ch_closed (au_entries (as_log (lf_sys s)))"
    using life_reach_inv [OF assms(1)] assms(2) by (cases r) (simp_all add: life_inv_def closed_def)
  let ?l = "as_log (lf_sys s)"
  show "work_left ?l \<le> 2 * length (ch_buf (au_entries ?l)) + 2" by (simp add: work_left_def split: worker.splits)
  show "\<exists>s'. life_step ins s s' \<and> (lf_phase s' = Ended r \<or> work_left (as_log (lf_sys s')) < work_left ?l)"
  proof (cases "au_worker ?l = Exited")
    case True
    then have "life_step ins s (s\<lparr>lf_phase := Ended r, lf_listening := False\<rparr>)"
      by (intro life_step.exit assms(2)) (simp add: Close_returns_def)
    then show ?thesis by (intro exI [of _ "s\<lparr>lf_phase := Ended r, lf_listening := False\<rparr>"]) simp
  next
    case False
    obtain l' db' where p: "process_step ins (?l, as_db (lf_sys s)) = Some (l', db')" and w: "work_left l' < work_left ?l"
      by (rule process_step_progress [where ins = ins and db = "as_db (lf_sys s)", OF c False])
    have "life_step ins s (life_work l' db' s)" by (rule life_step.work [OF p]) (simp add: assms(2))
    then show ?thesis using w by (intro exI [of _ "life_work l' db' s"]) (simp add: life_work_def)
  qed
  fix s'
  assume "life_step ins s s'"
  then have "lf_phase s' \<in> {Closing r, Ended r} \<and> work_left (as_log (lf_sys s')) \<le> work_left ?l"
  proof (cases rule: life_step.cases)
    case (finish xs e ys)
    then show ?thesis using c assms(2) by (simp add: life_log_def sys_log_def Log_def try_send_def)
  next
    case (work l db)
    have "au_worker ?l \<noteq> Exited" using work(2) by (auto simp: process_step_def)
    then have "work_left l < work_left ?l"
      using process_step_progress [where ins = ins and db = "as_db (lf_sys s)", OF c] work(2) by fastforce
    then show ?thesis using work assms(2) by (simp add: life_work_def)
  qed (use assms(2) in auto)
  then show "lf_phase s' \<in> {Closing r, Ended r}" "work_left (as_log (lf_sys s')) \<le> work_left ?l" by blast+
qed

text \<open>The readiness probe fails before the process is up and from the signal on, as long as no
  server failed.\<close>

theorem not_ready_outside_service:
  assumes "life_reach ins n db0 s" and "lf_phase s \<in> {Starting, StoppingMetrics, Draining, Closing None, Ended None}"
  shows "final_status (Readyz (lf_chk s)) = 503"
proof -
  have "\<not> hc_ready (lf_chk s)"
    using life_reach_inv [OF assms(1)] assms(2) by (auto simp: life_inv_def)
  then show ?thesis
    by (simp add: Readyz_def final_status_def respond_def fresh_response_def write_header_def encode_map_def body_allowed_def Let_def)
qed

section \<open>Concrete runs\<close>

text \<open>One call, a signal, and a deadline that passes while the call runs.\<close>

definition run_prefix :: "nat life \<Rightarrow> nat life" where
  "run_prefix s0 = (let s1 = s0\<lparr>lf_phase := Serving, lf_chk := SetReady True (lf_chk s0)\<rparr>;
     s2 = s1\<lparr>lf_calls := lf_calls s1 @ [demo_entry]\<rparr>;
     s3 = s2\<lparr>lf_phase := StoppingMetrics, lf_chk := SetReady False (lf_chk s2)\<rparr>
   in s3\<lparr>lf_phase := Draining, lf_listening := False\<rparr>)"

lemma run_prefix_reach: "life_reach no_db 1 0 (run_prefix (life_start 1 0))"
  unfolding run_prefix_def Let_def
  by (intro life_reach.step [OF _ life_step.shutdown] life_reach.step [OF _ life_step.signal] life_reach.step [OF _ life_step.arrive]
      life_reach.step [OF _ life_step.ready] life_reach.start) (simp_all add: life_start_def)

lemma forced_reach: "life_reach no_db 1 0 (life_return (Some ''forced shutdown'') (run_prefix (life_start 1 0)))"
  by (rule life_reach.step [OF run_prefix_reach life_step.deadline]) (simp add: run_prefix_def Let_def)

lemma late_calls_panic_witness:
  "fst (Log demo_entry (as_log (lf_sys (life_return (Some ''forced shutdown'') (run_prefix (life_start 1 0)))))) = None"
proof -
  let ?s = "life_return (Some ''forced shutdown'') (run_prefix (life_start 1 0))"
  have "demo_entry \<in> set (lf_calls ?s)" by (simp add: run_prefix_def Let_def)
  from late_calls_panic [OF forced_reach life_return_simps(2) this] show ?thesis by blast
qed

lemma closing_ends_witness:
  "\<exists>s'. life_step no_db (life_return (Some ''forced shutdown'') (run_prefix (life_start 1 0))) s'"
  using closing_ends [OF forced_reach life_return_simps(2)] by blast

text \<open>The same run when the call ends in time: the channel is closed and drained.\<close>

lemma life_work_reach:
  assumes "life_reach ins n db0 s" and "process_step ins (as_log (lf_sys s), as_db (lf_sys s)) = Some (l, db)" and "\<not> ended (lf_phase s)"
  shows "life_reach ins n db0 (life_work l db s)"
  by (rule life_reach.step [OF assms(1)]) (rule life_step.work [OF assms(2,3)])

lemma clean_exit_loses_nothing_witness:
  "\<exists>s. life_reach no_db 1 0 s \<and> lf_phase s = Ended None \<and> as_taken (lf_sys s) = [demo_entry] \<and> as_db (lf_sys s) = insert_all no_db [demo_entry] 0"
proof -
  define l0 where "l0 = \<lparr>au_entries = \<lparr>ch_buf = ([] :: Entry list), ch_cap = 1, ch_closed = True\<rparr>, au_dropped = 0, au_worker = Receiving\<rparr>"
  define s1 where "s1 = life_return None (life_log demo_entry ((run_prefix (life_start 1 0))\<lparr>lf_calls := [] @ []\<rparr>))"
  define s2 where "s2 = life_work (l0\<lparr>au_worker := Inserting demo_entry\<rparr>) 0 s1"
  define s3 where "s3 = life_work l0 (Suc 0) s2"
  define s4 where "s4 = life_work (l0\<lparr>au_worker := Exited\<rparr>) (Suc 0) s3"
  note d = run_prefix_def Let_def life_start_def life_log_def life_return_def life_work_def sys_log_def Log_def try_send_def
    NewAuditLogger_def make_chan_def Close_begin_def close_chan_def process_step_def chan_recv_def in_flight_def no_db_def
  have f: "life_step no_db (run_prefix (life_start 1 0)) (life_log demo_entry ((run_prefix (life_start 1 0))\<lparr>lf_calls := [] @ []\<rparr>))"
    by (rule life_step.finish) (simp_all add: run_prefix_def Let_def life_start_def)
  have "life_reach no_db 1 0 s1" unfolding s1_def
    by (rule life_reach.step [OF life_reach.step [OF run_prefix_reach f] life_step.drained])
      (simp_all add: run_prefix_def Let_def life_start_def life_log_def)
  then have "life_reach no_db 1 0 s2" unfolding s2_def by (rule life_work_reach) (simp_all add: s1_def l0_def d)
  then have "life_reach no_db 1 0 s3" unfolding s3_def by (rule life_work_reach) (simp_all add: s2_def s1_def l0_def d)
  then have "life_reach no_db 1 0 s4" unfolding s4_def by (rule life_work_reach) (simp_all add: s3_def s2_def s1_def l0_def d)
  then have r: "life_reach no_db 1 0 (s4\<lparr>lf_phase := Ended None, lf_listening := False\<rparr>)"
    by (rule life_reach.step [OF _ life_step.exit]) (simp_all add: s4_def s3_def s2_def s1_def l0_def d Close_returns_def)
  have "as_taken (lf_sys s4) = [demo_entry]" by (simp add: s4_def s3_def s2_def s1_def l0_def d)
  with clean_exit_loses_nothing [OF r, of None] r show ?thesis by (auto simp: main_status_def)
qed

lemma not_ready_outside_service_witness:
  "final_status (Readyz (lf_chk (run_prefix (life_start 1 0)))) = 503"
  using not_ready_outside_service [OF run_prefix_reach] by (simp add: run_prefix_def Let_def)

end
