(* ===== verification/FloatText.thy ===== *)
theory FloatText
  imports Float64 Json
begin

text \<open>
  \<open>float64\<close> as text: \<open>strconv.ParseFloat\<close> on JSON numbers, the shortest decimal that reads
  back (\<open>FormatFloat\<close> with precision -1), the verbs \<open>%g\<close> of \<open>fmt\<close> and the number format of
  \<open>encoding/json\<close>. Here the exponent is bounded: subnormal numbers are rounded to multiples
  of \<open>2^-1074\<close>, and a magnitude of \<open>2^1024\<close> or more is infinite. The last section shows that
  integers below \<open>2^53\<close> keep their decimal text.
\<close>

section \<open>Values with signs and bounded exponents\<close>

text \<open>A sign (true is negative) and a magnitude; there is a zero of either sign.\<close>

datatype f64 = FFinite bool rat | FInf bool

text \<open>The magnitude a nonnegative rational is rounded to; \<open>None\<close> is an overflow.\<close>

definition round_mag :: "rat \<Rightarrow> rat option" where
  "round_mag q = (let r = (if q < 2 powi - 1022 then of_int (round_even (q * 2 ^ 1074)) / 2 ^ 1074 else rnd64 q)
     in if 2 ^ 1024 \<le> r then None else Some r)"

definition f64_value :: "bool \<Rightarrow> rat \<Rightarrow> rat" where
  "f64_value neg q = (if neg then - q else q)"

fun f64_add :: "f64 \<Rightarrow> f64 \<Rightarrow> f64 option" where
  "f64_add (FFinite s x) (FFinite t y) =
     (let v = f64_value s x + f64_value t y
      in if v = 0 then Some (FFinite (s \<and> t) 0)
         else (case round_mag \<bar>v\<bar> of None \<Rightarrow> Some (FInf (v < 0)) | Some r \<Rightarrow> Some (FFinite (v < 0) r)))"
| "f64_add (FInf s) (FInf t) = (if s = t then Some (FInf s) else None)"   \<comment> \<open>\<open>None\<close> is NaN\<close>
| "f64_add (FInf s) (FFinite _ _) = Some (FInf s)"
| "f64_add (FFinite _ _) (FInf t) = Some (FInf t)"

section \<open>Reading\<close>

text \<open>The digits of the exponent stop counting at 10000, as in \<open>readFloat\<close>. The text is one
  \<open>lex_num\<close> accepts.\<close>

definition exp_val :: "string \<Rightarrow> nat" where
  "exp_val s = foldl (\<lambda>e c. if e < 10000 then 10 * e + digit_val c else e) 0 s"

definition split_sign :: "string \<Rightarrow> bool \<times> string" where
  "split_sign s = (case s of c # t \<Rightarrow> if c = CHR ''-'' then (True, t) else (False, s) | [] \<Rightarrow> (False, []))"

definition split_frac :: "string \<Rightarrow> string \<times> string" where
  "split_frac s = (case s of c # t \<Rightarrow> if c = CHR ''.'' then (takeWhile is_digit t, dropWhile is_digit t) else ([], s)
     | [] \<Rightarrow> ([], []))"

definition split_exp :: "string \<Rightarrow> int" where
  "split_exp s = (case s of [] \<Rightarrow> 0
     | _ # t \<Rightarrow> (case lex_sign t of (sg, ds) \<Rightarrow> if sg = ''-'' then - int (exp_val ds) else int (exp_val ds)))"

definition ParseFloat :: "string \<Rightarrow> f64 option" where
  "ParseFloat s =
     (let (neg, u) = split_sign s; i = takeWhile is_digit u; (f, v) = split_frac (dropWhile is_digit u)
      in map_option (FFinite neg) (round_mag (of_nat (digits_val (i @ f)) * 10 powi (split_exp v - int (length f)))))"

section \<open>The shortest decimal\<close>

fun ilog10 :: "nat \<Rightarrow> nat" where
  "ilog10 n = (if n < 10 then 0 else Suc (ilog10 (n div 10)))"

declare ilog10.simps [simp del]

text \<open>The decimal exponent of a positive rational.\<close>

definition dec_exp :: "rat \<Rightarrow> int" where
  "dec_exp q = (let (n, d) = quotient_of q; e = int (ilog10 (nat n)) - int (ilog10 (nat d))
     in if 10 powi e \<le> q then e else e - 1)"

text \<open>The decimal of \<open>k\<close> digits next to \<open>q\<close> that reads back as \<open>q\<close>, the nearer one if there
  are two.\<close>

definition decimal_cand :: "rat \<Rightarrow> nat \<Rightarrow> (int \<times> int) option" where
  "decimal_cand q k =
     (let e = dec_exp q - int k + 1; s = q / 10 powi e; lo = \<lfloor>s\<rfloor>; d = s - of_int lo;
          back = (\<lambda>m. round_mag (of_int m * 10 powi e) = Some q)
      in if back lo \<and> (\<not> back (lo + 1) \<or> d < 1 / 2 \<or> (d = 1 / 2 \<and> even lo)) then Some (lo, e)
         else if back (lo + 1) then Some (lo + 1, e) else None)"

fun first_some :: "('a \<Rightarrow> 'b option) \<Rightarrow> 'a list \<Rightarrow> 'b option" where
  "first_some f [] = None"
| "first_some f (x # xs) = (case f x of None \<Rightarrow> first_some f xs | Some y \<Rightarrow> Some y)"

fun strip10 :: "nat \<Rightarrow> int \<Rightarrow> nat \<times> int" where
  "strip10 n e = (if n = 0 \<or> n mod 10 \<noteq> 0 then (n, e) else strip10 (n div 10) (e + 1))"

declare strip10.simps [simp del]

text \<open>The digits \<open>d1 d2 ...\<close> and the position of the point, for \<open>0.d1d2... * 10^dp\<close>. Seventeen
  digits are enough for any \<open>float64\<close>.\<close>

definition shortest :: "rat \<Rightarrow> string \<times> int" where
  "shortest q = (if q = 0 then ([], 0)
     else (case first_some (decimal_cand q) [1..<18] of
         None \<Rightarrow> ([], 0)
       | Some (m, e) \<Rightarrow> (case strip10 (nat m) e of (n, e) \<Rightarrow> (show_nat n, int (length (show_nat n)) + e))))"

section \<open>Formats\<close>

definition sign_text :: "bool \<Rightarrow> string" where
  "sign_text neg = (if neg then ''-'' else [])"

definition fmtF :: "string \<times> int \<Rightarrow> string" where
  "fmtF = (\<lambda>(ds, dp).
     (if 0 < dp then take (nat dp) ds @ replicate (nat dp - length ds) (CHR ''0'') else ''0'') @
     (if dp < int (length ds) then CHR ''.'' # replicate (nat (- dp)) (CHR ''0'') @ drop (nat dp) ds else []))"

text \<open>\<open>w\<close> is the least number of digits of the exponent: two in \<open>strconv\<close>, one in JSON.\<close>

definition fmtE :: "nat \<Rightarrow> string \<times> int \<Rightarrow> string" where
  "fmtE w = (\<lambda>(ds, dp).
     (let e = (if ds = [] then 0 else dp - 1); x = show_nat (nat \<bar>e\<bar>)
      in (case ds of [] \<Rightarrow> ''0'' | [c] \<Rightarrow> [c] | c # cs \<Rightarrow> c # CHR ''.'' # cs) @ CHR ''e'' #
         (if e < 0 then CHR ''-'' else CHR ''+'') # replicate (w - length x) (CHR ''0'') @ x))"

text \<open>\<open>encoding/json\<close>; an infinite value is an error there.\<close>

fun json_float :: "f64 \<Rightarrow> string option" where
  "json_float (FFinite neg q) = Some (sign_text neg @
     (if q \<noteq> 0 \<and> (q < 1 / 10 ^ 6 \<or> 10 ^ 21 \<le> q) then fmtE 1 (shortest q) else fmtF (shortest q)))"
| "json_float (FInf _) = None"

text \<open>\<open>fmt.Sprintf("%g", ...)\<close>; \<open>None\<close> is NaN.\<close>

definition Sprintf_g :: "f64 option \<Rightarrow> string" where
  "Sprintf_g f = (case f of
      None \<Rightarrow> ''NaN''
    | Some (FInf neg) \<Rightarrow> (if neg then ''-Inf'' else ''+Inf'')
    | Some (FFinite neg q) \<Rightarrow> (let (ds, dp) = shortest q
        in sign_text neg @ (if dp - 1 < - 4 \<or> 6 \<le> dp - 1 then fmtE 2 (ds, dp) else fmtF (ds, dp))))"

section \<open>Integers keep their text\<close>

lemma round_mag_int:
  assumes "0 \<le> i" and "i \<le> 9007199254740992"
  shows "round_mag (of_int i) = Some (of_int i)"
proof (cases "i = 0")
  case True
  then show ?thesis using round_even_of_int [of 0] by (simp add: round_mag_def)
next
  case False
  with assms have i: "(1::rat) \<le> of_int i" by simp
  have "(2::rat) powi - 1022 < 1" by (simp add: power_int_minus)
  moreover have "of_int i < (2::rat) ^ 1024"
    by (rule le_less_trans [of _ "9007199254740992"]) (use assms in simp_all)
  ultimately show ?thesis using i rnd64_int [of i] assms by (simp add: round_mag_def not_le)
qed

lemma round_mag_above:
  assumes "9007199254740992 \<le> i" and "round_mag (of_int i) = Some r"
  shows "9007199254740992 \<le> r"
proof -
  have i: "(9007199254740992::rat) \<le> of_int i" using assms(1) by linarith
  have "(2::rat) powi - 1022 < 1" by (simp add: power_int_minus)
  with i assms(2) have "r = rnd64 (of_int i)" by (auto simp: round_mag_def Let_def split: if_splits)
  then show ?thesis using fl.rnd_ge_int [of 9007199254740992 "of_int i"] i by simp
qed

lemma round_mag_back:
  assumes "0 \<le> m" and "n < 9007199254740992" and "round_mag (of_int m) = Some (of_int n)"
  shows "m = n"
proof (cases "m \<le> 9007199254740992")
  case True
  then show ?thesis using round_mag_int [OF assms(1) True] assms(3) by simp
next
  case False
  then have "(9007199254740992::rat) \<le> of_int n" using round_mag_above [OF _ assms(3)] by simp
  then show ?thesis using assms(2) by simp
qed

lemma ilog10_bounds: "0 < n \<Longrightarrow> 10 ^ ilog10 n \<le> n \<and> n < 10 ^ Suc (ilog10 n)"
proof (induction n rule: ilog10.induct)
  case (1 n)
  show ?case
  proof (cases "n < 10")
    case True
    with "1.prems" show ?thesis by (simp add: ilog10.simps [of n])
  next
    case False
    with "1.IH" have "10 ^ ilog10 (n div 10) \<le> n div 10" "n div 10 < 10 ^ Suc (ilog10 (n div 10))" by auto
    with False show ?thesis by (simp add: ilog10.simps [of n]) linarith
  qed
qed

lemma dec_exp_nat: "0 < n \<Longrightarrow> dec_exp (of_nat n) = int (ilog10 n)"
proof -
  assume n: "0 < n"
  have q: "quotient_of (of_nat n) = (int n, 1)" using quotient_of_int [of "int n"] by simp
  have "(10::rat) ^ ilog10 n \<le> of_nat n" using ilog10_bounds [OF n] by (metis of_nat_le_iff of_nat_numeral of_nat_power)
  then show ?thesis by (simp add: dec_exp_def q ilog10.simps [of "Suc 0"])
qed

lemma decimal_cand_nat:
  assumes n: "0 < n" "n < 9007199254740992" and k: "0 < k" "k \<le> Suc (ilog10 n)"
  shows "decimal_cand (of_nat n) k = None \<or>
    (\<exists>m j. decimal_cand (of_nat n) k = Some (int m, int j) \<and> m * 10 ^ j = n)"
    and "k = Suc (ilog10 n) \<Longrightarrow> decimal_cand (of_nat n) k \<noteq> None"
proof -
  define j where "j = Suc (ilog10 n) - k"
  have e: "dec_exp (of_nat n) - int k + 1 = int j" using k by (simp add: dec_exp_nat [OF n(1)] j_def)
  define lo where "lo = \<lfloor>of_nat n / (10::rat) ^ j\<rfloor>"
  have lo0: "0 \<le> lo" by (simp add: lo_def)
  have bck: "m * 10 ^ j = int n" if "0 \<le> m" "round_mag (of_int m * 10 ^ j) = Some (of_nat n)" for m
    using round_mag_back [of "m * 10 ^ j" "int n"] that n by simp
  have fin: "\<exists>m' j'. Some (m, int j) = Some (int m', int j') \<and> m' * 10 ^ j' = n"
    if "0 \<le> m" "round_mag (of_int m * 10 ^ j) = Some (of_nat n)" for m
  proof -
    have "nat m * 10 ^ j = n" using bck [OF that] that(1) by (metis nat_0_le of_nat_eq_iff of_nat_mult of_nat_power of_nat_numeral)
    then show ?thesis using that(1) by (intro exI [of _ "nat m"] exI [of _ j]) simp
  qed
  show "decimal_cand (of_nat n) k = None \<or>
    (\<exists>m j. decimal_cand (of_nat n) k = Some (int m, int j) \<and> m * 10 ^ j = n)"
    unfolding decimal_cand_def e Let_def power_int_of_nat lo_def [symmetric]
    using fin [of lo] fin [of "lo + 1"] lo0 by (auto split: if_splits)
  assume "k = Suc (ilog10 n)"
  then have j: "j = 0" by (simp add: j_def)
  have "round_mag (of_int (int n)) = Some (of_int (int n))" using n by (intro round_mag_int) simp_all
  then show "decimal_cand (of_nat n) k \<noteq> None"
    unfolding decimal_cand_def e Let_def by (simp add: j)
qed

lemma first_some_ex:
  "x \<in> set xs \<Longrightarrow> f x \<noteq> None \<Longrightarrow>
    \<exists>y \<in> set (takeWhile (\<lambda>y. y \<noteq> x) xs @ [x]). f y \<noteq> None \<and> first_some f xs = f y"
proof (induction xs)
  case (Cons a xs)
  show ?case
  proof (cases "f a")
    case None
    with Cons.prems have "x \<in> set xs" "a \<noteq> x" by auto
    with Cons.IH Cons.prems(2) None show ?thesis by auto
  next
    case (Some b)
    then show ?thesis by (cases "a = x") auto
  qed
qed simp

lemma strip10_value: "0 < n \<Longrightarrow> \<exists>m j. strip10 n (int e) = (m, int j) \<and> 0 < m \<and> m * 10 ^ j = n * 10 ^ e"
proof (induction n "int e" arbitrary: e rule: strip10.induct)
  case (1 n)
  show ?case
  proof (cases "n mod 10 = 0")
    case False
    then show ?thesis using "1.prems" by (subst strip10.simps) auto
  next
    case True
    have d: "n = 10 * (n div 10)" using True by presburger
    with "1.prems" have p: "0 < n div 10" by linarith
    obtain m j where "strip10 (n div 10) (int (Suc e)) = (m, int j)" "0 < m" "m * 10 ^ j = n div 10 * 10 ^ Suc e"
      using "1.hyps" [of "Suc e"] True "1.prems" p by auto
    moreover have "n div 10 * 10 ^ Suc e = n * 10 ^ e" using d by (metis mult.assoc mult.commute power_Suc)
    ultimately show ?thesis using True "1.prems" by (subst strip10.simps) (simp add: add.commute)
  qed
qed

lemma char_48: "char_of (48::nat) = CHR ''0''"
  by code_simp

lemma show_nat_scaled: "0 < n \<Longrightarrow> show_nat (n * 10 ^ j) = show_nat n @ replicate j (CHR ''0'')"
proof (induction j)
  case (Suc j)
  have "0 < n * 10 ^ j" using Suc.prems by simp
  then have "10 \<le> n * 10 ^ Suc j" by simp
  then have "show_nat (n * 10 ^ Suc j) = show_nat (n * 10 ^ j) @ [CHR ''0'']"
    by (subst show_nat.simps) (simp add: mult.left_commute [of n 10] char_48)
  with Suc show ?case by (simp add: replicate_append_same)
qed simp

lemma shortest_nat:
  assumes "0 < n" and "n < 9007199254740992"
  shows "fmtF (shortest (of_nat n)) = show_nat n \<and> snd (shortest (of_nat n)) = int (length (show_nat n))"
proof -
  have l: "ilog10 n < 16"
  proof (rule ccontr)
    assume "\<not> ilog10 n < 16"
    then have "(10::nat) ^ 16 \<le> 10 ^ ilog10 n" by (intro power_increasing) simp_all
    also have "\<dots> \<le> n" using ilog10_bounds assms(1) by blast
    finally show False using assms(2) by simp
  qed
  let ?K = "Suc (ilog10 n)"
  have K: "?K \<in> set [1..<18]" "decimal_cand (of_nat n) ?K \<noteq> None"
    using l decimal_cand_nat(2) [OF assms, of ?K] by auto
  obtain k where k: "k \<in> set (takeWhile (\<lambda>y. y \<noteq> ?K) [1..<18] @ [?K])" "decimal_cand (of_nat n) k \<noteq> None"
    "first_some (decimal_cand (of_nat n)) [1..<18] = decimal_cand (of_nat n) k"
    using first_some_ex [where f = "decimal_cand (of_nat n)" and x = ?K and xs = "[1..<18]"] K by blast
  have "takeWhile (\<lambda>y. y \<noteq> ?K) [1..<18] = [1..<?K]"
  proof -
    have u: "[1..<18] = [1..<?K] @ ?K # [Suc ?K..<18]" using l upt_add_eq_append [of 1 ?K "18 - ?K"] by (simp add: upt_conv_Cons del: upt_Suc)
    show ?thesis unfolding u by (subst takeWhile_append2) (simp_all del: upt_Suc)
  qed
  with k(1) have "0 < k" "k \<le> ?K" by auto
  with decimal_cand_nat(1) [OF assms, of k] k(2) obtain m e
    where c: "decimal_cand (of_nat n) k = Some (int m, int e)" "m * 10 ^ e = n" by auto
  have "0 < m" using c(2) assms(1) by (cases m) auto
  then obtain m' j where s: "strip10 m (int e) = (m', int j)" "0 < m'" "m' * 10 ^ j = m * 10 ^ e"
    using strip10_value by blast
  have "shortest (of_nat n) = (show_nat m', int (length (show_nat m')) + int j)"
    using assms(1) by (simp add: shortest_def k(3) c s del: One_nat_def)
  moreover have "0 < int (length (show_nat m')) + int j" by (rule add_pos_nonneg) simp_all
  ultimately show ?thesis using show_nat_scaled [OF s(2), of j] c(2) s(3) by (simp only: fmtF_def) (simp add: nat_add_distrib)
qed

lemmas fmtF_nat = shortest_nat [THEN conjunct1]

lemma split_sign_digits: "is_digit (hd s) \<Longrightarrow> s \<noteq> [] \<Longrightarrow> split_sign s = (False, s)"
  by (cases s) (auto simp: split_sign_def is_digit_def)

lemma ParseFloat_digits:
  "split_sign s = (neg, show_nat n) \<Longrightarrow> ParseFloat s = map_option (FFinite neg) (round_mag (of_nat n))"
proof -
  assume s: "split_sign s = (neg, show_nat n)"
  have d: "takeWhile is_digit (show_nat n) = show_nat n" "dropWhile is_digit (show_nat n) = []"
    using show_nat_digits [of n] by (auto simp: list_all_iff takeWhile_eq_all_conv dropWhile_eq_Nil_conv)
  show ?thesis by (simp add: ParseFloat_def s d split_frac_def split_exp_def digits_val_show_nat)
qed

lemma split_sign_Itoa: "split_sign (Itoa i) = (i < 0, show_nat (nat \<bar>i\<bar>))"
  using split_sign_digits [OF show_nat_hd show_nat_nonempty, of "nat i"] by (auto simp: Itoa_def split_sign_def)

lemma ParseFloat_Itoa:
  "\<bar>i\<bar> \<le> 9007199254740992 \<Longrightarrow> ParseFloat (Itoa i) = Some (FFinite (i < 0) (of_nat (nat \<bar>i\<bar>)))"
  using round_mag_int [of "\<bar>i\<bar>"] by (simp add: ParseFloat_digits [OF split_sign_Itoa])

lemma json_float_nat:
  assumes "n < 9007199254740992"
  shows "json_float (FFinite neg (of_nat n)) = Some (sign_text neg @ show_nat n)"
proof (cases "n = 0")
  case True
  then show ?thesis by (simp add: shortest_def fmtF_def show_nat.simps [of 0] char_48)
next
  case False
  then have n: "0 < n" by simp
  have "(of_nat n :: rat) < 9007199254740992" using assms by (metis of_nat_less_iff of_nat_numeral)
  then have "\<not> (10::rat) ^ 21 \<le> of_nat n" by simp
  moreover have "\<not> (of_nat n :: rat) < 1 / 10 ^ 6"
  proof -
    have "(1::rat) \<le> of_nat n" using n by simp
    moreover have "1 / (10::rat) ^ 6 < 1" by simp
    ultimately show ?thesis by linarith
  qed
  ultimately show ?thesis using n fmtF_nat [OF n assms] by simp
qed

text \<open>An integer below \<open>2^53\<close> read into a \<open>float64\<close> is written back as it was.\<close>

lemma json_float_Itoa:
  assumes "\<bar>i\<bar> < 9007199254740992"
  shows "Option.bind (ParseFloat (Itoa i)) json_float = Some (Itoa i)"
proof -
  have "nat \<bar>i\<bar> < 9007199254740992" using assms by simp
  then show ?thesis
    using ParseFloat_Itoa [of i] json_float_nat [of "nat \<bar>i\<bar>" "i < 0"] assms
    by (auto simp: Itoa_def sign_text_def)
qed

section \<open>Sums of small integers\<close>

lemma length_show_nat: "n < 10 ^ Suc k \<Longrightarrow> length (show_nat n) \<le> Suc k"
proof (induction k arbitrary: n)
  case 0
  then show ?case by (subst show_nat.simps) simp
next
  case (Suc k)
  have "n div 10 < 10 ^ Suc k" using Suc.prems by (simp add: less_mult_imp_div_less mult.commute)
  then have "length (show_nat (n div 10)) \<le> Suc k" by (rule Suc.IH)
  then show ?case by (subst show_nat.simps) simp
qed

lemma Sprintf_g_nat:
  assumes "n < 1000000"
  shows "Sprintf_g (Some (FFinite neg (of_nat n))) = sign_text neg @ show_nat n"
proof (cases "n = 0")
  case True
  then show ?thesis by (simp add: Sprintf_g_def shortest_def fmtF_def show_nat.simps [of 0] char_48)
next
  case False
  then have n: "0 < n" "n < 9007199254740992" using assms by simp_all
  have l: "length (show_nat n) \<le> 6" "0 < length (show_nat n)" using length_show_nat [of n 5] assms by simp_all
  obtain ds dp where s: "shortest (of_nat n) = (ds, dp)" by fastforce
  with shortest_nat [OF n] have f: "fmtF (ds, dp) = show_nat n" and d: "dp = int (length (show_nat n))" by auto
  have "\<not> dp - 1 < - 4" "\<not> 6 \<le> dp - 1" using l d by linarith+
  then show ?thesis by (simp add: Sprintf_g_def s f)
qed

lemma f64_add_int:
  assumes "\<bar>i + j\<bar> \<le> 9007199254740992"
  shows "f64_add (FFinite (i < 0) (of_nat (nat \<bar>i\<bar>))) (FFinite (j < 0) (of_nat (nat \<bar>j\<bar>))) =
    Some (FFinite (i + j < 0) (of_nat (nat \<bar>i + j\<bar>)))"
proof -
  have v: "f64_value (k < 0) (of_nat (nat \<bar>k\<bar>)) = of_int k" for k :: int by (simp add: f64_value_def)
  have s: "(of_int i + of_int j :: rat) = of_int (i + j)" by simp
  have "round_mag (of_int \<bar>i + j\<bar>) = Some (of_int \<bar>i + j\<bar>)" using assms by (intro round_mag_int) simp_all
  then show ?thesis by (simp only: f64_add.simps v s Let_def) auto
qed

text \<open>The sum of two integers prints as the integer it is, below a million.\<close>

lemma sum_text:
  assumes "\<bar>i\<bar> \<le> 9007199254740992" "\<bar>j\<bar> \<le> 9007199254740992" and "\<bar>i + j\<bar> < 1000000"
    and "ParseFloat (Itoa i) = Some x" "ParseFloat (Itoa j) = Some y"
  shows "Sprintf_g (f64_add x y) = Itoa (i + j)"
proof -
  have "x = FFinite (i < 0) (of_nat (nat \<bar>i\<bar>))" "y = FFinite (j < 0) (of_nat (nat \<bar>j\<bar>))"
    using assms ParseFloat_Itoa by simp_all
  then show ?thesis
    using assms(3) f64_add_int [of i j] Sprintf_g_nat [of "nat \<bar>i + j\<bar>"] by (auto simp: sign_text_def Itoa_def)
qed

section \<open>Large integers\<close>

text \<open>Beyond that, neighbours fall together.\<close>

lemma round_mag_odd: "round_mag 9007199254740993 = Some 9007199254740992"
proof -
  have "bin_exp 9007199254740993 = 53" by (rule bin_exp_unique) (simp_all add: power_int_def)
  then have u: "ulp64 9007199254740993 = 2" by (simp add: ulp64_def)
  have "\<lfloor>9007199254740993 / 2 :: rat\<rfloor> = 4503599627370496" by (simp add: floor_eq_iff)
  then have "round_even (9007199254740993 / 2) = 4503599627370496" by (simp add: round_even_def)
  then have r: "rnd64 9007199254740993 = 9007199254740992" by (simp add: rnd64_def u)
  have s: "\<not> (9007199254740993::rat) < 2 powi - 1022"
  proof -
    have "(2::rat) powi - 1022 < 1" by (simp add: power_int_minus)
    moreover have "(1::rat) < 9007199254740993" by simp
    ultimately show ?thesis by linarith
  qed
  have "\<not> (2::rat) ^ 1024 \<le> 9007199254740992"
  proof -
    have "(9007199254740992::rat) < 2 ^ 64" by simp
    moreover have "(2::rat) ^ 64 \<le> 2 ^ 1024" by (rule power_increasing) simp_all
    ultimately show ?thesis by linarith
  qed
  then show ?thesis by (simp only: round_mag_def s r if_False Let_def)
qed

lemma ParseFloat_collide: "ParseFloat (Itoa 9007199254740993) = ParseFloat (Itoa 9007199254740992)"
  using round_mag_odd round_mag_int [of 9007199254740992] by (simp add: ParseFloat_digits [OF split_sign_Itoa])

end
