(* ===== verification/JsonStream.thy ===== *)
theory JsonStream
  imports JsonRoundtrip
begin

text \<open>
  \<open>json.NewDecoder(r).Decode\<close>: it reads one value from a stream and leaves what follows alone,
  while \<open>json.Unmarshal\<close> wants the whole input to be one value. \<open>read_value\<close> takes token by
  token until the stack machine of \<open>Json\<close> has a value at the outermost level. The last lemmas
  relate the two: what \<open>Unmarshal\<close> accepts, \<open>Decode\<close> reads as the same value; the converse fails
  as soon as something follows the value.
\<close>

section \<open>One token\<close>

definition next_tok :: "string \<Rightarrow> (tok \<times> string) option" where
  "next_tok s = (case dropWhile is_ws s of [] \<Rightarrow> None
     | c # t \<Rightarrow>
        if c = QUOTE then map_option (\<lambda>(v, r). (TStr v, r)) (lex_str t)
        else (case punct c of Some p \<Rightarrow> Some (p, t)
          | None \<Rightarrow> (case literal c t of Some (l, n) \<Rightarrow> Some (l, drop n t)
            | None \<Rightarrow> map_option (\<lambda>n. (TNum n, drop (length n - 1) t)) (lex_num (c # t)))))"

lemma next_tok_shorter: "next_tok s = Some (t, r) \<Longrightarrow> length r < length s"
proof -
  assume a: "next_tok s = Some (t, r)"
  obtain c u where s: "dropWhile is_ws s = c # u" using a by (cases "dropWhile is_ws s") (auto simp: next_tok_def)
  have "length (dropWhile is_ws s) \<le> length s" by (rule length_dropWhile_le)
  moreover have "length r \<le> length u"
    using a by (auto simp: next_tok_def s less_imp_le dest: lex_str_shorter split: if_splits option.splits)
  ultimately show ?thesis by (simp add: s)
qed

lemma lex_next: "lex s = (case next_tok s of Some (t, r) \<Rightarrow> map_option ((#) t) (lex r)
    | None \<Rightarrow> if dropWhile is_ws s = [] then Some [] else None)"
proof (induction s)
  case (Cons c t)
  then show ?case
    by (cases "is_ws c") (auto simp: next_tok_def lex.simps(2) split: option.splits)
qed (simp add: next_tok_def)

section \<open>One value\<close>

definition outer_value :: "pst \<Rightarrow> frame list \<Rightarrow> json option" where
  "outer_value st fs = (case (st, fs) of (GotValue v, []) \<Rightarrow> Some v | _ \<Rightarrow> None)"

function read_value :: "pst \<Rightarrow> frame list \<Rightarrow> string \<Rightarrow> (json \<times> string) option" where
  "read_value st fs s = (case next_tok s of None \<Rightarrow> None
     | Some (t, r) \<Rightarrow> (case pstep st fs t of None \<Rightarrow> None
        | Some (st', fs') \<Rightarrow> (case outer_value st' fs' of Some v \<Rightarrow> Some (v, r)
            | None \<Rightarrow> read_value st' fs' r)))"
  by pat_completeness auto
termination
  by (relation "measure (\<lambda>(st, fs, s). length s)") (auto dest: next_tok_shorter)

declare read_value.simps [simp del]

definition is_container :: "json \<Rightarrow> bool" where
  "is_container v = (case v of JObj _ \<Rightarrow> True | JArr _ \<Rightarrow> True | _ \<Rightarrow> False)"

text \<open>The value at the head of a body. The end of an array or object ends the value; a scalar ends
  with the next byte or the end of the body, so a failing read right behind it is an error.\<close>

definition first_value :: "string \<Rightarrow> bool \<Rightarrow> json option" where
  "first_value s fails = (case read_value WantValue [] s of None \<Rightarrow> None
     | Some (v, r) \<Rightarrow> if fails \<and> r = [] \<and> \<not> is_container v then None else Some v)"

definition Decode :: "('r \<Rightarrow> string \<Rightarrow> json \<Rightarrow> 'r option) \<Rightarrow> string \<Rightarrow> bool \<Rightarrow> 'r \<Rightarrow> 'r option" where
  "Decode f s fails r = Option.bind (first_value s fails) (\<lambda>v. into_struct f v r)"

section \<open>\<open>Decode\<close> and \<open>Unmarshal\<close>\<close>

lemma outer_value_simps [simp]:
  "outer_value WantValue fs = None" "outer_value (GotValue v) [] = Some v"
  "outer_value st fs = Some v \<longleftrightarrow> st = GotValue v \<and> fs = []"
  by (auto simp: outer_value_def split: pst.splits list.splits)

lemma ptoks_value_end: "ptoks (GotValue v) [] ts = (if ts = [] then Some v else None)"
  by (cases ts) (simp_all add: pstep_def after_value_def)

lemma read_value_ptoks:
  assumes "lex s = Some (ts @ us)" and "outer_value st fs = None" and "ptoks st fs ts = Some v"
  shows "\<exists>r. read_value st fs s = Some (v, r) \<and> lex r = Some us"
  using assms
proof (induction st fs s arbitrary: ts rule: read_value.induct)
  case (1 st fs s)
  have "ts \<noteq> []" using "1.prems"(2,3) by (auto simp: outer_value_def split: pst.splits list.splits)
  then obtain t ts' where ts: "ts = t # ts'" by (cases ts) auto
  with "1.prems"(1) obtain r where n: "next_tok s = Some (t, r)" "lex r = Some (ts' @ us)"
    by (auto simp: lex_next [of s] split: option.splits if_splits)
  from "1.prems"(3) obtain st' fs' where p: "pstep st fs t = Some (st', fs')" "ptoks st' fs' ts' = Some v"
    by (auto simp: ts split: option.splits)
  show ?case
  proof (cases "outer_value st' fs'")
    case (Some w)
    with p(2) have "w = v" "ts' = []" by (auto simp: ptoks_value_end split: if_splits)
    with n(2) Some show ?thesis by (subst read_value.simps) (simp add: n(1) p(1))
  next
    case None
    from "1.IH" [OF n(1) refl p(1) refl None n(2) None p(2)] show ?thesis
      by (subst read_value.simps) (simp add: n(1) p(1) None)
  qed
qed

lemma first_value_parse:
  assumes "json_parse s = Some v"
  shows "first_value s False = Some v"
proof -
  obtain ts where ts: "lex s = Some (ts @ [])" "ptoks WantValue [] ts = Some v"
    using assms by (auto simp: json_parse_def bind_eq_Some_conv)
  show ?thesis using read_value_ptoks [OF ts(1) _ ts(2)] by (auto simp: first_value_def)
qed

text \<open>Text behind a value: \<open>Decode\<close> still reads the value, \<open>Unmarshal\<close> reads nothing.\<close>

lemma trailing_tokens:
  assumes "json_ok v" "json_depth v \<le> maxNestingDepth" and "value_stop r" "lex r = Some us" "us \<noteq> []"
  shows "first_value (json_print v @ r) False = Some v" and "json_parse (json_print v @ r) = None"
proof -
  have l: "lex (json_print v @ r) = Some (toks v @ us)" using lex_print(1) [OF assms(1,3)] assms(4) by simp
  have "ptoks WantValue [] (toks v @ []) = Some v" using ptoks_toks(1) [of v "[]" "[]"] assms(2) by (simp add: ptoks_value_end)
  then show "first_value (json_print v @ r) False = Some v"
    using read_value_ptoks [OF l, of WantValue "[]" v] by (auto simp: first_value_def)
  show "json_parse (json_print v @ r) = None"
    using ptoks_toks(1) [of v "[]" us] assms(2,5) by (simp add: json_parse_def l ptoks_value_end)
qed

end
