(* ===== verification/McpServer.thy ===== *)
theory McpServer
  imports Http Clock FloatText JsonStream Sha256 "HOL-Library.AList" "HOL-Library.List_Lexorder" "HOL-Library.Char_ord"
begin

text \<open>
  \<open>examples/simple-mcp-server\<close>: the MCP server the repository puts behind the gateway. It reads a
  JSON-RPC message with \<open>Decode\<close>, keeps the ids of the sessions it opened, and runs three tools.
  Values of Go's type \<open>any\<close> are the datatype \<open>any\<close>; a \<open>json.RawMessage\<close>, which is the text of one
  valid value, is that value. The offset of the local time zone is the argument \<open>loc\<close>.
\<close>

section \<open>Dynamic values\<close>

datatype any = ANil | ABool bool | ANum f64 | AStr string | AArr "any list" | AMap "(string \<times> any) list"

text \<open>Decoding into \<open>any\<close>: a number outside the range of \<open>float64\<close> is an error; a later key of an
  object replaces an earlier one.\<close>

fun into_any :: "json \<Rightarrow> any option" and into_any_list :: "json list \<Rightarrow> any list option"
  and into_any_map :: "(string \<times> json) list \<Rightarrow> (string \<times> any) list \<Rightarrow> (string \<times> any) list option" where
  "into_any JNull = Some ANil"
| "into_any (JBool b) = Some (ABool b)"
| "into_any (JNum n) = map_option ANum (ParseFloat n)"
| "into_any (JStr s) = Some (AStr s)"
| "into_any (JArr vs) = map_option AArr (into_any_list vs)"
| "into_any (JObj ms) = map_option AMap (into_any_map ms [])"
| "into_any_list [] = Some []"
| "into_any_list (v # vs) = Option.bind (into_any v) (\<lambda>x. map_option ((#) x) (into_any_list vs))"
| "into_any_map [] m = Some m"
| "into_any_map (kv # ms) m = Option.bind (into_any (snd kv)) (\<lambda>x. into_any_map ms (AList.update (fst kv) x m))"

text \<open>Encoding: the keys of a map are sorted; an infinite number is an error.\<close>

definition go_map :: "(string \<times> json) list \<Rightarrow> json" where
  "go_map ms = JObj (sort_key fst ms)"

fun any_json :: "any \<Rightarrow> json option" and any_json_list :: "any list \<Rightarrow> json list option"
  and any_json_map :: "(string \<times> any) list \<Rightarrow> (string \<times> json) list option" where
  "any_json ANil = Some JNull"
| "any_json (ABool b) = Some (JBool b)"
| "any_json (ANum f) = map_option JNum (json_float f)"
| "any_json (AStr s) = Some (JStr s)"
| "any_json (AArr vs) = map_option JArr (any_json_list vs)"
| "any_json (AMap ms) = map_option go_map (any_json_map ms)"
| "any_json_list [] = Some []"
| "any_json_list (v # vs) = Option.bind (any_json v) (\<lambda>x. map_option ((#) x) (any_json_list vs))"
| "any_json_map [] = Some []"
| "any_json_map (kv # ms) = Option.bind (any_json (snd kv)) (\<lambda>x. map_option ((#) (fst kv, x)) (any_json_map ms))"

text \<open>Decoding into \<open>map[string]any\<close>: null empties it, an object is merged into it.\<close>

definition into_map :: "json \<Rightarrow> (string \<times> any) list \<Rightarrow> (string \<times> any) list option" where
  "into_map v old = (case v of JObj ms \<Rightarrow> into_any_map ms old | JNull \<Rightarrow> Some [] | _ \<Rightarrow> None)"

section \<open>Messages\<close>

definition protocolVersion :: string where "protocolVersion = ''2025-11-25''"

record jsonrpcRequest =
  jr_JSONRPC :: string
  jr_ID :: any
  jr_Method :: string
  jr_Params :: "json option"

definition request_fields :: "jsonrpcRequest \<Rightarrow> string \<Rightarrow> json \<Rightarrow> jsonrpcRequest option" where
  "request_fields r k v =
     (if key_is ''jsonrpc'' k then map_option (\<lambda>s. r\<lparr>jr_JSONRPC := s\<rparr>) (into_string v (jr_JSONRPC r))
      else if key_is ''id'' k then map_option (\<lambda>x. r\<lparr>jr_ID := x\<rparr>) (into_any v)
      else if key_is ''method'' k then map_option (\<lambda>s. r\<lparr>jr_Method := s\<rparr>) (into_string v (jr_Method r))
      else if key_is ''params'' k then Some (r\<lparr>jr_Params := Some v\<rparr>)
      else Some r)"

definition no_request :: jsonrpcRequest where
  "no_request = \<lparr>jr_JSONRPC = [], jr_ID = ANil, jr_Method = [], jr_Params = None\<rparr>"

text \<open>A response: \<open>id\<close>, \<open>result\<close> and \<open>error\<close> are left out when nil.\<close>

definition jsonrpcResponse :: "any \<Rightarrow> json option \<Rightarrow> rpc_error option \<Rightarrow> json option" where
  "jsonrpcResponse i result err = map_option (\<lambda>ids. JObj ([(''jsonrpc'', JStr ''2.0'')] @ ids @
       (case result of None \<Rightarrow> [] | Some v \<Rightarrow> [(''result'', v)]) @
       (case err of None \<Rightarrow> []
         | Some e \<Rightarrow> [(''error'', JObj [(''code'', JNum (Itoa (re_code e))), (''message'', JStr (re_message e))])])))
     (if i = ANil then Some [] else map_option (\<lambda>v. [(''id'', v)]) (any_json i))"

definition writeJSON :: "int \<Rightarrow> json option \<Rightarrow> ev list" where
  "writeJSON status v = [SetHeader ''Content-Type'' ''application/json'', WriteHeader status] @
     (case v of None \<Rightarrow> [] | Some j \<Rightarrow> [Write (json_print j @ [CHR 0x0A])])"

definition answer :: "any \<Rightarrow> json \<Rightarrow> ev list" where
  "answer i result = writeJSON 200 (jsonrpcResponse i (Some result) None)"

definition answer_error :: "int \<Rightarrow> any \<Rightarrow> int \<Rightarrow> string \<Rightarrow> ev list" where
  "answer_error status i code msg = writeJSON status (jsonrpcResponse i None (Some \<lparr>re_code = code, re_message = msg\<rparr>))"

record implementation =
  im_Name :: string
  im_Version :: string

record initializeParams =
  ip_ProtocolVersion :: string
  ip_Capabilities :: "(string \<times> any) list"
  ip_ClientInfo :: implementation

definition implementation_fields :: "implementation \<Rightarrow> string \<Rightarrow> json \<Rightarrow> implementation option" where
  "implementation_fields r k v =
     (if key_is ''name'' k then map_option (\<lambda>s. r\<lparr>im_Name := s\<rparr>) (into_string v (im_Name r))
      else if key_is ''version'' k then map_option (\<lambda>s. r\<lparr>im_Version := s\<rparr>) (into_string v (im_Version r))
      else Some r)"

definition initialize_fields :: "initializeParams \<Rightarrow> string \<Rightarrow> json \<Rightarrow> initializeParams option" where
  "initialize_fields r k v =
     (if key_is ''protocolVersion'' k then map_option (\<lambda>s. r\<lparr>ip_ProtocolVersion := s\<rparr>) (into_string v (ip_ProtocolVersion r))
      else if key_is ''capabilities'' k then map_option (\<lambda>m. r\<lparr>ip_Capabilities := m\<rparr>) (into_map v (ip_Capabilities r))
      else if key_is ''clientInfo'' k then map_option (\<lambda>c. r\<lparr>ip_ClientInfo := c\<rparr>) (into_struct implementation_fields v (ip_ClientInfo r))
      else Some r)"

definition no_initialize :: initializeParams where
  "no_initialize = \<lparr>ip_ProtocolVersion = [], ip_Capabilities = [], ip_ClientInfo = \<lparr>im_Name = [], im_Version = []\<rparr>\<rparr>"

record toolCallParams =
  tp_Name :: string
  tp_Arguments :: "(string \<times> any) list"

definition tool_call_fields :: "toolCallParams \<Rightarrow> string \<Rightarrow> json \<Rightarrow> toolCallParams option" where
  "tool_call_fields r k v =
     (if key_is ''name'' k then map_option (\<lambda>s. r\<lparr>tp_Name := s\<rparr>) (into_string v (tp_Name r))
      else if key_is ''arguments'' k then map_option (\<lambda>m. r\<lparr>tp_Arguments := m\<rparr>) (into_map v (tp_Arguments r))
      else Some r)"

text \<open>\<open>json.Unmarshal\<close> of the raw params; without params it fails.\<close>

definition read_tool_call :: "json option \<Rightarrow> toolCallParams option" where
  "read_tool_call params = Option.bind params (\<lambda>v. into_struct tool_call_fields v \<lparr>tp_Name = [], tp_Arguments = []\<rparr>)"

section \<open>Tools\<close>

definition property :: "string \<Rightarrow> string \<Rightarrow> string \<Rightarrow> string \<times> json" where
  "property name type desc = (name, go_map [(''type'', JStr type), (''description'', JStr desc)])"

definition tool_entry :: "string \<Rightarrow> string \<Rightarrow> json \<Rightarrow> json" where
  "tool_entry name desc schema = JObj [(''name'', JStr name), (''description'', JStr desc), (''inputSchema'', schema)]"

definition tools :: json where
  "tools = JArr
     [tool_entry ''echo'' ''Returns the message you send it''
        (go_map [(''type'', JStr ''object''), (''properties'', go_map [property ''message'' ''string'' ''The message to echo back'']),
           (''required'', JArr [JStr ''message''])]),
      tool_entry ''get_time'' ''Returns the current server time in RFC 3339 format''
        (go_map [(''type'', JStr ''object''), (''properties'', go_map [])]),
      tool_entry ''add'' ''Adds two numbers and returns the result''
        (go_map [(''type'', JStr ''object''),
           (''properties'', go_map [property ''a'' ''number'' ''First number'', property ''b'' ''number'' ''Second number'']),
           (''required'', JArr [JStr ''a'', JStr ''b''])])]"

definition string_arg :: "(string \<times> any) list \<Rightarrow> string \<Rightarrow> string" where
  "string_arg args k = (case map_of args k of Some (AStr s) \<Rightarrow> s | _ \<Rightarrow> [])"

definition float_arg :: "(string \<times> any) list \<Rightarrow> string \<Rightarrow> f64" where
  "float_arg args k = (case map_of args k of Some (ANum f) \<Rightarrow> f | _ \<Rightarrow> FFinite False 0)"

definition toolResult :: "string \<times> bool \<Rightarrow> json" where
  "toolResult = (\<lambda>(text, isError). JObj ([(''content'', JArr [JObj [(''type'', JStr ''text''), (''text'', JStr text)]])] @
     (if isError then [(''isError'', JBool True)] else [])))"

section \<open>The server\<close>

record server =
  sessions :: "string set"
  sv_env :: env
  sv_rand :: "nat \<Rightarrow> string"       \<comment> \<open>the blocks of 16 bytes \<open>rand.Read\<close> gives\<close>
  sv_rands :: nat
  sv_calls :: "(string \<times> (string \<times> any) list) list"  \<comment> \<open>history: every call of \<open>callTool\<close>\<close>

text \<open>The text of the result and whether it is an error. \<open>callTool\<close> itself extends the history, so
  whoever calls a tool is seen.\<close>

definition callTool :: "(time \<Rightarrow> int) \<Rightarrow> string \<Rightarrow> (string \<times> any) list \<Rightarrow> server \<Rightarrow> (string \<times> bool) \<times> server" where
  "callTool loc name args s =
     (let s = s\<lparr>sv_calls := sv_calls s @ [(name, args)]\<rparr>
      in if name = ''echo'' then ((string_arg args ''message'', False), s)
      else if name = ''get_time'' then (let (now, e) = time_Now (sv_env s) in ((Format loc RFC3339 now, False), s\<lparr>sv_env := e\<rparr>))
      else if name = ''add'' then ((Sprintf_g (f64_add (float_arg args ''a'') (float_arg args ''b'')), False), s)
      else ((''unknown tool: '' @ name, True), s))"

definition newServer :: "env \<Rightarrow> (nat \<Rightarrow> string) \<Rightarrow> server" where
  "newServer e rnd = \<lparr>sessions = {}, sv_env = e, sv_rand = rnd, sv_rands = 0, sv_calls = []\<rparr>"

definition generateSessionID :: "server \<Rightarrow> string \<times> server" where
  "generateSessionID s = (EncodeToString (sv_rand s (sv_rands s)), s\<lparr>sv_rands := Suc (sv_rands s)\<rparr>)"

definition initialize_result :: json where
  "initialize_result = go_map [(''protocolVersion'', JStr protocolVersion),
     (''capabilities'', go_map [(''tools'', go_map [])]),
     (''serverInfo'', JObj [(''name'', JStr ''simple-mcp-server''), (''version'', JStr ''0.1.0'')])]"

definition handleInitialize :: "jsonrpcRequest \<Rightarrow> server \<Rightarrow> server \<times> ev list" where
  "handleInitialize req s =
     (if jr_Params req \<noteq> None \<and> into_struct initialize_fields (the (jr_Params req)) no_initialize = None
      then (s, answer_error 400 (jr_ID req) (- 32602) ''invalid initialize params'')
      else (let (sessionID, s) = generateSessionID s; s = s\<lparr>sessions := insert sessionID (sessions s)\<rparr>
            in (s, SetHeader ''Mcp-Session-Id'' sessionID # answer (jr_ID req) initialize_result)))"

text \<open>\<open>None\<close> lets the handler go on.\<close>

definition requireSession :: "request \<Rightarrow> any \<Rightarrow> server \<Rightarrow> ev list option" where
  "requireSession r reqID s =
     (let sid = header_Get r ''Mcp-Session-Id''
      in if sid = [] then Some (answer_error 400 reqID (- 32600) ''missing Mcp-Session-Id header; call initialize first'')
         else if sid \<notin> sessions s then Some (answer_error 400 reqID (- 32600) ''invalid session'')
         else None)"

definition handleToolsList :: "request \<Rightarrow> jsonrpcRequest \<Rightarrow> server \<Rightarrow> server \<times> ev list" where
  "handleToolsList r req s =
     (case requireSession r (jr_ID req) s of Some es \<Rightarrow> (s, es)
      | None \<Rightarrow> (s, answer (jr_ID req) (go_map [(''tools'', tools)])))"

definition handleToolsCall :: "(time \<Rightarrow> int) \<Rightarrow> request \<Rightarrow> jsonrpcRequest \<Rightarrow> server \<Rightarrow> server \<times> ev list" where
  "handleToolsCall loc r req s =
     (case requireSession r (jr_ID req) s of Some es \<Rightarrow> (s, es)
      | None \<Rightarrow>
          (case read_tool_call (jr_Params req) of
             None \<Rightarrow> (s, answer_error 200 (jr_ID req) (- 32602) ''invalid params'')
           | Some p \<Rightarrow>
               (let (result, s) = callTool loc (tp_Name p) (tp_Arguments p) s
                in (s, answer (jr_ID req) (toolResult result)))))"

definition read_request :: "request \<Rightarrow> jsonrpcRequest option" where
  "read_request r = (case rq_Body r of None \<Rightarrow> None | Some b \<Rightarrow> Decode request_fields (bd_data b) (bd_fails b) no_request)"

definition dispatch :: "(time \<Rightarrow> int) \<Rightarrow> request \<Rightarrow> jsonrpcRequest \<Rightarrow> server \<Rightarrow> server \<times> ev list" where
  "dispatch loc r req s =
     (if jr_Method req = ''initialize'' then handleInitialize req s
      else if jr_Method req = ''notifications/initialized'' then (s, [WriteHeader 202])
      else if jr_Method req = ''tools/list'' then handleToolsList r req s
      else if jr_Method req = ''tools/call'' then handleToolsCall loc r req s
      else if jr_Method req = ''ping'' then (s, answer (jr_ID req) (go_map []))
      else (s, answer_error 200 (jr_ID req) (- 32601) (''method not found: '' @ jr_Method req)))"

definition handleMCP :: "(time \<Rightarrow> int) \<Rightarrow> server handler" where
  "handleMCP loc r s =
     (if rq_Method r \<noteq> ''POST'' then (s, http_Error ''method not allowed'' 405, Returned)
      else (case read_request r of
          None \<Rightarrow> (s, answer_error 400 ANil (- 32700) ''parse error'', Returned)
        | Some req \<Rightarrow>
            if jr_JSONRPC req \<noteq> ''2.0''
            then (s, answer_error 400 (jr_ID req) (- 32600) ''invalid request: jsonrpc must be 2.0'', Returned)
            else (let (s, es) = dispatch loc r req s in (s, es, Returned))))"

end
