(* ===== verification/AgentDemo.thy ===== *)
theory AgentDemo
  imports McpServer
begin

text \<open>
  \<open>examples/ai-agent-demo\<close>: a client that opens a session through the gateway, lists and calls the
  tools, and sends fifteen calls in a row. The network with everything behind it is the argument
  \<open>net\<close>, a function on a state of its own. What the program prints is a list of \<open>line\<close>s, their
  layout aside; an error is kept as the step it came from.
\<close>

section \<open>Messages\<close>

record http_response =
  hr_StatusCode :: int
  hr_Status :: string
  hr_Header :: "string \<Rightarrow> string"
  hr_Body :: string
  hr_fails :: bool              \<comment> \<open>reading the body fails\<close>

type_synonym 'w network = "request \<Rightarrow> 'w \<Rightarrow> http_response option \<times> 'w"

definition client_request :: "int option \<Rightarrow> string \<Rightarrow> json option \<Rightarrow> json" where
  "client_request i m params = JObj ([(''jsonrpc'', JStr ''2.0'')] @
     (case i of None \<Rightarrow> [] | Some n \<Rightarrow> [(''id'', JNum (Itoa n))]) @ [(''method'', JStr m)] @
     (case params of None \<Rightarrow> [] | Some v \<Rightarrow> [(''params'', v)]))"

record rpc_response =
  cr_JSONRPC :: string
  cr_ID :: any
  cr_Result :: "json option"
  cr_Error :: "rpc_error option"

definition reply_fields :: "rpc_response \<Rightarrow> string \<Rightarrow> json \<Rightarrow> rpc_response option" where
  "reply_fields r k v =
     (if key_is ''jsonrpc'' k then map_option (\<lambda>s. r\<lparr>cr_JSONRPC := s\<rparr>) (into_string v (cr_JSONRPC r))
      else if key_is ''id'' k then map_option (\<lambda>x. r\<lparr>cr_ID := x\<rparr>) (into_any v)
      else if key_is ''result'' k then Some (r\<lparr>cr_Result := Some v\<rparr>)
      else map_option (\<lambda>e. r\<lparr>cr_Error := e\<rparr>) (response_fields (cr_Error r) k v))"

definition no_reply :: rpc_response where
  "no_reply = \<lparr>cr_JSONRPC = [], cr_ID = ANil, cr_Result = None, cr_Error = None\<rparr>"

section \<open>The client\<close>

record mcpClient =
  cl_apiKey :: string
  cl_sessionID :: string
  cl_nextID :: int

definition newMCPClient :: "string \<Rightarrow> mcpClient" where
  "newMCPClient apiKey = \<lparr>cl_apiKey = apiKey, cl_sessionID = [], cl_nextID = 1\<rparr>"

datatype client_error = HttpDo | ReadBody | DecodeResponse string

type_synonym sent = "http_response option \<times> rpc_response option \<times> client_error option"

definition client_header :: "bool \<Rightarrow> mcpClient \<Rightarrow> string \<Rightarrow> string list" where
  "client_header includeAuth c h =
     (if h = ''Content-Type'' \<or> h = ''Accept'' then [''application/json'']
      else if h = ''Authorization'' \<and> includeAuth \<and> cl_apiKey c \<noteq> [] then [''Bearer '' @ cl_apiKey c]
      else if h = ''Mcp-Session-Id'' \<and> cl_sessionID c \<noteq> [] then [cl_sessionID c]
      else [])"

text \<open>The request as a server on the other end sees it, but for the headers of the transport.\<close>

definition client_http :: "bool \<Rightarrow> mcpClient \<Rightarrow> string \<Rightarrow> request" where
  "client_http includeAuth c body = \<lparr>rq_Method = ''POST'', rq_Path = ''/mcp'', rq_RawQuery = [], rq_Header = client_header includeAuth c,
     rq_Body = Some \<lparr>bd_data = body, bd_fails = False\<rparr>, rq_RemoteAddr = [], rq_TLS = False, rq_APIKey = None, rq_RequestID = None\<rparr>"

definition read_reply :: "http_response \<Rightarrow> sent" where
  "read_reply resp =
     (if hr_fails resp then (Some resp, None, Some ReadBody)
      else if hr_Body resp = [] then (Some resp, None, None)
      else (case Unmarshal reply_fields (hr_Body resp) no_reply of
          None \<Rightarrow> (Some resp, None, Some (DecodeResponse (hr_Body resp)))
        | Some rpc \<Rightarrow> (Some resp, Some rpc, None)))"

text \<open>Marshalling these messages and building the request for the constant URL do not fail.\<close>

definition send :: "'w network \<Rightarrow> string \<Rightarrow> json option \<Rightarrow> bool \<Rightarrow> mcpClient \<Rightarrow> 'w \<Rightarrow> sent \<times> mcpClient \<times> 'w" where
  "send net m params includeAuth c w =
     (let i = (if m = ''notifications/initialized'' then None else Some (cl_nextID c));
          c = c\<lparr>cl_nextID := int64 (cl_nextID c + 1)\<rparr>;
          (resp, w) = net (client_http includeAuth c (json_print (client_request i m params))) w
      in (case resp of None \<Rightarrow> (None, None, Some HttpDo) | Some p \<Rightarrow> read_reply p, c, w))"

section \<open>Output\<close>

datatype outcome = ErrorOut client_error | RejectedOut string int string | RateLimitedOut string string
  | FailedOut string | OkResult string json | OkOut string

fun printResult :: "sent \<Rightarrow> outcome" where
  "printResult (resp, rpc, Some err) = ErrorOut err"
| "printResult (resp, rpc, None) =
     (let status = (case resp of None \<Rightarrow> ''???'' | Some p \<Rightarrow> hr_Status p);
          code = (case resp of None \<Rightarrow> 0 | Some p \<Rightarrow> hr_StatusCode p)
      in (case Option.bind rpc cr_Error of
          Some e \<Rightarrow> RejectedOut status (re_code e) (re_message e)
        | None \<Rightarrow>
            if code = 429 then RateLimitedOut status (hr_Header (the resp) ''Retry-After'')
            else if 400 \<le> code then FailedOut status
            else (case Option.bind rpc cr_Result of Some v \<Rightarrow> OkResult status v | None \<Rightarrow> OkOut status)))"

datatype line = Header string | Report string outcome | SessionLine string | Warned client_error | Notified string | Say string
  | BurstError nat client_error | BurstLimited nat string | BurstRejected nat int string | BurstOK nat | Summary nat nat

section \<open>The script\<close>

definition init_params :: "string \<Rightarrow> json" where
  "init_params name = go_map [(''protocolVersion'', JStr protocolVersion), (''capabilities'', go_map []),
     (''clientInfo'', go_map [(''name'', JStr name), (''version'', JStr ''1.0.0'')])]"

definition call_params :: "string \<Rightarrow> (string \<times> json) list \<Rightarrow> json" where
  "call_params tool args = go_map [(''name'', JStr tool), (''arguments'', go_map args)]"

text \<open>One call of the burst: what it prints, and whether it counts as limited or succeeded.\<close>

fun burst_line :: "nat \<Rightarrow> sent \<Rightarrow> line" where
  "burst_line i (resp, rpc, Some err) = BurstError i err"
| "burst_line i (resp, rpc, None) =
     (if hr_StatusCode (the resp) = 429 then BurstLimited i (hr_Header (the resp) ''Retry-After'')
      else (case Option.bind rpc cr_Error of Some e \<Rightarrow> BurstRejected i (re_code e) (re_message e) | None \<Rightarrow> BurstOK i))"

fun burst :: "'w network \<Rightarrow> nat list \<Rightarrow> nat \<Rightarrow> nat \<Rightarrow> mcpClient \<Rightarrow> 'w \<Rightarrow> line list \<times> mcpClient \<times> 'w" where
  "burst net [] limited succeeded c w = ([Summary succeeded limited], c, w)"
| "burst net (i # is) limited succeeded c w =
     (let (res, c, w) = send net ''tools/call'' (Some (call_params ''echo'' [(''message'', JStr (''burst request #'' @ show_nat i))])) True c w;
          l = burst_line i res;
          limited = (case l of BurstLimited _ _ \<Rightarrow> Suc limited | _ \<Rightarrow> limited);
          succeeded = (case l of BurstOK _ \<Rightarrow> Suc succeeded | _ \<Rightarrow> succeeded);
          (ls, c, w) = burst net is limited succeeded c w
      in (l # ls, c, w))"

text \<open>The fixed calls of steps 2 and 3, each with its label and, before some, a line of text.\<close>

definition tool_steps :: "(line list \<times> string \<times> string \<times> json option) list" where
  "tool_steps =
     [([Header ''Step 2: List Available Tools''], ''tools/list'', ''tools/list'', None),
      ([Header ''Step 3: Call Tools'', Say ''  --- echo ---''], ''echo'', ''tools/call'',
         Some (call_params ''echo'' [(''message'', JStr ''Hello from the AI agent demo!'')])),
      ([Say ''  --- get_time ---''], ''get_time'', ''tools/call'', Some (call_params ''get_time'' [])),
      ([Say ''  --- add ---''], ''add(1337, 42)'', ''tools/call'',
         Some (call_params ''add'' [(''a'', JNum (Itoa 1337)), (''b'', JNum (Itoa 42))]))]"

fun run_steps :: "'w network \<Rightarrow> (line list \<times> string \<times> string \<times> json option) list \<Rightarrow> mcpClient \<Rightarrow> 'w \<Rightarrow> line list \<times> mcpClient \<times> 'w" where
  "run_steps net [] c w = ([], c, w)"
| "run_steps net ((pre, label, m, params) # rest) c w =
     (let (res, c, w) = send net m params True c w; (ls, c, w) = run_steps net rest c w
      in (pre @ [Report label (printResult res)] @ ls, c, w))"

text \<open>\<open>None\<close> is an exit with status 1, with the lines printed before it.\<close>

definition demo_main :: "'w network \<Rightarrow> string \<Rightarrow> 'w \<Rightarrow> (line list \<times> bool) \<times> 'w" where
  "demo_main net apiKey w =
     (if apiKey = [] then (([], False), w)
      else (let (res, c, w) = send net ''initialize'' (Some (init_params ''ai-agent-demo'')) True (newMCPClient apiKey) w;
                ls1 = [Header ''Step 1: Initialize MCP Session'', Report ''initialize'' (printResult res)]
            in (case res of
                (Some resp, rpc, None) \<Rightarrow>
                  if Option.bind rpc cr_Error \<noteq> None then ((ls1, False), w)
                  else (let sid = hr_Header resp ''Mcp-Session-Id''; c = c\<lparr>cl_sessionID := sid\<rparr>;
                            ((resp2, rpc2, err2), c, w) = send net ''notifications/initialized'' None True c w;
                            note = (case err2 of Some e \<Rightarrow> Warned e | None \<Rightarrow> Notified (hr_Status (the resp2)));
                            (ls2, c, w) = run_steps net tool_steps c w;
                            (ls3, c, w) = burst net [1..<16] 0 0 c w;
                            (res4, c4, w) = send net ''initialize'' (Some (init_params ''unauthorized-client'')) False (newMCPClient []) w
                        in ((ls1 @ [SessionLine sid, note] @ ls2 @
                             [Header ''Step 4: Rapid Requests (trigger rate limiting)'', Say ''  Sending 15 rapid requests...''] @ ls3 @
                             [Header ''Step 5: Unauthenticated Request (no API key)'', Report ''initialize (no auth)'' (printResult res4),
                              Header ''Demo Complete''], True), w))
              | _ \<Rightarrow> ((ls1, False), w))))"

end
