(* ===== verification/McpProps.thy ===== *)
theory McpProps
  imports McpServer RbacProps
begin

text \<open>
  What the MCP server promises, and how the gateway's reading of a message relates to the
  server's: the RBAC middleware decides about the tool the server runs, as long as it can read
  the body at all.
\<close>

section \<open>Which tool a request runs\<close>

definition tool_run :: "request \<Rightarrow> server \<Rightarrow> (string \<times> (string \<times> any) list) option" where
  "tool_run r s = (if rq_Method r \<noteq> ''POST'' then None
     else Option.bind (read_request r) (\<lambda>req.
       if jr_JSONRPC req = ''2.0'' \<and> jr_Method req = ''tools/call'' \<and> requireSession r (jr_ID req) s = None
       then map_option (\<lambda>p. (tp_Name p, tp_Arguments p)) (read_tool_call (jr_Params req)) else None))"

lemma tool_run_Some:
  assumes "tool_run r s = Some (n, args)"
  obtains req p where "rq_Method r = ''POST''" "read_request r = Some req" "jr_JSONRPC req = ''2.0''" "jr_Method req = ''tools/call''"
    "requireSession r (jr_ID req) s = None" "read_tool_call (jr_Params req) = Some p" "tp_Name p = n" "tp_Arguments p = args"
  using assms by (auto simp: tool_run_def bind_eq_Some_conv split: if_splits)

lemma callTool_frame [simp]:
  "sessions (snd (callTool loc n args s)) = sessions s" "sv_calls (snd (callTool loc n args s)) = sv_calls s @ [(n, args)]"
  by (simp_all add: callTool_def Let_def split_beta)

text \<open>The server calls a tool for exactly these requests, and then just the one.\<close>

lemma handleMCP_calls:
  "sv_calls (fst (handleMCP loc r s)) = sv_calls s @ (case tool_run r s of None \<Rightarrow> [] | Some c \<Rightarrow> [c])"
proof -
  have c: "sv_calls s' = sv_calls s @ [(n, args)]" if "callTool loc n args s = (res, s')" for n args res s'
    using callTool_frame(2) [of loc n args s] that by simp
  show ?thesis
    by (auto simp: handleMCP_def dispatch_def handleToolsCall_def handleInitialize_def handleToolsList_def generateSessionID_def
        tool_run_def Let_def split: option.split prod.split dest: c)
qed

section \<open>Two readers of one message\<close>

text \<open>The gateway merges every \<open>params\<close> member into one struct, the server keeps the last one.\<close>

definition readers_agree :: "rpc_call \<Rightarrow> jsonrpcRequest \<Rightarrow> bool" where
  "readers_agree c q \<longleftrightarrow> rc_Method c = jr_Method q \<and>
     (\<forall>v p. jr_Params q = Some v \<longrightarrow> read_tool_call (Some v) = Some p \<longrightarrow> tp_Name p \<noteq> [] \<longrightarrow> tp_Name p = rc_Name c)"

lemma fill_names:
  assumes "fill name_fields c ms = Some c'" and "fill tool_call_fields p ms = Some p'"
    and "tp_Name p = [] \<or> tp_Name p = rc_Name c"
  shows "(tp_Name p' = [] \<or> tp_Name p' = rc_Name c') \<and> rc_Method c' = rc_Method c"
  using assms
proof (induction name_fields c ms arbitrary: p rule: fill.induct)
  case (2 c k v ms)
  from "2.prems"(1) obtain c1 where c: "name_fields c k v = Some c1" "fill name_fields c1 ms = Some c'" by (auto simp: bind_eq_Some_conv)
  from "2.prems"(2) obtain p1 where p: "tool_call_fields p k v = Some p1" "fill tool_call_fields p1 ms = Some p'" by (auto simp: bind_eq_Some_conv)
  have "(tp_Name p1 = [] \<or> tp_Name p1 = rc_Name c1) \<and> rc_Method c1 = rc_Method c"
    using c(1) p(1) "2.prems"(3)
    by (auto simp: name_fields_def tool_call_fields_def into_string_def split: if_splits json.splits)
  with "2.hyps" [OF c(1,2) p(2)] show ?case by simp
qed simp

lemma struct_names:
  assumes "into_struct name_fields v c = Some c'"
    and "read_tool_call (Some v) = Some p"
  shows "tp_Name p = [] \<or> tp_Name p = rc_Name c'"
  using assms fill_names [of c _ c' "\<lparr>tp_Name = [], tp_Arguments = []\<rparr>"]
  by (auto simp: into_struct_def read_tool_call_def split: json.splits)

lemma struct_method: "into_struct name_fields v c = Some c' \<Longrightarrow> rc_Method c' = rc_Method c"
proof -
  have f: "fill name_fields c ms = Some c' \<Longrightarrow> rc_Method c' = rc_Method c" for ms c
    by (induction name_fields c ms rule: fill.induct)
      (auto simp: bind_eq_Some_conv name_fields_def split: if_splits)
  show "into_struct name_fields v c = Some c' \<Longrightarrow> ?thesis" by (auto simp: into_struct_def split: json.splits dest: f)
qed

lemma request_keys:
  "key_is ''method'' k \<Longrightarrow> \<not> key_is ''jsonrpc'' k \<and> \<not> key_is ''id'' k \<and> \<not> key_is ''params'' k"
  "key_is ''params'' k \<Longrightarrow> \<not> key_is ''jsonrpc'' k \<and> \<not> key_is ''id'' k"
  by (auto simp: key_is_def byte_in_def)

lemma fields_agree:
  assumes "readers_agree c q" and "call_fields c k v = Some c'" and "request_fields q k v = Some q'"
  shows "readers_agree c' q'"
proof (cases "key_is ''method'' k")
  case True
  with assms request_keys(1) [OF True] show ?thesis
    by (auto simp: readers_agree_def call_fields_def request_fields_def into_string_def split: json.splits)
next
  case m: False
  show ?thesis
  proof (cases "key_is ''params'' k")
    case True
    then have s: "into_struct name_fields v c = Some c'" "q' = q\<lparr>jr_Params := Some v\<rparr>"
      using assms(2,3) m request_keys(2) [OF True] by (auto simp: call_fields_def request_fields_def)
    show ?thesis
      using assms(1) struct_names [OF s(1)] struct_method [OF s(1)] by (auto simp: readers_agree_def s(2))
  next
    case False
    with m assms show ?thesis
      by (auto simp: readers_agree_def call_fields_def request_fields_def split: if_splits)
  qed
qed

lemma fill_agree:
  "readers_agree c q \<Longrightarrow> fill call_fields c ms = Some c' \<Longrightarrow> fill request_fields q ms = Some q' \<Longrightarrow> readers_agree c' q'"
proof (induction ms arbitrary: c q)
  case (Cons m ms)
  obtain k v where m: "m = (k, v)" by (cases m)
  from Cons.prems(2) obtain c1 where c: "call_fields c k v = Some c1" "fill call_fields c1 ms = Some c'" by (auto simp: m bind_eq_Some_conv)
  from Cons.prems(3) obtain q1 where q: "request_fields q k v = Some q1" "fill request_fields q1 ms = Some q'" by (auto simp: m bind_eq_Some_conv)
  from Cons.IH [OF fields_agree [OF Cons.prems(1) c(1) q(1)] c(2) q(2)] show ?case .
qed simp

definition no_call :: rpc_call where "no_call = \<lparr>rc_Method = [], rc_Name = []\<rparr>"

lemma unmarshal_agree:
  assumes "Unmarshal call_fields b no_call = Some c" and "Decode request_fields b False no_request = Some q"
  shows "readers_agree c q"
proof -
  obtain v where v: "json_parse b = Some v" "into_struct call_fields v no_call = Some c"
    using assms(1) by (auto simp: Unmarshal_def bind_eq_Some_conv)
  have q: "into_struct request_fields v no_request = Some q"
    using assms(2) by (simp add: Decode_def first_value_parse [OF v(1)])
  have "readers_agree no_call no_request" by (simp add: readers_agree_def no_call_def no_request_def)
  with v(2) q show ?thesis by (auto simp: into_struct_def split: json.splits intro: fill_agree)
qed

lemma checked_tool:
  assumes "Unmarshal call_fields body no_call \<noteq> None" and "rq_Body r = Some \<lparr>bd_data = body, bd_fails = False\<rparr>"
    and "tool_run r srv = Some (n, args)" and "n \<noteq> []"
  shows "extractResourceAction body = (''tool:'' @ n, ''execute'')"
proof -
  obtain c where c: "Unmarshal call_fields body no_call = Some c" using assms(1) by auto
  from assms(3) obtain q p where q: "read_request r = Some q" "jr_Method q = ''tools/call''"
    "read_tool_call (jr_Params q) = Some p" "tp_Name p = n" by (auto elim: tool_run_Some)
  have "readers_agree c q" using unmarshal_agree [OF c] q(1) by (simp add: read_request_def assms(2))
  then have "rc_Method c = ''tools/call''" "rc_Name c = n"
    using q(2-4) assms(4) by (cases "jr_Params q"; auto simp: readers_agree_def read_tool_call_def)+
  then show ?thesis using c assms(4) by (simp add: extractResourceAction_def no_call_def)
qed

lemma readAndRestore_ok:
  assumes "fst (readAndRestore r) \<noteq> []"
  shows "rq_Body (snd (readAndRestore r)) = Some \<lparr>bd_data = fst (readAndRestore r), bd_fails = False\<rparr>"
  using assms by (auto simp: readAndRestore_def read_limited_def split: option.splits if_splits)

lemma Unmarshal_Nil [simp]: "Unmarshal f [] c = None"
  by (simp add: Unmarshal_def json_parse_Nil)

text \<open>A request that passed RBAC and makes the server run a named tool was checked for that
  very tool, provided the gateway could read the body: the two readers never see different tools
  in a message, whatever keys it repeats or spells in other cases.\<close>

theorem server_runs_only_checked:
  assumes "rbac_guard loader r s = (s', Pass r')" and "rq_APIKey r = Some key"
    and "tool_run r' srv = Some (n, args)" and "n \<noteq> []"
    and "Unmarshal call_fields (fst (readAndRestore r)) no_call \<noteq> None"
  shows "fst (IsAllowed loader (ak_ID key) (''tool:'' @ n) ''execute'' s)"
proof -
  have "fst (readAndRestore r) \<noteq> []" using assms(5) by (metis Unmarshal_Nil)
  moreover have "r' = snd (readAndRestore r)" using assms(1,2)
    by (auto simp: rbac_guard_def APIKeyFromContext_def split: prod.splits if_splits)
  ultimately have "extractResourceAction (fst (readAndRestore r)) = (''tool:'' @ n, ''execute'')"
    using readAndRestore_ok [of r] assms(3-5) by (intro checked_tool [of _ r']) auto
  then show ?thesis using assms(1,2)
    by (auto simp: rbac_guard_def APIKeyFromContext_def split: prod.splits if_splits)
qed

section \<open>A message with a tail\<close>

lemma tool_call_read:
  assumes "into_any_map args [] = Some m"
  shows "into_struct request_fields (tool_call n args) no_request =
      Some \<lparr>jr_JSONRPC = ''2.0'', jr_ID = ANum (FFinite False 1), jr_Method = ''tools/call'',
        jr_Params = Some (JObj [(''name'', JStr n), (''arguments'', JObj args)])\<rparr>"
    and "read_tool_call (Some (JObj [(''name'', JStr n), (''arguments'', JObj args)])) = Some \<lparr>tp_Name = n, tp_Arguments = m\<rparr>"
proof -
  have "Itoa 1 = ''1''" by code_simp
  then have i: "ParseFloat ''1'' = Some (FFinite False 1)" using ParseFloat_Itoa [of 1] by simp
  have k: "key_is ''jsonrpc'' ''jsonrpc''" "\<not> key_is ''jsonrpc'' ''id''" "\<not> key_is ''jsonrpc'' ''method''" "\<not> key_is ''jsonrpc'' ''params''"
    "key_is ''id'' ''id''" "\<not> key_is ''id'' ''method''" "\<not> key_is ''id'' ''params''" "key_is ''arguments'' ''arguments''"
    by (simp_all add: key_is_def byte_in_def)
  show "into_struct request_fields (tool_call n args) no_request =
      Some \<lparr>jr_JSONRPC = ''2.0'', jr_ID = ANum (FFinite False 1), jr_Method = ''tools/call'',
        jr_Params = Some (JObj [(''name'', JStr n), (''arguments'', JObj args)])\<rparr>"
    by (simp add: tool_call_def into_struct_def request_fields_def k call_keys no_request_def into_string_def i)
  show "read_tool_call (Some (JObj [(''name'', JStr n), (''arguments'', JObj args)])) = Some \<lparr>tp_Name = n, tp_Arguments = m\<rparr>"
    using assms by (simp add: read_tool_call_def into_struct_def tool_call_fields_def k call_keys into_string_def into_map_def)
qed

text \<open>C8: Text behind a \<open>tools/call\<close> message, a single closing brace is enough, takes the call past RBAC
  whatever the key's permissions say, and the server, in an open session, still calls the tool.\<close>

theorem trailing_text_skips_rbac:
  assumes "valid_utf8 n" and "json_ok (JObj args)" and "json_depth (tool_call n args) \<le> maxNestingDepth"
    and "into_any_map args [] = Some m"
    and "value_stop t" and "lex t = Some us" and "us \<noteq> []"
    and "rq_Body r = Some \<lparr>bd_data = json_print (tool_call n args) @ t, bd_fails = False\<rparr>"
    and "length (json_print (tool_call n args) @ t) \<le> maxBodyRead"
    and "rq_Method r = ''POST''" and "header_Get r ''Mcp-Session-Id'' = sid" and "sid \<noteq> []" and "sid \<in> sessions srv"
  shows "rbac_guard loader r s = (s, Pass r) \<and> sv_calls (fst (handleMCP loc r srv)) = sv_calls srv @ [(n, m)]"
proof
  let ?b = "json_print (tool_call n args) @ t"
  note tail = trailing_tokens [OF tool_call_ok [OF assms(1,2)] assms(3,5,6,7)]
  have "readAndRestore r = (?b, r\<lparr>rq_Body := Some \<lparr>bd_data = ?b, bd_fails = False\<rparr>\<rparr>)"
    using assms(9) by (simp add: readAndRestore_def read_limited_def assms(8))
  moreover have "r\<lparr>rq_Body := Some \<lparr>bd_data = ?b, bd_fails = False\<rparr>\<rparr> = r"
    using assms(8) by (cases r) simp
  ultimately show "rbac_guard loader r s = (s, Pass r)"
    using tail(2) by (simp add: rbac_guard_def extractResourceAction_def Unmarshal_def split: option.splits)
  have "read_request r = into_struct request_fields (tool_call n args) no_request"
    by (simp add: read_request_def assms(8) Decode_def tail(1))
  then have "tool_run r srv = Some (n, m)"
    using assms(10-13) by (simp add: tool_run_def requireSession_def tool_call_read [OF assms(4)])
  then show "sv_calls (fst (handleMCP loc r srv)) = sv_calls srv @ [(n, m)]" by (simp add: handleMCP_calls)
qed

section \<open>Sessions\<close>

primrec serve :: "(time \<Rightarrow> int) \<Rightarrow> request list \<Rightarrow> server \<Rightarrow> server \<times> ev list list" where
  "serve loc [] s = (s, [])"
| "serve loc (r # rs) s = (let (s', es, f) = handleMCP loc r s; (s'', ess) = serve loc rs s' in (s'', es # ess))"

definition issued :: "ev list \<Rightarrow> string set" where
  "issued es = {sid. SetHeader ''Mcp-Session-Id'' sid \<in> set es}"

lemma issued_writeJSON [simp]: "issued (writeJSON c v) = {}"
  by (auto simp: issued_def writeJSON_def split: option.splits)

lemma issued_answers [simp]: "issued (answer i v) = {}" "issued (answer_error c i n msg) = {}"
  by (simp_all add: answer_def answer_error_def)

lemma issued_Cons: "issued (e # es) = (case e of SetHeader k v \<Rightarrow> if k = ''Mcp-Session-Id'' then {v} else {} | _ \<Rightarrow> {}) \<union> issued es"
  by (auto simp: issued_def split: ev.splits)

lemma issued_misc [simp]: "issued (http_Error msg c) = {}" "issued [] = {}" "issued [WriteHeader c] = {}"
  by (simp_all add: issued_def http_Error_def)

lemma requireSession_quiet: "requireSession r i s = Some es \<Longrightarrow> issued es = {}"
  by (auto simp: requireSession_def Let_def split: if_splits)

lemma handleMCP_sessions:
  "handleMCP loc r s = (s', es, f) \<Longrightarrow> sessions s' = sessions s \<union> issued es"
  by (auto simp: handleMCP_def dispatch_def handleInitialize_def handleToolsList_def handleToolsCall_def generateSessionID_def
      issued_Cons requireSession_quiet Let_def split_beta split: option.splits if_splits)

lemma serve_sessions: "sessions (fst (serve loc rs s)) = sessions s \<union> \<Union> (issued ` set (snd (serve loc rs s)))"
proof (induction rs arbitrary: s)
  case (Cons r rs)
  obtain s' es f where h: "handleMCP loc r s = (s', es, f)" by (cases "handleMCP loc r s") auto
  show ?case using Cons.IH [of s'] handleMCP_sessions [OF h] by (auto simp: h split_beta)
qed simp

text \<open>C36: After any sequence of requests the server accepts exactly the session ids that an
  answer to \<open>initialize\<close> has handed out, and keeps accepting them; an empty id never counts.\<close>

theorem sessions_issued:
  "requireSession r i (fst (serve loc rs (newServer e rnd))) = None \<longleftrightarrow>
     header_Get r ''Mcp-Session-Id'' \<noteq> [] \<and>
     (\<exists>es \<in> set (snd (serve loc rs (newServer e rnd))). SetHeader ''Mcp-Session-Id'' (header_Get r ''Mcp-Session-Id'') \<in> set es)"
  using serve_sessions [of loc rs "newServer e rnd"]
  by (auto simp: requireSession_def newServer_def issued_def Let_def)

section \<open>The id of the answer\<close>

definition message :: "string \<Rightarrow> string \<Rightarrow> json \<Rightarrow> json" where
  "message i m v = JObj [(''jsonrpc'', JStr ''2.0''), (''id'', JNum i), (''method'', JStr m), (''params'', v)]"

lemma message_read:
  assumes "ParseFloat i = Some f"
  shows "into_struct request_fields (message i m v) no_request =
    Some \<lparr>jr_JSONRPC = ''2.0'', jr_ID = ANum f, jr_Method = m, jr_Params = Some v\<rparr>"
proof -
  have k: "key_is ''jsonrpc'' ''jsonrpc''" "\<not> key_is ''jsonrpc'' ''id''" "\<not> key_is ''jsonrpc'' ''method''" "\<not> key_is ''jsonrpc'' ''params''"
    "key_is ''id'' ''id''" "\<not> key_is ''id'' ''method''" "\<not> key_is ''id'' ''params''"
    by (simp_all add: key_is_def byte_in_def)
  show ?thesis
    by (simp add: message_def into_struct_def request_fields_def k call_keys no_request_def into_string_def assms)
qed

definition with_body :: "request \<Rightarrow> json \<Rightarrow> request" where
  "with_body r v = r\<lparr>rq_Body := Some \<lparr>bd_data = json_print v, bd_fails = False\<rparr>\<rparr>"

definition body_id :: "string \<Rightarrow> json \<Rightarrow> bool" where
  "body_id b v \<longleftrightarrow> (\<exists>ms. b = json_print (JObj ms) @ [CHR 0x0A] \<and> map_of ms ''id'' = Some v)"

lemma rp_body_writeJSON:
  "body_allowed c \<Longrightarrow> rp_body (respond (writeJSON c v)) = (case v of None \<Rightarrow> [] | Some j \<Rightarrow> json_print j @ [CHR 0x0A])"
  "body_allowed c \<Longrightarrow> rp_body (respond (SetHeader h x # writeJSON c v)) = (case v of None \<Rightarrow> [] | Some j \<Rightarrow> json_print j @ [CHR 0x0A])"
  by (auto simp: writeJSON_def respond_def fresh_response_def write_header_def body_allowed_def Let_def split: option.splits)

lemma body_id_response:
  assumes "any_json i = Some v" and "i \<noteq> ANil" and "body_allowed c" and "jsonrpcResponse i res err = j"
  shows "body_id (rp_body (respond (writeJSON c j))) v" "body_id (rp_body (respond (SetHeader h x # writeJSON c j))) v"
proof -
  obtain ms where "j = Some (JObj ms)" "map_of ms ''id'' = Some v"
    using assms(1,2,4) by (force simp: jsonrpcResponse_def)
  with assms(3) show "body_id (rp_body (respond (writeJSON c j))) v" "body_id (rp_body (respond (SetHeader h x # writeJSON c j))) v"
    by (auto simp: rp_body_writeJSON body_id_def simp del: json_print.simps)
qed

lemma answers_id:
  assumes "any_json i = Some v" and "i \<noteq> ANil"
  shows "body_id (rp_body (respond (answer i res))) v" "body_id (rp_body (respond (SetHeader h x # answer i res))) v"
    "c \<in> {200, 400} \<Longrightarrow> body_id (rp_body (respond (answer_error c i n msg))) v"
  using assms by (auto simp: answer_def answer_error_def body_allowed_def intro: body_id_response)

lemma session_answer_id:
  "requireSession r i s = Some es \<Longrightarrow> any_json i = Some v \<Longrightarrow> i \<noteq> ANil \<Longrightarrow> body_id (rp_body (respond es)) v"
  by (auto simp: requireSession_def Let_def answers_id split: if_splits)

lemma dispatch_id:
  assumes "dispatch loc r req s = (s', es)" and "jr_Method req \<noteq> ''notifications/initialized''"
    and "any_json (jr_ID req) = Some v" and "jr_ID req \<noteq> ANil"
  shows "body_id (rp_body (respond es)) v"
  using assms
  by (auto simp: dispatch_def handleInitialize_def handleToolsList_def handleToolsCall_def answers_id session_answer_id Let_def
      split: option.splits if_splits prod.splits)

text \<open>C37: A request with an integer id below \<open>2^53\<close> in magnitude is answered with the same id in the
  same text, whatever its method and params, errors included; only the notification
  \<open>notifications/initialized\<close> has no body.\<close>

theorem id_answered:
  assumes "\<bar>i\<bar> < 9007199254740992" and "valid_utf8 m" "json_ok v" "json_depth (message (Itoa i) m v) \<le> maxNestingDepth"
    and "rq_Method r = ''POST''" and "m \<noteq> ''notifications/initialized''"
  shows "body_id (rp_body (respond (fst (snd (handleMCP loc (with_body r (message (Itoa i) m v)) s))))) (JNum (Itoa i))"
proof -
  have ok: "json_ok (message (Itoa i) m v)" using assms(2,3) by (simp add: message_def is_ascii_def)
  obtain f where f: "ParseFloat (Itoa i) = Some f" "json_float f = Some (Itoa i)"
    using json_float_Itoa [OF assms(1)] by (auto simp: bind_eq_Some_conv)
  let ?q = "\<lparr>jr_JSONRPC = ''2.0'', jr_ID = ANum f, jr_Method = m, jr_Params = Some v\<rparr>"
  have "read_request (with_body r (message (Itoa i) m v)) = Some ?q"
    by (simp add: read_request_def with_body_def Decode_def first_value_parse [OF json_roundtrip [OF ok assms(4)]] message_read [OF f(1)])
  moreover obtain s' es where d: "dispatch loc (with_body r (message (Itoa i) m v)) ?q s = (s', es)" by fastforce
  moreover have "body_id (rp_body (respond es)) (JNum (Itoa i))"
    using dispatch_id [OF d] assms(6) f(2) by simp
  ultimately show ?thesis by (simp add: handleMCP_def assms(5) with_body_def)
qed

text \<open>Beyond that range ids fall together: \<open>2^53 + 1\<close> gets the answer of \<open>2^53\<close>.\<close>

theorem ids_collide:
  assumes "valid_utf8 m" "json_ok v" and d: "json_depth (message [] m v) \<le> maxNestingDepth"
  shows "read_request (with_body r (message (Itoa 9007199254740993) m v)) = read_request (with_body r (message (Itoa 9007199254740992) m v))"
proof -
  have "read_request (with_body r (message (Itoa i) m v)) = into_struct request_fields (message (Itoa i) m v) no_request" for i
    using json_roundtrip [of "message (Itoa i) m v"] assms
    by (simp add: read_request_def with_body_def Decode_def first_value_parse message_def is_ascii_def)
  moreover obtain f where "ParseFloat (Itoa 9007199254740992) = Some f" using ParseFloat_Itoa [of 9007199254740992] by simp
  ultimately show ?thesis using ParseFloat_collide by (simp add: message_read)
qed

section \<open>Concrete runs\<close>

text \<open>A request in the open session \<open>s1\<close>, and a server that has opened it.\<close>

definition session_request :: "string \<Rightarrow> request" where
  "session_request body = (demo_request body)\<lparr>rq_Header := (\<lambda>h. if h = ''Mcp-Session-Id'' then [''s1''] else [])\<rparr>"

definition session_server :: server where
  "session_server = (newServer \<lparr>now_at = (\<lambda>_. 0), ticks = 0\<rparr> (\<lambda>_. []))\<lparr>sessions := {''s1''}\<rparr>"

lemma session_request_simps [simp]:
  "rq_Method (session_request b) = ''POST''" "rq_Body (session_request b) = Some \<lparr>bd_data = b, bd_fails = False\<rparr>"
  "header_Get (session_request b) ''Mcp-Session-Id'' = ''s1''" "rq_APIKey (session_request b) = Some demo_key"
  "sessions session_server = {''s1''}"
  by (simp_all add: session_request_def demo_request_def header_Get_def session_server_def)

lemma short_calls: "length (json_print (tool_call ''rm'' []) @ ''}'') \<le> maxBodyRead"
  by (simp add: tool_call_def json_quote_def quote_body.simps quote_step_def byte_in_def maxBodyRead_def)

lemma trailing_text_skips_rbac_witness:
  "rbac_guard (\<lambda>k. Inr (Some [])) (session_request (json_print (tool_call ''rm'' []) @ ''}'')) NewService =
     (NewService, Pass (session_request (json_print (tool_call ''rm'' []) @ ''}''))) \<and>
   sv_calls (fst (handleMCP (\<lambda>_. 0) (session_request (json_print (tool_call ''rm'' []) @ ''}'')) session_server)) = sv_calls session_server @ [(''rm'', [])]"
proof -
  have "lex ''}'' = Some [TRBrace]" by (simp add: lex.simps is_ws_def punct_def)
  then show ?thesis
    by (intro trailing_text_skips_rbac [where args = "[]" and t = "''}''" and us = "[TRBrace]" and sid = "''s1''"] short_calls)
      (simp_all add: is_ascii_def call_depth value_stop_def)
qed

lemma server_runs_only_checked_witness:
  "fst (IsAllowed (\<lambda>k. Inr (Some [\<lparr>pr_Resource = ''tool:*'', pr_Action = ''execute''\<rparr>])) (ak_ID demo_key) ''tool:rm'' ''execute'' NewService)"
proof -
  let ?l = "\<lambda>k. Inr (Some [\<lparr>pr_Resource = ''tool:*'', pr_Action = ''execute''\<rparr>]) :: db_error + perms"
  let ?v = "tool_call ''rm'' []" and ?r = "session_request (json_print (tool_call ''rm'' []))"
  have b: "readAndRestore ?r = (json_print ?v, ?r)"
    using short_calls by (simp add: readAndRestore_def read_limited_def)
  have e: "extractResourceAction (json_print ?v) = (''tool:rm'', ''execute'')"
    using extract_tool_call [of "''rm''" "[]"] by (simp add: is_ascii_def call_depth)
  have m: "MatchPattern ''tool:*'' ''tool:rm''" "MatchPattern ''execute'' ''execute''" by (simp_all add: MatchPattern_def)
  obtain s' where g: "rbac_guard ?l ?r NewService = (s', Pass ?r)"
    using b e m by (auto simp: rbac_guard_def APIKeyFromContext_def IsAllowed_def loadPermissions_def NewService_def permits_def)
  have ok: "json_ok ?v" by (rule tool_call_ok) (simp_all add: is_ascii_def)
  have "read_request ?r = into_struct request_fields ?v no_request"
    by (simp add: read_request_def Decode_def first_value_parse [OF json_roundtrip [OF ok call_depth]])
  then have t: "tool_run ?r session_server = Some (''rm'', [])"
    by (simp add: tool_run_def requireSession_def tool_call_read)
  have "Unmarshal call_fields (fst (readAndRestore ?r)) no_call \<noteq> None"
    using e by (auto simp: b extractResourceAction_def no_call_def split: option.splits)
  from server_runs_only_checked [OF g _ t _ this] show ?thesis by simp
qed

lemma id_answered_witness:
  "body_id (rp_body (respond (fst (snd (handleMCP (\<lambda>_. 0) (with_body (demo_request []) (message (Itoa 7) ''ping'' JNull)) session_server))))) (JNum (Itoa 7))"
  by (rule id_answered) (simp_all add: is_ascii_def message_def maxNestingDepth_def demo_request_def)

lemma ids_collide_witness:
  "read_request (with_body (demo_request []) (message (Itoa 9007199254740993) ''ping'' JNull)) =
   read_request (with_body (demo_request []) (message (Itoa 9007199254740992) ''ping'' JNull))"
  by (rule ids_collide) (simp_all add: is_ascii_def message_def maxNestingDepth_def)

end
