(* ===== verification/PolicyProps.thy ===== *)
theory PolicyProps
  imports Policy RbacProps
begin

text \<open>
  What the three kinds of policy enforce: the cyclic time window, blocked text up to
  letter case, and the sliding window of writes; how the engine combines them; and what
  the cache of policies means for a request.
\<close>

section \<open>Sliding windows\<close>

definition in_window :: "time \<Rightarrow> duration \<Rightarrow> time list \<Rightarrow> nat" where
  "in_window x d ts = length (filter (\<lambda>t. x \<le> t \<and> t \<le> x + d) ts)"

definition window_ok :: "int \<Rightarrow> duration \<Rightarrow> time list \<Rightarrow> bool" where
  "window_ok m d ts \<longleftrightarrow> (\<forall>x. int (in_window x d ts) \<le> m)"

lemma window_ok_snoc:
  assumes "window_ok m d ts" and "\<forall>t \<in> set ts. t \<le> now" and "int (length (filter (\<lambda>t. now - d \<le> t) ts)) < m"
  shows "window_ok m d (ts @ [now])"
  unfolding window_ok_def
proof
  fix x
  show "int (in_window x d (ts @ [now])) \<le> m"
  proof (cases "now \<le> x + d")
    case True
    have "length (filter (\<lambda>t. x \<le> t \<and> t \<le> x + d) ts) \<le> length (filter (\<lambda>t. now - d \<le> t) ts)"
      using True by (induction ts) auto
    with assms(3) show ?thesis by (simp add: in_window_def)
  next
    case False
    with assms(1) show ?thesis by (simp add: window_ok_def in_window_def)
  qed
qed

section \<open>Runs of one rate-of-change policy\<close>

definition roc_config :: "Policy \<Rightarrow> RateOfChangeConfig option" where
  "roc_config p = Unmarshal rate_of_change_fields (po_Config p) \<lparr>MaxWritesPerWindow = 0, WindowSeconds = 0\<rparr>"

definition roc_usable :: "RateOfChangeConfig \<Rightarrow> bool" where
  "roc_usable c \<longleftrightarrow> 0 < MaxWritesPerWindow c \<and> 0 < WindowSeconds c \<and> WindowSeconds c * Second \<le> max_int64"

lemma evaluateRateOfChange_eq:
  assumes "roc_config p = Some c" and "roc_usable c" and "rq_APIKey r = Some key"
  shows "evaluateRateOfChange uni r p body now w =
    (if \<not> isWriteOperation uni body then (None, w)
     else let kept = filter (\<lambda>t. \<not> t < now - WindowSeconds c * Second) (w (ak_ID key)); count = int (length kept)
       in if MaxWritesPerWindow c \<le> count
          then (Some (''too many write operations: '' @ Itoa count @ '' in '' @ Itoa (WindowSeconds c) @
                  ''s (limit '' @ Itoa (MaxWritesPerWindow c) @ '')''), w(ak_ID key := kept))
          else (None, w(ak_ID key := kept @ [now])))"
proof -
  have "int64 (- WindowSeconds c * Second) = - WindowSeconds c * Second"
    using assms(2) by (intro int64_id) (simp_all add: roc_usable_def)
  with assms show ?thesis
    by (auto simp: evaluateRateOfChange_def roc_config_def roc_usable_def APIKeyFromContext_def countInWindow_def
        record_write_def time_Add_def Let_def)
qed

text \<open>The requests of all keys, with their bodies and the times they are evaluated at, go through
  the engine one after the other.\<close>

primrec engine_run :: "(string \<Rightarrow> string) \<Rightarrow> (string \<Rightarrow> zone option) \<Rightarrow> Policy list \<Rightarrow> (request \<times> string \<times> time) list \<Rightarrow> windows
    \<Rightarrow> (string \<times> string) option list" where
  "engine_run uni zones ps [] w = []"
| "engine_run uni zones ps (x # xs) w =
     (let (d, w) = evaluate_all uni zones (fst x) (fst (snd x)) (snd (snd x)) ps w in d # engine_run uni zones ps xs w)"

definition write_of :: "(string \<Rightarrow> string) \<Rightarrow> uuid \<Rightarrow> request \<Rightarrow> string \<Rightarrow> bool" where
  "write_of uni i r body \<longleftrightarrow> isWriteOperation uni body \<and> map_option ak_ID (rq_APIKey r) = Some i"

definition admitted_writes :: "(string \<Rightarrow> string) \<Rightarrow> uuid \<Rightarrow> (request \<times> string \<times> time) list \<Rightarrow> (string \<times> string) option list \<Rightarrow> time list" where
  "admitted_writes uni i xs ds = map (snd \<circ> snd \<circ> fst) (filter (\<lambda>((r, b, t), d). write_of uni i r b \<and> d = None) (zip xs ds))"

lemma admitted_writes_simps [simp]:
  "admitted_writes uni i [] ds = []"
  "admitted_writes uni i (x # xs) (d # ds) =
     (if write_of uni i (fst x) (fst (snd x)) \<and> d = None then [snd (snd x)] else []) @ admitted_writes uni i xs ds"
  by (simp_all add: admitted_writes_def split_beta)

text \<open>How many entries a list has from a time on.\<close>

definition since :: "time \<Rightarrow> time list \<Rightarrow> nat" where
  "since x ts = length (filter (\<lambda>t. x \<le> t) ts)"

lemma since_simps [simp]:
  "since x [] = 0" "since x (ts @ us) = since x ts + since x us" "since x [t] = (if x \<le> t then 1 else 0)"
  by (simp_all add: since_def)

lemma since_pruned: "lo \<le> x \<Longrightarrow> since x (filter (\<lambda>t. \<not> t < lo) ts) = since x ts"
  by (induction ts) (auto simp: since_def)

lemma since_kept: "length (filter (\<lambda>t. \<not> t < lo) ts) = since lo ts"
  by (simp add: since_def not_less)

lemma evaluate_roc_other:
  assumes "\<not> write_of uni i r body"
  shows "snd (evaluateRateOfChange uni r p body now w) i = w i"
  using assms by (auto simp: evaluateRateOfChange_def write_of_def APIKeyFromContext_def countInWindow_def record_write_def
      Let_def split: option.splits)

lemma evaluate_roc_write:
  assumes "roc_config p = Some c" and "roc_usable c" and "write_of uni i r body"
    and "evaluateRateOfChange uni r p body now w = (d, w')"
  defines "lo \<equiv> now - WindowSeconds c * Second"
  shows "lo \<le> x \<Longrightarrow> since x (w' i) = since x (w i) + (if d = None \<and> x \<le> now then 1 else 0)"
    and "d = None \<Longrightarrow> int (since lo (w i)) < MaxWritesPerWindow c"
proof -
  obtain key where k: "rq_APIKey r = Some key" "i = ak_ID key" using assms(3) by (auto simp: write_of_def)
  note ev = evaluateRateOfChange_eq [OF assms(1,2) k(1), of uni body now w]
  show "lo \<le> x \<Longrightarrow> since x (w' i) = since x (w i) + (if d = None \<and> x \<le> now then 1 else 0)"
    using assms(3,4) by (auto simp: ev k(2) write_of_def Let_def since_pruned lo_def split: if_splits)
  show "d = None \<Longrightarrow> int (since lo (w i)) < MaxWritesPerWindow c"
    using assms(3,4) by (auto simp: ev k(2) write_of_def Let_def since_kept lo_def split: if_splits)
qed

text \<open>A list of policies among which \<open>p\<close> is the only one that counts writes. A policy behind
  \<open>p\<close> may still deny a write that \<open>p\<close> has recorded, so the list holds at least the admitted ones.\<close>

definition only_roc :: "Policy \<Rightarrow> Policy list \<Rightarrow> bool" where
  "only_roc p ps \<longleftrightarrow> (\<forall>q \<in> set ps. po_PolicyType q = ''rate_of_change'' \<longrightarrow> q = p)"

lemma evaluate_all_other:
  assumes "\<not> write_of uni i r body" and "evaluate_all uni zones r body now ps w = (d, w')"
  shows "w' i = w i"
  using assms(2)
proof (induction ps arbitrary: w)
  case (Cons q ps)
  have "snd (evaluate uni zones r body now q w) i = w i"
    using evaluate_roc_other [OF assms(1)] by (simp add: evaluate_def)
  with Cons show ?case by (auto split: prod.splits option.splits)
qed simp

lemma evaluate_all_write:
  assumes "roc_config p = Some c" and "roc_usable c" and "write_of uni i r body"
    and "only_roc p ps" and "evaluate_all uni zones r body now ps w = (d, w')" and "now - WindowSeconds c * Second \<le> x"
  shows "since x (w i) + (if d = None \<and> p \<in> set ps \<and> po_PolicyType p = ''rate_of_change'' \<and> x \<le> now then 1 else 0) \<le> since x (w' i) \<and>
    (d = None \<and> p \<in> set ps \<and> po_PolicyType p = ''rate_of_change'' \<longrightarrow>
       int (since (now - WindowSeconds c * Second) (w i)) < MaxWritesPerWindow c)"
  using assms(4,5)
proof (induction ps arbitrary: w)
  case (Cons q ps)
  obtain e v where e: "evaluate uni zones r body now q w = (e, v)" by fastforce
  have o: "only_roc p ps" using Cons.prems(1) by (simp add: only_roc_def)
  have IH: "e = None \<Longrightarrow> since x (v i) + (if d = None \<and> p \<in> set ps \<and> po_PolicyType p = ''rate_of_change'' \<and> x \<le> now then 1 else 0)
        \<le> since x (w' i) \<and> (d = None \<and> p \<in> set ps \<and> po_PolicyType p = ''rate_of_change'' \<longrightarrow>
       int (since (now - WindowSeconds c * Second) (v i)) < MaxWritesPerWindow c)"
    using Cons.prems(2) e by (intro Cons.IH [OF o]) simp
  have dn: "e \<noteq> None \<Longrightarrow> d \<noteq> None \<and> w' = v" using Cons.prems(2) e by auto
  show ?case
  proof (cases "po_PolicyType q = ''rate_of_change''")
    case True
    with Cons.prems(1) have q: "q = p" by (simp add: only_roc_def)
    have "evaluateRateOfChange uni r p body now w = (e, v)" using e True by (simp add: q evaluate_def)
    note wr = evaluate_roc_write [OF assms(1-3) this]
    from wr(1) [OF assms(6)] wr(2) IH dn show ?thesis by (cases "e = None") (auto split: if_splits)
  next
    case False
    then have "v = w" using e by (auto simp: evaluate_def split: if_splits)
    with False IH dn show ?thesis by (cases "e = None") auto
  qed
qed simp

lemma engine_run_window:
  assumes "roc_config p = Some c" and "roc_usable c" and "po_PolicyType p = ''rate_of_change''" and "p \<in> set ps" and "only_roc p ps"
    and "sorted (map (snd \<circ> snd) xs)" and "\<And>x. x \<in> set xs \<Longrightarrow> lo \<le> snd (snd x) - WindowSeconds c * Second"
    and "\<And>t x. t \<in> set ts \<Longrightarrow> x \<in> set xs \<Longrightarrow> t \<le> snd (snd x)"
    and "\<And>x. lo \<le> x \<Longrightarrow> since x ts \<le> since x (w i)" and "window_ok (MaxWritesPerWindow c) (WindowSeconds c * Second) ts"
  shows "window_ok (MaxWritesPerWindow c) (WindowSeconds c * Second) (ts @ admitted_writes uni i xs (engine_run uni zones ps xs w))"
  using assms(6-10)
proof (induction xs arbitrary: lo ts w)
  case (Cons x xs)
  obtain r body now where x: "x = (r, body, now)" by (cases x)
  obtain d w' where e: "evaluate_all uni zones r body now ps w = (d, w')" by fastforce
  let ?lo = "now - WindowSeconds c * Second" and ?a = "if write_of uni i r body \<and> d = None then [now] else []"
  have lo: "lo \<le> ?lo" using Cons.prems(2) [of x] x by simp
  have now: "\<And>t. t \<in> set ts \<Longrightarrow> t \<le> now" using Cons.prems(3) [of _ x] x by simp
  have srt: "sorted (map (snd \<circ> snd) xs)" "\<And>y. y \<in> set xs \<Longrightarrow> now \<le> snd (snd y)" using Cons.prems(1) x by (simp_all add: comp_def)
  note wr = evaluate_all_write [OF assms(1,2) _ assms(5) e]
  have ok: "window_ok (MaxWritesPerWindow c) (WindowSeconds c * Second) (ts @ ?a)"
  proof (cases "write_of uni i r body \<and> d = None")
    case True
    have "int (length (filter (\<lambda>t. ?lo \<le> t) ts)) < MaxWritesPerWindow c"
      using wr [of i ?lo] True assms(3,4) Cons.prems(4) [OF lo] by (simp add: since_def)
    with True now Cons.prems(5) show ?thesis by (simp add: window_ok_snoc)
  qed (use Cons.prems(5) in \<open>auto\<close>)
  have cnt: "since y (ts @ ?a) \<le> since y (w' i)" if "?lo \<le> y" for y
    using wr [of i y] that lo Cons.prems(4) [of y] evaluate_all_other [OF _ e, of i] assms(3,4)
    by (cases "write_of uni i r body") (auto split: if_splits)
  have lo': "?lo \<le> snd (snd y) - WindowSeconds c * Second" if "y \<in> set xs" for y using srt(2) [OF that] by simp
  have now': "t \<le> snd (snd y)" if "t \<in> set (ts @ ?a)" "y \<in> set xs" for t y
    using that srt(2) [OF that(2)] now by (auto split: if_splits intro: order_trans)
  have "window_ok (MaxWritesPerWindow c) (WindowSeconds c * Second) ((ts @ ?a) @ admitted_writes uni i xs (engine_run uni zones ps xs w'))"
    by (rule Cons.IH [where lo = ?lo and ts = "ts @ ?a" and w = w', OF srt(1) lo' now' cnt ok])
  then show ?case by (auto simp: x e split: if_splits)
qed simp

lemma engine_window:
  assumes "roc_config p = Some c" and "roc_usable c" and "po_PolicyType p = ''rate_of_change''" and "p \<in> set ps" and "only_roc p ps"
    and "sorted (map (snd \<circ> snd) xs)"
  shows "int (in_window x (WindowSeconds c * Second) (admitted_writes uni i xs (engine_run uni zones ps xs w))) \<le> MaxWritesPerWindow c"
proof -
  have "\<exists>lo. \<forall>y \<in> set xs. lo \<le> snd (snd y) - WindowSeconds c * Second"
  proof (cases xs)
    case (Cons y ys)
    with assms(6) have "\<forall>z \<in> set xs. snd (snd y) \<le> snd (snd z)" by auto
    then show ?thesis by (intro exI [of _ "snd (snd y) - WindowSeconds c * Second"]) simp
  qed simp
  then obtain lo where lo: "\<And>y. y \<in> set xs \<Longrightarrow> lo \<le> snd (snd y) - WindowSeconds c * Second" by blast
  have "window_ok (MaxWritesPerWindow c) (WindowSeconds c * Second) ([] @ admitted_writes uni i xs (engine_run uni zones ps xs w))"
    by (rule engine_run_window [OF assms lo]) (use assms(2) in \<open>simp_all add: window_ok_def in_window_def roc_usable_def\<close>)
  then show ?thesis by (simp add: window_ok_def)
qed

section \<open>Properties\<close>

lemma policy_keys:
  "key_is ''max_writes_per_window'' ''max_writes_per_window''" "\<not> key_is ''max_writes_per_window'' ''window_seconds''"
  "key_is ''window_seconds'' ''window_seconds''"
  "key_is ''block_start_hour'' ''block_start_hour''" "\<not> key_is ''block_start_hour'' ''block_end_hour''"
  "key_is ''block_end_hour'' ''block_end_hour''" "key_is ''blocked_patterns'' ''blocked_patterns''"
  by (simp_all add: key_is_def byte_in_def)

definition roc_policy :: "int \<Rightarrow> int \<Rightarrow> Policy" where
  "roc_policy m s = \<lparr>po_ID = 1, po_Name = ''writes'', po_PolicyType = ''rate_of_change'', po_Enabled = True,
     po_Config = json_print (JObj [(''max_writes_per_window'', JNum (Itoa m)), (''window_seconds'', JNum (Itoa s))]),
     po_CreatedAt = 0, po_UpdatedAt = 0\<rparr>"

lemma roc_policy_config:
  assumes "in_int64 m = Some m" "in_int64 s = Some s"
  shows "roc_config (roc_policy m s) = Some \<lparr>MaxWritesPerWindow = m, WindowSeconds = s\<rparr>"
proof -
  let ?v = "JObj [(''max_writes_per_window'', JNum (Itoa m)), (''window_seconds'', JNum (Itoa s))]"
  have "json_parse (json_print ?v) = Some ?v" by (rule json_roundtrip) (simp_all add: is_ascii_def maxNestingDepth_def)
  then show ?thesis
    using assms by (simp add: roc_config_def roc_policy_def Unmarshal_def into_struct_def rate_of_change_fields_def policy_keys
        into_int_def Atoi_Itoa_in)
qed

definition time_config :: "Policy \<Rightarrow> TimeBasedConfig option" where
  "time_config p = Unmarshal time_based_fields (po_Config p) \<lparr>BlockStartHour = 0, BlockEndHour = 0, Timezone = []\<rparr>"

lemma zone_hour_range: "0 \<le> zone_hour z t \<and> zone_hour z t < 24"
  by (simp add: zone_hour_def)

lemma cyclic_hours:
  assumes "0 \<le> a" "a < 24" "0 \<le> b" "b < 24" "0 \<le> h" "h < (24::int)"
  shows "(if a \<le> b then a \<le> h \<and> h < b else a \<le> h \<or> h < b) \<longleftrightarrow> (h - a) mod 24 < (b - a) mod 24"
proof -
  have m: "(x - a) mod 24 = (if a \<le> x then x - a else x - a + 24)" if "0 \<le> x" "x < 24" for x
  proof (cases "a \<le> x")
    case False
    have "(x - a) mod 24 = (x - a + 24) mod 24" by simp
    also have "\<dots> = x - a + 24" using False that assms(1,2) by (intro mod_pos_pos_trivial) simp_all
    finally show ?thesis using False by simp
  qed (use that assms in simp)
  show ?thesis using assms by (simp add: m)
qed

text \<open>A time-based policy with hours of the day denies a request exactly when the hour
  in the policy's zone lies on the way round the clock from the start hour to the end hour,
  across midnight too; equal hours block nothing.\<close>

theorem time_based_denies_iff:
  assumes "time_config p = Some c" and "0 \<le> BlockStartHour c" "BlockStartHour c < 24" and "0 \<le> BlockEndHour c" "BlockEndHour c < 24"
    and "(if Timezone c = [] then Some UTC else zones (Timezone c)) = Some z"
  shows "evaluateTimeBased zones p now \<noteq> None \<longleftrightarrow>
    (zone_hour z now - BlockStartHour c) mod 24 < (BlockEndHour c - BlockStartHour c) mod 24"
proof -
  have "evaluateTimeBased zones p now \<noteq> None \<longleftrightarrow>
    (if BlockStartHour c \<le> BlockEndHour c then BlockStartHour c \<le> zone_hour z now \<and> zone_hour z now < BlockEndHour c
     else BlockStartHour c \<le> zone_hour z now \<or> zone_hour z now < BlockEndHour c)"
    using assms(1,6) by (auto simp: evaluateTimeBased_def time_config_def [symmetric] Let_def split: if_splits)
  also have "\<dots> \<longleftrightarrow> (zone_hour z now - BlockStartHour c) mod 24 < (BlockEndHour c - BlockStartHour c) mod 24"
    using assms(2-5) zone_hour_range [of z now] by (intro cyclic_hours) simp_all
  finally show ?thesis .
qed

definition night_policy :: Policy where
  "night_policy = \<lparr>po_ID = 2, po_Name = ''night'', po_PolicyType = ''time_based'', po_Enabled = True,
     po_Config = json_print (JObj [(''block_start_hour'', JNum (Itoa 22)), (''block_end_hour'', JNum (Itoa 6))]),
     po_CreatedAt = 0, po_UpdatedAt = 0\<rparr>"

text \<open>C3: As long as the requests are evaluated one at a time and the clock does not go back, a
  rate-of-change policy of \<open>m\<close> writes per \<open>s\<close> seconds, the only policy of its type in force, lets
  through at most \<open>m\<close> writes of a key in every closed interval of \<open>s\<close> seconds, whatever the other
  keys send, the other policies deny and the tracker holds at the start.\<close>

theorem writes_per_window:
  assumes "roc_config p = Some c" and "roc_usable c" and "po_PolicyType p = ''rate_of_change''"
    and "p \<in> set ps" and "\<forall>q \<in> set ps. po_PolicyType q = ''rate_of_change'' \<longrightarrow> q = p"
    and "sorted (map (snd \<circ> snd) xs)"
  shows "int (in_window x (WindowSeconds c * Second) (admitted_writes uni i xs (engine_run uni zones ps xs w))) \<le> MaxWritesPerWindow c"
  by (rule engine_window [OF assms(1-4) _ assms(6)]) (use assms(5) in \<open>simp add: only_roc_def\<close>)

lemma writes_per_window_witness:
  "int (in_window 0 60000000000 (admitted_writes (\<lambda>s. s) 3 [(demo_request [], ''delete'', 5), (demo_request [], ''delete'', 6)]
     (engine_run (\<lambda>s. s) (\<lambda>_. None) [night_policy, roc_policy 1 60]
        [(demo_request [], ''delete'', 5), (demo_request [], ''delete'', 6)] newWriteTracker))) \<le> 1"
proof -
  have c: "roc_config (roc_policy 1 60) = Some \<lparr>MaxWritesPerWindow = 1, WindowSeconds = 60\<rparr>"
    by (rule roc_policy_config) (simp_all add: in_int64_def)
  show ?thesis
    using writes_per_window [OF c, of "[night_policy, roc_policy 1 60]" "[(demo_request [], ''delete'', 5), (demo_request [], ''delete'', 6)]"
        0 "\<lambda>s. s" 3 "\<lambda>_. None" newWriteTracker]
    by (simp add: roc_usable_def roc_policy_def night_policy_def)
qed

lemma night_policy_config: "time_config night_policy = Some \<lparr>BlockStartHour = 22, BlockEndHour = 6, Timezone = []\<rparr>"
proof -
  let ?v = "JObj [(''block_start_hour'', JNum (Itoa 22)), (''block_end_hour'', JNum (Itoa 6))]"
  have "json_parse (json_print ?v) = Some ?v" by (rule json_roundtrip) (simp_all add: is_ascii_def maxNestingDepth_def)
  then show ?thesis
    by (simp add: time_config_def night_policy_def Unmarshal_def into_struct_def time_based_fields_def policy_keys
        into_int_def Atoi_Itoa_in in_int64_def)
qed

lemma time_based_denies_iff_witness:
  "evaluateTimeBased (\<lambda>_. None) night_policy (23 * Hour) \<noteq> None \<and> evaluateTimeBased (\<lambda>_. None) night_policy (12 * Hour) = None"
  using time_based_denies_iff [OF night_policy_config, of "\<lambda>_. None" UTC "23 * Hour"]
    time_based_denies_iff [OF night_policy_config, of "\<lambda>_. None" UTC "12 * Hour"]
  by (simp add: zone_hour_def UTC_def)

definition content_config :: "Policy \<Rightarrow> ContentConfig option" where
  "content_config p = Unmarshal content_fields (po_Config p) \<lparr>BlockedPatterns = []\<rparr>"

lemma find_Some_split:
  "find P xs = Some x \<longleftrightarrow> (\<exists>us vs. xs = us @ x # vs \<and> P x \<and> (\<forall>u \<in> set us. \<not> P u))"
proof (induction xs)
  case (Cons y xs)
  show ?case
  proof (cases "P y")
    case True
    then show ?thesis by (auto simp: Cons_eq_append_conv)
  next
    case False
    then have "find P (y # xs) = Some x \<longleftrightarrow> (\<exists>us vs. xs = us @ x # vs \<and> P x \<and> (\<forall>u \<in> set us. \<not> P u))"
      using Cons.IH by simp
    also have "\<dots> \<longleftrightarrow> (\<exists>us vs. y # xs = us @ x # vs \<and> P x \<and> (\<forall>u \<in> set us. \<not> P u))"
    proof (intro iffI; elim exE conjE)
      fix us vs
      assume "xs = us @ x # vs" "P x" "\<forall>u \<in> set us. \<not> P u"
      with False show "\<exists>us vs. y # xs = us @ x # vs \<and> P x \<and> (\<forall>u \<in> set us. \<not> P u)"
        by (intro exI [of _ "y # us"] exI [of _ vs]) simp
    next
      fix us vs
      assume a: "y # xs = us @ x # vs" "P x" "\<forall>u \<in> set us. \<not> P u"
      with False show "\<exists>us vs. xs = us @ x # vs \<and> P x \<and> (\<forall>u \<in> set us. \<not> P u)" by (cases us) auto
    qed
    finally show ?thesis .
  qed
qed simp

text \<open>C40: A content policy denies a request exactly when some blocked pattern, in lower
  case, occurs somewhere in the body in lower case; the reason names the first such pattern
  of the list.\<close>

theorem content_denies_iff:
  assumes "content_config p = Some c"
  shows "evaluateContent uni p body = Some reason \<longleftrightarrow>
    (\<exists>ps pat qs. BlockedPatterns c = ps @ pat # qs \<and> reason = ''request contains blocked pattern: '' @ pat \<and>
       (\<exists>u v. ToLower uni body = u @ ToLower uni pat @ v) \<and>
       (\<forall>q \<in> set ps. \<nexists>u v. ToLower uni body = u @ ToLower uni q @ v))"
proof -
  have "evaluateContent uni p body = Some reason \<longleftrightarrow>
    (\<exists>pat. find (\<lambda>pat. Contains (ToLower uni body) (ToLower uni pat)) (BlockedPatterns c) = Some pat \<and>
       reason = ''request contains blocked pattern: '' @ pat)"
    using assms by (auto simp: evaluateContent_def content_config_def [symmetric] Let_def)
  also have "\<dots> \<longleftrightarrow> (\<exists>pat ps qs. BlockedPatterns c = ps @ pat # qs \<and> Contains (ToLower uni body) (ToLower uni pat) \<and>
      (\<forall>q \<in> set ps. \<not> Contains (ToLower uni body) (ToLower uni q)) \<and> reason = ''request contains blocked pattern: '' @ pat)"
    by (auto simp: find_Some_split)
  finally show ?thesis by (auto simp: Contains_iff)
qed

definition content_policy :: "string list \<Rightarrow> Policy" where
  "content_policy pats = \<lparr>po_ID = 3, po_Name = ''words'', po_PolicyType = ''content'', po_Enabled = True,
     po_Config = json_print (JObj [(''blocked_patterns'', JArr (map JStr pats))]), po_CreatedAt = 0, po_UpdatedAt = 0\<rparr>"

lemma into_elems_JStr: "into_elems (map JStr pats) old = Some pats"
  by (induction pats arbitrary: old) (simp_all add: into_string_def)

lemma content_policy_config:
  assumes "\<And>q. q \<in> set pats \<Longrightarrow> valid_utf8 q"
  shows "content_config (content_policy pats) = Some \<lparr>BlockedPatterns = pats\<rparr>"
proof -
  let ?v = "JObj [(''blocked_patterns'', JArr (map JStr pats))]"
  have "foldr max (map (json_depth \<circ> JStr) pats) 0 = 0" by (induction pats) simp_all
  then have "json_parse (json_print ?v) = Some ?v"
    using assms by (intro json_roundtrip) (auto simp: is_ascii_def maxNestingDepth_def)
  then show ?thesis
    by (simp add: content_config_def content_policy_def Unmarshal_def into_struct_def content_fields_def policy_keys
        into_strings_def into_elems_JStr)
qed

lemma content_denies_iff_witness:
  "evaluateContent (\<lambda>s. s) (content_policy [''rm -rf'', ''DROP'']) ''x Drop y'' = Some ''request contains blocked pattern: DROP''"
proof -
  have c: "content_config (content_policy [''rm -rf'', ''DROP'']) = Some \<lparr>BlockedPatterns = [''rm -rf'', ''DROP'']\<rparr>"
    by (rule content_policy_config) (auto simp: is_ascii_def)
  have l: "ToLower (\<lambda>s. s) ''x Drop y'' = ''x drop y''" "ToLower (\<lambda>s. s) ''DROP'' = ''drop''" "ToLower (\<lambda>s. s) ''rm -rf'' = ''rm -rf''"
    by code_simp+
  have "\<not> (\<exists>u v. ''x drop y'' = u @ ''rm -rf'' @ v)" "\<exists>u v. ''x drop y'' = u @ ''drop'' @ v"
    by (simp_all only: Contains_iff [symmetric]) simp_all
  then show ?thesis unfolding content_denies_iff [OF c] using l
    by (intro exI [of _ "[''rm -rf'']"] exI [of _ "''DROP''"] exI [of _ "[]"]) simp
qed

text \<open>The denial of a request by policies of the first two kinds does not depend on the
  order of the policies: it is denied exactly when one of them denies it alone.\<close>

theorem stateless_denies_iff:
  assumes "\<And>p. p \<in> set ps \<Longrightarrow> po_PolicyType p \<noteq> ''rate_of_change''"
  shows "fst (evaluate_all uni zones r body now ps w) \<noteq> None \<longleftrightarrow>
    (\<exists>p \<in> set ps. fst (evaluate_all uni zones r body now [p] w) \<noteq> None)"
  using assms
proof (induction ps)
  case (Cons p ps)
  have "snd (evaluate uni zones r body now p w) = w"
    using Cons.prems [of p] by (simp add: evaluate_def)
  moreover have "fst (evaluate_all uni zones r body now ps w) \<noteq> None \<longleftrightarrow>
      (\<exists>p \<in> set ps. fst (evaluate_all uni zones r body now [p] w) \<noteq> None)"
    using Cons.prems by (intro Cons.IH) simp
  ultimately show ?case
    by (cases "evaluate uni zones r body now p w"; cases "fst (evaluate uni zones r body now p w)") simp_all
qed simp

lemma stateless_denies_iff_witness:
  "fst (evaluate_all (\<lambda>s. s) (\<lambda>_. None) (demo_request []) ''x'' (12 * Hour) [night_policy] newWriteTracker) = None"
  using stateless_denies_iff [of "[night_policy]" "\<lambda>s. s" "\<lambda>_. None" "demo_request []" "''x''" "12 * Hour" newWriteTracker]
    time_based_denies_iff [OF night_policy_config, of "\<lambda>_. None" UTC "12 * Hour"]
  by (simp add: evaluate_def zone_hour_def UTC_def) (simp add: night_policy_def)

lemma evaluate_all_denial:
  assumes "evaluate_all uni zones r body now ps w = (Some (name, reason), w')"
  shows "\<exists>us p vs v. ps = us @ p # vs \<and> po_Name p = name \<and> evaluate_all uni zones r body now us w = (None, v) \<and>
    evaluate uni zones r body now p v = (Some reason, w')"
  using assms
proof (induction ps arbitrary: w)
  case (Cons q ps)
  obtain d v where e: "evaluate uni zones r body now q w = (d, v)" by fastforce
  show ?case
  proof (cases d)
    case (Some reason')
    with Cons.prems e show ?thesis by (intro exI [of _ "[]"] exI [of _ q] exI [of _ ps] exI [of _ w]) simp
  next
    case None
    with Cons.prems e have "evaluate_all uni zones r body now ps v = (Some (name, reason), w')" by simp
    from Cons.IH [OF this] obtain us p vs v' where h: "ps = us @ p # vs" "po_Name p = name"
      "evaluate_all uni zones r body now us v = (None, v')" "evaluate uni zones r body now p v' = (Some reason, w')" by blast
    with None e show ?thesis by (intro exI [of _ "q # us"] exI [of _ p] exI [of _ vs] exI [of _ v']) simp
  qed
qed simp

definition policy_message :: "string \<Rightarrow> string \<Rightarrow> string" where
  "policy_message name reason = ''policy violation: '' @ name @ [CHR '' '', CHR 0xE2, CHR 0x80, CHR 0x94, CHR '' ''] @ reason"

lemma policy_message_valid: "valid_utf8 name \<Longrightarrow> valid_utf8 reason \<Longrightarrow> valid_utf8 (policy_message name reason)"
proof -
  have "valid_utf8 ''policy violation: ''" by (rule valid_utf8_ascii) (simp add: is_ascii_def)
  moreover have "valid_utf8 [CHR '' '', CHR 0xE2, CHR 0x80, CHR 0x94, CHR '' '']"
    by (simp add: valid_utf8.simps(2) utf8_len_def utf8_lead_def utf8_tail_def byte_in_def)
  moreover assume "valid_utf8 name" "valid_utf8 reason"
  ultimately show ?thesis unfolding policy_message_def by (intro valid_utf8_append)
qed

text \<open>C29: A request the engine denies is denied by the first policy of the loaded list
  whose evaluation gives a reason, every earlier policy having let it pass; the answer is a
  403 whose JSON-RPC error -32002 carries that policy's name and reason.\<close>

theorem policy_guard_denies:
  assumes "policy_guard uni zones loader r s = (s', Reject es)"
  shows "\<exists>e c us p vs w v reason. loadPolicies loader s = (Some (us @ p # vs), e, c) \<and>
    evaluate_all uni zones (snd (readAndRestore r)) (fst (readAndRestore r)) (fst (time_Now c)) us (en_windows e) = (None, v) \<and>
    evaluate uni zones (snd (readAndRestore r)) (fst (readAndRestore r)) (fst (time_Now c)) p v = (Some reason, w) \<and>
    final_status es = 403 \<and> (valid_utf8 (po_Name p) \<and> valid_utf8 reason \<longrightarrow>
      Unmarshal response_fields (rp_body (respond es)) None
        = Some (Some \<lparr>re_code = - 32002, re_message = policy_message (po_Name p) reason\<rparr>))"
proof -
  obtain ps e c where l: "loadPolicies loader s = (ps, e, c)" by (metis prod.exhaust)
  obtain body r' where b: "readAndRestore r = (body, r')" by fastforce
  obtain now c' where n: "time_Now c = (now, c')" by fastforce
  from assms(1) l obtain qs where qs: "ps = Some qs" by (cases ps) (auto simp: policy_guard_def Let_def)
  obtain d w where d: "evaluate_all uni zones r' body now qs (en_windows e) = (d, w)" by fastforce
  obtain name reason where dn: "d = Some (name, reason)" "es = writePolicyDenied name reason"
    using assms(1) l b n d qs by (auto simp: policy_guard_def Let_def split: option.splits if_splits)
  from evaluate_all_denial [OF d [unfolded dn(1)]] obtain us p vs v where
    h: "qs = us @ p # vs" "po_Name p = name" "evaluate_all uni zones r' body now us (en_windows e) = (None, v)"
      "evaluate uni zones r' body now p v = (Some reason, w)" by blast
  have es: "es = deny_json 403 (- 32002) (policy_message name reason)"
    unfolding dn(2) by (simp add: writePolicyDenied_def policy_message_def)
  have "valid_utf8 name \<and> valid_utf8 reason \<longrightarrow> Unmarshal response_fields (rp_body (respond es)) None
        = Some (Some \<lparr>re_code = - 32002, re_message = policy_message name reason\<rparr>)"
    by (auto simp: es respond_deny in_int64_def intro!: rpc_error_read_back policy_message_valid)
  moreover have "final_status es = 403" by (simp add: es)
  ultimately show ?thesis using l b n qs h
    by (intro exI [of _ e] exI [of _ c] exI [of _ us] exI [of _ p] exI [of _ vs] exI [of _ w] exI [of _ v] exI [of _ reason]) simp
qed

lemma policy_guard_denies_witness:
  "\<exists>s' es. policy_guard (\<lambda>s. s) (\<lambda>_. None) (Inr (Some [night_policy])) (demo_request [])
       (NewEngine, \<lparr>now_at = (\<lambda>_. 23 * Hour), ticks = 0\<rparr>) = (s', Reject es) \<and> final_status es = 403"
proof -
  let ?s = "(NewEngine, \<lparr>now_at = (\<lambda>_. 23 * Hour), ticks = 0\<rparr>)"
  have t: "evaluateTimeBased (\<lambda>_. None) night_policy (23 * Hour) \<noteq> None"
    using time_based_denies_iff [OF night_policy_config, of "\<lambda>_. None" UTC "23 * Hour"] by (simp add: zone_hour_def UTC_def)
  have "po_PolicyType night_policy = ''time_based''" by (simp add: night_policy_def)
  with t obtain s' es where g: "policy_guard (\<lambda>s. s) (\<lambda>_. None) (Inr (Some [night_policy])) (demo_request []) ?s = (s', Reject es)"
    by (auto simp: policy_guard_def loadPolicies_def NewEngine_def time_Now_def readAndRestore_def read_limited_def
        demo_request_def evaluate_def Let_def)
  from policy_guard_denies [OF g] g show ?thesis by blast
qed

text \<open>Until the first successful load, the engine denies nothing: a request passes
  whatever the policies in the database say.\<close>

theorem policy_fails_open:
  assumes "en_policies e = None"
  shows "\<exists>c'. policy_guard uni zones (Inl err) r (e, c) = ((e, c'), Pass r)"
  using assms by (simp add: policy_guard_def loadPolicies_def Let_def split_beta)

lemma policy_fails_open_witness:
  "\<exists>c'. policy_guard (\<lambda>s. s) (\<lambda>_. None) (Inl ConnError) (demo_request []) (NewEngine, \<lparr>now_at = (\<lambda>_. 0), ticks = 0\<rparr>)
     = ((NewEngine, c'), Pass (demo_request []))"
  by (rule policy_fails_open) (simp add: NewEngine_def)

text \<open>The policies share one list of writes per key, so every rate-of-change policy in
  force counts a write once more: with two policies of at most two writes each, the second
  write in a minute is denied.\<close>

theorem writes_counted_per_policy:
  assumes "isWriteOperation uni body" and "rq_APIKey r = Some key" and "w (ak_ID key) = []"
  shows "\<exists>w'. evaluate_all uni zones r body now [roc_policy 2 60, roc_policy 2 60] w = (None, w') \<and>
    w' (ak_ID key) = [now, now] \<and>
    fst (evaluate_all uni zones r body now [roc_policy 2 60, roc_policy 2 60] w') \<noteq> None"
proof -
  have c: "roc_config (roc_policy 2 60) = Some \<lparr>MaxWritesPerWindow = 2, WindowSeconds = 60\<rparr>"
    by (rule roc_policy_config) (simp_all add: in_int64_def)
  have u: "roc_usable \<lparr>MaxWritesPerWindow = 2, WindowSeconds = 60\<rparr>" by (simp add: roc_usable_def)
  have t: "evaluate uni zones r body now (roc_policy 2 60) v = evaluateRateOfChange uni r (roc_policy 2 60) body now v" for v
    by (simp add: evaluate_def roc_policy_def)
  show ?thesis
    using assms by (simp add: t evaluateRateOfChange_eq [OF c u assms(2)] Let_def)
qed

lemma writes_counted_per_policy_witness:
  "\<exists>w'. evaluate_all (\<lambda>s. s) (\<lambda>_. None) (demo_request []) ''delete'' 5 [roc_policy 2 60, roc_policy 2 60] newWriteTracker = (None, w') \<and>
     fst (evaluate_all (\<lambda>s. s) (\<lambda>_. None) (demo_request []) ''delete'' 5 [roc_policy 2 60, roc_policy 2 60] w') \<noteq> None"
proof -
  have i: "isWriteOperation (\<lambda>s. s) ''delete''"
    by (simp add: isWriteOperation_def writeIndicators_def ToLower_def is_ascii_def) code_simp
  show ?thesis
    using writes_counted_per_policy [OF i, of "demo_request []" demo_key newWriteTracker "\<lambda>_. None" 5]
    by (auto simp: demo_request_def newWriteTracker_def)
qed

end
