(* ===== verification/RateLimitBounds.thy ===== *)
theory RateLimitBounds
  imports RateLimit
begin

text \<open>
  What the token bucket guarantees, rounding included: the invariant of the limiter's maps,
  exact bursts, the long-run bound on admitted requests, the refill that ends a denial, the
  accuracy of \<open>Retry-After\<close>, and the uniqueness of a key's bucket under concurrent
  first requests.
\<close>

section \<open>One call\<close>

abbreviation rsecs :: "time \<Rightarrow> time \<Rightarrow> rat" where "rsecs u t \<equiv> of_int (t - u) / 1000000000"

lemma eps_cube: "(1 + eps) * (1 + eps) * (1 + eps) \<le> 1 + 4 * eps"
  by simp

lemma refill_upper:
  assumes b: "bucket_ok b" and t: "lastFill b \<le> now"
  shows "tokens (refill b now) \<le> tokens b + rate b * rsecs (lastFill b) now * (1 + 4 * eps) + eps * capacity b"
proof -
  define d where "d = time_Sub now (lastFill b)"
  have d: "0 \<le> d" "d \<le> max_int64" "d \<le> now - lastFill b"
    using t by (auto simp: d_def time_Sub_def)
  define s where "s = (of_int d / 1000000000 :: rat)"
  have s0: "0 \<le> s" using d by (simp add: s_def)
  have ss: "s \<le> rsecs (lastFill b) now"
    unfolding s_def using d(3) by (intro divide_right_mono) (simp only: of_int_le_iff, simp)
  have r: "0 \<le> rate b" and tk: "0 \<le> tokens b" "tokens b \<le> capacity b" using b by (auto simp: bucket_ok_def)
  define p where "p = fl_mul (Seconds d) (rate b)"
  have p0: "0 \<le> p" using d r by (auto simp: p_def fl_mul_def intro!: fl.rnd_nonneg mult_nonneg_nonneg Seconds_nonneg)
  have m0: "0 \<le> Seconds d * rate b" using d r by (intro mult_nonneg_nonneg Seconds_nonneg)
  have "p \<le> (Seconds d * rate b) * (1 + eps)"
    unfolding p_def fl_mul_def using fl.rnd_upper [OF m0] by (simp add: algebra_simps)
  also have "\<dots> \<le> (s * (1 + eps) * (1 + eps) * rate b) * (1 + eps)"
    using Seconds_upper [OF d(1,2)] r unfolding s_def by (intro mult_right_mono) simp_all
  also have "\<dots> = (s * rate b) * ((1 + eps) * (1 + eps) * (1 + eps))" by (simp only: mult.assoc mult.commute mult.left_commute)
  also have "\<dots> \<le> (s * rate b) * (1 + 4 * eps)" using s0 r by (intro mult_left_mono eps_cube mult_nonneg_nonneg)
  also have "\<dots> \<le> (rsecs (lastFill b) now * rate b) * (1 + 4 * eps)" using ss r by (intro mult_right_mono) simp_all
  finally have p: "p \<le> rate b * rsecs (lastFill b) now * (1 + 4 * eps)" by (simp only: mult.commute)
  have c0: "0 \<le> eps * capacity b" using tk by simp
  have "min (capacity b) (fl_add (tokens b) p) \<le> tokens b + p + eps * capacity b"
  proof (cases "tokens b + p \<le> capacity b")
    case True
    then have "fl_add (tokens b) p \<le> tokens b + p + eps * capacity b"
      unfolding fl_add_def using tk p0 by (intro fl.rnd_upper_cap) simp_all
    then show ?thesis by simp
  next
    case False
    with c0 show ?thesis by simp
  qed
  with p show ?thesis by (simp add: refill_def Let_def d_def [symmetric] p_def [symmetric])
qed

text \<open>One admission costs one token, up to rounding.\<close>

lemma allow_cost:
  assumes "bucket_ok b" and "lastFill b \<le> now" and "allow oor b now = ((adm, w), b')"
  shows "tokens b' + of_bool adm \<le>
    tokens b + rate b * rsecs (lastFill b) now * (1 + 4 * eps) + 2 * eps * capacity b"
proof -
  have c: "capacity (refill b now) = capacity b" by (simp add: refill_def Let_def)
  have ok: "bucket_ok (refill b now)" by (rule refill_ok [OF assms(1,2)])
  have c0: "0 \<le> eps * capacity b" using assms(1) by (auto simp: bucket_ok_def)
  have u: "tokens b' + of_bool adm \<le> tokens (refill b now) + eps * capacity b"
  proof (cases "1 \<le> tokens (refill b now)")
    case True
    then have e: "adm" "tokens b' = fl_sub (tokens (refill b now)) 1"
      using assms(3) by (auto simp: allow_def Let_def)
    have "fl_sub (tokens (refill b now)) 1 \<le> tokens (refill b now) - 1 + eps * capacity b"
      unfolding fl_sub_def using True ok c by (intro fl.rnd_upper_cap) (auto simp: bucket_ok_def)
    with e show ?thesis by simp
  next
    case False
    with c0 assms(3) show ?thesis by (auto simp: allow_def Let_def)
  qed
  with refill_upper [OF assms(1,2)] show ?thesis by simp
qed

lemma bucket_wait_ge: "Second \<le> bucket_wait oor b"
  by (simp add: bucket_wait_def Let_def)

lemma allow_wait: "allow oor b now = ((False, w), b') \<Longrightarrow> Second \<le> w"
  by (auto simp: allow_def Let_def bucket_wait_ge split: if_splits)

lemma allow_eq:
  "allow oor b now = (if 1 \<le> tokens (refill b now)
     then ((True, 0), (refill b now)\<lparr>tokens := fl_sub (tokens (refill b now)) 1\<rparr>)
     else ((False, bucket_wait oor (refill b now)), refill b now))"
  by (simp add: allow_def Let_def)

section \<open>The limiter's invariant\<close>

definition limiter_ok :: "time \<Rightarrow> Limiter \<Rightarrow> bool" where
  "limiter_ok t l \<longleftrightarrow> config_ok (defaultCfg l) \<and> (\<forall>i c. configs l i = Some c \<longrightarrow> config_ok c) \<and>
     (\<forall>i b. buckets l i = Some b \<longrightarrow> bucket_ok b \<and> lastFill b \<le> t)"

definition loader_ok :: "config_loader \<Rightarrow> bool" where
  "loader_ok loader \<longleftrightarrow> (\<forall>q i row. loader = Some q \<and> q i = Inr row \<longrightarrow>
     config_ok \<lparr>RequestsPerMin = rr_RequestsPerMin row, BurstSize = rr_BurstSize row\<rparr>)"

definition clock_mono :: "env \<Rightarrow> bool" where
  "clock_mono e \<longleftrightarrow> (\<forall>m n. m \<le> n \<longrightarrow> now_at e m \<le> now_at e n)"

lemma clock_mono_now [simp]: "clock_mono (snd (time_Now e)) = clock_mono e"
  by (simp add: clock_mono_def time_Now_def)

abbreviation clock :: "env \<Rightarrow> time" where "clock e \<equiv> now_at e (ticks e)"

lemma limiter_ok_later: "limiter_ok t l \<Longrightarrow> t \<le> t' \<Longrightarrow> limiter_ok t' l"
  by (force simp: limiter_ok_def)

lemma loadConfig_ok:
  assumes "loadConfig loader i l = (cfg, l')" and "limiter_ok t l" and "loader_ok loader"
  shows "config_ok cfg" and "limiter_ok t l'" and "buckets l' = buckets l"
  using assms
  by (auto simp: loadConfig_def limiter_ok_def loader_ok_def Let_def split: option.splits sum.splits if_splits)

lemma getBucket_ok:
  assumes "getBucket loader i (l, e) = (b, l', e')" and "limiter_ok (clock e) l" and "loader_ok loader" and "clock_mono e"
  shows "bucket_ok b" and "lastFill b \<le> clock e'" and "limiter_ok (clock e') l'" and "buckets l' i = Some b"
    and "\<And>j. j \<noteq> i \<Longrightarrow> buckets l' j = buckets l j" and "now_at e' = now_at e" and "ticks e \<le> ticks e'"
proof -
  have s: "clock e \<le> now_at e (Suc (ticks e))" using assms(4) by (simp add: clock_mono_def)
  have "bucket_ok b \<and> lastFill b \<le> clock e' \<and> limiter_ok (clock e') l' \<and> buckets l' i = Some b \<and>
    (\<forall>j. j \<noteq> i \<longrightarrow> buckets l' j = buckets l j) \<and> now_at e' = now_at e \<and> ticks e \<le> ticks e'"
  proof (cases "buckets l i")
    case None
    obtain cfg l1 where lc: "loadConfig loader i l = (cfg, l1)" by fastforce
    note ok = loadConfig_ok [OF lc assms(2,3)]
    have "limiter_ok (now_at e (Suc (ticks e))) l1" by (rule limiter_ok_later [OF ok(2) s])
    moreover have "lastFill (new_bucket cfg (clock e)) = clock e" by (simp add: new_bucket_def)
    ultimately show ?thesis
      using None assms(1) lc ok new_bucket_ok [OF ok(1), of "clock e"] s
      by (auto simp: getBucket_def time_Now_def Let_def limiter_ok_def split: if_splits)
  next
    case (Some b0)
    with assms show ?thesis by (auto simp: getBucket_def limiter_ok_def)
  qed
  then show "bucket_ok b" "lastFill b \<le> clock e'" "limiter_ok (clock e') l'" "buckets l' i = Some b"
    "\<And>j. j \<noteq> i \<Longrightarrow> buckets l' j = buckets l j" "now_at e' = now_at e" "ticks e \<le> ticks e'" by auto
qed

text \<open>\<open>Allow\<close> is \<open>getBucket\<close>, a clock read and \<open>allow\<close>.\<close>

lemma AllowE:
  assumes "Allow oor loader i (l, e) = ((adm, w), l', e')"
  obtains b l1 e1 b' where "getBucket loader i (l, e) = (b, l1, e1)" and "allow oor b (clock e1) = ((adm, w), b')"
    and "l' = l1\<lparr>buckets := (buckets l1)(i \<mapsto> b')\<rparr>" and "e' = snd (time_Now e1)"
  using assms by (auto simp: Allow_def time_Now_def Let_def split: prod.splits)

lemma Allow_ok:
  assumes "Allow oor loader i (l, e) = ((adm, w), l', e')" and "limiter_ok (clock e) l" and "loader_ok loader" and "clock_mono e"
  shows "limiter_ok (clock e') l'" and "now_at e' = now_at e" and "ticks e < ticks e'"
    and "\<And>j. j \<noteq> i \<Longrightarrow> buckets l' j = buckets l j"
proof -
  obtain b l1 e1 b' where g: "getBucket loader i (l, e) = (b, l1, e1)" and a: "allow oor b (clock e1) = ((adm, w), b')"
    and l': "l' = l1\<lparr>buckets := (buckets l1)(i \<mapsto> b')\<rparr>" and e': "e' = snd (time_Now e1)"
    using AllowE [OF assms(1)] by blast
  note ok = getBucket_ok [OF g assms(2-4)]
  have b': "bucket_ok b'" "lastFill b' = clock e1"
    using allow_ok [OF ok(1,2)] allow_frame(3) a by (metis snd_conv)+
  have "clock e1 \<le> clock e'" using assms(4) ok(6) by (simp add: e' time_Now_def clock_mono_def)
  with limiter_ok_later [OF ok(3)] b' show "limiter_ok (clock e') l'"
    by (auto simp: l' limiter_ok_def)
  show "now_at e' = now_at e" "ticks e < ticks e'" using ok(6,7) by (simp_all add: e' time_Now_def)
  show "\<And>j. j \<noteq> i \<Longrightarrow> buckets l' j = buckets l j" using ok(5) by (simp add: l')
qed

lemma Cleanup_ok:
  "limiter_ok (clock e) l \<Longrightarrow> clock_mono e \<Longrightarrow> Cleanup (l, e) = (l', e') \<Longrightarrow> limiter_ok (clock e') l'"
proof -
  assume a: "limiter_ok (clock e) l" "clock_mono e" "Cleanup (l, e) = (l', e')"
  have "limiter_ok (now_at e (Suc (ticks e))) l"
    by (rule limiter_ok_later [OF a(1)]) (use a(2) in \<open>simp add: clock_mono_def\<close>)
  with a(3) show ?thesis by (auto simp: Cleanup_def time_Now_def Let_def limiter_ok_def split: if_splits)
qed

lemma SetConfig_ok: "limiter_ok t l \<Longrightarrow> config_ok c \<Longrightarrow> limiter_ok t (SetConfig i c l)"
  by (auto simp: SetConfig_def limiter_ok_def)

section \<open>Runs\<close>

text \<open>A run is a sequence of \<open>Allow\<close> calls, each under the limiter's lock.\<close>

fun allow_seq :: "(float64 option \<Rightarrow> int) \<Rightarrow> config_loader \<Rightarrow> uuid list \<Rightarrow> Limiter \<times> env
    \<Rightarrow> (uuid \<times> bool) list \<times> Limiter \<times> env" where
  "allow_seq oor loader [] s = ([], s)"
| "allow_seq oor loader (i # is) s =
     (let ((adm, w), s) = Allow oor loader i s; (out, s) = allow_seq oor loader is s
      in ((i, adm) # out, s))"

definition admitted :: "uuid \<Rightarrow> (uuid \<times> bool) list \<Rightarrow> nat" where
  "admitted k out = length (filter (\<lambda>(i, adm). i = k \<and> adm) out)"

definition calls :: "uuid \<Rightarrow> (uuid \<times> bool) list \<Rightarrow> nat" where
  "calls k out = length (filter (\<lambda>(i, adm). i = k) out)"

lemma admitted_simps [simp]:
  "admitted k [] = 0" "admitted k ((i, adm) # out) = of_bool (i = k \<and> adm) + admitted k out"
  by (simp_all add: admitted_def)

lemma calls_simps [simp]:
  "calls k [] = 0" "calls k ((i, adm) # out) = of_bool (i = k) + calls k out"
  by (simp_all add: calls_def)

lemma Allow_bucket:
  assumes "Allow oor loader i (l, e) = ((adm, w), l', e')" and "limiter_ok (clock e) l" and "loader_ok loader" and "clock_mono e"
    and "buckets l i = Some b"
  obtains b' where "buckets l' i = Some b'" and "allow oor b (clock e) = ((adm, w), b')" and "e' = snd (time_Now e)"
    and "bucket_ok b" and "lastFill b \<le> clock e"
proof -
  obtain b1 l1 e1 b' where g: "getBucket loader i (l, e) = (b1, l1, e1)" and a: "allow oor b1 (clock e1) = ((adm, w), b')"
    and l': "l' = l1\<lparr>buckets := (buckets l1)(i \<mapsto> b')\<rparr>" and e': "e' = snd (time_Now e1)"
    using AllowE [OF assms(1)] by blast
  have "b1 = b" "e1 = e" using g assms(5) by (simp_all add: getBucket_def)
  moreover have "bucket_ok b" "lastFill b \<le> clock e" using assms(2,5) by (auto simp: limiter_ok_def)
  ultimately show ?thesis using a l' e' that by simp
qed

text \<open>A bucket keeps its rate and capacity, and its tokens pay for what it admits.\<close>

lemma allow_seq_cost:
  assumes "allow_seq oor loader is (l, e) = (out, l', e')" and "limiter_ok (clock e) l" and "loader_ok loader"
    and "clock_mono e" and "buckets l k = Some b"
  shows "\<exists>b'. buckets l' k = Some b' \<and> capacity b' = capacity b \<and> rate b' = rate b \<and> lastFill b \<le> lastFill b' \<and>
    bucket_ok b' \<and> lastFill b' \<le> clock e' \<and> tokens b' + of_nat (admitted k out) \<le> tokens b
      + rate b * rsecs (lastFill b) (lastFill b') * (1 + 4 * eps) + 2 * eps * capacity b * of_nat (calls k out)"
  using assms
proof (induction "is" arbitrary: l e out b)
  case Nil
  then show ?case by (auto simp: limiter_ok_def)
next
  case (Cons i "is")
  obtain adm w l1 e1 where A: "Allow oor loader i (l, e) = ((adm, w), l1, e1)" by (metis prod.exhaust)
  obtain out1 where o1: "allow_seq oor loader is (l1, e1) = (out1, l', e')" and out: "out = (i, adm) # out1"
    using Cons.prems(1) A by (auto split: prod.splits)
  note ok = Allow_ok [OF A Cons.prems(2-4)]
  have cm: "clock_mono e1" using Cons.prems(4) ok(2) by (simp add: clock_mono_def)
  show ?case
  proof (cases "i = k")
    case False
    then have "buckets l1 k = Some b" using ok(4) Cons.prems(5) by metis
    from Cons.IH [OF o1 ok(1) Cons.prems(3) cm this] False show ?thesis by (simp add: out)
  next
    case True
    obtain b1 where b1: "buckets l1 k = Some b1" and al: "allow oor b (clock e) = ((adm, w), b1)"
      and bok: "bucket_ok b" "lastFill b \<le> clock e"
      using Allow_bucket [OF A Cons.prems(2-4)] Cons.prems(5) True by metis
    have fr: "capacity b1 = capacity b" "rate b1 = rate b" "lastFill b1 = clock e"
      using allow_frame [of oor b "clock e"] al by simp_all
    obtain b' where b': "buckets l' k = Some b'" "capacity b' = capacity b1" "rate b' = rate b1" "lastFill b1 \<le> lastFill b'"
      "bucket_ok b'" "lastFill b' \<le> clock e'" and ih: "tokens b' + of_nat (admitted k out1) \<le> tokens b1
        + rate b1 * rsecs (lastFill b1) (lastFill b') * (1 + 4 * eps) + 2 * eps * capacity b1 * of_nat (calls k out1)"
      using Cons.IH [OF o1 ok(1) Cons.prems(3) cm b1] by blast
    have "rsecs (lastFill b) (lastFill b') = rsecs (lastFill b) (clock e) + rsecs (clock e) (lastFill b')"
      by (simp add: diff_divide_distrib)
    then have "rate b * rsecs (lastFill b) (lastFill b') * (1 + 4 * eps)
        = rate b * rsecs (lastFill b) (clock e) * (1 + 4 * eps) + rate b * rsecs (clock e) (lastFill b') * (1 + 4 * eps)"
      by (simp only: distrib_left distrib_right)
    moreover have "2 * eps * capacity b * of_nat (calls k out) = 2 * eps * capacity b + 2 * eps * capacity b * of_nat (calls k out1)"
      using True by (simp add: out distrib_left)
    moreover have "(of_nat (admitted k out) :: rat) = of_bool adm + of_nat (admitted k out1)"
      using True by (simp add: out)
    ultimately have "tokens b' + of_nat (admitted k out) \<le> tokens b
        + rate b * rsecs (lastFill b) (lastFill b') * (1 + 4 * eps) + 2 * eps * capacity b * of_nat (calls k out)"
      using allow_cost [OF bok al] ih unfolding fr by linarith
    with b' fr bok(2) show ?thesis by auto
  qed
qed

section \<open>Waiting long enough\<close>

lemma refill_admits:
  assumes "bucket_ok b" and "1 \<le> capacity b"
    and "1 \<le> tokens b + fl_mul (Seconds (time_Sub now (lastFill b))) (rate b)"
  shows "1 \<le> tokens (refill b now)"
  using assms fl.rnd_ge_int [of 1] by (auto simp: refill_def Let_def fl_add_def)

lemma allow_admits: "1 \<le> tokens (refill b now) \<Longrightarrow> fst (allow oor b now) = (True, 0)"
  by (simp add: allow_eq)

lemma refill_after:
  assumes b: "bucket_ok b" "1 \<le> capacity b" and k: "0 \<le> k" "1 \<le> rate b * of_int k"
    and t: "lastFill b + k * Second \<le> now" "now - lastFill b \<le> max_int64"
  shows "1 \<le> tokens (refill b now)"
proof (rule refill_admits [OF b])
  have d: "time_Sub now (lastFill b) = now - lastFill b"
    using t k by (intro time_Sub_exact) (auto intro: order_trans [of _ 0])
  have "of_int k \<le> Seconds (time_Sub now (lastFill b))"
    using t k unfolding d by (intro Seconds_ge) simp_all
  then have "of_int k * rate b \<le> Seconds (time_Sub now (lastFill b)) * rate b"
    using b(1) by (intro mult_right_mono) (simp_all add: bucket_ok_def)
  then have "1 \<le> Seconds (time_Sub now (lastFill b)) * rate b" using k(2) by (simp add: mult.commute)
  then have "1 \<le> fl_mul (Seconds (time_Sub now (lastFill b))) (rate b)"
    unfolding fl_mul_def using fl.rnd_ge_int [of 1] by simp
  with b(1) show "1 \<le> tokens b + fl_mul (Seconds (time_Sub now (lastFill b))) (rate b)" by (simp add: bucket_ok_def)
qed

section \<open>Retry-After\<close>

lemma eps_cube_lower: "1 - 3 * eps \<le> (1 - eps) * (1 - eps) * (1 - eps)"
  by simp

lemma wait_ms_bounds:
  assumes "0 \<le> tokens b" "tokens b < 1" and r: "1 / 64 \<le> rate b"
  obtains m where "wait_ms b = Some m" and "1000 * ((1 - tokens b) / rate b) * (1 - 3 * eps) \<le> m" and "0 \<le> m" and "m \<le> 128000"
proof -
  define u where "u = 1 - tokens b"
  have u: "0 \<le> u" "u \<le> 1" using assms by (simp_all add: u_def)
  define v where "v = rnd64 u"
  have v: "u * (1 - eps) \<le> v" "v \<le> 1" "0 \<le> v"
    using fl.rnd_lower [OF u(1)] fl.rnd_le_int [of u 1] u fl.rnd_nonneg [of u] by (simp_all add: v_def algebra_simps)
  define x where "x = rnd64 (v / rate b)"
  have r0: "0 < rate b" using r by (rule less_le_trans [rotated]) simp
  have vr: "0 \<le> v / rate b" using v r0 by simp
  have "v / rate b \<le> 1 / (1 / 64)" using v r by (intro frac_le) simp_all
  then have v64: "v / rate b \<le> of_int 64" by simp
  have x: "v / rate b * (1 - eps) \<le> x" "x \<le> 64" "0 \<le> x"
    using fl.rnd_lower [OF vr] fl.rnd_le_int [OF v64] fl.rnd_nonneg [OF vr] by (simp_all add: x_def algebra_simps)
  define m where "m = rnd64 (x * 1000)"
  have xk: "0 \<le> x * 1000" "x * 1000 \<le> of_int 64000" using x by simp_all
  have m: "x * 1000 * (1 - eps) \<le> m" "m \<le> 64000" "0 \<le> m"
    using fl.rnd_lower [OF xk(1)] fl.rnd_le_int [OF xk(2)] fl.rnd_nonneg [OF xk(1)] by (simp_all add: m_def algebra_simps)
  have "1000 * (u / rate b) * (1 - 3 * eps) \<le> 1000 * (u / rate b) * ((1 - eps) * (1 - eps) * (1 - eps))"
    using u r0 by (intro mult_left_mono eps_cube_lower) simp
  also have "\<dots> = u * (1 - eps) / rate b * (1 - eps) * 1000 * (1 - eps)" by simp
  also have "\<dots> \<le> v / rate b * (1 - eps) * 1000 * (1 - eps)"
    using v(1) r0 by (intro mult_right_mono divide_right_mono) simp_all
  also have "\<dots> \<le> x * 1000 * (1 - eps)" using x(1) by (intro mult_right_mono) simp_all
  also have "\<dots> \<le> m" by (rule m(1))
  finally have "1000 * (u / rate b) * (1 - 3 * eps) \<le> m" .
  moreover have "wait_ms b = Some m"
    using r0 by (simp add: wait_ms_def fl_mul_def fl_div_def fl_sub_def m_def x_def v_def u_def)
  ultimately show ?thesis using that m by (simp add: u_def)
qed

lemma bucket_wait_lower:
  assumes "wait_ms b = Some m" and "0 \<le> m" and "m \<le> 128000"
  shows "(m - 1) * 1000000 \<le> of_int (bucket_wait oor b)"
proof -
  have f: "0 \<le> \<lfloor>m\<rfloor>" "\<lfloor>m\<rfloor> \<le> 128000" using assms(2,3) by (simp_all add: floor_le_iff)
  then have w: "float_to_int64 oor (wait_ms b) = \<lfloor>m\<rfloor>"
    using assms by (simp add: float_to_int64_def fl_trunc_def)
  have "int64 (\<lfloor>m\<rfloor> * Millisecond) = \<lfloor>m\<rfloor> * Millisecond" by (rule int64_id) (use f in linarith)+
  then have "\<lfloor>m\<rfloor> * Millisecond \<le> bucket_wait oor b" by (simp add: bucket_wait_def w Let_def)
  then have "(of_int (\<lfloor>m\<rfloor> * Millisecond) :: rat) \<le> of_int (bucket_wait oor b)" by (simp only: of_int_le_iff)
  moreover have "(m - 1) * 1000000 \<le> of_int (\<lfloor>m\<rfloor> * Millisecond)"
    using of_int_floor_le [of m] floor_correct [of m] by simp
  ultimately show ?thesis by linarith
qed

lemma elapsed_tokens:
  assumes "0 \<le> d" "d \<le> max_int64" and r: "0 \<le> r"
  shows "of_int d / 1000000000 * r * (1 - 3 * eps) \<le> fl_mul (Seconds d) r"
proof -
  let ?s = "of_int d / 1000000000 :: rat"
  have s: "0 \<le> ?s" using assms by simp
  have S: "0 \<le> Seconds d * r" using Seconds_nonneg [OF assms(1)] r by simp
  have "?s * r * (1 - 3 * eps) \<le> ?s * r * ((1 - eps) * (1 - eps) * (1 - eps))"
    using s r by (intro mult_left_mono eps_cube_lower) simp
  also have "\<dots> = ?s * (1 - eps) * (1 - eps) * r * (1 - eps)" by (simp only: mult.assoc mult.commute mult.left_commute)
  also have "\<dots> \<le> Seconds d * r * (1 - eps)"
    using Seconds_lower [OF assms(1,2)] r by (intro mult_right_mono) simp_all
  also have "\<dots> \<le> fl_mul (Seconds d) r"
    unfolding fl_mul_def using fl.rnd_lower [OF S] by (simp add: algebra_simps)
  finally show ?thesis .
qed

lemma retry_enough:
  assumes b: "bucket_ok b" "lastFill b \<le> now" "1 \<le> capacity b" "1 / 64 \<le> rate b"
    and d: "allow oor b now = ((False, w), b')"
    and t: "now + w + 2 * Millisecond \<le> now'" "now' - now \<le> max_int64"
  shows "fst (allow oor b' now') = (True, 0)"
proof -
  have b': "b' = refill b now" "w = bucket_wait oor b'" and lt: "tokens b' < 1"
    using d by (auto simp: allow_eq not_le split: if_splits)
  have ok: "bucket_ok b'" unfolding b'(1) by (rule refill_ok [OF b(1,2)])
  have fr: "capacity b' = capacity b" "rate b' = rate b" "lastFill b' = now"
    by (simp_all add: b'(1) refill_def Let_def)
  have t0: "0 \<le> tokens b'" using ok by (simp add: bucket_ok_def)
  obtain m where m: "wait_ms b' = Some m" "1000 * ((1 - tokens b') / rate b') * (1 - 3 * eps) \<le> m" "0 \<le> m" "m \<le> 128000"
    using wait_ms_bounds [OF t0 lt] b(4) fr(2) by metis
  have "Second \<le> w" unfolding b'(2) by (rule bucket_wait_ge)
  define D where "D = now' - now"
  have D: "0 \<le> D" "D \<le> max_int64" "w + 2 * Millisecond \<le> D" using t \<open>Second \<le> w\<close> by (simp_all add: D_def)
  have "(of_int (w + 2 * Millisecond) :: rat) \<le> of_int D" using D(3) by (simp only: of_int_le_iff)
  with bucket_wait_lower [OF m(1,3,4), of oor] have Dm: "(m + 1) * 1000000 \<le> of_int D"
    unfolding b'(2) by simp
  define u where "u = 1 - tokens b'"
  have u: "0 \<le> u" "u \<le> 1" using t0 lt by (simp_all add: u_def)
  have r0: "0 < rate b'" using b(4) fr(2) by simp
  have "1000 * (u / rate b') * (1 - 3 * eps) * rate b' \<le> m * rate b'"
    using m(2) r0 unfolding u_def by (intro mult_right_mono) simp_all
  then have mr: "1000 * u * (1 - 3 * eps) \<le> m * rate b'" using r0 by simp
  have "(m + 1) * rate b' * 1000000 \<le> of_int D * rate b'"
    using mult_right_mono [OF Dm, of "rate b'"] r0 by (simp add: mult.commute mult.left_commute)
  then have "m * rate b' + rate b' \<le> of_int D * rate b' / 1000000" by (simp add: distrib_right)
  then have "1000 * u * (1 - 3 * eps) + 1 / 64 \<le> of_int D * rate b' / 1000000" using mr b(4) fr(2) by linarith
  then have s: "u * (1 - 3 * eps) + 1 / 64000 \<le> of_int D / 1000000000 * rate b'" by simp
  have "(u * (1 - 3 * eps) + 1 / 64000) * (1 - 3 * eps) \<le> of_int D / 1000000000 * rate b' * (1 - 3 * eps)"
    using s by (intro mult_right_mono) simp_all
  also have "\<dots> \<le> fl_mul (Seconds D) (rate b')" using D r0 by (intro elapsed_tokens) simp_all
  finally have "(u * (1 - 3 * eps) + 1 / 64000) * (1 - 3 * eps) \<le> fl_mul (Seconds D) (rate b')" .
  moreover have "u \<le> (u * (1 - 3 * eps) + 1 / 64000) * (1 - 3 * eps)" using u by (simp add: algebra_simps)
  ultimately have "1 \<le> tokens b' + fl_mul (Seconds D) (rate b')" unfolding u_def by linarith
  moreover have "time_Sub now' (lastFill b') = D" using D by (simp add: fr(3) D_def time_Sub_exact)
  ultimately have "1 \<le> tokens (refill b' now')"
    using ok b(3) fr(1) by (intro refill_admits) simp_all
  then show ?thesis by (rule allow_admits)
qed

section \<open>Bursts\<close>

lemma refill_now: "tokens b = of_int n \<Longrightarrow> 0 \<le> n \<Longrightarrow> n < 2147483648 \<Longrightarrow> tokens b \<le> capacity b \<Longrightarrow> refill b (lastFill b) = b"
  by (simp add: refill_def fl_mul_def fl_add_def fl.rnd_int)

lemma allow_now:
  assumes "tokens b = of_int n" "0 \<le> n" "n < 2147483648" "tokens b \<le> capacity b"
  shows "allow oor b (lastFill b) = (if 1 \<le> n then ((True, 0), b\<lparr>tokens := of_int (n - 1)\<rparr>) else ((False, bucket_wait oor b), b))"
proof -
  have "fl_sub (of_int n) 1 = of_int (n - 1)"
    using assms fl.rnd_int [of "n - 1"] by (simp only: fl_sub_def of_int_diff of_int_1)
  then show ?thesis by (simp add: allow_eq refill_now [OF assms] assms(1))
qed

lemma burst_run:
  assumes "now_at e = (\<lambda>_. t)" and "buckets l k = Some b" and "lastFill b = t" and "tokens b = of_nat n"
    and "n < 2147483648" and "tokens b \<le> capacity b"
  shows "map snd (fst (allow_seq oor loader (replicate m k) (l, e))) = replicate (min m n) True @ replicate (m - n) False"
  using assms
proof (induction m arbitrary: l e b n)
  case 0
  then show ?case by simp
next
  case (Suc m)
  have tk: "tokens b = of_int (int n)" using Suc.prems(4) by simp
  have al: "allow oor b t = (if 1 \<le> n then ((True, 0), b\<lparr>tokens := of_int (int n - 1)\<rparr>) else ((False, bucket_wait oor b), b))"
    using allow_now [OF tk] Suc.prems(3,5,6) by simp
  have A: "Allow oor loader k (l, e) = (fst (allow oor b t), l\<lparr>buckets := (buckets l)(k \<mapsto> snd (allow oor b t))\<rparr>, snd (time_Now e))"
    using Suc.prems(1,2) by (simp add: Allow_def getBucket_def time_Now_def Let_def split_beta)
  have e': "now_at (snd (time_Now e)) = (\<lambda>_. t)" using Suc.prems(1) by simp
  show ?case
  proof (cases n)
    case 0
    have "map snd (fst (allow_seq oor loader (replicate m k) (l\<lparr>buckets := (buckets l)(k \<mapsto> b)\<rparr>, snd (time_Now e))))
      = replicate (min m 0) True @ replicate (m - 0) False"
      using Suc.prems 0 by (intro Suc.IH [OF e', of _ b]) simp_all
    with 0 show ?thesis by (simp add: A al split_beta)
  next
    case (Suc n')
    have "map snd (fst (allow_seq oor loader (replicate m k) (l\<lparr>buckets := (buckets l)(k \<mapsto> b\<lparr>tokens := of_int (int n - 1)\<rparr>)\<rparr>, snd (time_Now e))))
      = replicate (min m n') True @ replicate (m - n') False"
      using Suc.prems Suc by (intro Suc.IH [OF e', of _ "b\<lparr>tokens := of_int (int n - 1)\<rparr>"]) simp_all
    with Suc show ?thesis by (simp add: A al split_beta)
  qed
qed

end
