(* ===== verification/RateLimitProps.thy ===== *)
theory RateLimitProps
  imports RateLimitBounds
begin

text \<open>
  The concurrent creation of a bucket as a step relation, and the properties of the rate
  limiter with the concrete inputs at which they apply.
\<close>

section \<open>First requests of a key, interleaved\<close>

text \<open>
  \<open>getBucket\<close> looks the key up under a read lock, loads the configuration with no lock
  on the buckets, and looks again under the write lock before it inserts. Buckets are
  shared by reference, so a request holds an address of the heap \<open>gb_heap\<close>. A request
  \<open>t\<close> is at one of these points.
\<close>

datatype gb_pc = Outside | Missed uuid | Loaded uuid Config | Holds uuid nat

record gb_state =
  gb_addr :: "uuid \<Rightarrow> nat option"          \<comment> \<open>\<open>l.buckets\<close>\<close>
  gb_heap :: "bucket list"
  gb_lim :: Limiter                        \<comment> \<open>\<open>l.configs\<close> and the default\<close>
  gb_pcs :: "nat \<Rightarrow> gb_pc"

definition gb_enter :: "nat \<Rightarrow> uuid \<Rightarrow> gb_state \<Rightarrow> gb_state" where
  "gb_enter t k s = s\<lparr>gb_pcs := (gb_pcs s)(t := (case gb_addr s k of Some i \<Rightarrow> Holds k i | None \<Rightarrow> Missed k))\<rparr>"

definition gb_load :: "config_loader \<Rightarrow> nat \<Rightarrow> uuid \<Rightarrow> gb_state \<Rightarrow> gb_state" where
  "gb_load loader t k s = (let (cfg, l) = loadConfig loader k (gb_lim s)
     in s\<lparr>gb_lim := l, gb_pcs := (gb_pcs s)(t := Loaded k cfg)\<rparr>)"

definition gb_insert :: "time \<Rightarrow> nat \<Rightarrow> uuid \<Rightarrow> Config \<Rightarrow> gb_state \<Rightarrow> gb_state" where
  "gb_insert now t k cfg s = (case gb_addr s k of
      Some i \<Rightarrow> s\<lparr>gb_pcs := (gb_pcs s)(t := Holds k i)\<rparr>
    | None \<Rightarrow> (let i = length (gb_heap s)
        in s\<lparr>gb_addr := (gb_addr s)(k \<mapsto> i), gb_heap := gb_heap s @ [new_bucket cfg now],
             gb_pcs := (gb_pcs s)(t := Holds k i)\<rparr>))"

definition gb_use :: "(float64 option \<Rightarrow> int) \<Rightarrow> time \<Rightarrow> nat \<Rightarrow> nat \<Rightarrow> gb_state \<Rightarrow> gb_state" where
  "gb_use oor now t i s = s\<lparr>gb_heap := (gb_heap s)[i := snd (allow oor (gb_heap s ! i) now)], gb_pcs := (gb_pcs s)(t := Outside)\<rparr>"

inductive gb_step :: "(float64 option \<Rightarrow> int) \<Rightarrow> config_loader \<Rightarrow> gb_state \<Rightarrow> gb_state \<Rightarrow> bool"
  for oor :: "float64 option \<Rightarrow> int" and loader :: config_loader where
  enter: "gb_pcs s t = Outside \<Longrightarrow> gb_step oor loader s (gb_enter t k s)"
| load: "gb_pcs s t = Missed k \<Longrightarrow> gb_step oor loader s (gb_load loader t k s)"
| insert: "gb_pcs s t = Loaded k cfg \<Longrightarrow> gb_step oor loader s (gb_insert now t k cfg s)"
| use: "gb_pcs s t = Holds k i \<Longrightarrow> gb_step oor loader s (gb_use oor now t i s)"

inductive gb_reach :: "(float64 option \<Rightarrow> int) \<Rightarrow> config_loader \<Rightarrow> Config \<Rightarrow> gb_state \<Rightarrow> bool"
  for oor :: "float64 option \<Rightarrow> int" and loader :: config_loader and cfg :: Config where
  start: "gb_reach oor loader cfg \<lparr>gb_addr = (\<lambda>_. None), gb_heap = [], gb_lim = NewLimiter cfg, gb_pcs = (\<lambda>_. Outside)\<rparr>"
| step: "gb_reach oor loader cfg s \<Longrightarrow> gb_step oor loader s s' \<Longrightarrow> gb_reach oor loader cfg s'"

inductive_cases gb_stepE: "gb_step oor loader s s'"

definition gb_inv :: "gb_state \<Rightarrow> bool" where
  "gb_inv s \<longleftrightarrow> (\<forall>k i. gb_addr s k = Some i \<longrightarrow> i < length (gb_heap s)) \<and>
     (\<forall>k k' i. gb_addr s k = Some i \<and> gb_addr s k' = Some i \<longrightarrow> k = k') \<and>
     (\<forall>t k i. gb_pcs s t = Holds k i \<longrightarrow> gb_addr s k = Some i)"

lemma gb_enter_inv: "gb_inv s \<Longrightarrow> gb_inv (gb_enter t k s)"
  by (auto simp: gb_inv_def gb_enter_def split: option.splits)

lemma gb_load_inv: "gb_inv s \<Longrightarrow> gb_inv (gb_load loader t k s)"
  by (auto simp: gb_inv_def gb_load_def Let_def split: prod.splits)

lemma gb_insert_inv: "gb_inv s \<Longrightarrow> gb_inv (gb_insert now t k cfg s)"
proof (cases "gb_addr s k")
  case None
  assume a: "gb_inv s"
  then have "gb_addr s k' = Some i \<Longrightarrow> i \<noteq> length (gb_heap s)" for k' i by (auto simp: gb_inv_def)
  with a None show ?thesis
    by (auto simp: gb_inv_def gb_insert_def Let_def less_Suc_eq dest: sym split: if_splits)
qed (auto simp: gb_inv_def gb_insert_def)

lemma gb_use_inv: "gb_inv s \<Longrightarrow> gb_inv (gb_use oor now t i s)"
  by (auto simp: gb_inv_def gb_use_def)

lemma gb_reach_inv: "gb_reach oor loader cfg s \<Longrightarrow> gb_inv s"
proof (induction rule: gb_reach.induct)
  case start
  then show ?case by (simp add: gb_inv_def)
next
  case (step s s')
  from step.hyps(2) step.IH show ?case
    by (cases rule: gb_stepE) (auto intro: gb_enter_inv gb_load_inv gb_insert_inv gb_use_inv)
qed

section \<open>Properties\<close>

lemmas limiter_defs = limiter_ok_def loader_ok_def clock_mono_def config_ok_def bucket_ok_def

lemma Allow_seq_first:
  assumes "buckets l k = None" and "loadConfig loader k l = (cfg, l1)" and "config_ok cfg" and "now_at e = (\<lambda>_. t)"
  shows "map snd (fst (allow_seq oor loader (replicate (Suc m) k) (l, e))) =
    map snd (fst (allow_seq oor loader (replicate (Suc m) k) (l1\<lparr>buckets := (buckets l1)(k \<mapsto> new_bucket cfg t)\<rparr>, snd (time_Now e))))"
  using assms by (simp add: Allow_def getBucket_def time_Now_def Let_def split_beta)

text \<open>C19: While the clock stands still, a key with a fresh bucket gets exactly its burst:
  of \<open>m\<close> requests the first \<open>BurstSize\<close> are admitted and every later one is denied.\<close>

theorem burst_exact:
  assumes "buckets l k = None" and "fst (loadConfig loader k l) = cfg" and "config_ok cfg" and "now_at e = (\<lambda>_. t)"
  shows "map snd (fst (allow_seq oor loader (replicate m k) (l, e))) =
    replicate (min m (nat (BurstSize cfg))) True @ replicate (m - nat (BurstSize cfg)) False"
proof (cases m)
  case (Suc m')
  obtain l1 where lc: "loadConfig loader k l = (cfg, l1)" using assms(2) by (metis fst_conv surj_pair)
  let ?b = "new_bucket cfg t"
  have b: "tokens ?b = of_nat (nat (BurstSize cfg))" "capacity ?b = tokens ?b" "lastFill ?b = t" "nat (BurstSize cfg) < 2147483648"
    using assms(3) new_bucket_capacity [OF assms(3)] by (auto simp: new_bucket_def config_ok_def)
  show ?thesis unfolding Suc Allow_seq_first [OF assms(1) lc assms(3,4)]
    by (rule burst_run [where t = t and b = ?b]) (use assms(4) b in simp_all)
qed simp

lemma burst_exact_witness:
  "map snd (fst (allow_seq (\<lambda>_. 0) stubLoader (replicate 12 7) (NewLimiter DefaultConfig, \<lparr>now_at = (\<lambda>_. 5), ticks = 0\<rparr>)))
    = replicate 10 True @ replicate 2 False"
  using burst_exact [of "NewLimiter DefaultConfig" 7 stubLoader DefaultConfig "\<lparr>now_at = (\<lambda>_. 5), ticks = 0\<rparr>" 5 "\<lambda>_. 0" 12]
  by (simp add: NewLimiter_def loadConfig_def stubLoader_def DefaultConfig_def config_ok_def)

text \<open>C2: Over any run of requests of any keys, the requests of a key that are admitted
  number at most its tokens at the start plus its rate times the elapsed time, up to a relative
  error of four units in the last place of \<open>float64\<close> and a few more per call.\<close>

theorem rate_limit_bound:
  assumes "allow_seq oor loader is (l, e) = (out, l', e')" and "limiter_ok (clock e) l" and "loader_ok loader"
    and "clock_mono e" and "buckets l k = Some b"
  shows "of_nat (admitted k out) \<le> tokens b + rate b * rsecs (lastFill b) (clock e') * (1 + 4 * eps)
    + 2 * eps * capacity b * of_nat (calls k out)"
proof -
  obtain b' where b': "lastFill b' \<le> clock e'" "bucket_ok b'" "tokens b' + of_nat (admitted k out) \<le> tokens b
      + rate b * rsecs (lastFill b) (lastFill b') * (1 + 4 * eps) + 2 * eps * capacity b * of_nat (calls k out)"
    using allow_seq_cost [OF assms] by blast
  have r: "0 \<le> rate b" using assms(2,5) by (auto simp: limiter_ok_def bucket_ok_def)
  have "rsecs (lastFill b) (lastFill b') \<le> rsecs (lastFill b) (clock e')"
    using b'(1) by (intro divide_right_mono) (simp only: of_int_le_iff, simp)
  then have "rate b * rsecs (lastFill b) (lastFill b') * (1 + 4 * eps) \<le> rate b * rsecs (lastFill b) (clock e') * (1 + 4 * eps)"
    using r by (intro mult_right_mono mult_left_mono) simp_all
  with b' show ?thesis by (simp add: bucket_ok_def)
qed

lemma rate_limit_bound_witness:
  "\<exists>out l' e'. allow_seq (\<lambda>_. 0) None [7, 9, 7]
      (\<lparr>buckets = [7 \<mapsto> \<lparr>tokens = 2, capacity = 2, rate = 1, lastFill = 0\<rparr>], configs = (\<lambda>_. None), defaultCfg = DefaultConfig\<rparr>,
       \<lparr>now_at = (\<lambda>n. int n), ticks = 0\<rparr>) = (out, l', e') \<and>
     of_nat (admitted 7 out) \<le> 2 + 1 * rsecs 0 (clock e') * (1 + 4 * eps) + 2 * eps * 2 * of_nat (calls 7 out)"
proof -
  let ?b = "\<lparr>tokens = 2, capacity = 2, rate = 1, lastFill = 0\<rparr>"
  let ?l = "\<lparr>buckets = [7 \<mapsto> ?b], configs = (\<lambda>_. None), defaultCfg = DefaultConfig\<rparr>" and ?e = "\<lparr>now_at = (\<lambda>n. int n), ticks = 0\<rparr>"
  obtain out l' e' where r: "allow_seq (\<lambda>_. 0) None [7, 9, 7] (?l, ?e) = (out, l', e')" by (metis prod.exhaust)
  have "\<exists>n. 0 \<le> n \<and> n < 2147483648 \<and> (2::rat) = of_int n" by (rule exI [of _ 2]) simp
  then have "of_nat (admitted 7 out) \<le> tokens ?b + rate ?b * rsecs (lastFill ?b) (clock e') * (1 + 4 * eps)
      + 2 * eps * capacity ?b * of_nat (calls 7 out)"
    by (intro rate_limit_bound [OF r]) (simp_all add: limiter_defs DefaultConfig_def)
  with r show ?thesis by simp
qed

text \<open>A key is never starved: once \<open>k\<close> seconds have passed since the bucket was last
  touched, with \<open>k\<close> large enough for the rate to produce a token, the next request is
  admitted, whatever the bucket held.\<close>

theorem refill_admits_after:
  assumes "bucket_ok b" and "1 \<le> capacity b" and "0 \<le> k" and "1 \<le> rate b * of_int k"
    and "lastFill b + k * Second \<le> now" and "now - lastFill b \<le> max_int64"
  shows "fst (allow oor b now) = (True, 0)"
  by (rule allow_admits [OF refill_after [OF assms]])

lemma refill_admits_after_witness:
  "fst (allow (\<lambda>_. 0) \<lparr>tokens = 0, capacity = 10, rate = 1 / 2, lastFill = 0\<rparr> 2500000000) = (True, 0)"
proof (rule refill_admits_after [where k = 2])
  have "\<exists>n. 0 \<le> n \<and> n < 2147483648 \<and> (10::rat) = of_int n" by (rule exI [of _ 10]) simp
  then show "bucket_ok \<lparr>tokens = 0, capacity = 10, rate = 1 / 2, lastFill = 0\<rparr>" by (simp add: bucket_ok_def)
qed simp_all

lemma Seconds_header: "0 \<le> w \<Longrightarrow> w \<le> max_int64 \<Longrightarrow> w \<le> \<lceil>Seconds w\<rceil> * Second + 4096"
proof -
  assume w: "0 \<le> w" "w \<le> max_int64"
  have wr: "(of_int w :: rat) \<le> of_int max_int64" "0 \<le> (of_int w :: rat)" using w by (simp_all only: of_int_le_iff of_int_0_le_iff)
  have "of_int w / 1000000000 * (1 - eps) * (1 - eps) \<le> Seconds w" by (rule Seconds_lower [OF w])
  also have "\<dots> \<le> of_int \<lceil>Seconds w\<rceil>" by (rule le_of_int_ceiling)
  finally have "of_int w - of_int w * (2 * eps) \<le> of_int \<lceil>Seconds w\<rceil> * 1000000000"
    using wr by (simp add: field_simps)
  moreover have "of_int w * (2 * eps) \<le> 4096" using wr by simp
  ultimately have "(of_int w :: rat) \<le> of_int (\<lceil>Seconds w\<rceil> * Second + 4096)" by simp
  then show ?thesis by (simp only: of_int_le_iff)
qed

text \<open>C18: For a bucket of at least one token that is refilled by at least one request a minute (a
  64th of a token a second), a denied client is told at least one second, and is admitted when it
  comes back a second or more after the \<open>Retry-After\<close> it was given, within the range of a
  \<open>Duration\<close>, if no other request of its key came between.\<close>

theorem retry_after_suffices:
  assumes "bucket_ok b" and "lastFill b \<le> now" and "1 \<le> capacity b" and "1 / 64 \<le> rate b"
    and "allow oor b now = ((False, w), b')" and "retry_after_header w = Itoa n" and "n = \<lceil>Seconds w\<rceil>"
    and "now + (n + 1) * Second \<le> now'" and "now' - now \<le> max_int64"
  shows "Second \<le> w \<and> fst (allow oor b' now') = (True, 0)"
proof
  show w: "Second \<le> w" by (rule allow_wait [OF assms(5)])
  have "w \<le> max_int64"
    using assms(5) int64_range by (auto simp: allow_eq bucket_wait_def Let_def split: if_splits)
  with w have "w \<le> n * Second + 4096" unfolding assms(7) by (intro Seconds_header) simp_all
  with assms(8) have "now + w + 2 * Millisecond \<le> now'" by (simp add: distrib_right)
  then show "fst (allow oor b' now') = (True, 0)" by (rule retry_enough [OF assms(1-5) _ assms(9)])
qed

lemma Seconds_whole: "Seconds 1000000000 = 1"
  by (simp add: Seconds_rnd fl.rnd_int)

lemma retry_after_suffices_witness:
  "\<exists>w b'. allow (\<lambda>_. 0) \<lparr>tokens = 0, capacity = 10, rate = 1, lastFill = 0\<rparr> 0 = ((False, w), b') \<and>
     fst (allow (\<lambda>_. 0) b' 2000000000) = (True, 0)"
proof -
  let ?b = "\<lparr>tokens = 0, capacity = 10, rate = 1, lastFill = 0\<rparr>"
  have r: "refill ?b 0 = ?b" by (simp add: refill_def fl_add_def fl_mul_def)
  have "wait_ms ?b = Some 1000" using fl.rnd_int [of 1000] by (simp add: wait_ms_def fl_sub_def fl_div_def fl_mul_def)
  then have w: "bucket_wait (\<lambda>_. 0) ?b = Second"
    by (simp add: bucket_wait_def float_to_int64_def fl_trunc_def int64_id)
  have a: "allow (\<lambda>_. 0) ?b 0 = ((False, Second), ?b)" by (simp add: allow_eq r w)
  have ok: "bucket_ok ?b" using exI [of "\<lambda>n. 0 \<le> n \<and> n < 2147483648 \<and> (10::rat) = of_int n" 10] by (simp add: bucket_ok_def)
  have "Second \<le> Second \<and> fst (allow (\<lambda>_. 0) ?b 2000000000) = (True, 0)"
    by (rule retry_after_suffices [OF ok _ _ _ a, of 1]) (simp_all add: retry_after_header_def Seconds_whole)
  with a show ?thesis by blast
qed

text \<open>Waiting for exactly \<open>Retry-After\<close> seconds is not always enough: the wait is cut
  to whole milliseconds, so a client can be told 1 s and be denied again after 1 s.\<close>

theorem retry_after_short:
  "\<exists>b w b'. bucket_ok b \<and> allow oor b 0 = ((False, w), b') \<and> \<lceil>Seconds w\<rceil> = 1 \<and>
     \<not> fst (fst (allow oor b' Second))"
proof -
  let ?b = "\<lparr>tokens = 2047 / 4096, capacity = 10, rate = 1 / 2, lastFill = 0\<rparr>"
  have rnds: "rnd64 (2047 / 4096) = 2047 / 4096" "rnd64 (2049 / 4096) = 2049 / 4096" "rnd64 (2049 / 2048) = 2049 / 2048"
    "rnd64 (256125 / 256) = 256125 / 256" "rnd64 (4095 / 4096) = 4095 / 4096" "rnd64 (1 / 2) = 1 / 2"
    using rnd64_dyadic [of 2047 12] rnd64_dyadic [of 2049 12] rnd64_dyadic [of 2049 11] rnd64_dyadic [of 256125 8]
      rnd64_dyadic [of 4095 12] rnd64_dyadic [of 1 1] by simp_all
  have r: "refill ?b 0 = ?b" by (simp add: refill_def fl_add_def fl_mul_def rnds)
  have f: "\<lfloor>256125 / 256 :: rat\<rfloor> = 1000" by (simp add: floor_eq_iff)
  have "wait_ms ?b = Some (256125 / 256)" by (simp add: wait_ms_def fl_sub_def fl_div_def fl_mul_def rnds)
  then have w: "bucket_wait oor ?b = Second"
    using f by (simp add: bucket_wait_def float_to_int64_def fl_trunc_def int64_id)
  have a: "allow oor ?b 0 = ((False, Second), ?b)" by (simp add: allow_eq r w)
  have r2: "tokens (refill ?b Second) = 4095 / 4096"
    by (simp add: refill_def fl_add_def fl_mul_def time_Sub_def Seconds_whole rnds)
  have "\<not> fst (fst (allow oor ?b Second))" by (simp add: allow_eq r2)
  moreover have "bucket_ok ?b" using exI [of "\<lambda>n. 0 \<le> n \<and> n < 2147483648 \<and> (10::rat) = of_int n" 10] by (simp add: bucket_ok_def)
  ultimately show ?thesis using a Seconds_whole by (intro exI [of _ ?b] exI [of _ Second]) simp
qed

text \<open>Dropping an idle bucket is not observable: after ten idle minutes a bucket
  whose rate fills it in that time is full again, as a fresh one is.\<close>

theorem cleanup_transparent:
  assumes "bucket_ok b" and "capacity b \<le> 600 * rate b" and "idle_bucket now b"
  shows "refill b now = b\<lparr>tokens := capacity b, lastFill := now\<rparr>"
proof -
  let ?d = "time_Sub now (lastFill b)"
  have d: "600 * Second \<le> ?d" "?d \<le> max_int64" using assms(3) time_Sub_range by (simp_all add: idle_bucket_def)
  then have "of_int 600 \<le> Seconds ?d" by (intro Seconds_ge) simp_all
  then have "600 * rate b \<le> Seconds ?d * rate b"
    using assms(1) by (intro mult_right_mono) (simp_all add: bucket_ok_def)
  then have p: "capacity b \<le> Seconds ?d * rate b" using assms(2) by linarith
  obtain n where n: "0 \<le> n" "n < 2147483648" "capacity b = of_int n" using assms(1) by (auto simp: bucket_ok_def)
  have "of_int n \<le> fl_mul (Seconds ?d) (rate b)"
    unfolding fl_mul_def using p n by (intro fl.rnd_ge_int) simp_all
  then have "of_int n \<le> tokens b + fl_mul (Seconds ?d) (rate b)" using assms(1) by (simp add: bucket_ok_def)
  then have "of_int n \<le> fl_add (tokens b) (fl_mul (Seconds ?d) (rate b))"
    unfolding fl_add_def using n by (intro fl.rnd_ge_int) simp_all
  then show ?thesis using n(3) by (simp add: refill_def Let_def)
qed

lemma cleanup_transparent_witness:
  "refill \<lparr>tokens = 0, capacity = 10, rate = 1, lastFill = 0\<rparr> 600000000001
     = \<lparr>tokens = 10, capacity = 10, rate = 1, lastFill = 600000000001\<rparr>"
proof -
  have "bucket_ok \<lparr>tokens = 0, capacity = 10, rate = 1, lastFill = 0\<rparr>"
    using exI [of "\<lambda>n. 0 \<le> n \<and> n < 2147483648 \<and> (10::rat) = of_int n" 10] by (simp add: bucket_ok_def)
  from cleanup_transparent [OF this, of 600000000001] show ?thesis
    by (simp add: idle_bucket_def time_Sub_def)
qed

text \<open>C20: However the first requests of a key interleave, all requests that hold a
  bucket for that key hold the same one, and requests of different keys hold different ones.\<close>

theorem one_bucket_per_key:
  assumes "gb_reach oor loader cfg s" and "gb_pcs s t = Holds k i" and "gb_pcs s t' = Holds k' i'"
  shows "k = k' \<longleftrightarrow> i = i'"
  using gb_reach_inv [OF assms(1)] assms(2,3) unfolding gb_inv_def by (metis option.inject)

lemma one_bucket_per_key_witness:
  "\<exists>s. gb_reach (\<lambda>_. 0) None DefaultConfig s \<and> gb_pcs s 0 = Holds 7 0 \<and> gb_pcs s 1 = Holds 7 0 \<and> ((7::uuid) = 7 \<longleftrightarrow> (0::nat) = 0)"
proof -
  define s0 where "s0 = \<lparr>gb_addr = (\<lambda>_. None), gb_heap = [], gb_lim = NewLimiter DefaultConfig, gb_pcs = (\<lambda>_. Outside)\<rparr>"
  define s where "s = gb_insert 5 1 7 DefaultConfig (gb_insert 4 0 7 DefaultConfig (gb_load None 1 7 (gb_load None 0 7
    (gb_enter 1 7 (gb_enter 0 7 s0)))))"
  note d = gb_enter_def gb_load_def gb_insert_def s0_def NewLimiter_def loadConfig_def
  have r: "gb_reach (\<lambda>_. 0) None DefaultConfig s" unfolding s_def s0_def
    by (intro gb_reach.step [OF _ gb_step.insert] gb_reach.step [OF _ gb_step.load] gb_reach.step [OF _ gb_step.enter] gb_reach.start)
      (simp_all add: d)
  have h: "gb_pcs s 0 = Holds 7 0" "gb_pcs s 1 = Holds 7 0" by (simp_all add: s_def d)
  from one_bucket_per_key [OF r h] r h show ?thesis by blast
qed

end
