(* ===== verification/GatewayProps.thy ===== *)
theory GatewayProps
  imports Gateway AuthProps PolicyProps AuditProps RateLimitProps
begin

text \<open>
  The gateway as a whole: the checks before the upstream, what a denied request leaves
  behind, and what the outer middlewares guarantee for every handler.
\<close>

section \<open>The checks on the process state satisfy the guard contract\<close>

interpretation auth_c: guard auth_check 401
  unfolding auth_check_def by (rule guard_lift) (rule auth_g.guard_axioms)

interpretation rate_c: guard "rate_check oor" 429 for oor
  unfolding rate_check_def by (rule guard_lift) (rule rl_g.guard_axioms)

interpretation rbac_c: guard rbac_check 403
  unfolding rbac_check_def by (rule guard_lift) (rule rbac_g.guard_axioms)

interpretation policy_c: guard "policy_check uni zones" 403 for uni zones
  unfolding policy_check_def by (rule guard_lift) (rule policy_g.guard_axioms)

text \<open>No check touches the upstream, the audit logger, the metrics or the database.\<close>

definition world_rest :: "'u world \<Rightarrow> 'u \<times> AuditLogger \<times> Metrics \<times> database \<times> Checker \<times> log_entry list \<times> bool" where
  "world_rest w = (w_up w, w_audit w, w_met w, w_db w, w_chk w, w_log w, w_conn w)"

lemma check_rest:
  "world_rest (fst (auth_check r w)) = world_rest w"
  "world_rest (fst (rate_check oor r w)) = world_rest w"
  "world_rest (fst (rbac_check r w)) = world_rest w"
  "world_rest (fst (policy_check uni zones r w)) = world_rest w"
  by (simp_all add: world_rest_def auth_check_def rate_check_def rbac_check_def policy_check_def lift_guard_def split_beta)

lemma run_guards_rest:
  assumes "\<And>g r w. g \<in> set gs \<Longrightarrow> world_rest (fst (g r w)) = world_rest w"
  shows "world_rest (fst (run_guards gs r w)) = world_rest w"
  using assms
proof (induction gs arbitrary: r w)
  case (Cons g gs)
  have h: "world_rest (fst (g r w)) = world_rest w" by (rule Cons.prems) simp
  have "world_rest (fst (run_guards gs r' w')) = world_rest w'" for r' w' using Cons.prems by (intro Cons.IH) simp
  with h show ?case by (auto split: prod.splits verdict.splits)
qed simp

lemma checks_rest: "world_rest (fst (run_guards (checks p) r w)) = world_rest w"
  by (rule run_guards_rest) (auto simp: checks_def check_rest split: if_splits)

text \<open>With a database, \<open>/mcp\<close> is the checks in a row, then the audited proxy.\<close>

definition audited_proxy :: "'u params \<Rightarrow> 'u world handler" where
  "audited_proxy p = (if cf_AuditEnabled (p_cfg p) then audit_Middleware world_now audit_log (proxy_handler p) else proxy_handler p)"

lemma mcp_handler_checks:
  assumes "cf_DatabaseURL (p_cfg p) \<noteq> []"
  shows "mcp_handler p r w = (case run_guards (checks p) r w of
    (w', Pass r') \<Rightarrow> audited_proxy p r' w' | (w', Reject es) \<Rightarrow> (w', es, Returned))"
proof -
  have "mcp_handler p = Chain (audited_proxy p) (map gate (checks p))"
    using assms by (auto simp: mcp_handler_def mcp_middlewares_def audited_proxy_def Chain_append)
  then show ?thesis by (simp only: Chain_gates)
qed

lemma run_guards_codes:
  assumes "run_guards (checks p) r w = (w', Reject es)"
  shows "final_status es \<in> {401, 429, 403}"
proof -
  obtain g r0 w0 where "g \<in> set (checks p)" "g r0 w0 = (w', Reject es)" using run_guards_reject [OF assms] by blast
  then show ?thesis
    by (auto simp: checks_def split: if_splits
      dest: auth_c.reject_code rate_c.reject_code rbac_c.reject_code policy_c.reject_code)
qed

lemma checks_target: "run_guards (checks p) r w = (w', Pass r') \<Longrightarrow> same_target r r'"
proof (rule run_guards_target)
  show "g \<in> set (checks p) \<Longrightarrow> g r w = (w', Pass r') \<Longrightarrow> same_target r r'" for g r w w' r'
    by (auto simp: checks_def split: if_splits
      intro: auth_c.pass_target rate_c.pass_target rbac_c.pass_target policy_c.pass_target)
qed

lemma rl_guard_Pass: "rl_guard oor loader r s = (s', Pass r') \<Longrightarrow> r' = r"
  by (auto simp: rl_guard_def Let_def split: option.splits prod.splits if_splits)

lemma checks_pass:
  assumes "run_guards (checks p) r w = (w', Pass r')"
  obtains w1 r1 w2 w3 r3 where "auth_check r w = (w1, Pass r1)"
    and "if cf_RateLimitEnabled (p_cfg p) then rate_check (p_oor p) r1 w1 = (w2, Pass r1) else w2 = w1"
    and "rbac_check r1 w2 = (w3, Pass r3)" and "policy_check (p_uni p) (p_zones p) r3 w3 = (w', Pass r')"
proof (cases "cf_RateLimitEnabled (p_cfg p)")
  case True
  with assms obtain w1 r1 w2 r2 w3 r3 where h: "auth_check r w = (w1, Pass r1)" "rate_check (p_oor p) r1 w1 = (w2, Pass r2)"
    "rbac_check r2 w2 = (w3, Pass r3)" "policy_check (p_uni p) (p_zones p) r3 w3 = (w', Pass r')"
    by (auto simp: checks_def run_guards_pass_Cons simp del: run_guards.simps(2))
  have "r2 = r1" using h(2) rl_guard_Pass by (auto simp: rate_check_def lift_guard_def split: prod.splits)
  with h True that show ?thesis by simp
next
  case False
  with assms that show ?thesis
    by (auto simp: checks_def run_guards_pass_Cons simp del: run_guards.simps(2))
qed

text \<open>What each check says of the state it passes a request in.\<close>

text \<open>Validating a key reads the clock once when the key has an expiry, and not otherwise; the limiter
  reads it next.\<close>

definition after_auth :: "ApiKey \<Rightarrow> env \<Rightarrow> env" where
  "after_auth key e = (case ak_ExpiresAt key of None \<Rightarrow> e | Some t \<Rightarrow> snd (time_Now e))"

lemma ValidateKey_env: "ValidateKey lookup p e = (Inr key, e1) \<Longrightarrow> e1 = after_auth key e"
  by (auto simp: ValidateKey_def after_auth_def Let_def split_beta split: sum.splits option.splits if_splits)

lemma auth_check_Pass:
  assumes "auth_check r w = (w1, Pass r1)"
  obtains token key where "header_Get r ''Authorization'' = ''Bearer '' @ token" and "w_conn w"
    and "GetAPIKeyByHash (HashKey token) (w_db w) = Inr key" and "ak_Active key"
    and "case ak_ExpiresAt key of None \<Rightarrow> True | Some t \<Rightarrow> now_at (w_env w) (ticks (w_env w)) \<le> t"
    and "r1 = r\<lparr>rq_APIKey := Some key\<rparr>" and "w1 = w\<lparr>w_env := after_auth key (w_env w)\<rparr>"
proof -
  obtain e1 where a: "auth_guard (\<lambda>h. query w (GetAPIKeyByHash h)) r (w_env w) = (e1, Pass r1)" "w1 = w\<lparr>w_env := e1\<rparr>"
    using assms by (auto simp: auth_check_def lift_guard_def split: prod.splits)
  obtain token key where t: "bearer_token r = Inr token" "ValidateKey (\<lambda>h. query w (GetAPIKeyByHash h)) token (w_env w) = (Inr key, e1)"
    "r1 = r\<lparr>rq_APIKey := Some key\<rparr>" using a(1) unfolding auth_guard_Pass by blast
  have "\<exists>e'. ValidateKey (\<lambda>h. query w (GetAPIKeyByHash h)) token (w_env w) = (Inr key, e')" using t(2) by (rule exI)
  note v = this [unfolded ValidateKey_accepts]
  have q: "w_conn w" "GetAPIKeyByHash (HashKey token) (w_db w) = Inr key" using v by (auto simp: query_def split: if_splits)
  have "e1 = after_auth key (w_env w)" by (rule ValidateKey_env [OF t(2)])
  moreover have "header_Get r ''Authorization'' = ''Bearer '' @ token" using t(1) unfolding bearer_token_Inr by (rule conjunct2)
  ultimately show ?thesis using v a(2) by (intro that [OF _ q _ _ t(3)]) simp_all
qed

lemma readAndRestore_key: "fst (readAndRestore (r\<lparr>rq_APIKey := k\<rparr>)) = fst (readAndRestore r)"
  by (simp add: readAndRestore_def read_limited_def split: option.splits)

lemma rbac_check_Pass:
  assumes "rbac_check r1 w2 = (w3, Pass r3)" and "rq_APIKey r1 = Some key"
    and "extractResourceAction (fst (readAndRestore r1)) = (res, act)" and "res \<noteq> []"
  shows "fst (IsAllowed (\<lambda>i. query w2 (\<lambda>db. Inr (GetPermissionsByKeyID i db))) (ak_ID key) res act (w_rbac w2))"
  using assms
  by (auto simp: rbac_check_def lift_guard_def rbac_guard_def APIKeyFromContext_def Let_def split: prod.splits if_splits)

lemma rate_check_Pass:
  assumes "rate_check oor r1 w1 = (w2, Pass r1)" and "rq_APIKey r1 = Some key"
  shows "fst (fst (Allow oor (Some (\<lambda>i. query w1 (GetRateLimitByKeyID i))) (ak_ID key) (w_lim w1, w_env w1)))"
  using assms by (auto simp: rate_check_def lift_guard_def rl_guard_def APIKeyFromContext_def split: prod.splits if_splits)

lemma rate_check_frame:
  assumes "rate_check oor r1 w1 = (w2, v)"
  shows "w_rbac w2 = w_rbac w1" "w_db w2 = w_db w1" "w_conn w2 = w_conn w1" "w_eng w2 = w_eng w1"
  using assms by (auto simp: rate_check_def lift_guard_def split: prod.splits)

section \<open>A concrete process\<close>

definition demo_settings :: "string \<Rightarrow> Settings" where
  "demo_settings dburl = (read_settings (\<lambda>_. []))\<lparr>cf_DatabaseURL := dburl, cf_UpstreamURL := ''http://u'',
     cf_RateLimitEnabled := False, cf_AuditEnabled := False, cf_MetricsEnabled := False\<rparr>"

definition demo_world :: "nat world" where
  "demo_world = \<lparr>w_env = \<lparr>now_at = (\<lambda>n. int n), ticks = 0\<rparr>, w_db = key_db ''k'', w_conn = True, w_lim = NewLimiter DefaultConfig,
     w_rbac = NewService, w_eng = NewEngine, w_audit = NewAuditLogger 4096, w_met = new_metrics, w_chk = NewChecker None,
     w_log = [], w_id = (\<lambda>_. ''id''), w_ids = 0, w_up = 0\<rparr>"

definition demo_params :: "string \<Rightarrow> upstream_response option \<Rightarrow> nat params" where
  "demo_params dburl resp = \<lparr>p_cfg = demo_settings dburl, p_url = \<lparr>ur_Scheme = ''http'', ur_Host = ''u'', ur_Path = []\<rparr>,
     p_rp = (\<lambda>u r n. (resp, Suc n)), p_oor = (\<lambda>_. 0), p_uni = (\<lambda>s. s), p_zones = (\<lambda>_. None), p_pattern = (\<lambda>_. ''/mcp'')\<rparr>"

definition bearer_request :: "string \<Rightarrow> string \<Rightarrow> request" where
  "bearer_request auth body = (demo_request body)\<lparr>rq_APIKey := None,
     rq_Header := (\<lambda>h. if h = ''Authorization'' then [auth] else [])\<rparr>"

lemma demo_cfg [simp]:
  "p_cfg (demo_params dburl resp) = demo_settings dburl"
  "cf_DatabaseURL (demo_settings dburl) = dburl" "\<not> cf_RateLimitEnabled (demo_settings dburl)"
  "\<not> cf_AuditEnabled (demo_settings dburl)" "\<not> cf_MetricsEnabled (demo_settings dburl)"
  by (simp_all add: demo_params_def demo_settings_def)

lemma demo_bearer: "header_Get (bearer_request (''Bearer '' @ t) body) ''Authorization'' = ''Bearer '' @ t"
  by (simp add: bearer_request_def header_Get_def)

lemma demo_auth:
  "auth_check (bearer_request ''Bearer k'' []) demo_world = (demo_world, Pass ((bearer_request ''Bearer k'' [])\<lparr>rq_APIKey := Some (key_row ''k'')\<rparr>))"
proof -
  have "bearer_token (bearer_request ''Bearer k'' []) = Inr ''k''"
    unfolding bearer_token_Inr using demo_bearer [of "''k''" "[]"] by simp
  moreover have "ValidateKey (\<lambda>h. query demo_world (GetAPIKeyByHash h)) ''k'' (w_env demo_world) = (Inr (key_row ''k''), w_env demo_world)"
    unfolding ValidateKey_Inr by (simp add: query_def demo_world_def key_db_lookup) (simp add: key_row_def)
  ultimately show ?thesis
    by (simp add: auth_check_def lift_guard_def auth_guard_def)
qed

lemma extract_Nil: "extractResourceAction [] = ([], [])"
  by (simp add: extractResourceAction_def Unmarshal_def json_parse_Nil)

lemma demo_rbac:
  assumes "rq_Body r = Some \<lparr>bd_data = [], bd_fails = False\<rparr>"
  shows "rbac_check r w = (w, Pass r)"
proof -
  have b: "readAndRestore r = ([], r)" using assms by (simp add: readAndRestore_def read_limited_def)
  have "rbac_guard loader r s = (s, Pass r)" for loader s
    by (cases "rq_APIKey r") (simp_all add: rbac_guard_def APIKeyFromContext_def b extract_Nil)
  then show ?thesis by (simp add: rbac_check_def lift_guard_def)
qed

lemma demo_policy: "\<exists>w'. policy_check uni zones r demo_world = (w', Pass r)"
proof -
  have "query demo_world (\<lambda>db. Inr (ListEnabledPolicies db)) = Inr None"
    by (simp add: query_def demo_world_def key_db_def empty_db_def ListEnabledPolicies_def scan_rows_def)
  moreover have "en_policies (w_eng demo_world) = None" by (simp add: demo_world_def NewEngine_def)
  ultimately show ?thesis
    by (simp add: policy_check_def lift_guard_def policy_guard_def loadPolicies_def Let_def split_beta)
qed

lemma demo_pass:
  "\<exists>w' r'. run_guards (checks (demo_params ''db'' resp)) (bearer_request ''Bearer k'' []) demo_world = (w', Pass r')"
proof -
  let ?r = "(bearer_request ''Bearer k'' [])\<lparr>rq_APIKey := Some (key_row ''k'')\<rparr>" and ?p = "demo_params ''db'' resp"
  obtain w' where "policy_check (p_uni ?p) (p_zones ?p) ?r demo_world = (w', Pass ?r)" using demo_policy by blast
  moreover have "rbac_check ?r demo_world = (demo_world, Pass ?r)"
    by (rule demo_rbac) (simp add: bearer_request_def demo_request_def)
  ultimately show ?thesis using demo_auth by (simp add: checks_def)
qed

lemma demo_upstream: "w_up (fst (mcp_handler (demo_params ''db'' None) (bearer_request ''Bearer k'' []) demo_world)) = 1"
proof -
  obtain w' r' where g: "run_guards (checks (demo_params ''db'' None)) (bearer_request ''Bearer k'' []) demo_world = (w', Pass r')"
    using demo_pass by blast
  have "w_up w' = 0" using checks_rest [of "demo_params ''db'' None" "bearer_request ''Bearer k'' []" demo_world] g
    by (simp add: world_rest_def demo_world_def)
  with g show ?thesis
    by (simp add: mcp_handler_checks audited_proxy_def proxy_handler_def proxy_ServeHTTP_def Let_def) (simp add: demo_params_def)
qed

section \<open>A process with a tool call\<close>

text \<open>The limiter is on; the key \<open>k\<close> has the role \<open>2\<close>, which may execute every tool, and calls one.\<close>

definition tools_db :: database where
  "tools_db = (key_db ''k'')\<lparr>permissions := [\<lparr>pm_ID = 3, pm_RoleID = 2, pm_Resource = ''tool:*'', pm_Action = ''execute''\<rparr>],
     api_key_roles := [\<lparr>akr_ApiKeyID = 1, akr_RoleID = 2, akr_AssignedAt = 0\<rparr>]\<rparr>"

definition tools_settings :: Settings where
  "tools_settings = (demo_settings ''db'')\<lparr>cf_RateLimitEnabled := True\<rparr>"

definition tools_world :: "'u \<Rightarrow> 'u world" where
  "tools_world u = \<lparr>w_env = \<lparr>now_at = (\<lambda>_. 0), ticks = 0\<rparr>, w_db = tools_db, w_conn = True, w_lim = NewLimiter DefaultConfig,
     w_rbac = NewService, w_eng = NewEngine, w_audit = NewAuditLogger 4096, w_met = new_metrics, w_chk = NewChecker None,
     w_log = [], w_id = (\<lambda>_. ''id''), w_ids = 0, w_up = u\<rparr>"

definition tools_params :: "'u round_trip \<Rightarrow> 'u params" where
  "tools_params rp = \<lparr>p_cfg = tools_settings, p_url = \<lparr>ur_Scheme = ''http'', ur_Host = ''u'', ur_Path = []\<rparr>,
     p_rp = rp, p_oor = (\<lambda>_. 0), p_uni = (\<lambda>s. s), p_zones = (\<lambda>_. None), p_pattern = (\<lambda>_. ''/mcp'')\<rparr>"

definition tools_request :: request where
  "tools_request = (demo_request (json_print (tool_call ''rm'' [])))\<lparr>rq_APIKey := None,
     rq_Header := (\<lambda>h. if h = ''Authorization'' then [''Bearer k''] else if h = ''Mcp-Session-Id'' then [''s1''] else [])\<rparr>"

lemma tools_cfg [simp]:
  "p_cfg (tools_params rp) = tools_settings" "p_rp (tools_params rp) = rp" "cf_DatabaseURL tools_settings = ''db''"
  "cf_RateLimitEnabled tools_settings" "\<not> cf_AuditEnabled tools_settings"
  by (simp_all add: tools_params_def tools_settings_def)

lemma tools_request_simps [simp]:
  "rq_Method tools_request = ''POST''" "rq_Body tools_request = Some \<lparr>bd_data = json_print (tool_call ''rm'' []), bd_fails = False\<rparr>"
  "header_Get tools_request ''Authorization'' = ''Bearer k''" "header_Get tools_request ''Mcp-Session-Id'' = ''s1''"
  by (simp_all add: tools_request_def demo_request_def header_Get_def)

lemma tools_request_key: "tools_request\<lparr>rq_APIKey := None\<rparr> = tools_request"
  by (rule request.equality) (simp_all add: tools_request_def)

lemma tools_request_read: "readAndRestore (tools_request\<lparr>rq_APIKey := k\<rparr>) = (json_print (tool_call ''rm'' []), tools_request\<lparr>rq_APIKey := k\<rparr>)"
  using rm_call(3) tools_request_simps(2)
  by (cases tools_request) (simp add: readAndRestore_def read_limited_def del: tools_request_simps)

lemma tools_auth: "auth_check tools_request (tools_world u) = (tools_world u, Pass (tools_request\<lparr>rq_APIKey := Some (key_row ''k'')\<rparr>))"
proof -
  have "bearer_token tools_request = Inr ''k''" unfolding bearer_token_Inr by simp
  moreover have "ValidateKey (\<lambda>h. query (tools_world u) (GetAPIKeyByHash h)) ''k'' (w_env (tools_world u)) = (Inr (key_row ''k''), w_env (tools_world u))"
    unfolding ValidateKey_Inr by (simp add: query_def tools_world_def tools_db_def key_db_lookup [unfolded GetAPIKeyByHash_Inr] GetAPIKeyByHash_Inr)
      (simp add: key_row_def)
  ultimately show ?thesis by (simp add: auth_check_def lift_guard_def auth_guard_def)
qed

lemma Allow_first:
  assumes "f i = Inl ErrNoRows"
  shows "\<exists>l. Allow oor (Some f) i (NewLimiter DefaultConfig, \<lparr>now_at = (\<lambda>_. 0), ticks = 0\<rparr>) = ((True, 0), l, \<lparr>now_at = (\<lambda>_. 0), ticks = 2\<rparr>)"
proof -
  have "rnd64 10 = 10" using fl.rnd_int [of 10] by simp
  then have "1 \<le> tokens (refill (new_bucket DefaultConfig 0) 0)"
    by (simp add: refill_def new_bucket_def DefaultConfig_def fl_add_def fl_mul_def fl_of_int_def fl.rnd_int)
  then have "fst (allow oor (new_bucket DefaultConfig 0) 0) = (True, 0)" by (rule allow_admits)
  then show ?thesis
    by (simp add: Allow_def getBucket_def loadConfig_def NewLimiter_def assms time_Now_def Let_def split_beta prod_eq_iff)
qed

lemma tools_rate:
  assumes "rq_APIKey r = Some key"
  shows "\<exists>l e. rate_check oor r (tools_world u) = ((tools_world u)\<lparr>w_lim := l, w_env := e\<rparr>, Pass r)"
proof -
  have q: "query (tools_world u) (GetRateLimitByKeyID (ak_ID key)) = Inl ErrNoRows"
    by (simp add: query_def tools_world_def tools_db_def key_db_def empty_db_def GetRateLimitByKeyID_def)
  have "w_lim (tools_world u) = NewLimiter DefaultConfig" "w_env (tools_world u) = \<lparr>now_at = (\<lambda>_. 0), ticks = 0\<rparr>"
    by (simp_all add: tools_world_def)
  moreover obtain l where "Allow oor (Some (\<lambda>i. query (tools_world u) (GetRateLimitByKeyID i))) (ak_ID key)
      (NewLimiter DefaultConfig, \<lparr>now_at = (\<lambda>_. 0), ticks = 0\<rparr>) = ((True, 0), l, \<lparr>now_at = (\<lambda>_. 0), ticks = 2\<rparr>)"
    using Allow_first [of "\<lambda>i. query (tools_world u) (GetRateLimitByKeyID i)", OF q, of oor] by blast
  ultimately show ?thesis
    using assms by (intro exI [of _ l] exI [of _ "\<lparr>now_at = (\<lambda>_. 0), ticks = 2\<rparr>"])
      (simp add: rate_check_def lift_guard_def rl_guard_def APIKeyFromContext_def)
qed

lemma tools_rbac:
  assumes "w_db w = tools_db" and "w_conn w" and "w_rbac w = NewService"
  shows "\<exists>s. rbac_check (tools_request\<lparr>rq_APIKey := Some (key_row ''k'')\<rparr>) w = (w\<lparr>w_rbac := s\<rparr>, Pass (tools_request\<lparr>rq_APIKey := Some (key_row ''k'')\<rparr>))"
proof -
  let ?r = "tools_request\<lparr>rq_APIKey := Some (key_row ''k'')\<rparr>"
  have m: "MatchPattern ''tool:*'' ''tool:rm''" "MatchPattern ''execute'' ''execute''" by (simp_all add: MatchPattern_def)
  have q: "query w (\<lambda>db. Inr (GetPermissionsByKeyID (ak_ID (key_row ''k'')) db)) = Inr (Some [\<lparr>pr_Resource = ''tool:*'', pr_Action = ''execute''\<rparr>])"
    using assms by (simp add: query_def tools_db_def GetPermissionsByKeyID_def scan_rows_def key_row_def)
  have "\<exists>s. rbac_guard (\<lambda>i. query w (\<lambda>db. Inr (GetPermissionsByKeyID i db))) ?r (w_rbac w) = (s, Pass ?r)"
    using m q by (auto simp: rbac_guard_def APIKeyFromContext_def IsAllowed_def loadPermissions_def NewService_def permits_def
        tools_request_read rm_call(2) assms(3))
  then show ?thesis by (auto simp: rbac_check_def lift_guard_def)
qed

lemma tools_policy:
  assumes "w_db w = tools_db" and "w_conn w" and "w_eng w = NewEngine"
  shows "\<exists>w'. policy_check uni zones r w = (w', Pass r)"
proof -
  have "query w (\<lambda>db. Inr (ListEnabledPolicies db)) = Inr None"
    using assms by (simp add: query_def tools_db_def key_db_def empty_db_def ListEnabledPolicies_def scan_rows_def)
  then show ?thesis
    by (simp add: policy_check_def lift_guard_def policy_guard_def loadPolicies_def Let_def split_beta assms(3)) (simp add: NewEngine_def)
qed

lemma tools_pass:
  "\<exists>w'. run_guards (checks (tools_params rp)) tools_request (tools_world u) = (w', Pass (tools_request\<lparr>rq_APIKey := Some (key_row ''k'')\<rparr>))"
proof -
  let ?r = "tools_request\<lparr>rq_APIKey := Some (key_row ''k'')\<rparr>" and ?p = "tools_params rp"
  obtain l e where l: "rate_check (p_oor ?p) ?r (tools_world u) = ((tools_world u)\<lparr>w_lim := l, w_env := e\<rparr>, Pass ?r)"
    using tools_rate [of ?r] by fastforce
  let ?w = "(tools_world u)\<lparr>w_lim := l, w_env := e\<rparr>"
  obtain s where s: "rbac_check ?r ?w = (?w\<lparr>w_rbac := s\<rparr>, Pass ?r)"
    using tools_rbac [of ?w] by (auto simp: tools_world_def)
  have "\<exists>w'. policy_check (p_uni ?p) (p_zones ?p) ?r (?w\<lparr>w_rbac := s\<rparr>) = (w', Pass ?r)"
    by (rule tools_policy) (simp_all add: tools_world_def)
  then obtain w' where "policy_check (p_uni ?p) (p_zones ?p) ?r (?w\<lparr>w_rbac := s\<rparr>) = (w', Pass ?r)" by blast
  moreover have "checks ?p = [auth_check, rate_check (p_oor ?p), rbac_check, policy_check (p_uni ?p) (p_zones ?p)]"
    by (simp add: checks_def)
  ultimately show ?thesis by (simp only: run_guards.simps tools_auth l s prod.case verdict.case) blast
qed

lemma tools_proxied:
  "w_up (fst (mcp_handler (tools_params rp) tools_request (tools_world u))) =
     snd (rp (p_url (tools_params rp)) (Director (p_url (tools_params rp)) (tools_request\<lparr>rq_APIKey := Some (key_row ''k'')\<rparr>)) u)"
proof -
  let ?r = "tools_request\<lparr>rq_APIKey := Some (key_row ''k'')\<rparr>" and ?p = "tools_params rp"
  obtain w' where g: "run_guards (checks ?p) tools_request (tools_world u) = (w', Pass ?r)"
    using tools_pass [of rp u] by (elim exE) (rule that)
  have u: "w_up w' = u" using checks_rest [of ?p tools_request "tools_world u"] g by (simp add: world_rest_def tools_world_def)
  let ?b = "\<lparr>bd_data = json_print (tool_call ''rm'' []), bd_fails = False\<rparr>"
  have "length (json_print (tool_call ''rm'' [])) \<le> maxRequestBody"
    by (rule le_trans [OF rm_call(3)]) (simp add: maxRequestBody_def maxBodyRead_def)
  then have b: "max_bytes maxRequestBody ?b = ?b" by (simp only: max_bytes_def body.select_convs if_True)
  have "rq_Body ?r = Some ?b" by (rule trans [OF _ tools_request_simps(2)]) simp
  then have "map_option (max_bytes maxRequestBody) (rq_Body ?r) = rq_Body ?r" by (simp only: option.map b)
  moreover have "r\<lparr>rq_Body := rq_Body r\<rparr> = r" for r :: request by simp
  ultimately have m: "?r\<lparr>rq_Body := map_option (max_bytes maxRequestBody) (rq_Body ?r)\<rparr> = ?r" by metis
  have "mcp_handler ?p tools_request (tools_world u) = proxy_handler ?p ?r w'"
    by (simp add: mcp_handler_checks g audited_proxy_def)
  moreover have "fst (proxy_ServeHTTP rp v ?r x) = snd (rp v (Director v ?r) x)" for v x
    unfolding proxy_ServeHTTP_def Let_def m by (simp add: split_beta split: option.split)
  ultimately show ?thesis using u by (auto simp: proxy_handler_def split_beta)
qed

section \<open>Properties\<close>

text \<open>A request that passes the checks has been authenticated, admitted and, when its body calls a
  tool, allowed.\<close>

lemma checks_authorize:
  assumes "run_guards (checks p) r w = (w', Pass r')"
  shows "\<exists>token key. header_Get r ''Authorization'' = ''Bearer '' @ token \<and>
    GetAPIKeyByHash (HashKey token) (w_db w) = Inr key \<and> ak_Active key \<and>
    (case ak_ExpiresAt key of None \<Rightarrow> True | Some t \<Rightarrow> now_at (w_env w) (ticks (w_env w)) \<le> t) \<and>
    (cf_RateLimitEnabled (p_cfg p) \<longrightarrow>
       fst (fst (Allow (p_oor p) (Some (\<lambda>i. GetRateLimitByKeyID i (w_db w))) (ak_ID key) (w_lim w, after_auth key (w_env w))))) \<and>
    (fst (extractResourceAction (fst (readAndRestore r))) \<noteq> [] \<longrightarrow>
       fst (IsAllowed (\<lambda>i. Inr (GetPermissionsByKeyID i (w_db w))) (ak_ID key)
         (fst (extractResourceAction (fst (readAndRestore r)))) (snd (extractResourceAction (fst (readAndRestore r)))) (w_rbac w)))"
proof -
  obtain w1 r1 w2 w3 r3 where c: "auth_check r w = (w1, Pass r1)"
    "if cf_RateLimitEnabled (p_cfg p) then rate_check (p_oor p) r1 w1 = (w2, Pass r1) else w2 = w1"
    "rbac_check r1 w2 = (w3, Pass r3)" by (rule checks_pass [OF assms])
  obtain token key where a: "header_Get r ''Authorization'' = ''Bearer '' @ token" "w_conn w"
    "GetAPIKeyByHash (HashKey token) (w_db w) = Inr key" "ak_Active key"
    "case ak_ExpiresAt key of None \<Rightarrow> True | Some t \<Rightarrow> now_at (w_env w) (ticks (w_env w)) \<le> t"
    "r1 = r\<lparr>rq_APIKey := Some key\<rparr>" "w1 = w\<lparr>w_env := after_auth key (w_env w)\<rparr>"
    by (rule auth_check_Pass [OF c(1)])
  have k: "rq_APIKey r1 = Some key" by (simp add: a(6))
  have fr: "w_rbac w2 = w_rbac w" "w_db w2 = w_db w" "w_conn w2"
    using c(2) rate_check_frame [of "p_oor p" r1 w1 w2 "Pass r1"] a(2,7) by (simp_all split: if_splits)
  have rl: "cf_RateLimitEnabled (p_cfg p) \<longrightarrow>
      fst (fst (Allow (p_oor p) (Some (\<lambda>i. GetRateLimitByKeyID i (w_db w))) (ak_ID key) (w_lim w, after_auth key (w_env w))))"
    using c(2) rate_check_Pass [OF _ k, of "p_oor p" w1 w2] a(2,7) by (auto simp: query_def)
  have q: "(\<lambda>i. query w2 (\<lambda>db. Inr (GetPermissionsByKeyID i db))) = (\<lambda>i. Inr (GetPermissionsByKeyID i (w_db w)))"
    using fr by (simp add: query_def)
  have b: "fst (readAndRestore r1) = fst (readAndRestore r)" by (simp add: a(6) readAndRestore_key)
  have rb: "fst (extractResourceAction (fst (readAndRestore r))) \<noteq> [] \<longrightarrow>
       fst (IsAllowed (\<lambda>i. Inr (GetPermissionsByKeyID i (w_db w))) (ak_ID key)
         (fst (extractResourceAction (fst (readAndRestore r)))) (snd (extractResourceAction (fst (readAndRestore r)))) (w_rbac w))"
    using rbac_check_Pass [OF c(3) k, of "fst (extractResourceAction (fst (readAndRestore r)))" "snd (extractResourceAction (fst (readAndRestore r)))"]
    unfolding q fr(1) b by simp
  show ?thesis using a(1,3,4,5) rl rb by (intro exI [of _ token] exI [of _ key]) simp
qed

text \<open>C1: When the gateway has a database, a call of \<open>/mcp\<close> changes the upstream only with a bearer
  token of a stored, active, unexpired key, only if the rate limiter, when it is enabled, admits the
  key at the time read right after the key was validated, and, when the body calls a tool, only if
  the key may execute that tool.\<close>

theorem upstream_only_authorized:
  assumes "cf_DatabaseURL (p_cfg p) \<noteq> []" and "w_up (fst (mcp_handler p r w)) \<noteq> w_up w"
  shows "\<exists>token key. header_Get r ''Authorization'' = ''Bearer '' @ token \<and>
    GetAPIKeyByHash (HashKey token) (w_db w) = Inr key \<and> ak_Active key \<and>
    (case ak_ExpiresAt key of None \<Rightarrow> True | Some t \<Rightarrow> now_at (w_env w) (ticks (w_env w)) \<le> t) \<and>
    (cf_RateLimitEnabled (p_cfg p) \<longrightarrow>
       fst (fst (Allow (p_oor p) (Some (\<lambda>i. GetRateLimitByKeyID i (w_db w))) (ak_ID key) (w_lim w, after_auth key (w_env w))))) \<and>
    (fst (extractResourceAction (fst (readAndRestore r))) \<noteq> [] \<longrightarrow>
       fst (IsAllowed (\<lambda>i. Inr (GetPermissionsByKeyID i (w_db w))) (ak_ID key)
         (fst (extractResourceAction (fst (readAndRestore r)))) (snd (extractResourceAction (fst (readAndRestore r)))) (w_rbac w)))"
proof -
  obtain w' v where rg: "run_guards (checks p) r w = (w', v)" by fastforce
  have "w_up w' = w_up w" using checks_rest [of p r w] rg by (simp add: world_rest_def)
  then obtain r' where "v = Pass r'"
    using assms rg by (cases v) (auto simp: mcp_handler_checks)
  with rg show ?thesis by (intro checks_authorize) simp
qed

lemma upstream_only_authorized_witness:
  "\<exists>token key. header_Get tools_request ''Authorization'' = ''Bearer '' @ token \<and> GetAPIKeyByHash (HashKey token) tools_db = Inr key \<and>
     fst (fst (Allow (\<lambda>_. 0) (Some (\<lambda>i. GetRateLimitByKeyID i tools_db)) (ak_ID key)
       (NewLimiter DefaultConfig, after_auth key \<lparr>now_at = (\<lambda>_. 0), ticks = 0\<rparr>))) \<and>
     fst (IsAllowed (\<lambda>i. Inr (GetPermissionsByKeyID i tools_db)) (ak_ID key) ''tool:rm'' ''execute'' NewService)"
proof -
  let ?p = "tools_params (\<lambda>u r n. (None, Suc n))" and ?w = "tools_world (0::nat)"
  have d: "cf_DatabaseURL (p_cfg ?p) \<noteq> []" by simp
  have "w_up (fst (mcp_handler ?p tools_request ?w)) = Suc 0"
    using tools_proxied [where rp = "\<lambda>u r n. (None, Suc n)" and u = "0::nat"] by simp
  then have u: "w_up (fst (mcp_handler ?p tools_request ?w)) \<noteq> w_up ?w" by (simp add: tools_world_def)
  from upstream_only_authorized [OF d u] tools_request_read [of None] rm_call(2) show ?thesis
    by (auto simp: tools_request_key tools_world_def) (auto simp: tools_params_def)
qed

text \<open>C17: A request that some check denies ends there: the response is that check's 401, 429
  or 403, nothing reaches the upstream, and no audit entry is made.\<close>

theorem denied_stops:
  assumes "cf_DatabaseURL (p_cfg p) \<noteq> []" and "run_guards (checks p) r w = (w', Reject es)"
  shows "mcp_handler p r w = (w', es, Returned) \<and> final_status es \<in> {401, 429, 403} \<and>
    w_up w' = w_up w \<and> w_audit w' = w_audit w \<and> w_db w' = w_db w"
  using run_guards_codes [OF assms(2)] checks_rest [of p r w] assms
  by (simp add: mcp_handler_checks world_rest_def)

lemma demo_denied: "auth_check (bearer_request ''Basic x'' []) demo_world =
    (demo_world, Reject (writeAuthError 401 ''invalid Authorization header format''))"
  by (simp add: auth_check_def lift_guard_def auth_guard_def bearer_token_def bearer_request_def header_Get_def CutPrefix_def)

lemma denied_stops_witness:
  "\<exists>w' es. mcp_handler (demo_params ''db'' None) (bearer_request ''Basic x'' []) demo_world = (w', es, Returned) \<and> w_up w' = 0 \<and>
     final_status es \<in> {401, 429, 403}"
proof -
  have g: "run_guards (checks (demo_params ''db'' None)) (bearer_request ''Basic x'' []) demo_world =
      (demo_world, Reject (writeAuthError 401 ''invalid Authorization header format''))"
    by (simp add: checks_def demo_denied)
  show ?thesis using denied_stops [OF _ g] by (auto simp: demo_world_def)
qed

text \<open>An unauthenticated request costs a clock read at most: without a valid bearer
  token the answer is 401 and limiter, permission cache, policy engine and audit logger stay
  as they were.\<close>

theorem unauthenticated_untouched:
  assumes "cf_DatabaseURL (p_cfg p) \<noteq> []"
    and "\<And>token key. header_Get r ''Authorization'' = ''Bearer '' @ token \<Longrightarrow>
      GetAPIKeyByHash (HashKey token) (w_db w) = Inr key \<Longrightarrow> \<not> ak_Active key"
  shows "\<exists>e es. mcp_handler p r w = (w\<lparr>w_env := e\<rparr>, es, Returned) \<and> final_status es = 401"
proof -
  obtain w1 v where a: "auth_check r w = (w1, v)" by fastforce
  obtain es where es: "v = Reject es"
  proof (cases v)
    case (Pass r1)
    with a have "auth_check r w = (w1, Pass r1)" by simp
    then show ?thesis by (rule auth_check_Pass) (use assms(2) in blast)
  qed
  have "w1 = w\<lparr>w_env := w_env w1\<rparr>" using a by (auto simp: auth_check_def lift_guard_def split: prod.splits)
  moreover have "final_status es = 401" using a es auth_c.reject_code by blast
  moreover have "mcp_handler p r w = (w1, es, Returned)" using a es assms(1) by (simp add: mcp_handler_checks checks_def)
  ultimately show ?thesis by metis
qed

lemma unauthenticated_untouched_witness:
  "\<exists>e es. mcp_handler (demo_params ''db'' None) (bearer_request ''Basic x'' []) demo_world = (demo_world\<lparr>w_env := e\<rparr>, es, Returned) \<and>
     final_status es = 401"
  by (rule unauthenticated_untouched) (simp_all add: bearer_request_def header_Get_def)

text \<open>Behind the checks the body is cut to 64 KiB without an error: what the proxy gets is a
  complete body with the first 65536 bytes, so the proxy's own limit of 1 MiB is never
  reached.\<close>

theorem upstream_body_truncated:
  assumes "run_guards (checks p) r w = (w', Pass r')" and "rq_Body r = Some b" and "\<not> bd_fails b"
  shows "rq_Body r' = Some \<lparr>bd_data = take 65536 (bd_data b), bd_fails = False\<rparr>"
proof -
  let ?c = "\<lparr>bd_data = take 65536 (bd_data b), bd_fails = False\<rparr>"
  obtain w1 r1 w2 w3 r3 where c: "auth_check r w = (w1, Pass r1)" "rbac_check r1 w2 = (w3, Pass r3)"
    "policy_check (p_uni p) (p_zones p) r3 w3 = (w', Pass r')" by (rule checks_pass [OF assms(1)])
  obtain key where r1: "r1 = r\<lparr>rq_APIKey := Some key\<rparr>" by (rule auth_check_Pass [OF c(1)])
  have "r3 = snd (readAndRestore r1)"
    using c(2) by (auto simp: rbac_check_def lift_guard_def rbac_guard_def APIKeyFromContext_def r1 Let_def split: prod.splits if_splits)
  then have b3: "rq_Body r3 = Some ?c" using assms(2,3) by (simp add: r1 readAndRestore_def read_limited_def maxBodyRead_def)
  have "r' = r3 \<or> r' = snd (readAndRestore r3)"
    using c(3) by (auto simp: policy_check_def lift_guard_def policy_guard_def Let_def split: prod.splits if_splits option.splits)
  with b3 show ?thesis by (auto simp: readAndRestore_def read_limited_def maxBodyRead_def)
qed

lemma upstream_body_truncated_witness:
  "\<exists>w' r'. run_guards (checks (demo_params ''db'' None)) (bearer_request ''Bearer k'' []) demo_world = (w', Pass r') \<and>
     rq_Body r' = Some \<lparr>bd_data = [], bd_fails = False\<rparr>"
proof -
  obtain w' r' where g: "run_guards (checks (demo_params ''db'' None)) (bearer_request ''Bearer k'' []) demo_world = (w', Pass r')"
    using demo_pass by blast
  from upstream_body_truncated [OF g, of "\<lparr>bd_data = [], bd_fails = False\<rparr>"] g show ?thesis
    by (auto simp: bearer_request_def demo_request_def)
qed

lemma Logger_events: "fst (snd (Logger now emit h r s)) = fst (snd (h r (snd (now s))))"
  by (cases "snd (snd (h r (snd (now s))))") (simp_all add: Logger_def Let_def split_beta)

text \<open>Every request gets an answer: no panic leaves the gateway, whichever handler
  raised it, and the answer starts with the request's id, a client's own one if it has at most
  128 bytes.\<close>

theorem gateway_answers:
  "\<exists>w' es. gateway p other r w = (w', SetHeader ''X-Request-Id''
    (if header_Get r ''X-Request-Id'' \<noteq> [] \<and> length (header_Get r ''X-Request-Id'') \<le> 128
     then header_Get r ''X-Request-Id'' else w_id w (w_ids w)) # es, Returned)"
proof -
  have rec: "snd (snd (Recoverer h r w)) = Returned" for h :: "'a world handler" and r w
    by (auto simp: Recoverer_def split: prod.splits fin.splits)
  have log: "snd (snd (Logger now emit (Recoverer h) r w)) = Returned" for now emit and h :: "'a world handler" and r w
    using rec [of h r "snd (now w)"] by (auto simp: Logger_def Let_def split_beta split: fin.splits)
  show ?thesis
    using log
    by (auto simp: gateway_def outer_middlewares_def RequestID_def maxRequestIDLen_def world_id_def Let_def split_beta prod_eq_iff)
qed

text \<open>An upstream answer that breaks off is not reported as such: the panic with which the
  proxy would abort the connection is recovered, and the client gets the upstream's 200 with
  the text \<open>internal server error\<close> appended to the partial body.\<close>

theorem upstream_abort_masked:
  assumes "cf_DatabaseURL (p_cfg p) = []" and "rq_Method r = ''POST''" and "rq_Path r = ''/mcp''"
    and "\<And>r u. fst (p_rp p (p_url p) r u) = Some \<lparr>us_status = 200, us_header = [], us_body = part, us_aborts = True\<rparr>"
    and "\<not> cf_MetricsEnabled (p_cfg p)"
  shows "rp_status (respond (fst (snd (gateway p other r w)))) = Some 200 \<and>
    rp_body (respond (fst (snd (gateway p other r w)))) = part @ ''internal server error'' @ [CHR 0x0A]"
proof -
  have "\<exists>w'. proxy_handler p r' w = (w', [WriteHeader 200, Write part], Panicked)" for r' w
    using assms(4) by (simp add: proxy_handler_def proxy_ServeHTTP_def Let_def split_beta)
  then have ro: "\<exists>w'. router p other r' w = (w', [WriteHeader 200, Write part], Panicked)"
    if "rq_Method r' = ''POST''" "rq_Path r' = ''/mcp''" for r' w
    using that assms(1) by (simp add: router_def routes_def mcp_handler_def)
  have rc: "\<exists>w'. Recoverer (router p other) r' w = (w', [WriteHeader 200, Write part] @ http_Error ''internal server error'' 500, Returned)"
    if m: "rq_Method r' = ''POST''" "rq_Path r' = ''/mcp''" for r' w
  proof -
    obtain w' where "router p other r' w = (w', [WriteHeader 200, Write part], Panicked)"
      using ro [OF m] by blast
    then show ?thesis by (simp add: Recoverer_def)
  qed
  have rc': "fst (snd (Recoverer (router p other) (r\<lparr>rq_RequestID := i\<rparr>) v)) = [WriteHeader 200, Write part] @ http_Error ''internal server error'' 500"
    for i v
  proof -
    obtain w' where "Recoverer (router p other) (r\<lparr>rq_RequestID := i\<rparr>) v =
        (w', [WriteHeader 200, Write part] @ http_Error ''internal server error'' 500, Returned)"
      using rc [of "r\<lparr>rq_RequestID := i\<rparr>" v] assms(2,3) by auto
    then show ?thesis by simp
  qed
  have "\<exists>i. fst (snd (gateway p other r w)) = SetHeader ''X-Request-Id'' i # [WriteHeader 200, Write part] @ http_Error ''internal server error'' 500"
    using assms(5) by (simp add: gateway_def outer_middlewares_def RequestID_def Let_def split_beta Logger_events rc')
  then show ?thesis
    by (auto simp: respond_def fresh_response_def write_header_def body_allowed_def http_Error_def Let_def)
qed

lemma upstream_abort_masked_witness:
  "rp_body (respond (fst (snd (gateway (demo_params [] (Some \<lparr>us_status = 200, us_header = [], us_body = ''par'', us_aborts = True\<rparr>))
     (\<lambda>r w. (w, [], Returned)) (demo_request []) demo_world)))) = ''parinternal server error'' @ [CHR 0x0A]"
  using upstream_abort_masked [of "demo_params [] (Some \<lparr>us_status = 200, us_header = [], us_body = ''par'', us_aborts = True\<rparr>)"
      "demo_request []" "''par''" "\<lambda>r w. (w, [], Returned)" demo_world]
  by (simp add: demo_request_def) (simp add: demo_params_def)

end
