(* ===== verification/AgentProps.thy ===== *)
theory AgentProps
  imports AgentDemo McpProps GatewayProps
begin

text \<open>
  The client, the server and the gateway together: what the client of \<open>examples/ai-agent-demo\<close>
  sends the example server understands and the other way round, and without a key the client
  gets the gateway's rejection.
\<close>

section \<open>Maps on the wire\<close>

lemma json_ok_go_map [simp]: "json_ok (go_map ms) \<longleftrightarrow> (\<forall>m \<in> set ms. valid_utf8 (fst m) \<and> json_ok (snd m))"
  by (simp add: go_map_def)

lemma depths_le: "foldr max (map f xs) (0::nat) \<le> d \<longleftrightarrow> (\<forall>x \<in> set xs. f x \<le> d)"
  by (induction xs) auto

lemma json_depth_le:
  "json_depth (go_map ms) \<le> Suc d \<longleftrightarrow> (\<forall>m \<in> set ms. json_depth (snd m) \<le> d)"
  "json_depth (JObj ms) \<le> Suc d \<longleftrightarrow> (\<forall>m \<in> set ms. json_depth (snd m) \<le> d)"
  "json_depth (JArr vs) \<le> Suc d \<longleftrightarrow> (\<forall>v \<in> set vs. json_depth v \<le> d)"
  by (simp_all add: go_map_def depths_le)

lemma sort_pair:
  "a \<le> b \<Longrightarrow> sort_key fst [(a, x), (b, y)] = [(a, x), (b, y)]"
  "b < a \<Longrightarrow> sort_key fst [(a, x), (b, y)] = [(b, y), (a, x)]"
  for a b :: string
  by (auto simp: insort_key.simps)

lemma call_params_sorted: "call_params tool args = JObj [(''arguments'', go_map args), (''name'', JStr tool)]"
proof -
  have "''arguments'' < ''name''" by code_simp
  then show ?thesis unfolding call_params_def go_map_def [of "[(''name'', JStr tool), (''arguments'', go_map args)]"]
    by (simp add: sort_pair)
qed

section \<open>From the client to the server\<close>

lemma message_keys:
  "key_is ''jsonrpc'' ''jsonrpc''" "\<not> key_is ''jsonrpc'' ''id''" "\<not> key_is ''jsonrpc'' ''method''" "\<not> key_is ''jsonrpc'' ''params''"
  "\<not> key_is ''jsonrpc'' ''result''" "\<not> key_is ''jsonrpc'' ''error''" "\<not> key_is ''id'' ''result''" "\<not> key_is ''id'' ''error''"
  "\<not> key_is ''id'' ''jsonrpc''" "\<not> key_is ''result'' ''jsonrpc''" "\<not> key_is ''result'' ''id''" "\<not> key_is ''result'' ''error''"
  "key_is ''id'' ''id''" "\<not> key_is ''id'' ''method''" "\<not> key_is ''id'' ''params''" "key_is ''result'' ''result''"
  "key_is ''arguments'' ''arguments''" "\<not> key_is ''name'' ''arguments''" "key_is ''name'' ''name''"
  "key_is ''error'' ''error''" "\<not> key_is ''error'' ''jsonrpc''"
  by (simp_all add: key_is_def byte_in_def)

definition sent_request :: "int option \<Rightarrow> string \<Rightarrow> json option \<Rightarrow> jsonrpcRequest" where
  "sent_request i m ps = \<lparr>jr_JSONRPC = ''2.0'', jr_ID = (case i of None \<Rightarrow> ANil | Some n \<Rightarrow> ANum (the (ParseFloat (Itoa n)))),
     jr_Method = m, jr_Params = ps\<rparr>"

lemma client_request_read:
  assumes "\<And>n. i = Some n \<Longrightarrow> \<bar>n\<bar> \<le> 9007199254740992" and "valid_utf8 m"
    and "\<And>v. ps = Some v \<Longrightarrow> json_ok v \<and> json_depth v \<le> 9"
  shows "read_request (client_http auth c (json_print (client_request i m ps))) = Some (sent_request i m ps)"
proof -
  have ok: "json_ok (client_request i m ps)"
    using assms(2,3) by (auto simp: client_request_def is_ascii_def split: option.splits)
  have "json_depth (client_request i m ps) \<le> Suc 9"
    unfolding client_request_def json_depth_le using assms(3) by (auto split: option.splits)
  then have d: "json_depth (client_request i m ps) \<le> maxNestingDepth" by (simp add: maxNestingDepth_def)
  have "read_request (client_http auth c (json_print (client_request i m ps))) = into_struct request_fields (client_request i m ps) no_request"
    by (simp add: read_request_def client_http_def Decode_def first_value_parse [OF json_roundtrip [OF ok d]])
  then show ?thesis
    using assms(1) ParseFloat_Itoa
    by (cases i; cases ps)
      (simp_all add: sent_request_def client_request_def into_struct_def request_fields_def no_request_def into_string_def message_keys call_keys)
qed

section \<open>From the server to the client\<close>

definition result_reply :: "any \<Rightarrow> json \<Rightarrow> rpc_response" where
  "result_reply i v = \<lparr>cr_JSONRPC = ''2.0'', cr_ID = i, cr_Result = Some v, cr_Error = None\<rparr>"

lemma result_read:
  assumes "\<bar>n\<bar> < 9007199254740992" and "json_ok v" and "json_depth v \<le> 9" and "ParseFloat (Itoa n) = Some f"
  shows "\<exists>b. jsonrpcResponse (ANum f) (Some v) None = Some b \<and>
    Unmarshal reply_fields (json_print b @ [CHR 0x0A]) no_reply = Some (result_reply (ANum f) v)"
proof -
  let ?b = "JObj [(''jsonrpc'', JStr ''2.0''), (''id'', JNum (Itoa n)), (''result'', v)]"
  have "json_float f = Some (Itoa n)" using json_float_Itoa [OF assms(1)] assms(4) by simp
  then have b: "jsonrpcResponse (ANum f) (Some v) None = Some ?b" by (simp add: jsonrpcResponse_def)
  have "json_depth ?b \<le> Suc 9" unfolding json_depth_le using assms(3) by simp
  then have "json_depth ?b \<le> maxNestingDepth" unfolding maxNestingDepth_def by linarith
  moreover have "json_ok ?b" using assms(2) by (simp add: is_ascii_def)
  ultimately have "json_parse (json_print ?b @ [CHR 0x0A]) = Some ?b" by (rule json_roundtrip_newline [rotated])
  then have "Unmarshal reply_fields (json_print ?b @ [CHR 0x0A]) no_reply = Some (result_reply (ANum f) v)"
    by (simp add: Unmarshal_def into_struct_def reply_fields_def message_keys no_reply_def result_reply_def into_string_def assms(4)
        del: json_print.simps)
  with b show ?thesis by blast
qed

section \<open>The client on the server\<close>

text \<open>The answer of a handler as the client gets it; \<open>st\<close> is \<open>http.StatusText\<close> with the code.\<close>

definition answer_of :: "(int \<Rightarrow> string) \<Rightarrow> ev list \<Rightarrow> http_response" where
  "answer_of st es = (let p = respond es; code = the (rp_status p) in \<lparr>hr_StatusCode = code, hr_Status = st code,
     hr_Header = (\<lambda>h. case rp_sent p h of Some v \<Rightarrow> v | None \<Rightarrow> []), hr_Body = rp_body p, hr_fails = False\<rparr>)"

definition served_by :: "(int \<Rightarrow> string) \<Rightarrow> 's handler \<Rightarrow> 's network" where
  "served_by st h r s = (case h r s of (s', es, f) \<Rightarrow> (Some (answer_of st es), s'))"

abbreviation direct :: "(time \<Rightarrow> int) \<Rightarrow> (int \<Rightarrow> string) \<Rightarrow> server network" where
  "direct loc st \<equiv> served_by st (handleMCP loc)"

definition json_id :: "int \<Rightarrow> any" where
  "json_id n = ANum (the (ParseFloat (Itoa n)))"

definition plain_result :: "json \<Rightarrow> bool" where
  "plain_result v \<longleftrightarrow> json_ok v \<and> json_depth v \<le> 9"

lemma answer_of_answer:
  assumes "jsonrpcResponse i (Some v) None = Some b"
  shows "hr_Status (answer_of st (answer i v)) = st 200" "hr_StatusCode (answer_of st (answer i v)) = 200"
    "hr_Body (answer_of st (answer i v)) = json_print b @ [CHR 0x0A]" "\<not> hr_fails (answer_of st (answer i v))"
    "hr_Status (answer_of st (SetHeader k x # answer i v)) = st 200" "hr_StatusCode (answer_of st (SetHeader k x # answer i v)) = 200"
    "hr_Body (answer_of st (SetHeader k x # answer i v)) = json_print b @ [CHR 0x0A]" "\<not> hr_fails (answer_of st (SetHeader k x # answer i v))"
    "k \<noteq> ''Content-Type'' \<Longrightarrow> hr_Header (answer_of st (SetHeader k x # answer i v)) k = x"
  by (simp_all add: answer_of_def answer_def writeJSON_def assms respond_def fresh_response_def write_header_def body_allowed_def
      Let_def del: json_print.simps)

lemma send_direct:
  assumes n: "cl_nextID c = n" "0 \<le> n" "n < 9007199254740992" and m: "m \<noteq> ''notifications/initialized''" "valid_utf8 m"
    and ps: "\<And>v. ps = Some v \<Longrightarrow> json_ok v \<and> json_depth v \<le> 9"
    and d: "dispatch loc (client_http auth (c\<lparr>cl_nextID := n + 1\<rparr>) (json_print (client_request (Some n) m ps)))
      (sent_request (Some n) m ps) s = (s', hs @ answer (json_id n) v)"
    and hs: "hs = [] \<or> hs = [SetHeader k x]" and v: "plain_result v"
  shows "send (direct loc st) m ps auth c s =
    ((Some (answer_of st (hs @ answer (json_id n) v)), Some (result_reply (json_id n) v), None), c\<lparr>cl_nextID := n + 1\<rparr>, s')"
proof -
  let ?r = "client_http auth (c\<lparr>cl_nextID := n + 1\<rparr>) (json_print (client_request (Some n) m ps))"
  obtain f where f: "ParseFloat (Itoa n) = Some f" using ParseFloat_Itoa [of n] n by simp
  have "read_request ?r = Some (sent_request (Some n) m ps)"
    using n m ps by (intro client_request_read) auto
  then have h: "handleMCP loc ?r s = (s', hs @ answer (json_id n) v, Returned)"
    using d by (simp add: handleMCP_def client_http_def sent_request_def)
  obtain b where b: "jsonrpcResponse (ANum f) (Some v) None = Some b"
    "Unmarshal reply_fields (json_print b @ [CHR 0x0A]) no_reply = Some (result_reply (ANum f) v)"
    using result_read [of n v f] n v f by (auto simp: plain_result_def)
  have i: "json_id n = ANum f" by (simp add: json_id_def f)
  have "int64 (n + 1) = n + 1" using n by (intro int64_id) simp_all
  then show ?thesis
    using hs by (auto simp: send_def n(1) m(1) served_by_def h i read_reply_def answer_of_answer [OF b(1)] b(2))
qed

text \<open>A tool call in an open session.\<close>

definition in_session :: "mcpClient \<Rightarrow> server \<Rightarrow> bool" where
  "in_session c s \<longleftrightarrow> cl_sessionID c \<noteq> [] \<and> cl_sessionID c \<in> sessions s"

lemma session_ok: "in_session c s \<Longrightarrow> requireSession (client_http auth (c\<lparr>cl_nextID := n\<rparr>) b) i s = None"
  by (simp add: in_session_def requireSession_def client_http_def client_header_def header_Get_def)

text \<open>A tool call leaves the sessions alone.\<close>

lemma in_session_frame [simp]: "in_session (c\<lparr>cl_nextID := n\<rparr>) s = in_session c s"
  by (simp add: in_session_def)

lemma in_session_call: "callTool loc tool m s = (res, s') \<Longrightarrow> in_session c s' = in_session c s"
  using callTool_frame(1) [of loc tool m s] by (simp add: in_session_def)

lemma send_call:
  assumes n: "cl_nextID c = n" "0 \<le> n" "n < 9007199254740992" and s: "in_session c s"
    and args: "sort_key fst args = args" "into_any_map args [] = Some m" "json_ok (JObj args)" "json_depth (JObj args) \<le> 8" "valid_utf8 tool"
    and call: "callTool loc tool m s = (res, s')" and r: "valid_utf8 (fst res)"
  shows "send (direct loc st) ''tools/call'' (Some (call_params tool args)) auth c s =
    ((Some (answer_of st (answer (json_id n) (toolResult res))), Some (result_reply (json_id n) (toolResult res)), None),
      c\<lparr>cl_nextID := n + 1\<rparr>, s')"
proof -
  have p: "json_ok (call_params tool args) \<and> json_depth (call_params tool args) \<le> Suc 8"
    unfolding call_params_sorted json_depth_le using args by (auto simp: is_ascii_def go_map_def)
  have t: "read_tool_call (Some (call_params tool args)) = Some \<lparr>tp_Name = tool, tp_Arguments = m\<rparr>"
    using args(1,2)
    by (simp add: call_params_sorted go_map_def read_tool_call_def into_struct_def tool_call_fields_def message_keys into_string_def into_map_def)
  have "json_depth (toolResult res) \<le> Suc (Suc (Suc 0))"
    unfolding toolResult_def by (simp add: split_beta del: json_depth.simps) (auto simp: json_depth_le)
  then have v: "plain_result (toolResult res)"
    using r by (auto simp: plain_result_def toolResult_def split_beta is_ascii_def)
  have "dispatch loc (client_http auth (c\<lparr>cl_nextID := n + 1\<rparr>) (json_print (client_request (Some n) ''tools/call'' (Some (call_params tool args)))))
      (sent_request (Some n) ''tools/call'' (Some (call_params tool args))) s = (s', [] @ answer (json_id n) (toolResult res))"
    by (simp add: dispatch_def sent_request_def handleToolsCall_def session_ok [OF s] t call json_id_def)
  from send_direct [OF n _ _ _ this _ v] p show ?thesis by (auto simp: is_ascii_def)
qed

section \<open>A whole run\<close>

lemma plain_results:
  "plain_result initialize_result" "plain_result (go_map [(''tools'', tools)])"
  by code_simp+

lemma init_params_ok: "is_ascii name \<Longrightarrow> json_ok (init_params name) \<and> json_depth (init_params name) \<le> Suc 8"
  unfolding init_params_def json_depth_le by (auto simp: is_ascii_def protocolVersion_def go_map_def depths_le)

lemma init_params_read: "into_struct initialize_fields (init_params name) no_initialize \<noteq> None"
proof -
  have o: "''capabilities'' < ''clientInfo''" "''capabilities'' < ''protocolVersion''" "''clientInfo'' < ''protocolVersion''" "''name'' < ''version''"
    by code_simp+
  then have o': "\<not> ''clientInfo'' \<le> ''capabilities''" "\<not> ''protocolVersion'' \<le> ''capabilities''" "\<not> ''protocolVersion'' \<le> ''clientInfo''"
    "''capabilities'' \<le> ''clientInfo''" "''name'' \<le> ''version''"
    by (simp_all only: not_le less_imp_le)
  have k: "key_is ''capabilities'' ''capabilities''" "\<not> key_is ''protocolVersion'' ''capabilities''" "\<not> key_is ''protocolVersion'' ''clientInfo''"
    "\<not> key_is ''capabilities'' ''clientInfo''" "key_is ''clientInfo'' ''clientInfo''" "key_is ''protocolVersion'' ''protocolVersion''"
    "key_is ''name'' ''name''" "\<not> key_is ''name'' ''version''" "key_is ''version'' ''version''"
    by (simp_all add: key_is_def byte_in_def)
  have "init_params name = JObj [(''capabilities'', JObj []), (''clientInfo'', JObj [(''name'', JStr name), (''version'', JStr ''1.0.0'')]),
    (''protocolVersion'', JStr protocolVersion)]"
    by (simp only: init_params_def go_map_def sort_key_simps insort_key.simps fst_conv o' if_True if_False)
  then show ?thesis
    by (simp add: into_struct_def initialize_fields_def implementation_fields_def k into_string_def into_map_def no_initialize_def)
qed

lemma send_initialize:
  assumes "is_ascii name"
  shows "send (direct loc st) ''initialize'' (Some (init_params name)) auth (newMCPClient key) s =
    ((Some (answer_of st (SetHeader ''Mcp-Session-Id'' (fst (generateSessionID s)) # answer (json_id 1) initialize_result)),
      Some (result_reply (json_id 1) initialize_result), None), (newMCPClient key)\<lparr>cl_nextID := 2\<rparr>,
      (snd (generateSessionID s))\<lparr>sessions := insert (fst (generateSessionID s)) (sessions s)\<rparr>)"
proof -
  let ?r = "sent_request (Some 1) ''initialize'' (Some (init_params name))"
  have "dispatch loc (client_http auth ((newMCPClient key)\<lparr>cl_nextID := 1 + 1\<rparr>) (json_print (client_request (Some 1) ''initialize'' (Some (init_params name)))))
      ?r s = ((snd (generateSessionID s))\<lparr>sessions := insert (fst (generateSessionID s)) (sessions s)\<rparr>,
      [SetHeader ''Mcp-Session-Id'' (fst (generateSessionID s))] @ answer (json_id 1) initialize_result)"
    using init_params_read [of name]
    by (auto simp: dispatch_def sent_request_def handleInitialize_def json_id_def generateSessionID_def)
  from send_direct [OF _ _ _ _ _ _ this _ plain_results(1)] init_params_ok [OF assms] show ?thesis
    by (auto simp: newMCPClient_def is_ascii_def)
qed

lemma send_notification:
  "send (direct loc st) ''notifications/initialized'' None auth c s =
    ((Some (answer_of st [WriteHeader 202]), None, None), c\<lparr>cl_nextID := int64 (cl_nextID c + 1)\<rparr>, s) \<and>
   hr_Status (answer_of st [WriteHeader 202]) = st 202"
proof -
  have q: "read_request (client_http auth c' (json_print (client_request None ''notifications/initialized'' None))) =
    Some (sent_request None ''notifications/initialized'' None)" for c'
    by (rule client_request_read) (simp_all add: is_ascii_def)
  have "handleMCP loc (client_http auth c' (json_print (client_request None ''notifications/initialized'' None))) s = (s, [WriteHeader 202], Returned)" for c'
    by (simp add: handleMCP_def q) (simp add: client_http_def sent_request_def dispatch_def)
  then show ?thesis
    by (simp add: send_def served_by_def read_reply_def answer_of_def respond_def fresh_response_def write_header_def Let_def)
qed

lemma send_list:
  assumes n: "cl_nextID c = n" "0 \<le> n" "n < 9007199254740992" and s: "in_session c s"
  shows "send (direct loc st) ''tools/list'' None auth c s =
    ((Some (answer_of st (answer (json_id n) (go_map [(''tools'', tools)]))), Some (result_reply (json_id n) (go_map [(''tools'', tools)])), None),
      c\<lparr>cl_nextID := n + 1\<rparr>, s)"
proof -
  have "dispatch loc (client_http auth (c\<lparr>cl_nextID := n + 1\<rparr>) (json_print (client_request (Some n) ''tools/list'' None)))
      (sent_request (Some n) ''tools/list'' None) s = (s, [] @ answer (json_id n) (go_map [(''tools'', tools)]))"
    by (simp add: dispatch_def sent_request_def handleToolsList_def session_ok [OF s] json_id_def)
  from send_direct [OF n _ _ _ this _ plain_results(2)] show ?thesis by (auto simp: is_ascii_def)
qed

lemma answer_status [simp]:
  "hr_Status (answer_of st (answer i v)) = st 200" "hr_StatusCode (answer_of st (answer i v)) = 200"
  "hr_Status (answer_of st (SetHeader k x # answer i v)) = st 200" "hr_StatusCode (answer_of st (SetHeader k x # answer i v)) = 200"
  by (simp_all add: answer_of_def answer_def writeJSON_def respond_def fresh_response_def write_header_def body_allowed_def
      Let_def split: option.splits)

lemma ok_lines [simp]:
  "printResult (Some (answer_of st (answer i v)), Some (result_reply j v), None) = OkResult (st 200) v"
  "printResult (Some (answer_of st (SetHeader k x # answer i v)), Some (result_reply j v), None) = OkResult (st 200) v"
  "burst_line n (Some (answer_of st (answer i v)), Some (result_reply j v), None) = BurstOK n"
  by (simp_all add: result_reply_def)

lemma result_reply_error [simp]: "cr_Error (result_reply i v) = None"
  by (simp add: result_reply_def)

declare printResult.simps [simp del] burst_line.simps [simp del]

lemma ascii_append [simp]: "is_ascii (s @ t) \<longleftrightarrow> is_ascii s \<and> is_ascii t" "is_ascii []"
  "is_ascii (a # s) \<longleftrightarrow> (of_char a :: nat) < 128 \<and> is_ascii s"
  by (simp_all add: is_ascii_def)

lemma ascii_digits: "is_ascii (show_nat n)"
  using show_nat_digits [of n] by (auto simp: is_ascii_def is_digit_def list_all_iff)

lemma ascii_pad: "is_ascii (pad_int w i)"
  using ascii_digits [of "nat \<bar>i\<bar>"] by (auto simp: pad_int_def Let_def is_ascii_def list_all_iff)

lemma ascii_Format: "is_ascii (Format loc RFC3339 t)"
  by (auto simp: Format_def RFC3339_def zone_text_def ascii_pad Let_def split: prod.splits)

lemma valid_texts: "valid_utf8 (Itoa i)" "valid_utf8 (Format loc RFC3339 t)"
  using ascii_digits ascii_Format by (simp_all add: Itoa_def)

definition now_text :: "(time \<Rightarrow> int) \<Rightarrow> env \<Rightarrow> string" where
  "now_text loc e = Format loc RFC3339 (now_at e (ticks e))"

definition logged :: "string \<Rightarrow> (string \<times> any) list \<Rightarrow> server \<Rightarrow> server" where
  "logged n args s = s\<lparr>sv_calls := sv_calls s @ [(n, args)]\<rparr>"

lemma call_tools:
  "callTool loc ''echo'' [(''message'', AStr t)] s = ((t, False), logged ''echo'' [(''message'', AStr t)] s)"
  "callTool loc ''get_time'' [] s = ((now_text loc (sv_env s), False), (logged ''get_time'' [] s)\<lparr>sv_env := snd (time_Now (sv_env s))\<rparr>)"
  by (simp_all add: callTool_def string_arg_def now_text_def time_Now_def logged_def)

lemma logged_simps [simp]: "in_session c (logged n args s) = in_session c s" "in_session c (s\<lparr>sv_env := e\<rparr>) = in_session c s"
  "sv_env (logged n args s) = sv_env s"
  by (simp_all add: in_session_def logged_def)

text \<open>Adding two integers gives the text of their sum.\<close>

lemma call_add:
  assumes "\<bar>i\<bar> \<le> 9007199254740992" "\<bar>j\<bar> \<le> 9007199254740992" "\<bar>i + j\<bar> < 1000000"
  obtains x y where "into_any_map [(''a'', JNum (Itoa i)), (''b'', JNum (Itoa j))] [] = Some [(''a'', x), (''b'', y)]"
    and "\<And>s. callTool loc ''add'' [(''a'', x), (''b'', y)] s = ((Itoa (i + j), False), logged ''add'' [(''a'', x), (''b'', y)] s)"
proof -
  obtain f g where p: "ParseFloat (Itoa i) = Some f" "ParseFloat (Itoa j) = Some g"
    using ParseFloat_Itoa assms(1,2) by blast
  show ?thesis
    using sum_text [OF assms p] p by (intro that [of "ANum f" "ANum g"]) (simp_all add: callTool_def float_arg_def logged_def)
qed

lemma steps_run:
  assumes n: "cl_nextID c = 3" and s: "in_session c s"
  obtains s' where "run_steps (direct loc st) tool_steps c s =
    ([Header ''Step 2: List Available Tools'', Report ''tools/list'' (OkResult (st 200) (go_map [(''tools'', tools)])),
      Header ''Step 3: Call Tools'', Say ''  --- echo ---'',
      Report ''echo'' (OkResult (st 200) (toolResult (''Hello from the AI agent demo!'', False))),
      Say ''  --- get_time ---'', Report ''get_time'' (OkResult (st 200) (toolResult (now_text loc (sv_env s), False))),
      Say ''  --- add ---'', Report ''add(1337, 42)'' (OkResult (st 200) (toolResult (Itoa 1379, False)))],
     c\<lparr>cl_nextID := 7\<rparr>, s')" and "in_session c s'"
proof -
  note call = send_call [where loc = loc and st = st and auth = True]
  have l: "send (direct loc st) ''tools/list'' None True c s =
    ((Some (answer_of st (answer (json_id 3) (go_map [(''tools'', tools)]))), Some (result_reply (json_id 3) (go_map [(''tools'', tools)])), None),
      c\<lparr>cl_nextID := 4\<rparr>, s)" using send_list [OF n _ _ s] by simp
  let ?m = "[(''message'', AStr ''Hello from the AI agent demo!'')]" let ?s1 = "logged ''echo'' ?m s"
  have e: "send (direct loc st) ''tools/call'' (Some (call_params ''echo'' [(''message'', JStr ''Hello from the AI agent demo!'')])) True (c\<lparr>cl_nextID := 4\<rparr>) s =
    ((Some (answer_of st (answer (json_id 4) (toolResult (''Hello from the AI agent demo!'', False)))),
      Some (result_reply (json_id 4) (toolResult (''Hello from the AI agent demo!'', False))), None), c\<lparr>cl_nextID := 5\<rparr>, ?s1)"
    using s by (subst call [where n = 4 and m = ?m and s' = ?s1])
      (auto simp: call_tools is_ascii_def)
  let ?s2 = "(logged ''get_time'' [] ?s1)\<lparr>sv_env := snd (time_Now (sv_env s))\<rparr>"
  have g: "send (direct loc st) ''tools/call'' (Some (call_params ''get_time'' [])) True (c\<lparr>cl_nextID := 5\<rparr>) ?s1 =
    ((Some (answer_of st (answer (json_id 5) (toolResult (now_text loc (sv_env s), False)))),
      Some (result_reply (json_id 5) (toolResult (now_text loc (sv_env s), False))), None), c\<lparr>cl_nextID := 6\<rparr>, ?s2)"
    using s by (subst call [where n = 5 and m = "[]" and s' = ?s2])
      (auto simp: call_tools is_ascii_def now_text_def valid_texts)
  obtain x y where xy: "into_any_map [(''a'', JNum (Itoa 1337)), (''b'', JNum (Itoa 42))] [] = Some [(''a'', x), (''b'', y)]"
    "\<And>s. callTool loc ''add'' [(''a'', x), (''b'', y)] s = ((Itoa (1337 + 42), False), logged ''add'' [(''a'', x), (''b'', y)] s)"
    by (rule call_add [of 1337 42 loc]) simp_all
  have o: "''a'' \<le> ''b''" by code_simp
  let ?s3 = "logged ''add'' [(''a'', x), (''b'', y)] ?s2"
  have a: "send (direct loc st) ''tools/call'' (Some (call_params ''add'' [(''a'', JNum (Itoa 1337)), (''b'', JNum (Itoa 42))])) True (c\<lparr>cl_nextID := 6\<rparr>) ?s2 =
    ((Some (answer_of st (answer (json_id 6) (toolResult (Itoa 1379, False)))), Some (result_reply (json_id 6) (toolResult (Itoa 1379, False))), None),
      c\<lparr>cl_nextID := 7\<rparr>, ?s3)"
    using s xy(1) xy(2) [of ?s2] by (subst call [where n = 6 and m = "[(''a'', x), (''b'', y)]" and s' = ?s3])
      (auto simp: is_ascii_def o valid_texts simp del: into_any_map.simps)
  show ?thesis using s by (intro that [of ?s3]) (simp_all add: tool_steps_def l e g a)
qed

lemma client_burst:
  "in_session c s \<Longrightarrow> 0 \<le> cl_nextID c \<Longrightarrow> cl_nextID c + int (length ns) < 9007199254740992 \<Longrightarrow>
    \<exists>s'. burst (direct loc st) ns k j c s =
      (map BurstOK ns @ [Summary (j + length ns) k], c\<lparr>cl_nextID := cl_nextID c + int (length ns)\<rparr>, s')"
proof (induction ns arbitrary: j c s)
  case Nil
  then show ?case by simp
next
  case (Cons i ns)
  let ?t = "''burst request #'' @ show_nat i" and ?n = "cl_nextID c"
  let ?s = "logged ''echo'' [(''message'', AStr ?t)] s"
  have "send (direct loc st) ''tools/call'' (Some (call_params ''echo'' [(''message'', JStr ?t)])) True c s =
    ((Some (answer_of st (answer (json_id ?n) (toolResult (?t, False)))), Some (result_reply (json_id ?n) (toolResult (?t, False))), None),
      c\<lparr>cl_nextID := ?n + 1\<rparr>, ?s)"
    using Cons.prems by (subst send_call [where m = "[(''message'', AStr ?t)]" and n = ?n and s' = ?s])
      (auto simp: call_tools is_ascii_def intro!: valid_utf8_ascii ascii_digits [unfolded is_ascii_def])
  moreover obtain s' where "burst (direct loc st) ns k (Suc j) (c\<lparr>cl_nextID := ?n + 1\<rparr>) ?s =
      (map BurstOK ns @ [Summary (Suc j + length ns) k], c\<lparr>cl_nextID := ?n + 1 + int (length ns)\<rparr>, s')"
    using Cons.IH [of "c\<lparr>cl_nextID := ?n + 1\<rparr>" ?s "Suc j"] Cons.prems by auto
  ultimately show ?case by (simp add: add.assoc)
qed

text \<open>C34: Against the example server alone, whose random bytes are not empty, the client with a
  non-empty API key succeeds in every step: the session opens, the three tools are listed and answer (the sum is the sum), and
  all fifteen calls of the burst count as succeeded.\<close>

theorem demo_succeeds:
  assumes "apiKey \<noteq> []" and "sv_rand s (sv_rands s) \<noteq> []"
  shows "fst (demo_main (direct loc st) apiKey s) =
    ([Header ''Step 1: Initialize MCP Session'', Report ''initialize'' (OkResult (st 200) initialize_result),
      SessionLine (EncodeToString (sv_rand s (sv_rands s))), Notified (st 202),
      Header ''Step 2: List Available Tools'', Report ''tools/list'' (OkResult (st 200) (go_map [(''tools'', tools)])),
      Header ''Step 3: Call Tools'', Say ''  --- echo ---'',
      Report ''echo'' (OkResult (st 200) (toolResult (''Hello from the AI agent demo!'', False))),
      Say ''  --- get_time ---'', Report ''get_time'' (OkResult (st 200) (toolResult (now_text loc (sv_env s), False))),
      Say ''  --- add ---'', Report ''add(1337, 42)'' (OkResult (st 200) (toolResult (Itoa 1379, False))),
      Header ''Step 4: Rapid Requests (trigger rate limiting)'', Say ''  Sending 15 rapid requests...''] @
     map BurstOK [1..<16] @ [Summary 15 0,
      Header ''Step 5: Unauthenticated Request (no API key)'', Report ''initialize (no auth)'' (OkResult (st 200) initialize_result),
      Header ''Demo Complete''], True)"
proof -
  define sid where "sid = EncodeToString (sv_rand s (sv_rands s))"
  have sid: "sid \<noteq> []" using assms(2) by (cases "sv_rand s (sv_rands s)") (simp_all add: sid_def EncodeToString_def)
  define s1 where "s1 = s\<lparr>sv_rands := Suc (sv_rands s), sessions := insert sid (sessions s)\<rparr>"
  define c1 where "c1 = (newMCPClient apiKey)\<lparr>cl_nextID := 2, cl_sessionID := sid\<rparr>"
  have g: "generateSessionID s = (sid, s\<lparr>sv_rands := Suc (sv_rands s)\<rparr>)" by (simp add: generateSessionID_def sid_def)
  have i1: "send (direct loc st) ''initialize'' (Some (init_params ''ai-agent-demo'')) True (newMCPClient apiKey) s =
    ((Some (answer_of st (SetHeader ''Mcp-Session-Id'' sid # answer (json_id 1) initialize_result)),
      Some (result_reply (json_id 1) initialize_result), None), (newMCPClient apiKey)\<lparr>cl_nextID := 2\<rparr>, s1)"
    by (simp add: send_initialize g s1_def)
  obtain b where b: "jsonrpcResponse (json_id 1) (Some initialize_result) None = Some b"
  proof -
    obtain f where f: "ParseFloat (Itoa 1) = Some f" using ParseFloat_Itoa [of 1] by simp
    then show ?thesis using result_read [of 1 initialize_result f] plain_results(1) that by (auto simp: plain_result_def json_id_def)
  qed
  have h: "hr_Header (answer_of st (SetHeader ''Mcp-Session-Id'' sid # answer (json_id 1) initialize_result)) ''Mcp-Session-Id'' = sid"
    by (rule answer_of_answer(9) [OF b]) simp
  have n: "send (direct loc st) ''notifications/initialized'' None True c1 s1 =
    ((Some (answer_of st [WriteHeader 202]), None, None), c1\<lparr>cl_nextID := 3\<rparr>, s1)" "hr_Status (answer_of st [WriteHeader 202]) = st 202"
    using send_notification [where loc = loc and st = st and auth = True and c = c1 and s = s1] by (simp_all add: c1_def int64_id)
  have ses: "in_session c1 s1" by (simp add: in_session_def c1_def s1_def sid)
  then have ses': "in_session (c1\<lparr>cl_nextID := 3\<rparr>) s1" by simp
  obtain s2 where steps: "run_steps (direct loc st) tool_steps (c1\<lparr>cl_nextID := 3\<rparr>) s1 =
    ([Header ''Step 2: List Available Tools'', Report ''tools/list'' (OkResult (st 200) (go_map [(''tools'', tools)])),
      Header ''Step 3: Call Tools'', Say ''  --- echo ---'',
      Report ''echo'' (OkResult (st 200) (toolResult (''Hello from the AI agent demo!'', False))),
      Say ''  --- get_time ---'', Report ''get_time'' (OkResult (st 200) (toolResult (now_text loc (sv_env s1), False))),
      Say ''  --- add ---'', Report ''add(1337, 42)'' (OkResult (st 200) (toolResult (Itoa 1379, False)))],
     c1\<lparr>cl_nextID := 7\<rparr>, s2)" "in_session (c1\<lparr>cl_nextID := 3\<rparr>) s2"
    by (rule steps_run [OF _ ses', where loc = loc and st = st]) simp_all
  obtain s3 where bu: "burst (direct loc st) [1..<16] 0 0 (c1\<lparr>cl_nextID := 7\<rparr>) s2 =
      (map BurstOK [1..<16] @ [Summary 15 0], c1\<lparr>cl_nextID := 22\<rparr>, s3)"
    using client_burst [where c = "c1\<lparr>cl_nextID := 7\<rparr>" and s = s2 and ns = "[1..<16]" and loc = loc and st = st and k = 0 and j = 0] steps(2) by (auto simp del: upt_Suc)
  have c1: "((newMCPClient apiKey)\<lparr>cl_nextID := 2\<rparr>)\<lparr>cl_sessionID := sid\<rparr> = c1" by (simp add: c1_def)
  have e: "sv_env s1 = sv_env s" by (simp add: s1_def)
  show ?thesis
    using assms(1)
    by (simp add: demo_main_def i1 h c1 n steps(1) bu send_initialize sid_def [symmetric] e [symmetric] is_ascii_def
        del: upt_Suc burst.simps run_steps.simps One_nat_def)
qed

definition demo_server :: server where
  "demo_server = newServer \<lparr>now_at = (\<lambda>_. 0), ticks = 0\<rparr> (\<lambda>_. ''0123456789abcdef'')"

lemma demo_succeeds_witness:
  "snd (fst (demo_main (direct (\<lambda>_. 0) (\<lambda>_. ''200 OK'')) ''mcpgw_x'' demo_server)) \<and>
   last (fst (fst (demo_main (direct (\<lambda>_. 0) (\<lambda>_. ''200 OK'')) ''mcpgw_x'' demo_server))) = Header ''Demo Complete''"
  using demo_succeeds [where apiKey = "''mcpgw_x''" and s = demo_server and loc = "\<lambda>_. 0" and st = "\<lambda>_. ''200 OK''"]
  by (simp add: demo_server_def newServer_def)

section \<open>The client at the gateway\<close>

lemma gateway_passes:
  assumes "\<And>i w. \<exists>w'. router p other (r\<lparr>rq_RequestID := i\<rparr>) w = (w', es, Returned)"
  shows "\<exists>w' i. gateway p other r w = (w', SetHeader ''X-Request-Id'' i # es, Returned)"
proof -
  obtain f where f: "router p other (r\<lparr>rq_RequestID := i\<rparr>) w = (f i w, es, Returned)" for i w using assms by metis
  show ?thesis
    by (auto simp: gateway_def outer_middlewares_def RequestID_def Logger_def Recoverer_def metrics_Middleware_def f Let_def
        split: prod.splits)
qed

lemma no_key_denied:
  assumes "cf_DatabaseURL (p_cfg p) \<noteq> []" and "rq_Method r = ''POST''" "rq_Path r = ''/mcp''" "header_Get r ''Authorization'' = []"
  shows "\<exists>w' i. gateway p other r w = (w', SetHeader ''X-Request-Id'' i # deny_json 401 (- 32001) ''missing Authorization header'', Returned)"
proof (rule gateway_passes)
  fix i and w :: "'a world"
  have "header_Get (r\<lparr>rq_RequestID := i\<rparr>) ''Authorization'' = []" using assms(4) by (simp add: header_Get_def)
  then show "\<exists>w'. router p other (r\<lparr>rq_RequestID := i\<rparr>) w = (w', deny_json 401 (- 32001) ''missing Authorization header'', Returned)"
    using assms(1-3)
    by (simp add: router_def routes_def mcp_handler_checks checks_def auth_check_def lift_guard_def auth_guard_def bearer_token_def
        writeAuthError_def)
qed

lemma answer_of_deny:
  assumes "400 \<le> c"
  shows "hr_StatusCode (answer_of st (SetHeader k x # deny_json c n msg)) = c" "hr_Status (answer_of st (SetHeader k x # deny_json c n msg)) = st c"
    "hr_Body (answer_of st (SetHeader k x # deny_json c n msg)) = json_rpc_error n msg" "\<not> hr_fails (answer_of st (SetHeader k x # deny_json c n msg))"
proof -
  have "rp_status (respond (SetHeader k x # deny_json c n msg)) = Some c" "rp_body (respond (SetHeader k x # deny_json c n msg)) = json_rpc_error n msg"
    using assms by (simp_all add: respond_def deny_json_def fresh_response_def write_header_def body_allowed_def)
  then show "hr_StatusCode (answer_of st (SetHeader k x # deny_json c n msg)) = c" "hr_Status (answer_of st (SetHeader k x # deny_json c n msg)) = st c"
    "hr_Body (answer_of st (SetHeader k x # deny_json c n msg)) = json_rpc_error n msg" "\<not> hr_fails (answer_of st (SetHeader k x # deny_json c n msg))"
    by (simp_all only: answer_of_def Let_def http_response.simps option.sel not_False_eq_True)
qed

text \<open>C35: Without an API key every call of the client to a gateway with a database, whatever it asks,
  ends in the gateway's rejection, which the client reads and reports with the status, the code and
  the message.\<close>

theorem no_key_rejected:
  assumes "cf_DatabaseURL (p_cfg p) \<noteq> []"
  shows "printResult (fst (send (served_by st (gateway p other)) m ps auth (newMCPClient []) w)) =
    RejectedOut (st 401) (- 32001) ''missing Authorization header''"
proof -
  let ?d = "deny_json 401 (- 32001) ''missing Authorization header''"
  have g0: "\<exists>w' i. gateway p other (client_http auth (c\<lparr>cl_nextID := k\<rparr>) b) w = (w', SetHeader ''X-Request-Id'' i # ?d, Returned)"
    if "cl_apiKey c = []" for c k b
    by (rule no_key_denied [OF assms]) (simp_all add: client_http_def header_Get_def client_header_def that)
  have "cl_apiKey (newMCPClient []) = []" by (simp add: newMCPClient_def)
  from g0 [OF this] obtain w' i where g: "gateway p other (client_http auth ((newMCPClient [])\<lparr>cl_nextID := int64 (cl_nextID (newMCPClient []) + 1)\<rparr>)
      (json_print (client_request (if m = ''notifications/initialized'' then None else Some (cl_nextID (newMCPClient []))) m ps))) w =
      (w', SetHeader ''X-Request-Id'' i # ?d, Returned)"
    by blast
  have r: "hr_StatusCode (answer_of st (SetHeader ''X-Request-Id'' i # ?d)) = 401" "hr_Status (answer_of st (SetHeader ''X-Request-Id'' i # ?d)) = st 401"
    "hr_Body (answer_of st (SetHeader ''X-Request-Id'' i # ?d)) = json_rpc_error (- 32001) ''missing Authorization header''"
    "\<not> hr_fails (answer_of st (SetHeader ''X-Request-Id'' i # ?d))"
    by (simp_all add: answer_of_deny)
  have "Unmarshal reply_fields (json_rpc_error (- 32001) ''missing Authorization header'') no_reply =
      Some (no_reply\<lparr>cr_JSONRPC := ''2.0'', cr_Error := Some \<lparr>re_code = - 32001, re_message = ''missing Authorization header''\<rparr>\<rparr>)"
  proof -
    have k: "\<not> key_is ''result'' ''error''" "\<not> key_is ''id'' ''error''" "\<not> key_is ''jsonrpc'' ''error''" "key_is ''code'' ''code''"
      "\<not> key_is ''code'' ''message''" "key_is ''message'' ''message''"
      by (simp_all add: key_is_def byte_in_def)
    have "json_parse (json_rpc_error (- 32001) ''missing Authorization header'') = Some (rpc_error_json (- 32001) ''missing Authorization header'')"
      by (rule json_parse_rpc_error) (simp add: is_ascii_def)
    then show ?thesis
      by (simp add: Unmarshal_def rpc_error_json_def into_struct_def reply_fields_def response_fields_def error_fields_def k message_keys
          no_reply_def into_int_def into_string_def Atoi_Itoa_in in_int64_def)
  qed
  moreover have "json_rpc_error (- 32001) ''missing Authorization header'' \<noteq> []" by (simp add: json_rpc_error_def)
  ultimately show ?thesis
    by (simp add: send_def served_by_def g read_reply_def r printResult.simps no_reply_def)
qed

lemma no_key_rejected_witness:
  "printResult (fst (send (served_by (\<lambda>_. ''401 Unauthorized'') (gateway (demo_params ''db'' None) (\<lambda>r w. (w, [WriteHeader 404], Returned))))
    ''tools/list'' None True (newMCPClient []) demo_world)) = RejectedOut ''401 Unauthorized'' (- 32001) ''missing Authorization header''"
  using no_key_rejected [of "demo_params ''db'' None" "\<lambda>_. ''401 Unauthorized''"] by simp

end
