(* ===== verification/EndToEnd.thy ===== *)
theory EndToEnd
  imports AgentProps
begin

text \<open>
  The gateway in front of the example server: the upstream's state is the server's, with its
  history of tool calls, reached over a network that may lose a call or an answer. A tool that
  the server calls for a request the gateway could read was allowed to the key that sent it.
\<close>

section \<open>The upstream\<close>

text \<open>A transport calls the server's handler once or, when the call is lost, not at all; what it
  answers does not matter.\<close>

definition carries :: "(time \<Rightarrow> int) \<Rightarrow> server round_trip \<Rightarrow> bool" where
  "carries loc rp \<longleftrightarrow> (\<forall>u r s. snd (rp u r s) = s \<or> snd (rp u r s) = fst (handleMCP loc r s))"

lemma tool_run_Director: "tool_run (Director u r) s = tool_run r s"
  by (simp add: tool_run_def Director_def read_request_def requireSession_def header_Get_def)

lemma max_bytes_id [simp]: "length (bd_data b) \<le> n \<Longrightarrow> max_bytes n b = b"
  by (simp add: max_bytes_def)

section \<open>What reaches the server\<close>

text \<open>The checks hand on the body they read.\<close>

lemma checks_body:
  assumes "run_guards (checks p) r w = (w', Pass r')" and "fst (readAndRestore r) \<noteq> []"
  shows "rq_Body r' = Some \<lparr>bd_data = fst (readAndRestore r), bd_fails = False\<rparr>"
proof -
  let ?b = "\<lparr>bd_data = fst (readAndRestore r), bd_fails = False\<rparr>"
  obtain w1 r1 w2 w3 r3 where c: "auth_check r w = (w1, Pass r1)" "rbac_check r1 w2 = (w3, Pass r3)"
    "policy_check (p_uni p) (p_zones p) r3 w3 = (w', Pass r')" by (rule checks_pass [OF assms(1)])
  obtain key where r1: "r1 = r\<lparr>rq_APIKey := Some key\<rparr>" by (rule auth_check_Pass [OF c(1)])
  have f: "fst (readAndRestore r1) = fst (readAndRestore r)" by (simp add: r1 readAndRestore_key)
  have "r3 = snd (readAndRestore r1)"
    using c(2) by (auto simp: rbac_check_def lift_guard_def rbac_guard_def APIKeyFromContext_def r1 Let_def split: prod.splits if_splits)
  then have b3: "rq_Body r3 = Some ?b" using readAndRestore_ok [of r1] assms(2) by (simp add: f)
  have "length (fst (readAndRestore r)) \<le> maxBodyRead" by (simp add: readAndRestore_def read_limited_length)
  then have "rq_Body (snd (readAndRestore r3)) = Some ?b" by (simp add: readAndRestore_def read_limited_def b3)
  moreover have "r' = r3 \<or> r' = snd (readAndRestore r3)"
    using c(3) by (auto simp: policy_check_def lift_guard_def policy_guard_def Let_def split: prod.splits if_splits option.splits)
  ultimately show ?thesis using b3 by auto
qed

text \<open>Auditing and the proxy send a body of at most 64 KiB on as it is.\<close>

lemma proxy_up:
  assumes "carries loc (p_rp p)" and "rq_Body r = Some b" and "length (bd_data b) \<le> maxRequestBody"
  shows "w_up (fst (proxy_handler p r w)) \<in> {w_up w, fst (handleMCP loc (Director (p_url p) r) (w_up w))}"
proof -
  have "r\<lparr>rq_Body := map_option (max_bytes maxRequestBody) (rq_Body r)\<rparr> = r" using assms(2,3) by simp
  moreover have "snd (p_rp p (p_url p) (Director (p_url p) r) (w_up w)) \<in> {w_up w, fst (handleMCP loc (Director (p_url p) r) (w_up w))}"
    using assms(1) unfolding carries_def by blast
  ultimately show ?thesis
    by (auto simp: proxy_handler_def proxy_ServeHTTP_def Let_def split_beta split: option.splits)
qed

lemma audited_up:
  assumes "carries loc (p_rp p)" and "rq_Body r = Some \<lparr>bd_data = d, bd_fails = False\<rparr>" and "length d \<le> maxBodyCapture"
  shows "w_up (fst (audited_proxy p r w)) \<in> {w_up w, fst (handleMCP loc (Director (p_url p) r) (w_up w))}"
proof -
  have up: "w_up (fst (proxy_handler p r v)) \<in> {w_up v, fst (handleMCP loc (Director (p_url p) r) (w_up v))}" for v
    using assms(3) by (intro proxy_up [OF assms(1,2)]) (simp add: maxBodyCapture_def maxRequestBody_def)
  have "audit_readAndRestore r = (d, r)"
    using assms(2,3) by (simp add: audit_readAndRestore_def read_limited_def)
  moreover have "w_up (snd (world_now v)) = w_up v" "w_up (snd (audit_log e v)) = w_up v" for v :: "server world" and e
    by (simp_all add: world_now_def audit_log_def split_beta)
  ultimately have "w_up (fst (audit_Middleware world_now audit_log (proxy_handler p) r w)) = w_up (fst (proxy_handler p r (snd (world_now w))))"
    by (simp add: audit_Middleware_def Let_def split_beta split: fin.splits)
  then show ?thesis using up [of "snd (world_now w)"] up [of w] \<open>w_up (snd (world_now w)) = w_up w\<close>
    by (simp add: audited_proxy_def)
qed

lemma mcp_up:
  assumes "carries loc (p_rp p)" and "cf_DatabaseURL (p_cfg p) \<noteq> []" and "fst (readAndRestore r) \<noteq> []"
    and "w_up (fst (mcp_handler p r w)) \<noteq> w_up w"
  obtains w' r' where "run_guards (checks p) r w = (w', Pass r')"
    and "rq_Body r' = Some \<lparr>bd_data = fst (readAndRestore r), bd_fails = False\<rparr>"
    and "w_up (fst (mcp_handler p r w)) = fst (handleMCP loc (Director (p_url p) r') (w_up w))"
proof -
  obtain w' v where rg: "run_guards (checks p) r w = (w', v)" by fastforce
  have u: "w_up w' = w_up w" using checks_rest [of p r w] rg by (simp add: world_rest_def)
  then obtain r' where v: "v = Pass r'"
    using assms(2,4) rg by (cases v) (auto simp: mcp_handler_checks)
  have b: "rq_Body r' = Some \<lparr>bd_data = fst (readAndRestore r), bd_fails = False\<rparr>"
    using checks_body [OF _ assms(3)] rg v by blast
  have l: "length (fst (readAndRestore r)) \<le> maxBodyCapture"
    using read_limited_length [of maxBodyRead r] by (simp add: readAndRestore_def maxBodyRead_def maxBodyCapture_def)
  have "mcp_handler p r w = audited_proxy p r' w'" using assms(2) rg by (simp add: mcp_handler_checks v)
  with audited_up [OF assms(1) b l, of w'] assms(4) u
  have "w_up (fst (mcp_handler p r w)) = fst (handleMCP loc (Director (p_url p) r') (w_up w))" by simp
  with rg v b show ?thesis by (intro that) simp_all
qed

section \<open>Authorised tools\<close>

text \<open>C7: When the gateway has a database, the example server behind it calls a named tool only for a
  bearer token of a stored, active, unexpired key that may execute that very tool, provided the
  gateway could read the body; whatever the network loses, and however the body repeats or spells
  its keys.\<close>

theorem tools_run_only_authorized:
  assumes "carries loc (p_rp p)" and "cf_DatabaseURL (p_cfg p) \<noteq> []"
    and "Unmarshal call_fields (fst (readAndRestore r)) no_call \<noteq> None"
    and "sv_calls (w_up (fst (mcp_handler p r w))) = sv_calls (w_up w) @ cs" and "(n, args) \<in> set cs" and "n \<noteq> []"
  shows "\<exists>token key. header_Get r ''Authorization'' = ''Bearer '' @ token \<and>
    GetAPIKeyByHash (HashKey token) (w_db w) = Inr key \<and> ak_Active key \<and>
    (case ak_ExpiresAt key of None \<Rightarrow> True | Some t \<Rightarrow> now_at (w_env w) (ticks (w_env w)) \<le> t) \<and>
    fst (IsAllowed (\<lambda>i. Inr (GetPermissionsByKeyID i (w_db w))) (ak_ID key) (''tool:'' @ n) ''execute'' (w_rbac w))"
proof -
  have body: "fst (readAndRestore r) \<noteq> []" using assms(3) by (metis Unmarshal_Nil)
  have "w_up (fst (mcp_handler p r w)) \<noteq> w_up w" using assms(4,5) by auto
  then obtain w' r' where g: "run_guards (checks p) r w = (w', Pass r')"
    and b: "rq_Body r' = Some \<lparr>bd_data = fst (readAndRestore r), bd_fails = False\<rparr>"
    and up: "w_up (fst (mcp_handler p r w)) = fst (handleMCP loc (Director (p_url p) r') (w_up w))"
    by (rule mcp_up [OF assms(1,2) body])
  from up assms(4,5) have t: "tool_run r' (w_up w) = Some (n, args)"
    by (auto simp: handleMCP_calls tool_run_Director split: option.splits)
  have e: "extractResourceAction (fst (readAndRestore r)) = (''tool:'' @ n, ''execute'')"
    by (rule checked_tool [OF assms(3) b t assms(6)])
  show ?thesis using checks_authorize [OF g] by (auto simp: e)
qed

section \<open>A concrete call\<close>

abbreviation tools_up :: "server params" where
  "tools_up \<equiv> tools_params (\<lambda>u r s. (None, fst (handleMCP (\<lambda>_. 0) r s)))"

lemma tools_call_runs: "sv_calls (w_up (fst (mcp_handler tools_up tools_request (tools_world session_server)))) = sv_calls session_server @ [(''rm'', [])]"
proof -
  let ?v = "tool_call ''rm'' []" and ?r = "tools_request\<lparr>rq_APIKey := Some (key_row ''k'')\<rparr>"
  have ok: "json_ok ?v" by (rule tool_call_ok) (simp_all add: is_ascii_def)
  have "read_request ?r = read_request tools_request" by (simp add: read_request_def)
  also have "\<dots> = into_struct request_fields ?v no_request"
    by (simp add: read_request_def Decode_def first_value_parse [OF json_roundtrip [OF ok call_depth]])
  finally have "tool_run ?r session_server = Some (''rm'', [])"
    by (simp add: tool_run_def requireSession_def tool_call_read) (simp add: tools_request_def header_Get_def demo_request_def)
  then show ?thesis using tools_proxied [where rp = "\<lambda>u r s. (None, fst (handleMCP (\<lambda>_. 0) r s))" and u = session_server]
    by (simp add: handleMCP_calls tool_run_Director)
qed

lemma tools_run_only_authorized_witness:
  "\<exists>token key. header_Get tools_request ''Authorization'' = ''Bearer '' @ token \<and> GetAPIKeyByHash (HashKey token) tools_db = Inr key \<and>
     fst (IsAllowed (\<lambda>i. Inr (GetPermissionsByKeyID i tools_db)) (ak_ID key) ''tool:rm'' ''execute'' NewService)"
proof -
  have c: "carries (\<lambda>_. 0) (p_rp tools_up)" by (simp add: carries_def)
  have d: "cf_DatabaseURL (p_cfg tools_up) \<noteq> []" by simp
  have "fst (readAndRestore tools_request) = json_print (tool_call ''rm'' [])"
    using tools_request_read [of None] by (simp add: tools_request_key)
  then have r: "Unmarshal call_fields (fst (readAndRestore tools_request)) no_call \<noteq> None"
    using rm_call(2) by (auto simp: extractResourceAction_def no_call_def split: option.splits)
  have u: "sv_calls (w_up (fst (mcp_handler tools_up tools_request (tools_world session_server)))) =
      sv_calls (w_up (tools_world session_server)) @ [(''rm'', [])]"
    unfolding tools_call_runs by (simp add: tools_world_def)
  from tools_run_only_authorized [OF c d r u, of "''rm''" "[]"] show ?thesis by (auto simp: tools_world_def)
qed

end
