(* ===== verification/WriteRace.thy ===== *)
theory WriteRace
  imports PolicyProps
begin

text \<open>
  Requests are served concurrently, and \<open>evaluateRateOfChange\<close> takes the tracker's lock twice:
  once to count, once to record. Here the calls of one key under one rate-of-change policy are
  steps of a relation: a call reads the clock, counts (and is denied or goes on), and records;
  at most \<open>k\<close> calls are between their first and last step. The limit can be overshot by
  \<open>2 * (k - 1)\<close> writes and no more. The second part is about two policies at once, which share
  the tracker.
\<close>

section \<open>Calls in flight\<close>

record write_race =
  wr_clock :: time
  wr_windows :: windows
  wr_read :: "time list"        \<comment> \<open>calls that have read the clock\<close>
  wr_counted :: "time list"     \<comment> \<open>calls that have counted and are going to record\<close>
  wr_admitted :: "time list"

definition race_start :: "windows \<Rightarrow> write_race" where
  "race_start w = \<lparr>wr_clock = 0, wr_windows = w, wr_read = [], wr_counted = [], wr_admitted = []\<rparr>"

definition wr_flight :: "write_race \<Rightarrow> nat" where
  "wr_flight s = length (wr_read s) + length (wr_counted s)"

definition count_step :: "RateOfChangeConfig \<Rightarrow> uuid \<Rightarrow> time \<Rightarrow> windows \<Rightarrow> int \<times> windows" where
  "count_step c i now w = countInWindow i (time_Add now (int64 (- WindowSeconds c * Second))) w"

text \<open>The clock does not go back, and the lists of other keys may change at any time.\<close>

inductive write_step :: "RateOfChangeConfig \<Rightarrow> uuid \<Rightarrow> nat \<Rightarrow> write_race \<Rightarrow> write_race \<Rightarrow> bool"
  for c :: RateOfChangeConfig and i :: uuid and k :: nat where
  enter: "wr_flight s < k \<Longrightarrow> wr_clock s \<le> now \<Longrightarrow>
    write_step c i k s (s\<lparr>wr_clock := now, wr_read := wr_read s @ [now]\<rparr>)"
| deny: "wr_read s = xs @ now # ys \<Longrightarrow> count_step c i now (wr_windows s) = (n, w) \<Longrightarrow> MaxWritesPerWindow c \<le> n \<Longrightarrow>
    write_step c i k s (s\<lparr>wr_windows := w, wr_read := xs @ ys\<rparr>)"
| pass: "wr_read s = xs @ now # ys \<Longrightarrow> count_step c i now (wr_windows s) = (n, w) \<Longrightarrow> n < MaxWritesPerWindow c \<Longrightarrow>
    write_step c i k s (s\<lparr>wr_windows := w, wr_read := xs @ ys, wr_counted := wr_counted s @ [now]\<rparr>)"
| recorded: "wr_counted s = xs @ now # ys \<Longrightarrow>
    write_step c i k s (s\<lparr>wr_windows := record_write i now (wr_windows s), wr_counted := xs @ ys, wr_admitted := wr_admitted s @ [now]\<rparr>)"
| other: "w i = wr_windows s i \<Longrightarrow> write_step c i k s (s\<lparr>wr_windows := w\<rparr>)"

inductive write_reach :: "RateOfChangeConfig \<Rightarrow> uuid \<Rightarrow> nat \<Rightarrow> windows \<Rightarrow> write_race \<Rightarrow> bool"
  for c :: RateOfChangeConfig and i :: uuid and k :: nat and w0 :: windows where
  start: "write_reach c i k w0 (race_start w0)"
| step: "write_reach c i k w0 s \<Longrightarrow> write_step c i k s s' \<Longrightarrow> write_reach c i k w0 s'"

lemma count_step_eq:
  assumes "roc_usable c"
  shows "count_step c i now w = (int (length (filter (\<lambda>t. now - WindowSeconds c * Second \<le> t) (w i))),
    w(i := filter (\<lambda>t. now - WindowSeconds c * Second \<le> t) (w i)))"
proof -
  have "int64 (- WindowSeconds c * Second) = - WindowSeconds c * Second"
    using assms by (intro int64_id) (simp_all add: roc_usable_def)
  then show ?thesis by (simp add: count_step_def countInWindow_def time_Add_def Let_def not_less)
qed

text \<open>One evaluation by itself is these steps in a row.\<close>

lemma evaluation_is_steps:
  assumes "roc_config p = Some c" and "roc_usable c" and "rq_APIKey r = Some key" and "isWriteOperation uni body"
    and "evaluateRateOfChange uni r p body now (wr_windows s) = (d, w')" and "wr_read s = xs @ now # ys" and "wr_counted s = []"
  shows "(write_step c (ak_ID key) k)\<^sup>*\<^sup>* s (s\<lparr>wr_windows := w', wr_read := xs @ ys,
    wr_admitted := wr_admitted s @ (if d = None then [now] else [])\<rparr>)"
proof -
  let ?i = "ak_ID key" and ?w = "wr_windows s"
  let ?kept = "filter (\<lambda>t. now - WindowSeconds c * Second \<le> t) (?w ?i)"
  have n: "count_step c ?i now ?w = (int (length ?kept), ?w(?i := ?kept))" by (rule count_step_eq [OF assms(2)])
  have ev: "(d, w') = (if MaxWritesPerWindow c \<le> int (length ?kept)
      then (d, ?w(?i := ?kept)) else (None, ?w(?i := ?kept @ [now])))" "MaxWritesPerWindow c \<le> int (length ?kept) \<longleftrightarrow> d \<noteq> None"
    using assms(4,5) by (auto simp: evaluateRateOfChange_eq [OF assms(1-3)] Let_def not_less split: if_splits)
  show ?thesis
  proof (cases "d = None")
    case False
    with ev have "write_step c ?i k s (s\<lparr>wr_windows := w', wr_read := xs @ ys\<rparr>)"
      using write_step.deny [OF assms(6) n, of k] by simp
    moreover have "s\<lparr>wr_windows := w', wr_read := xs @ ys\<rparr> = s\<lparr>wr_windows := w', wr_read := xs @ ys, wr_admitted := wr_admitted s @ []\<rparr>"
      by (cases s) simp
    ultimately show ?thesis using False by auto
  next
    case True
    let ?s1 = "s\<lparr>wr_windows := ?w(?i := ?kept), wr_read := xs @ ys, wr_counted := [now]\<rparr>"
    have "write_step c ?i k s ?s1" using write_step.pass [OF assms(6) n, of k] ev True assms(7) by simp
    moreover have "write_step c ?i k ?s1 (?s1\<lparr>wr_windows := record_write ?i now (wr_windows ?s1), wr_counted := [] @ [], wr_admitted := wr_admitted ?s1 @ [now]\<rparr>)"
      by (rule write_step.recorded) simp
    moreover have "?s1\<lparr>wr_windows := record_write ?i now (wr_windows ?s1), wr_counted := [] @ [], wr_admitted := wr_admitted ?s1 @ [now]\<rparr> =
        s\<lparr>wr_windows := w', wr_read := xs @ ys, wr_admitted := wr_admitted s @ [now]\<rparr>"
      using ev True assms(7) by (cases s) (simp add: record_write_def)
    ultimately show ?thesis using True by (simp add: converse_rtranclp_into_rtranclp)
  qed
qed

section \<open>The overshoot\<close>

lemma in_window_simps [simp]:
  "in_window x d [] = 0" "in_window x d (t # ts) = (if x \<le> t \<and> t \<le> x + d then 1 else 0) + in_window x d ts"
  "in_window x d (ts @ us) = in_window x d ts + in_window x d us"
  by (simp_all add: in_window_def)

lemma in_window_le: "in_window x d ts \<le> length ts"
  by (simp add: in_window_def)

lemma in_window_prune:
  assumes "now \<le> x + d"
  shows "in_window x d (filter (\<lambda>t. now - d \<le> t) ts) = in_window x d ts"
  using assms by (induction ts) auto

text \<open>As long as no call with a clock behind the interval has pruned the list, every admitted
  write of the interval is in it. After that only the calls that were in flight can still add
  writes to the interval.\<close>

definition overshoot_inv :: "RateOfChangeConfig \<Rightarrow> uuid \<Rightarrow> nat \<Rightarrow> time \<Rightarrow> write_race \<Rightarrow> bool" where
  "overshoot_inv c i k x s \<longleftrightarrow> (let d = WindowSeconds c * Second; m = MaxWritesPerWindow c;
       a = in_window x d (wr_admitted s); p = in_window x d (wr_counted s); r = in_window x d (wr_read s)
     in wr_flight s \<le> k \<and> (\<forall>t \<in> set (wr_read s). t \<le> wr_clock s) \<and>
        (a \<le> in_window x d (wr_windows s i) \<and> int (a + p) < m + int k \<or>
         x + d < wr_clock s \<and> int (a + p + r) \<le> m + 2 * (int k - 1)))"

lemma overshoot_count:
  assumes "overshoot_inv c i k x s" and "roc_usable c" and "wr_read s = xs @ now # ys"
    and "count_step c i now (wr_windows s) = (n, w)"
    and "s' = s\<lparr>wr_windows := w, wr_read := xs @ ys, wr_counted := wr_counted s @ cs\<rparr>"
    and "cs = [] \<or> cs = [now] \<and> n < MaxWritesPerWindow c"
  shows "overshoot_inv c i k x s'"
proof -
  let ?d = "WindowSeconds c * Second"
  have n: "n = int (length (w i))" "w i = filter (\<lambda>t. now - ?d \<le> t) (wr_windows s i)"
    using assms(4) by (auto simp: count_step_eq [OF assms(2)])
  have l: "in_window x ?d xs \<le> length xs" "in_window x ?d ys \<le> length ys" "in_window x ?d (wr_counted s) \<le> length (wr_counted s)"
    "in_window x ?d (w i) \<le> length (w i)" by (rule in_window_le)+
  have f: "Suc (length xs + length ys + length (wr_counted s)) \<le> k" "now \<le> wr_clock s"
    using assms(1,3) by (auto simp: overshoot_inv_def Let_def wr_flight_def)
  show ?thesis
  proof (cases "now \<le> x + ?d")
    case True
    have "in_window x ?d (w i) = in_window x ?d (wr_windows s i)" unfolding n(2) by (rule in_window_prune [OF True])
    with assms(1,3,6) l f n(1) show ?thesis
      by (auto simp: overshoot_inv_def Let_def wr_flight_def assms(5) split: if_splits)
  next
    case False
    then have "x + ?d < wr_clock s" using f(2) by simp
    with False assms(1,3,6) l f show ?thesis
      by (auto simp: overshoot_inv_def Let_def wr_flight_def assms(5) split: if_splits)
  qed
qed

lemma overshoot_step:
  assumes "overshoot_inv c i k x s" and "roc_usable c" and "write_step c i k s s'"
  shows "overshoot_inv c i k x s'"
  using assms(3)
proof (cases rule: write_step.cases)
  case (enter now)
  then show ?thesis using assms(1) by (auto simp: overshoot_inv_def Let_def wr_flight_def)
next
  case (deny xs now ys n w)
  have "s' = s\<lparr>wr_windows := w, wr_read := xs @ ys, wr_counted := wr_counted s @ []\<rparr>" using deny(1) by simp
  then show ?thesis by (rule overshoot_count [OF assms(1,2) deny(2,3)]) simp
next
  case (pass xs now ys n w)
  show ?thesis by (rule overshoot_count [OF assms(1,2) pass(2,3,1)]) (simp add: pass(4))
next
  case (recorded xs now ys)
  then show ?thesis using assms(1) by (auto simp: overshoot_inv_def Let_def wr_flight_def record_write_def)
next
  case (other w)
  then show ?thesis using assms(1) by (simp add: overshoot_inv_def Let_def wr_flight_def)
qed

lemma overshoot_reach:
  assumes "write_reach c i k w0 s" and "roc_usable c" and "1 \<le> k"
  shows "overshoot_inv c i k x s"
  using assms(1)
proof (induction rule: write_reach.induct)
  case start
  then show ?case using assms(2,3) by (simp add: overshoot_inv_def race_start_def wr_flight_def roc_usable_def)
next
  case (step s s')
  from overshoot_step [OF step.IH assms(2) step.hyps(2)] show ?case .
qed

text \<open>C4: With at most \<open>k\<close> calls of a key in flight, every closed interval of the window's
  length holds at most \<open>2 * (k - 1)\<close> admitted writes more than the limit, however the calls
  interleave; one call at a time keeps the limit.\<close>

theorem writes_overshoot:
  assumes "write_reach c i k w0 s" and "roc_usable c" and "1 \<le> k"
  shows "int (in_window x (WindowSeconds c * Second) (wr_admitted s)) \<le> MaxWritesPerWindow c + 2 * (int k - 1)"
  using overshoot_reach [OF assms, of x] assms(3) by (auto simp: overshoot_inv_def Let_def)

section \<open>The bound is exact\<close>

text \<open>States in which only one key has written.\<close>

definition only_key :: "uuid \<Rightarrow> time list \<Rightarrow> windows" where
  "only_key i ws = (\<lambda>j. if j = i then ws else [])"

lemma only_key_simps [simp]:
  "only_key i ws i = ws" "(only_key i ws)(i := us) = only_key i us" "only_key i [] = newWriteTracker"
  by (auto simp: only_key_def newWriteTracker_def fun_eq_iff)

abbreviation race_at :: "uuid \<Rightarrow> time \<Rightarrow> time list \<Rightarrow> time list \<Rightarrow> time list \<Rightarrow> time list \<Rightarrow> write_race" where
  "race_at i t ws rd ct ad \<equiv> \<lparr>wr_clock = t, wr_windows = only_key i ws, wr_read = rd, wr_counted = ct, wr_admitted = ad\<rparr>"

lemma enter_all:
  assumes "write_reach c i k w0 (race_at i t ws rd ct ad)" and "t \<le> now"
  shows "length rd + length ct + n \<le> k \<Longrightarrow> \<exists>t' \<le> now. write_reach c i k w0 (race_at i t' ws (rd @ replicate n now) ct ad)"
proof (induction n)
  case 0
  then show ?case using assms by auto
next
  case (Suc n)
  then obtain t' where t: "t' \<le> now" "write_reach c i k w0 (race_at i t' ws (rd @ replicate n now) ct ad)" by auto
  from write_reach.step [OF t(2) write_step.enter [of _ k now]] t(1) Suc.prems
  have "write_reach c i k w0 (race_at i now ws (rd @ replicate (Suc n) now) ct ad)"
    by (simp add: wr_flight_def replicate_append_same)
  then show ?case by blast
qed

lemma pass_one:
  assumes "write_reach c i k w0 (race_at i t ws (rd @ now # rd') ct ad)" and "roc_usable c"
    and "filter (\<lambda>u. now - WindowSeconds c * Second \<le> u) ws = ws'" and "int (length ws') < MaxWritesPerWindow c"
  shows "write_reach c i k w0 (race_at i t ws' (rd @ rd') (ct @ [now]) ad)"
proof -
  let ?s = "race_at i t ws (rd @ now # rd') ct ad"
  have "count_step c i now (wr_windows ?s) = (int (length ws'), only_key i ws')"
    by (simp add: count_step_eq [OF assms(2)] assms(3))
  from write_reach.step [OF assms(1) write_step.pass [OF _ this assms(4)]] show ?thesis by simp
qed

lemma pass_all:
  assumes "write_reach c i k w0 (race_at i t ws (replicate n now) ct ad)" and "roc_usable c"
    and "filter (\<lambda>u. now - WindowSeconds c * Second \<le> u) ws = ws" and "int (length ws) < MaxWritesPerWindow c"
  shows "write_reach c i k w0 (race_at i t ws [] (ct @ replicate n now) ad)"
  using assms(1)
proof (induction n arbitrary: ct)
  case (Suc n)
  have "write_reach c i k w0 (race_at i t ws ([] @ replicate n now) (ct @ [now]) ad)"
    by (rule pass_one [OF _ assms(2-4)]) (use Suc.prems in simp)
  then show ?case using Suc.IH [of "ct @ [now]"] by simp
qed simp

lemma record_all:
  "write_reach c i k w0 (race_at i t ws rd (ct @ replicate n now) ad) \<Longrightarrow>
   write_reach c i k w0 (race_at i t (ws @ replicate n now) rd ct (ad @ replicate n now))"
proof (induction n arbitrary: ws ad)
  case (Suc n)
  from write_reach.step [OF Suc.prems write_step.recorded [of _ "ct" now "replicate n now"]]
  have "write_reach c i k w0 (race_at i t (ws @ [now]) rd (ct @ replicate n now) (ad @ [now]))"
    by (simp add: record_write_def)
  from Suc.IH [OF this] show ?case by simp
qed simp

text \<open>\<open>n\<close> calls that enter together, count together and record together.\<close>

lemma round_at:
  assumes "write_reach c i k w0 (race_at i t ws [] [] ad)" and "roc_usable c" and "t \<le> now" and "n \<le> k"
    and "\<forall>u \<in> set ws. now - WindowSeconds c * Second \<le> u" and "int (length ws) < MaxWritesPerWindow c"
  shows "\<exists>t' \<le> now. write_reach c i k w0 (race_at i t' (ws @ replicate n now) [] [] (ad @ replicate n now))"
proof -
  obtain t' where t: "t' \<le> now" "write_reach c i k w0 (race_at i t' ws (replicate n now) [] ad)"
    using enter_all [OF assms(1,3), of n] assms(4) by auto
  have "filter (\<lambda>u. now - WindowSeconds c * Second \<le> u) ws = ws" using assms(5) by (simp add: filter_id_conv)
  from record_all [OF pass_all [OF t(2) assms(2) this assms(6)]] t(1) show ?thesis by auto
qed

lemma fill_window:
  assumes "roc_usable c" and "1 \<le> k"
  shows "int n \<le> MaxWritesPerWindow c \<Longrightarrow>
    \<exists>t \<le> 0. write_reach c i k newWriteTracker (race_at i t (replicate n 0) [] [] (replicate n 0))"
proof (induction n)
  case 0
  have "race_start newWriteTracker = race_at i 0 [] [] [] []" by (simp add: race_start_def)
  then show ?case using write_reach.start [of c i k newWriteTracker] by auto
next
  case (Suc n)
  then obtain t where t: "t \<le> 0" "write_reach c i k newWriteTracker (race_at i t (replicate n 0) [] [] (replicate n 0))" by auto
  have d: "0 \<le> WindowSeconds c * Second" using assms(1) by (simp add: roc_usable_def)
  from round_at [OF t(2) assms(1) t(1) assms(2)] d Suc.prems show ?case by (simp add: replicate_append_same)
qed

lemma in_window_replicate [simp]: "in_window x d (replicate n t) = (if x \<le> t \<and> t \<le> x + d then n else 0)"
  by (induction n) auto

theorem overshoot_attained:
  assumes "roc_usable c" and "1 \<le> k"
  shows "\<exists>s. write_reach c i k newWriteTracker s \<and>
    int (in_window 0 (WindowSeconds c * Second) (wr_admitted s)) = MaxWritesPerWindow c + 2 * (int k - 1)"
proof -
  let ?d = "WindowSeconds c * Second" and ?m = "nat (MaxWritesPerWindow c) - 1"
  have d: "0 \<le> ?d" and m: "int ?m < MaxWritesPerWindow c" using assms(1) by (auto simp: roc_usable_def)
  obtain t0 where t0: "t0 \<le> 0" "write_reach c i k newWriteTracker (race_at i t0 (replicate ?m 0) [] [] (replicate ?m 0))"
    using fill_window [OF assms, of ?m i] m by auto
  obtain t1 where t1: "t1 \<le> 0"
    "write_reach c i k newWriteTracker (race_at i t1 (replicate ?m 0 @ replicate k 0) [] [] (replicate ?m 0 @ replicate k 0))"
    using round_at [OF t0(2) assms(1) t0(1), of k] d m by auto
  obtain t2 where t2: "t2 \<le> ?d" "write_reach c i k newWriteTracker
      (race_at i t2 (replicate ?m 0 @ replicate k 0) (replicate (k - 1) ?d) [] (replicate ?m 0 @ replicate k 0))"
    using enter_all [OF t1(2), of ?d "k - 1"] t1(1) d by auto
  obtain t3 where "write_reach c i k newWriteTracker
      (race_at i t3 (replicate ?m 0 @ replicate k 0) (replicate (k - 1) ?d @ replicate 1 (?d + 1)) [] (replicate ?m 0 @ replicate k 0))"
    using enter_all [OF t2(2), of "?d + 1" 1] t2(1) assms(2) by auto
  then have "write_reach c i k newWriteTracker
      (race_at i t3 [] (replicate (k - 1) ?d) [?d + 1] (replicate ?m 0 @ replicate k 0))"
    using pass_one [of c i k newWriteTracker t3 _ "replicate (k - 1) ?d" "?d + 1" "[]" "[]" _ "[]"] assms(1) m by simp
  from record_all [OF pass_all [OF this assms(1)]] m
  have "write_reach c i k newWriteTracker
      (race_at i t3 (replicate (k - 1) ?d) [] [?d + 1] ((replicate ?m 0 @ replicate k 0) @ replicate (k - 1) ?d))" by simp
  then show ?thesis using d m assms(2) by (intro exI conjI) auto
qed

section \<open>Two windows\<close>

lemma two_windows_step:
  assumes "roc_config p = Some c" "roc_usable c" "po_PolicyType p = ''rate_of_change''" "3 \<le> MaxWritesPerWindow c"
    and "roc_config q = Some c'" "roc_usable c'" "po_PolicyType q = ''rate_of_change''" "2 \<le> MaxWritesPerWindow c'"
    and "write_of uni i r body"
    and "length (w i) \<le> 2" and "\<forall>u \<in> set (w i). u + WindowSeconds c' * Second < now"
  shows "\<exists>w'. evaluate_all uni zones r body now [p, q] w = (None, w') \<and> w' i = [now, now]"
proof -
  obtain key where key: "rq_APIKey r = Some key" "i = ak_ID key" and wr: "isWriteOperation uni body"
    using assms(9) by (auto simp: write_of_def)
  have t: "evaluate uni zones r body now p v = evaluateRateOfChange uni r p body now v"
    "evaluate uni zones r body now q v = evaluateRateOfChange uni r q body now v" for v
    using assms(3,7) by (simp_all add: evaluate_def)
  let ?kept = "filter (\<lambda>t. \<not> t < now - WindowSeconds c * Second) (w i)"
  have "length ?kept \<le> 2" using assms(10) length_filter_le [of _ "w i"] by (rule le_trans [rotated])
  then have l: "int (length ?kept) < MaxWritesPerWindow c" using assms(4) by linarith
  have d: "0 < WindowSeconds c' * Second" using assms(6) by (simp add: roc_usable_def)
  have "filter (\<lambda>t. \<not> t < now - WindowSeconds c' * Second) ?kept = []"
    using assms(11) by (auto simp: filter_empty_conv)
  then have k: "filter (\<lambda>t. \<not> t < now - WindowSeconds c' * Second) (?kept @ [now]) = [now]" using d by simp
  show ?thesis
    using l k wr assms(8) by (simp add: t key(2) evaluateRateOfChange_eq [OF assms(1,2) key(1)] evaluateRateOfChange_eq [OF assms(5,6) key(1)] Let_def)
qed

lemma longer_window_denies:
  assumes "roc_config p = Some c" "roc_usable c" "po_PolicyType p = ''rate_of_change''"
    and "\<forall>x \<in> set xs. write_of uni i (fst x) (fst (snd x))" and "sorted (map (snd \<circ> snd) xs)"
    and "MaxWritesPerWindow c < int (length xs)" and "\<forall>x \<in> set xs. t \<le> snd (snd x) \<and> snd (snd x) \<le> t + WindowSeconds c * Second"
  shows "engine_run uni zones [p] xs w \<noteq> replicate (length xs) None"
proof
  assume r: "engine_run uni zones [p] xs w = replicate (length xs) None"
  have "admitted_writes uni i xs (replicate (length xs) None) = map (snd \<circ> snd) xs"
    using assms(4) by (induction xs) simp_all
  moreover have "in_window t (WindowSeconds c * Second) (map (snd \<circ> snd) xs) = length xs"
    using assms(7) by (induction xs) simp_all
  moreover have "int (in_window t (WindowSeconds c * Second) (admitted_writes uni i xs (engine_run uni zones [p] xs w))) \<le> MaxWritesPerWindow c"
    by (rule engine_window [OF assms(1-3) _ _ assms(5)]) (simp_all add: only_roc_def)
  ultimately show False using assms(6) r by simp
qed

text \<open>C30: A policy with a short window takes a policy with a longer one out of force: behind a
  policy that allows at least three writes stands one of a shorter window that allows at least two.
  Neither ever denies writes of a key that are more than the short window apart, though the first
  alone denies some of them when more than its limit fall into its window.\<close>

theorem short_window_defeats_long:
  assumes "roc_config p = Some c" "roc_usable c" "po_PolicyType p = ''rate_of_change''" "3 \<le> MaxWritesPerWindow c"
    and "roc_config q = Some c'" "roc_usable c'" "po_PolicyType q = ''rate_of_change''" "2 \<le> MaxWritesPerWindow c'"
    and "\<forall>x \<in> set xs. write_of uni i (fst x) (fst (snd x))"
    and "successively (\<lambda>x y. snd (snd x) + WindowSeconds c' * Second < snd (snd y)) xs"
    and "w i = []"
  shows "engine_run uni zones [p, q] xs w = replicate (length xs) None \<and>
    (MaxWritesPerWindow c < int (length xs) \<and> (\<forall>x \<in> set xs. t \<le> snd (snd x) \<and> snd (snd x) \<le> t + WindowSeconds c * Second) \<longrightarrow>
       engine_run uni zones [p] xs w \<noteq> replicate (length xs) None)"
proof -
  have "length (w i) \<le> 2 \<Longrightarrow> (xs \<noteq> [] \<longrightarrow> (\<forall>u \<in> set (w i). u + WindowSeconds c' * Second < snd (snd (hd xs)))) \<Longrightarrow>
    engine_run uni zones [p, q] xs w = replicate (length xs) None" for w
    using assms(9,10)
  proof (induction xs arbitrary: w)
    case (Cons x xs)
    obtain w' where e: "evaluate_all uni zones (fst x) (fst (snd x)) (snd (snd x)) [p, q] w = (None, w')" "w' i = [snd (snd x), snd (snd x)]"
      using two_windows_step [OF assms(1-8), of uni i "fst x" "fst (snd x)" w "snd (snd x)" zones] Cons.prems by auto
    have "engine_run uni zones [p, q] xs w' = replicate (length xs) None"
      using Cons.prems(3,4) by (intro Cons.IH) (auto simp: e(2) successively_Cons)
    then show ?case by (simp add: e(1) del: evaluate_all.simps)
  qed simp
  then have "engine_run uni zones [p, q] xs w = replicate (length xs) None" using assms(11) by simp
  moreover have "sorted (map (snd \<circ> snd) xs)"
  proof -
    have d: "0 < WindowSeconds c' * Second" using assms(6) by (simp add: roc_usable_def)
    from assms(10) have "successively (\<le>) (map (snd \<circ> snd) xs)"
      unfolding successively_map by (rule successively_mono) (use d in auto)
    then show ?thesis by (simp add: successively_conv_sorted_wrt [OF transp_on_le])
  qed
  ultimately show ?thesis using longer_window_denies [OF assms(1-3,9)] by blast
qed

section \<open>Concrete runs\<close>

lemma demo_usable: "roc_usable \<lparr>MaxWritesPerWindow = 1, WindowSeconds = 60\<rparr>"
  by (simp add: roc_usable_def)

lemma writes_overshoot_witness:
  "\<exists>s. write_reach \<lparr>MaxWritesPerWindow = 1, WindowSeconds = 60\<rparr> 1 2 newWriteTracker s \<and>
     in_window 0 (60 * Second) (wr_admitted s) = 3 \<and> int (in_window 7 (60 * Second) (wr_admitted s)) \<le> 3"
proof -
  obtain s where s: "write_reach \<lparr>MaxWritesPerWindow = 1, WindowSeconds = 60\<rparr> 1 2 newWriteTracker s"
    "int (in_window 0 (60 * Second) (wr_admitted s)) = 3"
    using overshoot_attained [OF demo_usable, of 2 1] by auto
  from writes_overshoot [OF s(1) demo_usable, of 7] s show ?thesis by (intro exI [of _ s]) simp
qed

lemma hourly_usable: "roc_usable \<lparr>MaxWritesPerWindow = 3, WindowSeconds = 3600\<rparr>" "roc_usable \<lparr>MaxWritesPerWindow = 2, WindowSeconds = 60\<rparr>"
  by (simp_all add: roc_usable_def)

lemma short_window_defeats_long_witness:
  "let xs = map (\<lambda>n. (demo_request [], ''delete'', int n * (61 * Second))) [0..<20]
   in engine_run (\<lambda>s. s) (\<lambda>_. None) [roc_policy 3 3600, roc_policy 2 60] xs newWriteTracker = replicate 20 None \<and>
      engine_run (\<lambda>s. s) (\<lambda>_. None) [roc_policy 3 3600] xs newWriteTracker \<noteq> replicate 20 None"
proof -
  have i: "isWriteOperation (\<lambda>s. s) ''delete''"
    by (simp add: isWriteOperation_def writeIndicators_def ToLower_def is_ascii_def) code_simp
  let ?xs = "map (\<lambda>n. (demo_request [], ''delete'', int n * (61 * Second))) [0..<20]"
  have c: "roc_config (roc_policy 3 3600) = Some \<lparr>MaxWritesPerWindow = 3, WindowSeconds = 3600\<rparr>"
    "roc_config (roc_policy 2 60) = Some \<lparr>MaxWritesPerWindow = 2, WindowSeconds = 60\<rparr>"
    by (rule roc_policy_config; simp add: in_int64_def)+
  have t: "po_PolicyType (roc_policy m s) = ''rate_of_change''" for m s by (simp add: roc_policy_def)
  have u: "successively (\<lambda>x y. snd (snd x) + 60 * Second < snd (snd y)) ?xs"
    by (simp add: successively_map upt_rec)
  have o: "write_of (\<lambda>s. s) 3 (demo_request []) ''delete''" using i by (simp add: write_of_def demo_request_def demo_key_def)
  have "\<forall>x \<in> set ?xs. 0 \<le> snd (snd x) \<and> snd (snd x) \<le> 0 + 3600 * Second" by auto
  then show ?thesis
    using short_window_defeats_long [OF c(1) hourly_usable(1) t _ c(2) hourly_usable(2) t, of ?xs "\<lambda>s. s" 3 newWriteTracker "\<lambda>_. None" 0]
      o u by (simp add: newWriteTracker_def Let_def)
qed

end
