(* ===== verification/Propagation.thy ===== *)
theory Propagation
  imports GatewayProps "HOL-Library.Sublist"
begin

text \<open>
  When a change in the database reaches the running gateway. Requests and statements of other
  processes (the dashboard, keygen) alternate in any order. Permissions of a key and the shape
  of its bucket stay as the gateway first loaded them, whatever happens to the tables; policies
  are never more than the cache's 30 seconds behind.
\<close>

section \<open>What a request keeps of the process\<close>

text \<open>A property of the process that the plumbing around the checks and the checks themselves
  keep is kept by every request.\<close>

locale world_kept =
  fixes p :: "'u params" and Q :: "'u world \<Rightarrow> bool"
  assumes tick: "Q w \<Longrightarrow> Q (w\<lparr>w_env := snd (time_Now (w_env w))\<rparr>)"
    and noted: "Q (w\<lparr>w_ids := n\<rparr>) = Q w" "Q (w\<lparr>w_log := ls\<rparr>) = Q w" "Q (w\<lparr>w_met := m\<rparr>) = Q w"
      "Q (w\<lparr>w_audit := a\<rparr>) = Q w" "Q (w\<lparr>w_up := u\<rparr>) = Q w"
    and check: "g \<in> set (checks p) \<Longrightarrow> Q w \<Longrightarrow> Q (fst (g r w))"
begin

definition keeps :: "'u world handler \<Rightarrow> bool" where
  "keeps h \<longleftrightarrow> (\<forall>r w. Q w \<longrightarrow> Q (fst (h r w)))"

lemma keepsD: "keeps h \<Longrightarrow> Q w \<Longrightarrow> Q (fst (h r w))"
  by (simp add: keeps_def)

lemma keepsI: "(\<And>r w. Q w \<Longrightarrow> Q (fst (h r w))) \<Longrightarrow> keeps h"
  by (simp add: keeps_def)

lemma now_kept: "Q w \<Longrightarrow> Q (snd (world_now w))"
  by (simp add: world_now_def split_beta tick)

lemma id_kept: "Q w \<Longrightarrow> Q (snd (world_id w))"
  by (simp add: world_id_def noted)

lemma log_kept: "Q (log_info p l w) = Q w" "Q (snd (audit_log e w)) = Q w"
  by (simp_all add: log_info_def audit_log_def split_beta noted)

lemma proxy_kept: "keeps (proxy_handler p)"
  by (simp add: keeps_def proxy_handler_def split_beta noted)

lemma audit_kept:
  assumes "keeps h"
  shows "keeps (audit_Middleware world_now audit_log h)"
  by (rule keepsI) (simp add: audit_Middleware_def split_beta Let_def log_kept now_kept keepsD [OF assms] split: fin.split)

lemma guards_kept:
  assumes "\<And>g r w. g \<in> set gs \<Longrightarrow> Q w \<Longrightarrow> Q (fst (g r w))"
  shows "Q w \<Longrightarrow> Q (fst (run_guards gs r w))"
  using assms
proof (induction gs arbitrary: r w)
  case (Cons g gs)
  obtain w1 v where g: "g r w = (w1, v)" by fastforce
  have "Q w1" using Cons.prems(2) [of g w r] Cons.prems(1) g by simp
  then have "Q (fst (run_guards gs r1 w1))" for r1 using Cons.prems(2) by (intro Cons.IH) simp_all
  with \<open>Q w1\<close> g show ?case by (simp split: verdict.splits)
qed simp

lemma mcp_kept: "keeps (mcp_handler p)"
proof (cases "cf_DatabaseURL (p_cfg p) = []")
  case True
  then show ?thesis using proxy_kept by (simp add: mcp_handler_def)
next
  case False
  have a: "keeps (audited_proxy p)" using proxy_kept audit_kept by (simp add: audited_proxy_def)
  show ?thesis unfolding keeps_def
  proof (intro allI impI)
    fix r w assume "Q w"
    then have "Q (fst (run_guards (checks p) r w))" by (intro guards_kept check)
    with a show "Q (fst (mcp_handler p r w))"
      by (auto simp: mcp_handler_checks [OF False] keeps_def split: prod.splits verdict.splits)
  qed
qed

lemma outer_kept:
  assumes "keeps h"
  shows "keeps (RequestID world_id h)" "keeps (Logger world_now (log_info p) h)" "keeps (Recoverer h)"
    "keeps (metrics_Middleware world_now (\<lambda>f w. w\<lparr>w_met := f (w_met w)\<rparr>) pat h)"
proof -
  note k = now_kept id_kept log_kept noted keepsD [OF assms]
  show "keeps (RequestID world_id h)" by (rule keepsI) (simp add: RequestID_def split_beta Let_def k)
  show "keeps (Logger world_now (log_info p) h)" by (rule keepsI) (simp add: Logger_def split_beta Let_def k split: fin.split)
  show "keeps (Recoverer h)" by (rule keepsI) (simp add: Recoverer_def split_beta Let_def k split: fin.split)
  show "keeps (metrics_Middleware world_now (\<lambda>f w. w\<lparr>w_met := f (w_met w)\<rparr>) pat h)"
    by (rule keepsI) (simp add: metrics_Middleware_def split_beta Let_def k split: fin.split)
qed

lemma gateway_kept:
  assumes "keeps other"
  shows "keeps (gateway p other)"
proof -
  have "keeps (router p other)"
    using assms mcp_kept by (auto simp: keeps_def router_def routes_def)
  then show ?thesis by (simp add: gateway_def outer_middlewares_def Chain_def outer_kept)
qed

end

section \<open>The gateway beside other writers\<close>

text \<open>A run is a list of requests to the gateway and statements of other processes.\<close>

datatype sys_event = Call request | Change stmt

definition sys_step :: "'u params \<Rightarrow> 'u world handler \<Rightarrow> sys_event \<Rightarrow> 'u world \<Rightarrow> 'u world" where
  "sys_step p other x w = (case x of Call r \<Rightarrow> fst (gateway p other r w) | Change st \<Rightarrow> w\<lparr>w_db := exec st (w_db w)\<rparr>)"

definition sys_run :: "'u params \<Rightarrow> 'u world handler \<Rightarrow> sys_event list \<Rightarrow> 'u world \<Rightarrow> 'u world" where
  "sys_run p other xs w = fold (sys_step p other) xs w"

definition changes :: "sys_event list \<Rightarrow> stmt list" where
  "changes xs = concat (map (\<lambda>x. case x of Call r \<Rightarrow> [] | Change st \<Rightarrow> [st]) xs)"

text \<open>What answers outside the routes (the router's 404) leaves the process alone.\<close>

definition inert :: "'u world handler \<Rightarrow> bool" where
  "inert h \<longleftrightarrow> (\<forall>r w. fst (h r w) = w)"

lemma sys_run_simps [simp]:
  "sys_run p other [] w = w" "sys_run p other (x # xs) w = sys_run p other xs (sys_step p other x w)"
  "sys_run p other (xs @ ys) w = sys_run p other ys (sys_run p other xs w)"
  by (simp_all add: sys_run_def)

context world_kept
begin

lemma run_kept:
  assumes "inert other" and "\<And>st w. Q w \<Longrightarrow> Q (w\<lparr>w_db := exec st (w_db w)\<rparr>)"
  shows "Q w \<Longrightarrow> Q (sys_run p other xs w)"
proof (induction xs arbitrary: w)
  case (Cons x xs)
  have "keeps (gateway p other)" using assms(1) by (intro gateway_kept keepsI) (simp add: inert_def)
  then have "Q (sys_step p other x w)"
    using Cons.prems assms(2) by (cases x) (simp_all add: sys_step_def keepsD)
  then show ?case using Cons.IH by simp
qed simp

end

lemmas check_defs = checks_def auth_check_def rate_check_def rbac_check_def policy_check_def lift_guard_def

interpretation db_kept: world_kept p "\<lambda>w. w_db w = db \<and> w_conn w" for p db
  by unfold_locales (auto simp: check_defs split_beta split: if_splits)

lemma gateway_db: "inert other \<Longrightarrow> w_conn w \<Longrightarrow> w_db (fst (gateway p other r w)) = w_db w \<and> w_conn (fst (gateway p other r w))"
  using db_kept.gateway_kept [of "w_db w" other p] by (simp add: db_kept.keeps_def inert_def)

lemma sys_run_db:
  assumes "inert other" and "w_conn w"
  shows "w_db (sys_run p other xs w) = fold exec (changes xs) (w_db w) \<and> w_conn (sys_run p other xs w)"
  using assms(2)
proof (induction xs arbitrary: w)
  case (Cons x xs)
  show ?case
    using Cons.IH [of "sys_step p other x w"] gateway_db [OF assms(1) Cons.prems] Cons.prems
    by (cases x) (simp_all add: sys_step_def changes_def)
qed (simp add: changes_def)

section \<open>Keys\<close>

text \<open>C6: A revoked key is refused by the very next request and by every later one, whatever requests
  and statements come between, unless a statement creates a key of the same hash; the answer is a 401
  that leaves everything but the clock as it was.\<close>

theorem revocation_arrives:
  assumes "inert other" and "w_conn w" and "cf_DatabaseURL (p_cfg p) \<noteq> []"
    and "db_inv (w_db w)" and "GetAPIKeyByHash (HashKey token) (w_db w) = Inr key"
    and "\<forall>st \<in> set (changes xs). \<not> creates_hash (HashKey token) st"
    and "header_Get r ''Authorization'' = ''Bearer '' @ token"
    and "v = sys_run p other (Change (SRevokeAPIKey n (ak_ID key)) # xs) w"
  shows "\<exists>e es. mcp_handler p r v = (v\<lparr>w_env := e\<rparr>, es, Returned) \<and> final_status es = 401"
proof (rule unauthenticated_untouched [OF assms(3)])
  have "w_db v = fold exec (changes xs) (snd (RevokeAPIKey n (ak_ID key) (w_db w)))"
    using sys_run_db [OF assms(1,2), of p "Change (SRevokeAPIKey n (ak_ID key)) # xs"] by (simp add: assms(8) changes_def)
  then have "hash_dead (HashKey token) (w_db v)"
    using exec_all_hash_dead [OF revoke_hash_dead [OF assms(4,5)] assms(6)] by simp
  then show "\<not> ak_Active k" if "header_Get r ''Authorization'' = ''Bearer '' @ t" "GetAPIKeyByHash (HashKey t) (w_db v) = Inr k" for t k
    using that assms(7) hash_dead_lookup by fastforce
qed

section \<open>Permissions\<close>

lemma rbac_guard_cached:
  assumes "cache s i = Some perms"
  shows "cache (fst (rbac_guard loader r s)) i = Some perms"
proof -
  have "cache (snd (loadPermissions loader j s)) i = Some perms" for j
    using assms loadPermissions_other [of i j loader s] by (cases "j = i") (simp_all add: loadPermissions_def)
  with assms show ?thesis by (auto simp: rbac_guard_def IsAllowed_def Let_def split_beta split: option.split)
qed

interpretation perms_kept: world_kept p "\<lambda>w. cache (w_rbac w) i = Some perms" for p i perms
  by unfold_locales (auto simp: check_defs split_beta rbac_guard_cached split: if_splits)

text \<open>C9: Once the gateway has loaded the permissions of a key, no change of roles, permissions or
  assignments in the database reaches it: whatever statements run, between whatever requests, it
  decides by what it loaded first.\<close>

theorem role_changes_never_arrive:
  assumes "inert other" and "w_conn w" and "cache (w_rbac w) i = Some perms"
  shows "w_db (sys_run p other xs w) = fold exec (changes xs) (w_db w) \<and>
    IsAllowed loader i res act (w_rbac (sys_run p other xs w)) = (permits perms res act, w_rbac (sys_run p other xs w))"
proof -
  have "cache (w_rbac (sys_run p other xs w)) i = Some perms"
    by (rule perms_kept.run_kept [OF assms(1) _ assms(3)]) simp
  then show ?thesis using sys_run_db [OF assms(1,2)] by (simp add: IsAllowed_def loadPermissions_def)
qed

section \<open>Rate limits\<close>

lemma Allow_shape:
  assumes "buckets l i = Some b"
  shows "\<exists>b'. buckets (fst (snd (Allow oor loader j (l, e)))) i = Some b' \<and> capacity b' = capacity b \<and> rate b' = rate b"
proof (cases "j = i")
  case True
  with assms show ?thesis by (simp add: Allow_def getBucket_def Let_def split_beta allow_frame)
next
  case False
  then have "buckets (fst (snd (getBucket loader j (l, e)))) i = Some b"
    using assms by (simp add: getBucket_def loadConfig_def Let_def split_beta split: option.split sum.split)
  with False show ?thesis by (simp add: Allow_def Let_def split_beta)
qed

lemma rl_guard_shape:
  assumes "buckets (fst s) i = Some b"
  shows "\<exists>b'. buckets (fst (fst (rl_guard oor loader r s))) i = Some b' \<and> capacity b' = capacity b \<and> rate b' = rate b"
  using assms Allow_shape [of "fst s" i b oor loader _ "snd s"]
  by (auto simp: rl_guard_def Let_def split_beta split: option.split)

interpretation limits_kept: world_kept p "\<lambda>w. \<exists>b. buckets (w_lim w) i = Some b \<and> capacity b = cap \<and> rate b = rt" for p i cap rt
proof
  fix g r and w :: "'a world"
  assume "g \<in> set (checks p)" and "\<exists>b. buckets (w_lim w) i = Some b \<and> capacity b = cap \<and> rate b = rt"
  then show "\<exists>b. buckets (w_lim (fst (g r w))) i = Some b \<and> capacity b = cap \<and> rate b = rt"
    using rl_guard_shape [of "(w_lim w, w_env w)" i]
    by (auto simp: check_defs split_beta split: if_splits)
qed simp_all

theorem limit_changes_never_arrive:
  assumes "inert other" and "w_conn w" and "buckets (w_lim w) i = Some b"
  shows "w_db (sys_run p other xs w) = fold exec (changes xs) (w_db w) \<and>
    (\<exists>b'. buckets (w_lim (sys_run p other xs w)) i = Some b' \<and> capacity b' = capacity b \<and> rate b' = rate b)"
proof -
  have "\<exists>b'. buckets (w_lim w) i = Some b' \<and> capacity b' = capacity b \<and> rate b' = rate b" using assms(3) by simp
  then have "\<exists>b'. buckets (w_lim (sys_run p other xs w)) i = Some b' \<and> capacity b' = capacity b \<and> rate b' = rate b"
    by (rule limits_kept.run_kept [OF assms(1), rotated]) simp
  with sys_run_db [OF assms(1,2)] show ?thesis by simp
qed

section \<open>Policies\<close>

text \<open>The cached policies are as old as the last load, or those of a database of \<open>D\<close>.\<close>

definition loaded_from :: "database set \<Rightarrow> time \<Rightarrow> Engine \<Rightarrow> bool" where
  "loaded_from D t0 e \<longleftrightarrow> en_cacheTTL e = 30 * Second \<and>
     (en_lastLoad e \<le> t0 \<or> (\<exists>db \<in> D. en_policies e = ListEnabledPolicies db))"

lemma loadPolicies_loaded:
  assumes "loaded_from D t0 e" and "db \<in> D"
  shows "loaded_from D t0 (fst (snd (loadPolicies (Inr (ListEnabledPolicies db)) (e, c))))"
  using assms by (auto simp: loaded_from_def loadPolicies_def Let_def split_beta)

lemma policy_guard_loaded:
  assumes "loaded_from D t0 (fst s)" and "db \<in> D"
  shows "loaded_from D t0 (fst (fst (policy_guard uni zones (Inr (ListEnabledPolicies db)) r s)))"
proof -
  have w: "loaded_from D t0 (e\<lparr>en_windows := v\<rparr>) = loaded_from D t0 e" for e v by (simp add: loaded_from_def)
  show ?thesis
    using loadPolicies_loaded [OF assms, of "snd s"]
    by (simp add: policy_guard_def Let_def split_beta w split: option.split)
qed

interpretation policies_kept: world_kept p "\<lambda>w. w_conn w \<and> w_db w \<in> D \<and> loaded_from D t0 (w_eng w)" for p D t0
proof
  fix g r and w :: "'a world"
  assume g: "g \<in> set (checks p)" and w: "w_conn w \<and> w_db w \<in> D \<and> loaded_from D t0 (w_eng w)"
  have "loaded_from D t0 (fst (fst (policy_guard uni zones (Inr (ListEnabledPolicies (w_db w))) r (w_eng w, c))))" for uni zones c
    by (rule policy_guard_loaded) (use w in simp_all)
  with g w show "w_conn (fst (g r w)) \<and> w_db (fst (g r w)) \<in> D \<and> loaded_from D t0 (w_eng (fst (g r w)))"
    by (auto simp: check_defs query_def split_beta split: if_splits)
qed simp_all

lemma sys_run_loaded:
  assumes "inert other" and "w_conn w" and "loaded_from {} t0 (w_eng w)"
  shows "w_conn (sys_run p other xs w) \<and> loaded_from {w_db (sys_run p other us w) | us. prefix us xs} t0 (w_eng (sys_run p other xs w))"
proof (induction xs rule: rev_induct)
  case (snoc x xs)
  let ?D = "{w_db (sys_run p other us w) | us. prefix us (xs @ [x])}" and ?v = "sys_run p other xs w"
  have mono: "loaded_from {w_db (sys_run p other us w) | us. prefix us xs} t0 e \<Longrightarrow> loaded_from ?D t0 e" for e
    unfolding loaded_from_def using prefix_prefix by blast
  have v: "w_conn ?v \<and> w_db ?v \<in> ?D \<and> loaded_from ?D t0 (w_eng ?v)" using snoc.IH mono by auto
  have "policies_kept.keeps ?D t0 (gateway p other)"
    using assms(1) by (intro policies_kept.gateway_kept policies_kept.keepsI) (simp add: inert_def)
  from policies_kept.keepsD [OF this v] v show ?case by (cases x) (simp_all add: sys_step_def)
qed (use assms(2,3) in \<open>simp add: loaded_from_def\<close>)

text \<open>C10: A change of the policies is in force after 30 seconds at the latest: what a request is
  checked against 30 seconds or more after the moment the last load is known to precede is what
  the database held at some point since then.\<close>

theorem policy_changes_arrive:
  assumes "inert other" and "w_conn w" and "en_cacheTTL (w_eng w) = 30 * Second" and "en_lastLoad (w_eng w) \<le> t0"
    and "t0 + 30 * Second \<le> now_at e (ticks e)"
  shows "\<exists>us. prefix us xs \<and>
    fst (loadPolicies (query (sys_run p other xs w) (\<lambda>db. Inr (ListEnabledPolicies db))) (w_eng (sys_run p other xs w), e)) =
      ListEnabledPolicies (fold exec (changes us) (w_db w))"
proof -
  let ?v = "sys_run p other xs w"
  have l: "w_conn ?v" "loaded_from {w_db (sys_run p other us w) | us. prefix us xs} t0 (w_eng ?v)"
    using sys_run_loaded [OF assms(1,2), of t0 p xs] assms(3,4) by (simp_all add: loaded_from_def)
  have fresh: "\<not> en_lastLoad (w_eng ?v) \<le> t0" if "time_Sub (now_at e (ticks e)) (en_lastLoad (w_eng ?v)) < 30 * Second"
    using that assms(5) by (auto simp: time_Sub_def)
  have "\<exists>us. prefix us xs \<and> fst (loadPolicies (Inr (ListEnabledPolicies (w_db ?v))) (w_eng ?v, e)) = ListEnabledPolicies (w_db (sys_run p other us w))"
    using l(2) fresh by (auto simp: loadPolicies_def loaded_from_def time_Now_def Let_def split_beta)
  then show ?thesis using sys_run_db [OF assms(1,2)] l(1) by (simp add: query_def)
qed

section \<open>Concrete runs\<close>

text \<open>The process after it has loaded the key \<open>1\<close>: its permissions, its bucket and, at the start
  of time, the policies.\<close>

definition loaded_world :: "nat world" where
  "loaded_world = demo_world\<lparr>w_rbac := \<lparr>cache = (\<lambda>_. Some (Some [\<lparr>pr_Resource = ''tool:*'', pr_Action = ''execute''\<rparr>]))\<rparr>,
     w_lim := (NewLimiter DefaultConfig)\<lparr>buckets := (\<lambda>_. Some \<lparr>tokens = 1, capacity = 10, rate = 1, lastFill = 0\<rparr>)\<rparr>\<rparr>"

definition not_found :: "nat world handler" where
  "not_found r w = (w, [WriteHeader 404], Returned)"

lemma loaded_world_simps [simp]:
  "inert not_found" "w_conn loaded_world" "cache (w_rbac loaded_world) i = Some (Some [\<lparr>pr_Resource = ''tool:*'', pr_Action = ''execute''\<rparr>])"
  "buckets (w_lim loaded_world) i = Some \<lparr>tokens = 1, capacity = 10, rate = 1, lastFill = 0\<rparr>"
  "w_eng loaded_world = NewEngine"
  by (simp_all add: inert_def not_found_def loaded_world_def demo_world_def)

lemma revocation_arrives_witness:
  "\<exists>e es v. v = sys_run (demo_params ''db'' None) not_found [Change (SRevokeAPIKey 5 1), Call (bearer_request ''Bearer k'' []), Change (SDeleteRole 4)] demo_world \<and>
     mcp_handler (demo_params ''db'' None) (bearer_request ''Bearer k'' []) v = (v\<lparr>w_env := e\<rparr>, es, Returned) \<and> final_status es = 401"
proof -
  have k: "ak_ID (key_row ''k'') = 1" by (simp add: key_row_def)
  have d: "w_db demo_world = key_db ''k''" "w_conn demo_world" by (simp_all add: demo_world_def)
  show ?thesis
    using revocation_arrives [of not_found demo_world "demo_params ''db'' None" "''k''" "key_row ''k''"
        "[Call (bearer_request ''Bearer k'' []), Change (SDeleteRole 4)]" "bearer_request ''Bearer k'' []" _ 5, OF _ _ _ _ _ _ _ refl]
      key_db_inv [of "''k''"] key_db_lookup [of "''k''"] demo_bearer [of "''k''" "[]"]
    by (simp add: k d changes_def creates_hash_def del: sys_run_simps(2))
qed

lemma role_changes_never_arrive_witness:
  "fst (IsAllowed (\<lambda>_. Inr (Some [])) 1 ''tool:rm'' ''execute'' (w_rbac (sys_run (demo_params ''db'' None) not_found
     [Change (SDeleteRole 2), Call (bearer_request ''Bearer k'' []), Change (SDeleteAPIKey 1)] loaded_world)))"
  using role_changes_never_arrive [of not_found loaded_world 1 "Some [\<lparr>pr_Resource = ''tool:*'', pr_Action = ''execute''\<rparr>]"
    "demo_params ''db'' None" "[Change (SDeleteRole 2), Call (bearer_request ''Bearer k'' []), Change (SDeleteAPIKey 1)]"
    "\<lambda>_. Inr (Some [])" "''tool:rm''" "''execute''"]
  by (simp add: permits_def MatchPattern_def del: sys_run_simps(2))

lemma limit_changes_never_arrive_witness:
  "\<exists>b. buckets (w_lim (sys_run (demo_params ''db'' None) not_found [Call (bearer_request ''Bearer k'' [])] loaded_world)) 1 = Some b \<and> capacity b = 10"
  using limit_changes_never_arrive [of not_found loaded_world 1 _ "demo_params ''db'' None" "[Call (bearer_request ''Bearer k'' [])]"]
  by (auto simp del: sys_run_simps(2))

lemma policy_changes_arrive_witness:
  "\<exists>us. prefix us [Change (STogglePolicy 5 9), Call (bearer_request ''Bearer k'' [])] \<and>
     fst (loadPolicies (query (sys_run (demo_params ''db'' None) not_found [Change (STogglePolicy 5 9), Call (bearer_request ''Bearer k'' [])] loaded_world)
       (\<lambda>db. Inr (ListEnabledPolicies db))) (w_eng (sys_run (demo_params ''db'' None) not_found
         [Change (STogglePolicy 5 9), Call (bearer_request ''Bearer k'' [])] loaded_world), \<lparr>now_at = (\<lambda>_. 30 * Second), ticks = 0\<rparr>)) =
     ListEnabledPolicies (fold exec (changes us) (w_db loaded_world))"
  by (rule policy_changes_arrive [where ?t0.0 = 0]) (simp_all add: NewEngine_def zero_time_def)

end
