(* ===== verification/GatewayMetrics.thy ===== *)
theory GatewayMetrics
  imports GatewayProps
begin

text \<open>
  What the counters of \<open>internal/metrics\<close> say of a run of the gateway: the requests and errors by
  method, route and status are those of the answers the clients got.
\<close>

section \<open>Handlers that answer\<close>

definition audit_open :: "'u world \<Rightarrow> bool" where
  "audit_open w \<longleftrightarrow> \<not> ch_closed (au_entries (w_audit w))"

text \<open>A handler that returns, with its status written first, and leaves the metrics alone, as long
  as the audit log is open.\<close>

definition plain :: "'u world handler \<Rightarrow> bool" where
  "plain h \<longleftrightarrow> (\<forall>r w w' es f. audit_open w \<longrightarrow> h r w = (w', es, f) \<longrightarrow>
     w_met w' = w_met w \<and> audit_open w' \<and> f = Returned \<and> writes_status_first es)"

lemma plainD:
  assumes "plain h" and "h r w = (w', es, f)" and "audit_open w"
  shows "w_met w' = w_met w" and "audit_open w'" and "f = Returned" and "writes_status_first es"
  using assms unfolding plain_def by blast+

definition answers_whole :: "'u round_trip \<Rightarrow> bool" where
  "answers_whole rp \<longleftrightarrow> (\<forall>u r s a. fst (rp u r s) = Some a \<longrightarrow> \<not> us_aborts a \<and> 200 \<le> us_status a)"

lemma status_after_headers:
  "writes_status_first (map (\<lambda>(k, v). SetHeader k v) hs @ es) = writes_status_first es"
  by (induction hs) auto

lemma plain_proxy:
  assumes "answers_whole (p_rp p)"
  shows "plain (proxy_handler p)"
  unfolding plain_def
proof (intro allI impI)
  fix r w w' es f
  assume o: "audit_open w" and h: "proxy_handler p r w = (w', es, f)"
  let ?d = "Director (p_url p) (r\<lparr>rq_Body := map_option (max_bytes maxRequestBody) (rq_Body r)\<rparr>)"
  obtain a u where a: "p_rp p (p_url p) ?d (w_up w) = (a, u)" by fastforce
  have "a = Some q \<Longrightarrow> \<not> us_aborts q \<and> 200 \<le> us_status q" for q
    using assms a unfolding answers_whole_def by (metis fst_conv)
  with o h a show "w_met w' = w_met w \<and> audit_open w' \<and> f = Returned \<and> writes_status_first es"
    by (cases a) (auto simp: proxy_handler_def proxy_ServeHTTP_def http_Error_def Let_def audit_open_def status_after_headers)
qed

lemma world_now_frame [simp]:
  "w_met (snd (world_now w)) = w_met w" "audit_open (snd (world_now w)) = audit_open w"
  by (simp_all add: world_now_def audit_open_def split_beta)

lemma audit_open_frame [simp]:
  "audit_open (w\<lparr>w_met := m\<rparr>) = audit_open w" "audit_open (w\<lparr>w_ids := n\<rparr>) = audit_open w" "audit_open (w\<lparr>w_log := ls\<rparr>) = audit_open w"
  "audit_open (log_info p e w) = audit_open w" "w_met (log_info p e w) = w_met w"
  by (simp_all add: audit_open_def log_info_def)

lemma audit_log_frame:
  "w_met (snd (audit_log e w)) = w_met w"
  "audit_open w \<Longrightarrow> audit_open (snd (audit_log e w)) \<and> fst (audit_log e w) \<noteq> None"
  by (auto simp: audit_log_def audit_open_def Log_def try_send_def split: prod.splits if_splits)

lemma plain_audit:
  assumes "plain h"
  shows "plain (audit_Middleware world_now audit_log h)"
  unfolding plain_def
proof (intro allI impI)
  fix r w w' es f
  assume o: "audit_open w" and a: "audit_Middleware world_now audit_log h r w = (w', es, f)"
  obtain b r1 where r1: "audit_readAndRestore r = (b, r1)" by fastforce
  obtain w1 es1 f1 where h: "h r1 (snd (world_now w)) = (w1, es1, f1)" by (metis prod.exhaust)
  note p = plainD [OF assms h]
  from a p o show "w_met w' = w_met w \<and> audit_open w' \<and> f = Returned \<and> writes_status_first es"
    using audit_log_frame [where w = "snd (world_now w1)"]
    by (auto simp: audit_Middleware_def Let_def split_beta r1 h)
qed

lemma plain_audited: "answers_whole (p_rp p) \<Longrightarrow> plain (audited_proxy p)"
  by (simp add: audited_proxy_def plain_audit plain_proxy)

text \<open>The checks write the status of a denial first.\<close>

lemma deny_status_first [simp]: "400 \<le> st \<Longrightarrow> writes_status_first (deny_json st code msg)"
  by (simp add: deny_json_def)

lemma check_status_first:
  "auth_check r w = (w', Reject es) \<Longrightarrow> writes_status_first es"
  "rate_check oor r w = (w', Reject es) \<Longrightarrow> writes_status_first es"
  "rbac_check r w = (w', Reject es) \<Longrightarrow> writes_status_first es"
  "policy_check uni zones r w = (w', Reject es) \<Longrightarrow> writes_status_first es"
  by (auto simp: auth_check_def rate_check_def rbac_check_def policy_check_def lift_guard_def auth_guard_def rl_guard_def
      rbac_guard_def policy_guard_def writeAuthError_def writePolicyDenied_def Let_def
      split: prod.splits sum.splits option.splits if_splits)

lemma plain_mcp:
  assumes "answers_whole (p_rp p)"
  shows "plain (mcp_handler p)"
proof (cases "cf_DatabaseURL (p_cfg p) = []")
  case True
  then show ?thesis using plain_proxy [OF assms] by (simp add: mcp_handler_def)
next
  case False
  show ?thesis unfolding plain_def
  proof (intro allI impI)
    fix r w w' es f
    assume o: "audit_open w" and m: "mcp_handler p r w = (w', es, f)"
    obtain w1 v where g: "run_guards (checks p) r w = (w1, v)" by fastforce
    have f: "w_met w1 = w_met w" "audit_open w1"
      using checks_rest [of p r w] g o by (simp_all add: world_rest_def audit_open_def)
    show "w_met w' = w_met w \<and> audit_open w' \<and> f = Returned \<and> writes_status_first es"
    proof (cases v)
      case (Pass r1)
      with m g False have "audited_proxy p r1 w1 = (w', es, f)" by (simp add: mcp_handler_checks)
      from plainD [OF plain_audited [OF assms] this f(2)] f(1) show ?thesis by simp
    next
      case (Reject es1)
      with m g False have e: "w' = w1" "es = es1" "f = Returned" by (simp_all add: mcp_handler_checks)
      obtain c r0 w0 where "c \<in> set (checks p)" "c r0 w0 = (w1, Reject es1)" using run_guards_reject [of "checks p"] g Reject by blast
      then have "writes_status_first es1"
        by (auto simp: checks_def split: if_splits dest: check_status_first)
      with e f show ?thesis by simp
    qed
  qed
qed

lemma plain_router:
  assumes "answers_whole (p_rp p)" and "plain other"
  shows "plain (router p other)"
proof -
  have fixed: "plain (\<lambda>r w. (w, es w, Returned))" if "\<And>w. writes_status_first (es w)" for es
    using that by (simp add: plain_def)
  have st: "writes_status_first Healthz" "writes_status_first (Readyz c)" "writes_status_first (admin_health b)" for c b
    by (auto simp: Healthz_def Readyz_def admin_health_def encode_map_def split: option.splits bool.splits)
  have rt: "plain h" if "routes p m path = Some h" for m path h
    using that plain_mcp [OF assms(1)] fixed [of "\<lambda>_. Healthz"] fixed [of "\<lambda>w. Readyz (w_chk w)"] fixed [of "\<lambda>w. admin_health (w_conn w)"]
    by (auto simp: routes_def st split: if_splits)
  show ?thesis unfolding plain_def
  proof (intro allI impI)
    fix r w w' es f
    assume o: "audit_open w" and h: "router p other r w = (w', es, f)"
    show "w_met w' = w_met w \<and> audit_open w' \<and> f = Returned \<and> writes_status_first es"
    proof (cases "routes p (rq_Method r) (rq_Path r)")
      case None
      then show ?thesis using plainD [OF assms(2) _ o] h by (simp add: router_def)
    next
      case (Some g)
      then show ?thesis using plainD [OF rt [OF Some] _ o] h by (simp add: router_def)
    qed
  qed
qed

section \<open>One request\<close>

definition label :: "'u params \<Rightarrow> request \<times> response \<Rightarrow> string \<times> string \<times> string" where
  "label p a = (rq_Method (fst a), (if p_pattern p (fst a) = [] then ''unknown'' else p_pattern p (fst a)), Itoa (the (rp_status (snd a))))"

definition failed :: "request \<times> response \<Rightarrow> bool" where
  "failed a \<longleftrightarrow> 400 \<le> the (rp_status (snd a))"

text \<open>What one request adds to the metrics.\<close>

definition adds :: "'u params \<Rightarrow> (request \<times> response) list \<Rightarrow> Metrics \<Rightarrow> Metrics \<Rightarrow> bool" where
  "adds p as m m' \<longleftrightarrow> ActiveConnections m' = ActiveConnections m \<and>
     (\<forall>l. RequestsTotal m' l = RequestsTotal m l + count_list (map (label p) as) l) \<and>
     (\<forall>l. ErrorsTotal m' l = ErrorsTotal m l + count_list (map (label p) (filter failed as)) l) \<and>
     (\<forall>k. length (RequestDuration m' k) = length (RequestDuration m k) + count_list (map (\<lambda>a. (fst (label p a), fst (snd (label p a)))) as) k)"

lemma adds_append: "adds p as m m1 \<Longrightarrow> adds p bs m1 m2 \<Longrightarrow> adds p (as @ bs) m m2"
  by (simp add: adds_def)

lemma adds_Nil [simp]: "adds p [] m m"
  by (simp add: adds_def)


lemma recorded_adds:
  assumes "m1 = inc_active 1 m" and "the (rp_status a) = c"
  shows "adds p [(r, a)] m (inc_active (- 1) (record_request (rq_Method r) (if p_pattern p r = [] then ''unknown'' else p_pattern p r) c d m1))"
  using assms by (simp add: adds_def inc_active_def record_request_def label_def failed_def Let_def)

lemma client_status:
  assumes "writes_status_first es"
  shows "the (rp_status (respond (SetHeader k v # es))) = captured_status es"
  using captured_final_aux [OF assms, of "apply_ev fresh_response (SetHeader k v)"]
  by (simp add: respond_def fresh_response_def Let_def)

lemma gateway_adds:
  assumes "cf_MetricsEnabled (p_cfg p)" and "plain (router p other)" and "\<And>r i. p_pattern p (r\<lparr>rq_RequestID := i\<rparr>) = p_pattern p r"
    and "audit_open w" and "gateway p other r w = (w', es, f)"
  shows "adds p [(r, respond es)] (w_met w) (w_met w') \<and> audit_open w'"
proof -
  let ?h = "header_Get r ''X-Request-Id''"
  obtain i w0 where i: "(if ?h = [] \<or> maxRequestIDLen < length ?h then world_id w else (?h, w)) = (i, w0)" by fastforce
  have w0: "w_met w0 = w_met w" "audit_open w0" using i assms(4) by (auto simp: world_id_def split: if_splits)
  let ?r = "r\<lparr>rq_RequestID := Some i\<rparr>" and ?w1 = "snd (world_now w0)"
  let ?w2 = "snd (world_now (?w1\<lparr>w_met := inc_active 1 (w_met ?w1)\<rparr>))"
  obtain w3 es3 f3 where h: "router p other ?r ?w2 = (w3, es3, f3)" by (metis prod.exhaust)
  have o: "audit_open ?w2" using w0 by simp
  note pl = plainD [OF assms(2) h o]
  have met: "w_met w3 = inc_active 1 (w_met w)" using pl(1) w0 by simp
  have g: "es = SetHeader ''X-Request-Id'' i # es3 \<and> audit_open w' \<and>
      (\<exists>d. w_met w' = inc_active (- 1) (record_request (rq_Method r) (if p_pattern p r = [] then ''unknown'' else p_pattern p r) (captured_status es3) d (w_met w3)))"
    using assms(1,3,5) pl(2,3) i h
    by (auto simp: gateway_def outer_middlewares_def Chain_def RequestID_def Logger_def Recoverer_def metrics_Middleware_def
        Let_def split_beta)
  then obtain d where "w_met w' = inc_active (- 1) (record_request (rq_Method r) (if p_pattern p r = [] then ''unknown'' else p_pattern p r) (captured_status es3) d (w_met w3))"
    by blast
  with recorded_adds [OF met client_status [OF pl(4), of "''X-Request-Id''" i], of p r] g show ?thesis by simp
qed

lemma gateway_status:
  assumes "cf_MetricsEnabled (p_cfg p)" and "\<And>i v. \<exists>v'. router p other (r\<lparr>rq_RequestID := i\<rparr>) v = (v', es, Returned)"
    and "writes_status_first es"
  shows "the (rp_status (respond (fst (snd (gateway p other r w))))) = captured_status es"
proof -
  let ?m = "metrics_Middleware world_now (\<lambda>f w. w\<lparr>w_met := f (w_met w)\<rparr>) (p_pattern p) (router p other)"
  have m: "fst (snd (Recoverer ?m (r\<lparr>rq_RequestID := i\<rparr>) v)) = es" for i v
    using assms(2) [of i "snd (world_now (v\<lparr>w_met := inc_active 1 (w_met v)\<rparr>))"]
    by (auto simp: Recoverer_def metrics_Middleware_def Let_def split_beta)
  have "gateway p other = RequestID world_id (Logger world_now (log_info p) (Recoverer ?m))"
    using assms(1) by (simp add: gateway_def outer_middlewares_def Chain_def)
  then have "\<exists>i. fst (snd (gateway p other r w)) = SetHeader ''X-Request-Id'' i # es"
    by (simp add: RequestID_def Let_def split_beta Logger_events m)
  then show ?thesis using client_status [OF assms(3)] by auto
qed

section \<open>Runs\<close>

primrec serve :: "'u params \<Rightarrow> 'u world handler \<Rightarrow> request list \<Rightarrow> 'u world \<Rightarrow> (request \<times> response) list \<times> 'u world" where
  "serve p other [] w = ([], w)"
| "serve p other (r # rs) w =
     (let (w, es, f) = gateway p other r w; (as, w) = serve p other rs w in ((r, respond es) # as, w))"

text \<open>C32: Whatever requests the gateway serves with its metrics enabled, the gauge of active
  connections is back where it was, and the counters have grown by exactly the answers that the
  clients got: the requests by method, route and status, the errors by those with a status of 400
  or more, and a duration for each. The upstream answers whole and with a final status, the audit
  log is open, and the handlers for other paths do the same.\<close>

theorem metrics_count_answers:
  assumes "cf_MetricsEnabled (p_cfg p)" and "answers_whole (p_rp p)" and "plain other"
    and "\<And>r i. p_pattern p (r\<lparr>rq_RequestID := i\<rparr>) = p_pattern p r"
    and "audit_open w" and "serve p other rs w = (as, w')"
  shows "ActiveConnections (w_met w') = ActiveConnections (w_met w) \<and>
    RequestsTotal (w_met w') l = RequestsTotal (w_met w) l + count_list (map (label p) as) l \<and>
    ErrorsTotal (w_met w') l = ErrorsTotal (w_met w) l + count_list (map (label p) (filter failed as)) l \<and>
    length (RequestDuration (w_met w') k) =
      length (RequestDuration (w_met w) k) + count_list (map (\<lambda>a. (fst (label p a), fst (snd (label p a)))) as) k"
proof -
  have "adds p as (w_met w) (w_met w')" using assms(5,6)
  proof (induction rs arbitrary: w as)
    case (Cons r rs)
    obtain w1 es f where g: "gateway p other r w = (w1, es, f)" by (metis prod.exhaust)
    obtain bs where b: "serve p other rs w1 = (bs, w')" "as = (r, respond es) # bs"
      using Cons.prems(2) g by (auto split: prod.splits)
    from gateway_adds [OF assms(1) plain_router [OF assms(2,3)] assms(4) Cons.prems(1) g]
    show ?case using Cons.IH [OF _ b(1)] adds_append [of p "[(r, respond es)]"] b(2) by auto
  qed simp
  then show ?thesis unfolding adds_def by blast
qed

text \<open>Two requests: a health check, and a call without a bearer token.\<close>

definition metered_params :: "nat params" where
  "metered_params = (demo_params ''db'' None)\<lparr>p_cfg := (demo_settings ''db'')\<lparr>cf_MetricsEnabled := True\<rparr>,
     p_pattern := rq_Path\<rparr>"

lemma metrics_count_answers_witness:
  "let m = w_met (snd (serve metered_params (\<lambda>r w. (w, http_Error ''404 page not found'' 404, Returned))
       [(demo_request [])\<lparr>rq_Method := ''GET'', rq_Path := ''/healthz''\<rparr>, (demo_request [])\<lparr>rq_Path := ''/nowhere''\<rparr>] demo_world))
   in ActiveConnections m = 0 \<and> RequestsTotal m (''GET'', ''/healthz'', Itoa 200) = 1 \<and> ErrorsTotal m (''POST'', ''/nowhere'', Itoa 404) = 1"
proof -
  let ?o = "\<lambda>r w. (w, http_Error ''404 page not found'' 404, Returned)" and ?p = metered_params
  let ?rs = "[(demo_request [])\<lparr>rq_Method := ''GET'', rq_Path := ''/healthz''\<rparr>, (demo_request [])\<lparr>rq_Path := ''/nowhere''\<rparr>]"
  have c: "cf_MetricsEnabled (p_cfg ?p)" "answers_whole (p_rp ?p)" "p_pattern ?p (r\<lparr>rq_RequestID := i\<rparr>) = p_pattern ?p r" for r i
    by (simp_all add: metered_params_def answers_whole_def demo_params_def)
  have o: "plain ?o" by (simp add: plain_def http_Error_def)
  have a: "audit_open demo_world" by (simp add: audit_open_def demo_world_def NewAuditLogger_def make_chan_def)
  obtain as w' where s: "serve ?p ?o ?rs demo_world = (as, w')" by fastforce
  have st: "the (rp_status (respond (fst (snd (gateway ?p ?o ((demo_request [])\<lparr>rq_Method := ''GET'', rq_Path := ''/healthz''\<rparr>) v))))) = 200"
    "the (rp_status (respond (fst (snd (gateway ?p ?o ((demo_request [])\<lparr>rq_Path := ''/nowhere''\<rparr>) v))))) = 404" for v
    by (subst gateway_status [OF c(1), where es = Healthz]; simp add: router_def routes_def Healthz_def encode_map_def captured_Cons)
      (subst gateway_status [OF c(1), where es = "http_Error ''404 page not found'' 404"];
        simp add: router_def routes_def http_Error_def captured_Cons demo_request_def)
  have l: "map (label ?p) as = [(''GET'', ''/healthz'', Itoa 200), (''POST'', ''/nowhere'', Itoa 404)]"
    "map (label ?p) (filter failed as) = [(''POST'', ''/nowhere'', Itoa 404)]"
    using s st by (auto simp: label_def failed_def metered_params_def split_beta) (simp_all add: demo_request_def)
  note t = metrics_count_answers [OF c(1,2) o c(3) a s]
  show ?thesis using t [of "(''GET'', ''/healthz'', Itoa 200)"] t [of "(''POST'', ''/nowhere'', Itoa 404)"] s l by (simp add: demo_world_def new_metrics_def)
qed

end
