(* ===== verification/Spec2Isabelle.thy ===== *)
theory Spec2Isabelle
  imports DashboardKeys DashboardLife Lifecycle EndToEnd WriteRace Propagation GatewayMetrics
begin

text \<open>
  MCP Gateway: a reverse proxy in Go that authenticates, limits, authorizes, filters and
  audits JSON-RPC calls before it forwards them to an upstream server.

  \<^bold>\<open>The program and its model.\<close> A request of \<open>POST /mcp\<close> goes through the outer middlewares
  (request id, log, recovery, metrics), then the checks (API key, rate limit, permissions,
  policies), then the audit stage, then the proxy. A handler is a function of the request and the
  state of the process; it yields the new state, the calls made on the response writer, and
  whether it returned or panicked. Each theory models one part:

  \<^item> \<open>Prelude\<close>: machine integers, instants, UUIDs, \<open>strconv\<close> and \<open>strings\<close>.
  \<^item> \<open>Json\<close>, \<open>JsonRoundtrip\<close>: \<open>encoding/json\<close> as the sources use it (decoding into structs with
    its case folding and duplicate keys, encoding with its escapes) and the round trip.
  \<^item> \<open>Store\<close>, \<open>StoreInv\<close>: the tables of \<open>migrations/\<close> and one definition per query of
    \<open>internal/store/queries.sql.go\<close>; the schema's invariant, and the contract \<open>key_store\<close> of the key
    table, interpreted on the queries.
  \<^item> \<open>Http\<close>: requests, response writers and \<open>internal/middleware\<close>.
  \<^item> \<open>Sha256\<close>, \<open>Auth\<close>, \<open>AuthProps\<close>: SHA-256 and hexadecimal, \<open>internal/auth\<close>, \<open>cmd/keygen\<close>.
  \<^item> \<open>Float64\<close>, \<open>RateLimit\<close>, \<open>RateLimitBounds\<close>, \<open>RateLimitProps\<close>: \<open>internal/ratelimit\<close> over
    rounded arithmetic; the contract \<open>rounding\<close> is interpreted on round-to-nearest-even.
  \<^item> \<open>Rbac\<close>, \<open>RbacProps\<close>: \<open>internal/rbac\<close>, with concurrent loads as a step relation.
  \<^item> \<open>Policy\<close>, \<open>PolicyProps\<close>: \<open>internal/policy\<close>; \<open>WriteRace\<close>: concurrent calls that count and record writes,
    and two windows over one list.
  \<^item> \<open>AuditTrail\<close>, \<open>AuditProps\<close>: \<open>internal/audit\<close>; the contract \<open>channel_contract\<close> of a buffered channel.
  \<^item> \<open>Guard\<close>: what the four checks share, as the contract \<open>guard\<close>, interpreted on all of them.
  \<^item> \<open>Observe\<close>: \<open>internal/metrics\<close>, \<open>internal/health\<close>, \<open>internal/admin\<close>.
  \<^item> \<open>Config\<close>, \<open>Migrate\<close>: \<open>internal/config\<close>, \<open>internal/database\<close>.
  \<^item> \<open>Gateway\<close>, \<open>GatewayProps\<close>: \<open>internal/proxy\<close>, \<open>cmd/gateway\<close>, and the process as a whole;
    \<open>GatewayMetrics\<close>: the counters over a run of it.
  \<^item> \<open>Lifecycle\<close>: the life of the gateway process (\<open>run\<close> from the start of the servers to the exit)
    as a step relation with requests, the audit goroutine and the shutdown in any order.
  \<^item> \<open>Propagation\<close>: the gateway beside other writers of its database, in any order; the contract
    \<open>world_kept\<close> of what every request keeps is interpreted on the cached permissions, the buckets,
    the policies and the tables.
  \<^item> \<open>Clock\<close>: \<open>Time.Format\<close> over the calendar.
  \<^item> \<open>Web\<close>: cookies, queries, forms and redirects of \<open>net/http\<close> and \<open>net/url\<close>.
  \<^item> \<open>Views\<close>: the components of \<open>internal/dashboard/*_templ.go\<close> as lists of chunks, static
    fragments by number and escaped texts.
  \<^item> \<open>Dashboard\<close>: the handlers, sessions and routes of \<open>internal/dashboard\<close> and the start of
    \<open>cmd/dashboard\<close>; \<open>DashboardProps\<close>, \<open>DashboardPages\<close>, \<open>DashboardKeys\<close> its properties;
    \<open>DashboardLife\<close> the life of the process, from listening to the exit status.
  \<^item> \<open>JsonStream\<close>, \<open>FloatText\<close>: \<open>json.Decoder\<close>, and \<open>float64\<close> read and written as text.
  \<^item> \<open>McpServer\<close>, \<open>McpProps\<close>: \<open>examples/simple-mcp-server\<close>, the server behind the gateway, with the
    history of the tools it has called, and how its reading of a message relates to the gateway's.
  \<^item> \<open>AgentDemo\<close>, \<open>AgentProps\<close>: the client \<open>examples/ai-agent-demo\<close>, run against that server and
    against the gateway; \<open>EndToEnd\<close>: the server behind the gateway.

  \<^bold>\<open>What the theorems show.\<close> Access (with a database; without one the gateway forwards \<open>/mcp\<close> unchecked):
  the upstream is only reached with a valid key, within its
  rate, with permission for the tool called; a denial stops the request where it happens;
  revocation is final, also when it comes from the dashboard; the tool the server runs is the tool
  that was checked, unless the gateway could not read the body. Limits: the token bucket's burst is exact and its long-run rate bounded,
  rounding included; a policy's window of writes is a true
  sliding window for one call at a time, and with \<open>k\<close> calls in flight it is overshot by \<open>2 * (k - 1)\<close> writes
  and no more. Propagation: a revoked key is refused at once, a changed policy holds after 30 seconds,
  changed permissions and limits never reach a gateway that has loaded them. Concurrency: one bucket
  per key, no audit entry lost, duplicated or reordered, closing drains, a shutdown comes to its end, and a clean
  exit loses nothing; a stale permission can survive an invalidation. Dashboard: nothing changes without a session, a
  session lasts a day, no text changes the markup, the audit page and the chart show what the
  tables hold. Data: every sequence of statements keeps the schema's
  constraints, migrations are atomic and idempotent, settings written as environment variables load as they are,
  and the metrics are those of the answers the clients got. Some theorems state where the code falls
  short of its comments: the short \<open>Retry-After\<close>, the double counting of writes, the masked
  abort of the upstream, the truncated body, the key that cannot be deleted, the text behind a
  message that skips RBAC, the short window that disarms a longer one, calls that outlive the audit channel.

  \<^bold>\<open>Bounds.\<close> Loops are structural recursions or have measures; the only fuel is that of
  \<open>run_worker\<close>, for which \<open>close_returns\<close> gives a sufficient amount (and \<open>closing_ends\<close> the same for the process). JSON nesting is
  limited to 10000 as in the library. In the limiter a \<open>float64\<close> is a rational rounded to 53 bits after each
  operation, without fused multiply-add (as on amd64); no exponent it computes leaves the
  range of normal numbers. \<open>FloatText\<close> bounds the exponent and has signed zeros and infinities.

  \<^bold>\<open>Parameters.\<close> Random bytes, row identifiers, the clock (each read may differ), the network
  round trip of the proxy, the time zone database, lower case outside ASCII, \<open>url.Parse\<close>, the
  server's JSONB normalisation and the outcome of connecting are arguments; so are the dashboard's
  JWT library, \<open>uuid.Parse\<close>, multipart bodies, the zone of the driver's instants and the runtime of templ. PostgreSQL rounds
  instants to microseconds; the model keeps nanoseconds.

  \<^bold>\<open>Not modelled.\<close> Listening sockets, the delivery of signals, log formatting, the text of the
  templates' static fragments, the layout of what the demo client prints, and \<open>internal/models\<close>, whose
  types nothing uses. \<open>db.go\<close> and \<open>querier.go\<close> of the store only declare interfaces: what
  they promise is \<open>Store\<close>'s definitions.
\<close>

end
